(* ===== verification/Prelude.thy ===== *)
theory Prelude
  imports Main "HOL-Library.Word"
begin

text \<open>
  Shared ground of the phpspy development.

  \<^item> The outcome of a C function is a \<^verbatim>\<open>result\<close>: \<open>Ok\<close> is \<^verbatim>\<open>PHPSPY_OK\<close> together with the
    values left in the out-parameters, \<open>Rv r\<close> is the non-zero status \<open>r\<close>, and \<open>Fault\<close> is
    what the C program may not do: touching memory outside an array, dividing by zero,
    failing an \<^verbatim>\<open>assert\<close>, or recursing past the end of its stack (\<open>OutOfFuel\<close>).
  \<^item> A stateful C function is a \<^verbatim>\<open>cfun\<close>: it maps a state to an outcome and the state left
    behind; the state is left behind on errors too. \<open>try_c\<close> is the \<^verbatim>\<open>try\<close> macro of
    \<^verbatim>\<open>phpspy.h\<close>.
  \<^item> \<open>wp\<close> is the weakest precondition of a \<^verbatim>\<open>cfun\<close>; the rules of the collection \<open>wp_rules\<close>
    decompose it along the program text.
  \<^item> A C array of characters is a list of its bytes; a write goes through \<open>put\<close>, which fails
    outside the array. Pointers of the traced process are 64-bit words.
\<close>

named_theorems wp_rules \<open>decompose a weakest precondition along the program\<close>
named_theorems layout_simps \<open>evaluate struct layouts\<close>
named_theorems fmt_simps \<open>shape and length of formatted text\<close>

unbundle bit_operations_syntax

type_synonym addr = "64 word"
type_synonym pid = int
type_synonym errno = int

subsection \<open>Outcomes and the error monad\<close>

datatype fault = OutOfBounds | DivByZero | OutOfFuel | AssertFailed

datatype 'a result = Ok 'a | Rv int | Fault fault

type_synonym ('s, 'a) cfun = "'s \<Rightarrow> 'a result \<times> 's"

definition ok :: "'a \<Rightarrow> ('s, 'a) cfun" where
  "ok a s = (Ok a, s)"

definition rv :: "int \<Rightarrow> ('s, 'a) cfun" where
  "rv r s = (Rv r, s)"

definition fault :: "fault \<Rightarrow> ('s, 'a) cfun" where
  "fault f s = (Fault f, s)"

definition try_c :: "('s, 'a) cfun \<Rightarrow> ('a \<Rightarrow> ('s, 'b) cfun) \<Rightarrow> ('s, 'b) cfun" where
  "try_c m k s =
     (case m s of
        (Ok a, s') \<Rightarrow> k a s'
      | (Rv r, s') \<Rightarrow> (Rv r, s')
      | (Fault f, s') \<Rightarrow> (Fault f, s'))"

text \<open>
  A call whose status is looked at instead of being returned at once: \<open>k\<close> gets the status,
  and the value if there is one. A fault cannot be caught.
\<close>

definition with_rv :: "('s, 'a) cfun \<Rightarrow> (int \<Rightarrow> 'a option \<Rightarrow> ('s, 'b) cfun) \<Rightarrow> ('s, 'b) cfun" where
  "with_rv m k s =
     (case m s of
        (Ok a, s') \<Rightarrow> k 0 (Some a) s'
      | (Rv r, s') \<Rightarrow> k r None s'
      | (Fault f, s') \<Rightarrow> (Fault f, s'))"

definition get_s :: "('s \<Rightarrow> ('s, 'a) cfun) \<Rightarrow> ('s, 'a) cfun" where
  "get_s k s = k s s"

definition modify :: "('s \<Rightarrow> 's) \<Rightarrow> ('s, unit) cfun" where
  "modify f s = (Ok (), f s)"

definition of_opt :: "fault \<Rightarrow> 'a option \<Rightarrow> ('s, 'a) cfun" where
  "of_opt f x = (case x of None \<Rightarrow> fault f | Some a \<Rightarrow> ok a)"

text \<open>Ending a function with the status \<open>r\<close>, which may be \<^verbatim>\<open>PHPSPY_OK\<close>.\<close>

definition ret :: "int \<Rightarrow> ('s, unit) cfun" where
  "ret r = (if r = 0 then ok () else rv r)"

lemmas cfun_defs = ok_def rv_def fault_def try_c_def with_rv_def get_s_def modify_def of_opt_def
  ret_def

lemma try_c_simps [simp]:
  "m s = (Ok a, s') \<Longrightarrow> try_c m k s = k a s'"
  "m s = (Rv r, s') \<Longrightarrow> try_c m k s = (Rv r, s')"
  "m s = (Fault f, s') \<Longrightarrow> try_c m k s = (Fault f, s')"
  by (simp_all add: try_c_def)

lemma with_rv_simps [simp]:
  "m s = (Ok a, s') \<Longrightarrow> with_rv m j s = j 0 (Some a) s'"
  "m s = (Rv r, s') \<Longrightarrow> with_rv m j s = j r None s'"
  "m s = (Fault f, s') \<Longrightarrow> with_rv m j s = (Fault f, s')"
  by (simp_all add: with_rv_def)

lemma run_simps:
  "ok a s = (Ok a, s)"
  "rv r s = (Rv r, s)"
  "fault f s = (Fault f, s)"
  "get_s g s = g s s"
  "modify h s = (Ok (), h s)"
  "of_opt f (Some a) s = (Ok a, s)"
  "of_opt f None s = (Fault f, s)"
  "ret 0 s = (Ok (), s)"
  "r \<noteq> 0 \<Longrightarrow> ret r s = (Rv r, s)"
  by (simp_all add: cfun_defs)

lemma try_c_assoc: "try_c (try_c m k) l = try_c m (\<lambda>a. try_c (k a) l)"
  by (auto simp: try_c_def fun_eq_iff split: prod.splits result.splits)

lemma try_c_ok [simp]: "try_c (ok a) k = k a"
  by (simp add: fun_eq_iff run_simps)

lemma try_c_eq_Ok:
  "try_c m k s = (Ok b, t) \<longleftrightarrow> (\<exists>a s'. m s = (Ok a, s') \<and> k a s' = (Ok b, t))"
  by (auto simp: try_c_def split: prod.splits result.splits)

subsection \<open>Weakest preconditions\<close>

text \<open>
  \<open>wp F m Q E s\<close>: run from \<open>s\<close>, \<open>m\<close> ends in \<open>Ok a\<close> with \<open>Q a\<close>, in \<open>Rv r\<close> with \<open>E r\<close>, or
  in a fault of the set \<open>F\<close>. With \<open>F = {}\<close> it is total: no fault at all.
\<close>

definition wp :: "fault set \<Rightarrow> ('s, 'a) cfun \<Rightarrow> ('a \<Rightarrow> 's \<Rightarrow> bool) \<Rightarrow> (int \<Rightarrow> 's \<Rightarrow> bool) \<Rightarrow> 's \<Rightarrow> bool" where
  "wp F m Q E s =
     (case m s of
        (Ok a, s') \<Rightarrow> Q a s'
      | (Rv r, s') \<Rightarrow> E r s'
      | (Fault f, s') \<Rightarrow> f \<in> F)"

lemma wp_basic [wp_rules]:
  "wp F (ok a) Q E s = Q a s"
  "wp F (rv r) Q E s = E r s"
  "wp F (fault f) Q E s = (f \<in> F)"
  "wp F (modify h) Q' E s = Q' () (h s)"
  "wp F (ret n) Q' E s = (if n = 0 then Q' () s else E n s)"
  by (simp_all add: wp_def cfun_defs)

lemma wp_get [wp_rules]: "wp F (get_s g) Q E s = wp F (g s) Q E s"
  by (simp add: wp_def get_s_def)

lemma wp_try [wp_rules]: "wp F (try_c m k) Q E s = wp F m (\<lambda>a. wp F (k a) Q E) E s"
  by (simp add: wp_def try_c_def split: prod.splits result.splits)

lemma wp_with_rv [wp_rules]:
  "wp F (with_rv m k) Q E s = wp F m (\<lambda>a. wp F (k 0 (Some a)) Q E) (\<lambda>r. wp F (k r None) Q E) s"
  by (simp add: wp_def with_rv_def split: prod.splits result.splits)

lemma wp_of_opt [wp_rules]:
  "wp F (of_opt f x) Q E s = (case x of None \<Rightarrow> f \<in> F | Some a \<Rightarrow> Q a s)"
  by (simp add: wp_def cfun_defs split: option.splits)

lemma wp_mono:
  assumes "wp F m Q E s"
    and "\<And>a t. Q a t \<Longrightarrow> Q' a t" and "\<And>r t. E r t \<Longrightarrow> E' r t"
  shows "wp F m Q' E' s"
  using assms by (auto simp: wp_def split: prod.splits result.splits)

lemma wp_fault_mono: "wp F m Q E s \<Longrightarrow> F \<subseteq> G \<Longrightarrow> wp G m Q E s"
  by (auto simp: wp_def split: prod.splits result.splits)

lemma wp_Ok: "wp F m Q E s \<Longrightarrow> m s = (Ok a, t) \<Longrightarrow> Q a t"
  by (simp add: wp_def)

lemma wp_Rv: "wp F m Q E s \<Longrightarrow> m s = (Rv r, t) \<Longrightarrow> E r t"
  by (simp add: wp_def)

end
