(* ===== verification/C_Library.thy ===== *)
theory C_Library
  imports Prelude
begin

text \<open>
  The parts of the C language and of libc that phpspy uses: character arrays and C strings,
  \<^verbatim>\<open>size_t\<close> subtraction, little-endian integers, \<^verbatim>\<open>memchr\<close>/\<^verbatim>\<open>memrchr\<close>, the \<^verbatim>\<open>strto*\<close> family,
  and the conversions of \<^verbatim>\<open>printf\<close> that its format strings use.
\<close>

subsection \<open>Character arrays\<close>

abbreviation NUL :: char where "NUL \<equiv> CHR 0x00"
abbreviation newline :: char where "newline \<equiv> CHR 0x0A"

text \<open>A text of lines, each with its newline.\<close>

definition unlines :: "string list \<Rightarrow> string" where
  "unlines ls = concat (map (\<lambda>l. l @ [newline]) ls)"

lemma unlines_simps [simp]:
  "unlines [] = []" "unlines (l # ls) = l @ newline # unlines ls" "unlines (ls @ ls') = unlines ls @ unlines ls'"
  by (simp_all add: unlines_def)

text \<open>\<open>put b p cs\<close> stores the bytes \<open>cs\<close> from index \<open>p\<close> on; outside the array it fails.\<close>

definition put :: "string \<Rightarrow> nat \<Rightarrow> string \<Rightarrow> string option" where
  "put b p cs =
     (if p + length cs \<le> length b then Some (take p b @ cs @ drop (p + length cs) b) else None)"

text \<open>The C string at index \<open>p\<close>: the bytes up to the first NUL.\<close>

definition c_str :: "string \<Rightarrow> nat \<Rightarrow> string" where
  "c_str b p = takeWhile (\<lambda>c. c \<noteq> NUL) (drop p b)"

text \<open>\<^verbatim>\<open>strlen(b + p)\<close>; \<open>None\<close> when no NUL follows inside the array.\<close>

definition c_strlen :: "string \<Rightarrow> nat \<Rightarrow> nat option" where
  "c_strlen b p = (if NUL \<in> set (drop p b) then Some (length (c_str b p)) else None)"

text \<open>\<^verbatim>\<open>%s\<close> of an array: its C string; \<open>None\<close> when it is not terminated.\<close>

definition fmt_s :: "string \<Rightarrow> string option" where
  "fmt_s b = (if NUL \<in> set b then Some (c_str b 0) else None)"

text \<open>\<^verbatim>\<open>%.*s\<close> with precision \<open>n\<close>: at most \<open>n\<close> bytes, stopping at a NUL.\<close>

definition fmt_prec_s :: "nat \<Rightarrow> string \<Rightarrow> string" where
  "fmt_prec_s n b = takeWhile (\<lambda>c. c \<noteq> NUL) (take n b)"

text \<open>
  \<^verbatim>\<open>snprintf(b + p, sz, ...)\<close> where the whole formatted text is \<open>s\<close>: at most \<open>sz - 1\<close>
  bytes and a NUL are stored; the return value is \<^verbatim>\<open>length s\<close>.
\<close>

definition snprintf_at :: "string \<Rightarrow> nat \<Rightarrow> nat \<Rightarrow> string \<Rightarrow> string option" where
  "snprintf_at b p sz s = (if sz = 0 then Some b else put b p (take (sz - 1) s @ [NUL]))"

text \<open>Subtraction at type \<^verbatim>\<open>size_t\<close> wraps around.\<close>

definition sz_minus :: "nat \<Rightarrow> nat \<Rightarrow> nat" where
  "sz_minus a b = nat ((int a - int b) mod 2 ^ 64)"

lemma sz_minus_ge: "b \<le> a \<Longrightarrow> a < 2 ^ 64 \<Longrightarrow> sz_minus a b = a - b"
  by (simp add: sz_minus_def of_nat_diff [symmetric] del: of_nat_diff)

lemma put_length: "put b p cs = Some b' \<Longrightarrow> length b' = length b"
  by (auto simp: put_def split: if_splits)

lemma put_Some: "p + length cs \<le> length b \<Longrightarrow> \<exists>b'. put b p cs = Some b'"
  by (simp add: put_def)

lemma put_take: "put b p cs = Some b' \<Longrightarrow> n \<le> p \<Longrightarrow> take n b' = take n b"
  by (auto simp: put_def min_def split: if_splits)

lemma put_content: "put b p cs = Some b' \<Longrightarrow> take (length cs) (drop p b') = cs"
  by (auto simp: put_def split: if_splits)

lemma put_drop: "put b p cs = Some b' \<Longrightarrow> p + length cs \<le> n \<Longrightarrow> drop n b' = drop n b"
  by (auto simp: put_def min_def split: if_splits)

lemma snprintf_at_length: "snprintf_at b p sz s = Some b' \<Longrightarrow> length b' = length b"
  by (auto simp: snprintf_at_def put_length split: if_splits)

lemma snprintf_at_Some: "p + sz \<le> length b \<Longrightarrow> \<exists>b'. snprintf_at b p sz s = Some b'"
  by (auto simp: snprintf_at_def intro!: put_Some)

lemma snprintf_at_take: "snprintf_at b p sz s = Some b' \<Longrightarrow> n \<le> p \<Longrightarrow> take n b' = take n b"
  by (auto simp: snprintf_at_def put_take split: if_splits)

lemma snprintf_at_drop:
  assumes "snprintf_at b p sz s = Some b'" and "p + sz \<le> n"
  shows "drop n b' = drop n b"
proof (cases "sz = 0")
  case True
  with assms show ?thesis by (simp add: snprintf_at_def)
next
  case False
  with assms(1) have "put b p (take (sz - 1) s @ [NUL]) = Some b'"
    by (simp add: snprintf_at_def)
  then show ?thesis by (rule put_drop) (use False assms(2) in auto)
qed

text \<open>When the text fits, the buffer holds it followed by a NUL.\<close>

lemma snprintf_at_fits:
  "length s < sz \<Longrightarrow> snprintf_at b p sz s = put b p (s @ [NUL])"
  by (simp add: snprintf_at_def)

lemma takeWhile_no_nul: "NUL \<notin> set s \<Longrightarrow> takeWhile (\<lambda>c. c \<noteq> NUL) s = s"
  by (induction s) auto

lemma c_str_put_nul:
  assumes "put b p (s @ [NUL]) = Some b'" and "NUL \<notin> set s"
  shows "c_str b' p = s"
proof -
  have "p + length (s @ [NUL]) \<le> length b"
    using assms(1) by (auto simp: put_def split: if_splits)
  then have "drop p b' = s @ NUL # drop (p + length (s @ [NUL])) b"
    using assms(1) by (auto simp: put_def)
  with assms(2) show ?thesis
    by (auto simp: c_str_def takeWhile_append)
qed

text \<open>After any bounded print of size at least one the C string at \<open>p\<close> is the part that fits.\<close>

lemma snprintf_at_c_str:
  assumes "snprintf_at b p sz s = Some b'" and "0 < sz" and "NUL \<notin> set s"
  shows "c_str b' p = take (sz - 1) s"
    and "c_strlen b' p = Some (length (take (sz - 1) s))"
proof -
  have *: "put b p (take (sz - 1) s @ [NUL]) = Some b'"
    using assms by (simp add: snprintf_at_def)
  show c: "c_str b' p = take (sz - 1) s"
    by (rule c_str_put_nul [OF *]) (use assms(3) in \<open>auto dest: in_set_takeD\<close>)
  have "NUL \<in> set (drop p b')"
    using * by (auto simp: put_def split: if_splits)
  with c show "c_strlen b' p = Some (length (take (sz - 1) s))"
    by (simp add: c_strlen_def)
qed

subsection \<open>Little-endian integers\<close>

fun le_nat :: "string \<Rightarrow> nat" where
  "le_nat [] = 0"
| "le_nat (c # cs) = of_char c + 256 * le_nat cs"

fun le_bytes :: "nat \<Rightarrow> nat \<Rightarrow> string" where
  "le_bytes 0 n = []"
| "le_bytes (Suc k) n = char_of (n mod 256) # le_bytes k (n div 256)"

lemma length_le_bytes [simp]: "length (le_bytes k n) = k"
  by (induction k arbitrary: n) auto

lemma le_nat_le_bytes: "n < 256 ^ k \<Longrightarrow> le_nat (le_bytes k n) = n"
proof (induction k arbitrary: n)
  case (Suc k)
  then have "n div 256 < 256 ^ k"
    by (simp add: less_mult_imp_div_less mult.commute)
  with Suc.IH show ?case by simp
qed simp

text \<open>The unsigned field of \<open>n\<close> bytes at offset \<open>off\<close> of a structure's bytes.\<close>

definition fld :: "string \<Rightarrow> nat \<Rightarrow> nat \<Rightarrow> nat" where
  "fld bs off n = le_nat (take n (drop off bs))"

lemma fld_hit: "n < 256 ^ k \<Longrightarrow> fld (le_bytes k n @ r) 0 k = n"
  and fld_last: "n < 256 ^ k \<Longrightarrow> fld (le_bytes k n) 0 k = n"
  and fld_skip: "length a \<le> off \<Longrightarrow> fld (a @ r) off k = fld r (off - length a) k"
  by (simp_all add: fld_def le_nat_le_bytes)

subsection \<open>Searching a byte array\<close>

text \<open>
  \<^verbatim>\<open>memchr(b + start, c, n)\<close> and \<^verbatim>\<open>memrchr(b + start, c, n)\<close>: the index in \<open>b\<close> of the first or
  the last byte \<open>c\<close> among the \<open>n\<close> bytes from \<open>start\<close> on.
\<close>

fun find_from :: "nat \<Rightarrow> char \<Rightarrow> string \<Rightarrow> nat option" where
  "find_from i c [] = None"
| "find_from i c (x # xs) = (if x = c then Some i else find_from (Suc i) c xs)"

fun rfind_from :: "nat \<Rightarrow> char \<Rightarrow> string \<Rightarrow> nat option" where
  "rfind_from i c [] = None"
| "rfind_from i c (x # xs) =
     (case rfind_from (Suc i) c xs of Some j \<Rightarrow> Some j | None \<Rightarrow> if x = c then Some i else None)"

definition memchr :: "string \<Rightarrow> nat \<Rightarrow> char \<Rightarrow> nat \<Rightarrow> nat option" where
  "memchr b start c n = find_from start c (take n (drop start b))"

definition memrchr :: "string \<Rightarrow> nat \<Rightarrow> char \<Rightarrow> nat \<Rightarrow> nat option" where
  "memrchr b start c n = rfind_from start c (take n (drop start b))"

lemma find_from_None: "find_from i c xs = None \<longleftrightarrow> c \<notin> set xs"
  by (induction xs arbitrary: i) auto

lemma find_from_Some:
  "find_from i c xs = Some j \<Longrightarrow> \<exists>ys zs. xs = ys @ c # zs \<and> c \<notin> set ys \<and> j = i + length ys"
proof (induction xs arbitrary: i)
  case (Cons x xs)
  show ?case
  proof (cases "x = c")
    case True
    with Cons.prems show ?thesis by (intro exI [of _ "[]"] exI [of _ xs]) auto
  next
    case False
    with Cons obtain ys zs where "xs = ys @ c # zs" "c \<notin> set ys" "j = Suc i + length ys"
      by fastforce
    with False show ?thesis by (intro exI [of _ "x # ys"] exI [of _ zs]) auto
  qed
qed simp

lemma find_from_append: "c \<notin> set ys \<Longrightarrow> find_from i c (ys @ c # zs) = Some (i + length ys)"
  by (induction ys arbitrary: i) auto

lemma rfind_from_None: "rfind_from i c xs = None \<longleftrightarrow> c \<notin> set xs"
proof (induction xs arbitrary: i)
  case (Cons x xs)
  show ?case using Cons [of "Suc i"] by (auto split: option.splits)
qed simp

lemma rfind_from_Some:
  "rfind_from i c xs = Some j \<Longrightarrow> \<exists>ys zs. xs = ys @ c # zs \<and> c \<notin> set zs \<and> j = i + length ys"
proof (induction xs arbitrary: i)
  case (Cons x xs)
  show ?case
  proof (cases "rfind_from (Suc i) c xs")
    case None
    with Cons.prems have "x = c" "j = i" by (auto split: if_splits)
    with None show ?thesis
      by (intro exI [of _ "[]"] exI [of _ xs]) (auto simp: rfind_from_None)
  next
    case (Some k)
    with Cons.prems have "k = j" by simp
    with Some Cons.IH obtain ys zs where "xs = ys @ c # zs" "c \<notin> set zs" "j = Suc i + length ys"
      by blast
    then show ?thesis by (intro exI [of _ "x # ys"] exI [of _ zs]) auto
  qed
qed simp

lemma rfind_from_append: "c \<notin> set zs \<Longrightarrow> rfind_from i c (ys @ c # zs) = Some (i + length ys)"
proof (induction ys arbitrary: i)
  case Nil
  then show ?case using rfind_from_None [of "Suc i" c zs] by simp
qed simp

subsection \<open>Decimal text\<close>

definition digit :: "nat \<Rightarrow> char" where
  "digit d = char_of (48 + d)"

fun dec_nat :: "nat \<Rightarrow> string" where
  "dec_nat n = (if n < 10 then [digit n] else dec_nat (n div 10) @ [digit (n mod 10)])"

declare dec_nat.simps [simp del]

text \<open>\<^verbatim>\<open>%d\<close> and \<^verbatim>\<open>%ld\<close>.\<close>

definition dec_int :: "int \<Rightarrow> string" where
  "dec_int i = (if i < 0 then CHR ''-'' # dec_nat (nat (- i)) else dec_nat (nat i))"

lemma digit_simps:
  "digit 0 = CHR ''0''" "digit 1 = CHR ''1''" "digit (Suc 0) = CHR ''1''" "digit 2 = CHR ''2''"
  "digit 3 = CHR ''3''" "digit 4 = CHR ''4''" "digit 5 = CHR ''5''" "digit 6 = CHR ''6''"
  "digit 7 = CHR ''7''" "digit 8 = CHR ''8''" "digit 9 = CHR ''9''"
  by code_simp+

lemma dec_nat_nonempty [simp]: "dec_nat n \<noteq> []"
  by (subst dec_nat.simps) simp

lemma dec_int_nonempty [simp]: "dec_int i \<noteq> []"
  by (simp add: dec_int_def)

lemma of_char_digit: "d < 10 \<Longrightarrow> (of_char (digit d) :: nat) = 48 + d"
  by (simp add: digit_def)

lemma dec_nat_chars: "c \<in> set (dec_nat n) \<Longrightarrow> \<exists>d<10. c = digit d"
proof (induction n rule: dec_nat.induct)
  case (1 n)
  show ?case
  proof (cases "n < 10")
    case True
    with 1 show ?thesis by (auto simp: dec_nat.simps [of n])
  next
    case False
    with "1.prems" have "c \<in> set (dec_nat (n div 10)) \<or> c = digit (n mod 10)"
      by (auto simp: dec_nat.simps [of n])
    with "1.IH" False show ?thesis
      by (metis mod_less_divisor zero_less_numeral)
  qed
qed

lemma dec_nat_of_char: "c \<in> set (dec_nat n) \<Longrightarrow> 48 \<le> (of_char c :: nat) \<and> (of_char c :: nat) < 58"
  using dec_nat_chars [of c n] by (auto simp: of_char_digit)

lemma dec_int_of_char:
  "c \<in> set (dec_int i) \<Longrightarrow> 45 \<le> (of_char c :: nat) \<and> (of_char c :: nat) < 58"
  by (auto simp: dec_int_def dest!: dec_nat_of_char split: if_splits)

lemma dec_nat_no_nul: "NUL \<notin> set (dec_nat n)"
  using dec_nat_of_char [of NUL n] by auto

lemma dec_int_no_nul: "NUL \<notin> set (dec_int i)"
  using dec_int_of_char [of NUL i] by auto

text \<open>Decimal text grows by one digit per power of ten.\<close>

lemma length_dec_nat: "0 < k \<Longrightarrow> n < 10 ^ k \<Longrightarrow> length (dec_nat n) \<le> k"
proof (induction k arbitrary: n)
  case (Suc k)
  show ?case
  proof (cases "n < 10")
    case True
    then show ?thesis by (simp add: dec_nat.simps [of n])
  next
    case False
    with Suc.prems have "0 < k" by (cases k) auto
    have "n div 10 < 10 ^ k"
      using Suc.prems by (simp add: less_mult_imp_div_less mult.commute)
    with \<open>0 < k\<close> have "length (dec_nat (n div 10)) \<le> k" by (rule Suc.IH)
    with False show ?thesis by (simp add: dec_nat.simps [of n])
  qed
qed simp

subsection \<open>Reading numbers\<close>

definition c_isspace :: "char \<Rightarrow> bool" where
  "c_isspace c = (let n = (of_char c :: nat) in n = 32 \<or> 9 \<le> n \<and> n \<le> 13)"

definition digit_val :: "nat \<Rightarrow> char \<Rightarrow> nat option" where
  "digit_val base c =
     (let n = (of_char c :: nat);
          v = (if 48 \<le> n \<and> n \<le> 57 then n - 48
               else if 97 \<le> n \<and> n \<le> 122 then n - 87
               else if 65 \<le> n \<and> n \<le> 90 then n - 55 else base)
      in if v < base then Some v else None)"

fun scan_digits :: "nat \<Rightarrow> nat \<Rightarrow> string \<Rightarrow> nat \<times> string" where
  "scan_digits base acc [] = (acc, [])"
| "scan_digits base acc (c # cs) =
     (case digit_val base c of
        None \<Rightarrow> (acc, c # cs)
      | Some d \<Rightarrow> scan_digits base (acc * base + d) cs)"

definition hex_prefix :: "string \<Rightarrow> bool" where
  "hex_prefix s =
     (case s of
        a # b # c # _ \<Rightarrow> a = CHR ''0'' \<and> (b = CHR ''x'' \<or> b = CHR ''X'') \<and> digit_val 16 c \<noteq> None
      | _ \<Rightarrow> False)"

text \<open>
  The scanner under \<^verbatim>\<open>strtol\<close>, \<^verbatim>\<open>strtoul\<close> and \<^verbatim>\<open>strtoull\<close>: white space, a sign, a hexadecimal prefix
  in base 16, digits. The result is the sign, the magnitude and the text at \<^verbatim>\<open>*end\<close>; without
  digits nothing is consumed.
\<close>

definition strto :: "nat \<Rightarrow> string \<Rightarrow> bool \<times> nat \<times> string" where
  "strto base s =
     (let s1 = dropWhile c_isspace s;
          (neg, s2) =
            (case s1 of
               c # r \<Rightarrow> if c = CHR ''-'' then (True, r) else if c = CHR ''+'' then (False, r)
                        else (False, s1)
             | [] \<Rightarrow> (False, s1));
          s3 = (if base = 16 \<and> hex_prefix s2 then drop 2 s2 else s2);
          (v, r) = scan_digits base 0 s3
      in if r = s3 then (False, 0, s) else (neg, v, r))"

definition LONG_MAX :: int where "LONG_MAX = 2 ^ 63 - 1"
definition LONG_MIN :: int where "LONG_MIN = - (2 ^ 63)"
definition INT_MAX :: int where "INT_MAX = 2 ^ 31 - 1"

definition strtol :: "string \<Rightarrow> int \<times> string" where
  "strtol s =
     (let (neg, v, r) = strto 10 s; i = (if neg then - int v else int v)
      in (max LONG_MIN (min LONG_MAX i), r))"

definition strtoull :: "nat \<Rightarrow> string \<Rightarrow> nat \<times> string" where
  "strtoull base s =
     (let (neg, v, r) = strto base s
      in if v \<ge> 2 ^ 64 then (2 ^ 64 - 1, r)
         else if neg then (nat ((- int v) mod 2 ^ 64), r) else (v, r))"

lemma strtol_range: "LONG_MIN \<le> fst (strtol s) \<and> fst (strtol s) \<le> LONG_MAX"
  by (auto simp: strtol_def LONG_MIN_def LONG_MAX_def Let_def split: prod.splits)

lemma strtoull_range: "fst (strtoull base s) < 2 ^ 64"
  by (auto simp: strtoull_def nat_less_iff split: prod.splits)

lemma digit_val_digit: "d < 10 \<Longrightarrow> digit_val 10 (digit d) = Some d"
  by (simp add: digit_val_def of_char_digit Let_def)

text \<open>Reading back what \<open>dec_nat\<close> wrote.\<close>

lemma scan_dec_nat:
  "scan_digits 10 acc (dec_nat n @ r) = scan_digits 10 (acc * 10 ^ length (dec_nat n) + n) r"
proof (induction n arbitrary: r rule: dec_nat.induct)
  case (1 n)
  show ?case
  proof (cases "n < 10")
    case True
    then show ?thesis by (simp add: dec_nat.simps [of n] digit_val_digit)
  next
    case False
    have "scan_digits 10 acc (dec_nat n @ r) =
        scan_digits 10 acc (dec_nat (n div 10) @ digit (n mod 10) # r)"
      using False by (simp add: dec_nat.simps [of n])
    also have "\<dots> = scan_digits 10 (acc * 10 ^ length (dec_nat (n div 10)) + n div 10) (digit (n mod 10) # r)"
      using "1" False by blast
    also have "\<dots> = scan_digits 10 ((acc * 10 ^ length (dec_nat (n div 10)) + n div 10) * 10 + n mod 10) r"
      by (simp add: digit_val_digit)
    also have "(acc * 10 ^ length (dec_nat (n div 10)) + n div 10) * 10 + n mod 10
        = acc * 10 ^ length (dec_nat n) + n"
      using False by (simp add: dec_nat.simps [of n] algebra_simps)
    finally show ?thesis .
  qed
qed

text \<open>A decimal number followed by something that is no digit is read back whole.\<close>

lemma scan_dec_end:
  assumes "r = [] \<or> digit_val 10 (hd r) = None"
  shows "scan_digits 10 0 (dec_nat n @ r) = (n, r)"
proof -
  have "scan_digits 10 acc r = (acc, r)" for acc using assms by (cases r) auto
  then show ?thesis by (simp add: scan_dec_nat)
qed

lemma dec_nat_inj: "dec_nat m = dec_nat n \<Longrightarrow> m = n"
  using scan_dec_end [of "[]" m] scan_dec_end [of "[]" n] by simp

lemma dec_nat_head:
  "\<exists>c cs. dec_nat n = c # cs \<and> \<not> c_isspace c \<and> c \<noteq> CHR ''-'' \<and> c \<noteq> CHR ''+''"
proof -
  obtain c cs where c: "dec_nat n = c # cs" using dec_nat_nonempty by (cases "dec_nat n") auto
  define v where "v = (of_char c :: nat)"
  have "48 \<le> v" using dec_nat_of_char [of c n] c by (simp add: v_def)
  then have "\<not> c_isspace c" "c \<noteq> CHR ''-''" "c \<noteq> CHR ''+''"
    by (auto simp: c_isspace_def Let_def v_def)
  with c show ?thesis by blast
qed

lemma strto_dec:
  assumes "r = [] \<or> digit_val 10 (hd r) = None"
  shows "strto 10 (dec_nat n @ r) = (False, n, r)"
    and "strto 10 (CHR ''-'' # dec_nat n @ r) = (True, n, r)"
proof -
  obtain c cs where c: "dec_nat n = c # cs" "\<not> c_isspace c" "c \<noteq> CHR ''-''" "c \<noteq> CHR ''+''"
    using dec_nat_head by blast
  have "dec_nat n @ r \<noteq> r" by simp
  moreover have "\<not> c_isspace CHR ''-''" by (simp add: c_isspace_def)
  ultimately show "strto 10 (dec_nat n @ r) = (False, n, r)"
    and "strto 10 (CHR ''-'' # dec_nat n @ r) = (True, n, r)"
    using scan_dec_end [OF assms, of n] c by (simp_all add: strto_def Let_def)
qed

lemma strtol_dec_int:
  assumes "LONG_MIN \<le> i" and "i \<le> LONG_MAX"
  shows "strtol (dec_int i) = (i, [])"
  using strto_dec [of "[]" "nat i"] strto_dec [of "[]" "nat (- i)"] assms
  by (auto simp: strtol_def dec_int_def)

lemma strtoull_dec_nat:
  assumes "r = [] \<or> digit_val 10 (hd r) = None" and "n < 2 ^ 64"
  shows "strtoull 10 (dec_nat n @ r) = (n, r)"
  using strto_dec(1) [OF assms(1), of n] assms(2) by (simp add: strtoull_def)

subsection \<open>Floating point text\<close>

text \<open>
  A finite floating point number without its sign is a pair \<open>(m, e)\<close> that stands for \<open>m * 2 ^ e\<close>. \<^verbatim>\<open>%f\<close> prints
  the exact binary value with \<open>k\<close> decimals, rounded half to even.
\<close>

definition round_div :: "nat \<Rightarrow> nat \<Rightarrow> nat" where
  "round_div a b =
     (let q = a div b; r = a mod b
      in if 2 * r < b then q else if 2 * r > b then q + 1 else q + q mod 2)"

definition fmt_fixed :: "nat \<Rightarrow> nat \<times> int \<Rightarrow> string" where
  "fmt_fixed k = (\<lambda>(m, e).
     let u = (if 0 \<le> e then m * 10 ^ k * 2 ^ nat e else round_div (m * 10 ^ k) (2 ^ nat (- e)));
         frac = dec_nat (u mod 10 ^ k)
     in dec_nat (u div 10 ^ k) @ ''.'' @ replicate (k - length frac) CHR ''0'' @ frac)"

text \<open>\<^verbatim>\<open>%f\<close> of the IEEE double with these bits.\<close>

definition fmt_f :: "nat \<Rightarrow> string" where
  "fmt_f bits =
     (let e = bits div 2 ^ 52 mod 2048; m = bits mod 2 ^ 52
      in (if odd (bits div 2 ^ 63) then ''-'' else []) @
         (if e = 2047 then if m = 0 then ''inf'' else ''nan''
          else if e = 0 then fmt_fixed 6 (m, -1074)
          else fmt_fixed 6 (m + 2 ^ 52, int e - 1075)))"

lemma fmt_fixed_no_nul: "NUL \<notin> set (fmt_fixed k x)"
  by (simp add: fmt_fixed_def dec_nat_no_nul Let_def split: prod.splits)

lemma fmt_f_no_nul: "NUL \<notin> set (fmt_f bits)"
  by (simp add: fmt_f_def fmt_fixed_no_nul Let_def)

end
