(* ===== verification/Php_Structs.thy ===== *)
theory Php_Structs
  imports C_Library
begin

text \<open>
  The declarations of \<^verbatim>\<open>structs/<arch>/php_structs_<phpv>.h\<close> as values. A \<open>ctype\<close> is a C type whose
  size and field offsets the functions below compute under \<^verbatim>\<open>__attribute__((__packed__))\<close>: no
  padding but the declared \<^verbatim>\<open>pad\<close> members. Every member carries the offset and the length that
  the comment beside it documents, so that the comments can be checked against the compiler's
  arithmetic. \<open>php_structs\<close> is the contents of one header, \<open>layout\<close> the \<^verbatim>\<open>sizeof\<close> and \<^verbatim>\<open>offsetof\<close>
  values that \<^verbatim>\<open>phpspy_trace.c\<close> uses, which \<^verbatim>\<open>phpspy_trace_tpl.c\<close> selects per PHP version.
\<close>

datatype ctype =
    Prim nat \<comment> \<open>an integer, a double or a pointer of so many bytes\<close>
  | Arr ctype nat
  | Struct_t "(string \<times> ctype \<times> (nat \<times> nat) option) list"
  | Union_t "(string \<times> ctype \<times> (nat \<times> nat) option) list"

abbreviation (input) U8 :: ctype where "U8 \<equiv> Prim 1"
abbreviation (input) U32 :: ctype where "U32 \<equiv> Prim 4"
abbreviation (input) U64 :: ctype where "U64 \<equiv> Prim 8"
abbreviation (input) Ptr :: ctype where "Ptr \<equiv> Prim 8"

fun size_of :: "ctype \<Rightarrow> nat"
  and sum_sizes :: "(string \<times> ctype \<times> (nat \<times> nat) option) list \<Rightarrow> nat"
  and max_size :: "(string \<times> ctype \<times> (nat \<times> nat) option) list \<Rightarrow> nat" where
  "size_of (Prim n) = n"
| "size_of (Arr t n) = size_of t * n"
| "size_of (Struct_t fs) = sum_sizes fs"
| "size_of (Union_t fs) = max_size fs"
| "sum_sizes [] = 0"
| "sum_sizes ((nm, t, d) # fs) = size_of t + sum_sizes fs"
| "max_size [] = 0"
| "max_size ((nm, t, d) # fs) = max (size_of t) (max_size fs)"

text \<open>The offset and the type of a member, by its path of names (\<^verbatim>\<open>offsetof\<close>).\<close>

fun member :: "nat \<Rightarrow> string \<Rightarrow> (string \<times> ctype \<times> (nat \<times> nat) option) list \<Rightarrow> (nat \<times> ctype) option" where
  "member off nm [] = None"
| "member off nm ((nm', t, d) # fs) = (if nm' = nm then Some (off, t) else member (off + size_of t) nm fs)"

definition member_union :: "string \<Rightarrow> (string \<times> ctype \<times> (nat \<times> nat) option) list \<Rightarrow> (nat \<times> ctype) option" where
  "member_union nm fs = (case map_of fs nm of None \<Rightarrow> None | Some (t, d) \<Rightarrow> Some (0, t))"

definition step_into :: "string \<Rightarrow> ctype \<Rightarrow> (nat \<times> ctype) option" where
  "step_into nm t =
     (case t of Struct_t fs \<Rightarrow> member 0 nm fs | Union_t fs \<Rightarrow> member_union nm fs | _ \<Rightarrow> None)"

fun offset_of :: "ctype \<Rightarrow> string list \<Rightarrow> nat option" where
  "offset_of t [] = Some 0"
| "offset_of t (nm # p) =
     (case step_into nm t of
        None \<Rightarrow> None
      | Some (off, t') \<Rightarrow> map_option ((+) off) (offset_of t' p))"

definition offs :: "ctype \<Rightarrow> string list \<Rightarrow> nat" where
  "offs t p = (case offset_of t p of Some n \<Rightarrow> n | None \<Rightarrow> 0)"

text \<open>
  The members whose documented offset or length is not what the declaration gives, as
  (name, documented, computed). \<open>base\<close> is the offset of the enclosing aggregate.
\<close>

fun doc_errors :: "nat \<Rightarrow> ctype \<Rightarrow> (string \<times> (nat \<times> nat) \<times> (nat \<times> nat)) list"
  and doc_errors_struct :: "nat \<Rightarrow> (string \<times> ctype \<times> (nat \<times> nat) option) list \<Rightarrow> (string \<times> (nat \<times> nat) \<times> (nat \<times> nat)) list"
  and doc_errors_union :: "nat \<Rightarrow> (string \<times> ctype \<times> (nat \<times> nat) option) list \<Rightarrow> (string \<times> (nat \<times> nat) \<times> (nat \<times> nat)) list" where
  "doc_errors base (Prim n) = []"
| "doc_errors base (Arr t n) = []"
| "doc_errors base (Struct_t fs) = doc_errors_struct base fs"
| "doc_errors base (Union_t fs) = doc_errors_union base fs"
| "doc_errors_struct off [] = []"
| "doc_errors_struct off ((nm, t, d) # fs) =
     (case d of
        None \<Rightarrow> doc_errors off t
      | Some v \<Rightarrow> if v = (off, size_of t) then [] else [(nm, v, (off, size_of t))])
     @ doc_errors_struct (off + size_of t) fs"
| "doc_errors_union base [] = []"
| "doc_errors_union base ((nm, t, d) # fs) =
     (case d of
        None \<Rightarrow> doc_errors base t
      | Some v \<Rightarrow> if v = (base, size_of t) then [] else [(nm, v, (base, size_of t))])
     @ doc_errors_union base fs"

subsection \<open>One header\<close>

record php_structs =
  ps_zend_array :: ctype
  ps_zend_executor_globals :: ctype
  ps_zval :: ctype
  ps_zend_execute_data :: ctype
  ps_zend_op_array :: ctype
  ps_zend_function :: ctype
  ps_zend_class_entry :: ctype
  ps_zend_string :: ctype
  ps_zend_op :: ctype
  ps_sapi_request_info :: ctype
  ps_sapi_globals_struct :: ctype
  ps_Bucket :: ctype
  ps_zend_alloc_globals :: ctype
  ps_zend_mm_heap :: ctype
  ps_zend_object :: ctype
  ps_pdo_bound_param_data :: ctype
  ps_pdo_stmt_t :: ctype

definition all_structs :: "php_structs \<Rightarrow> ctype list" where
  "all_structs P =
     [ps_zend_array P, ps_zend_executor_globals P, ps_zval P, ps_zend_execute_data P,
      ps_zend_op_array P, ps_zend_function P, ps_zend_class_entry P, ps_zend_string P,
      ps_zend_op P, ps_sapi_request_info P, ps_sapi_globals_struct P, ps_Bucket P,
      ps_zend_alloc_globals P, ps_zend_mm_heap P, ps_zend_object P, ps_pdo_bound_param_data P,
      ps_pdo_stmt_t P]"

definition header_doc_errors :: "php_structs \<Rightarrow> (string \<times> (nat \<times> nat) \<times> (nat \<times> nat)) list" where
  "header_doc_errors P = concat (map (doc_errors 0) (all_structs P))"

subsection \<open>What the tracer uses of it\<close>

record layout =
  sizeof_executor_globals :: nat
  off_symbol_table :: nat
  off_current_execute_data :: nat
  sizeof_execute_data :: nat
  off_opline :: nat
  off_func :: nat
  off_This :: nat
  off_prev_execute_data :: nat
  sizeof_zend_function :: nat
  off_fn_type :: nat
  off_function_name :: nat
  off_scope :: nat
  off_last_var :: nat
  off_vars :: nat
  off_filename :: nat
  off_line_start :: nat
  sizeof_class_entry :: nat
  off_ce_name :: nat
  sizeof_zend_string :: nat
  off_str_len :: nat
  off_str_val :: nat
  sizeof_zend_op :: nat
  off_lineno :: nat
  sizeof_zval :: nat
  off_zv_value :: nat
  off_zv_type :: nat
  off_zv_next :: nat
  sizeof_Bucket :: nat
  off_b_val :: nat
  off_b_key :: nat
  sizeof_zend_array :: nat
  off_flags :: nat
  off_nTableMask :: nat
  off_arData :: nat
  off_nNumUsed :: nat
  sizeof_sapi_globals :: nat
  off_query_string :: nat
  off_cookie_data :: nat
  off_path_translated :: nat
  off_request_uri :: nat
  off_global_request_time :: nat
  sizeof_alloc_globals :: nat
  off_mm_heap :: nat
  sizeof_mm_heap :: nat
  off_mm_size :: nat
  off_mm_peak :: nat
  sizeof_zend_object :: nat
  off_properties_table :: nat
  sizeof_pdo_stmt :: nat
  off_bound_params :: nat
  off_std :: nat
  sizeof_pdo_bp :: nat
  off_bp_parameter :: nat
  off_bp_paramno :: nat
  off_bp_name :: nat
  frame_slot :: nat
  char_signed :: bool

text \<open>
  \<open>char_signed\<close> is the signedness of plain \<^verbatim>\<open>char\<close> on the target: signed on x86_64, unsigned on
  aarch64.
\<close>

text \<open>\<^verbatim>\<open>phpspy_frame_slot\<close> of \<^verbatim>\<open>phpspy_trace_tpl.c\<close>.\<close>

definition phpspy_frame_slot :: "nat \<Rightarrow> nat" where
  "phpspy_frame_slot phpv = (if phpv = 70 then 6 else 5)"

definition layout_of :: "bool \<Rightarrow> nat \<Rightarrow> php_structs \<Rightarrow> layout" where
  "layout_of sg phpv P = \<lparr>
     sizeof_executor_globals = size_of (ps_zend_executor_globals P),
     off_symbol_table = offs (ps_zend_executor_globals P) [''symbol_table''],
     off_current_execute_data = offs (ps_zend_executor_globals P) [''current_execute_data''],
     sizeof_execute_data = size_of (ps_zend_execute_data P),
     off_opline = offs (ps_zend_execute_data P) [''opline''],
     off_func = offs (ps_zend_execute_data P) [''func''],
     off_This = offs (ps_zend_execute_data P) [''This''],
     off_prev_execute_data = offs (ps_zend_execute_data P) [''prev_execute_data''],
     sizeof_zend_function = size_of (ps_zend_function P),
     off_fn_type = offs (ps_zend_function P) [''type''],
     off_function_name = offs (ps_zend_function P) [''common'', ''function_name''],
     off_scope = offs (ps_zend_function P) [''common'', ''scope''],
     off_last_var = offs (ps_zend_function P) [''op_array'', ''last_var''],
     off_vars = offs (ps_zend_function P) [''op_array'', ''vars''],
     off_filename = offs (ps_zend_function P) [''op_array'', ''filename''],
     off_line_start = offs (ps_zend_function P) [''op_array'', ''line_start''],
     sizeof_class_entry = size_of (ps_zend_class_entry P),
     off_ce_name = offs (ps_zend_class_entry P) [''name''],
     sizeof_zend_string = size_of (ps_zend_string P),
     off_str_len = offs (ps_zend_string P) [''len''],
     off_str_val = offs (ps_zend_string P) [''val''],
     sizeof_zend_op = size_of (ps_zend_op P),
     off_lineno = offs (ps_zend_op P) [''lineno''],
     sizeof_zval = size_of (ps_zval P),
     off_zv_value = offs (ps_zval P) [''value''],
     off_zv_type = offs (ps_zval P) [''u1'', ''v'', ''type''],
     off_zv_next = offs (ps_zval P) [''u2'', ''next''],
     sizeof_Bucket = size_of (ps_Bucket P),
     off_b_val = offs (ps_Bucket P) [''val''],
     off_b_key = offs (ps_Bucket P) [''key''],
     sizeof_zend_array = size_of (ps_zend_array P),
     off_flags = offs (ps_zend_array P) [''flags''],
     off_nTableMask = offs (ps_zend_array P) [''nTableMask''],
     off_arData = offs (ps_zend_array P) [''arData''],
     off_nNumUsed = offs (ps_zend_array P) [''nNumUsed''],
     sizeof_sapi_globals = size_of (ps_sapi_globals_struct P),
     off_query_string = offs (ps_sapi_globals_struct P) [''request_info'', ''query_string''],
     off_cookie_data = offs (ps_sapi_globals_struct P) [''request_info'', ''cookie_data''],
     off_path_translated = offs (ps_sapi_globals_struct P) [''request_info'', ''path_translated''],
     off_request_uri = offs (ps_sapi_globals_struct P) [''request_info'', ''request_uri''],
     off_global_request_time = offs (ps_sapi_globals_struct P) [''global_request_time''],
     sizeof_alloc_globals = size_of (ps_zend_alloc_globals P),
     off_mm_heap = offs (ps_zend_alloc_globals P) [''mm_heap''],
     sizeof_mm_heap = size_of (ps_zend_mm_heap P),
     off_mm_size = offs (ps_zend_mm_heap P) [''size''],
     off_mm_peak = offs (ps_zend_mm_heap P) [''peak''],
     sizeof_zend_object = size_of (ps_zend_object P),
     off_properties_table = offs (ps_zend_object P) [''properties_table''],
     sizeof_pdo_stmt = size_of (ps_pdo_stmt_t P),
     off_bound_params = offs (ps_pdo_stmt_t P) [''bound_params''],
     off_std = offs (ps_pdo_stmt_t P) [''std''],
     sizeof_pdo_bp = size_of (ps_pdo_bound_param_data P),
     off_bp_parameter = offs (ps_pdo_bound_param_data P) [''parameter''],
     off_bp_paramno = offs (ps_pdo_bound_param_data P) [''paramno''],
     off_bp_name = offs (ps_pdo_bound_param_data P) [''name''],
     frame_slot = phpspy_frame_slot phpv,
     char_signed = sg \<rparr>"

text \<open>
  Every member that the tracer reads lies inside the structure it copied, and a \<^verbatim>\<open>zval\<close>, a
  \<^verbatim>\<open>Bucket\<close> and the header of a \<^verbatim>\<open>zend_string\<close> have the sizes the pointer arithmetic relies on.
\<close>

definition layout_ok :: "layout \<Rightarrow> bool" where
  "layout_ok L \<longleftrightarrow>
     off_current_execute_data L + 8 \<le> sizeof_executor_globals L
   \<and> off_symbol_table L + sizeof_zend_array L \<le> sizeof_executor_globals L
   \<and> off_opline L + 8 \<le> sizeof_execute_data L \<and> off_func L + 8 \<le> sizeof_execute_data L
   \<and> off_This L + sizeof_zval L \<le> sizeof_execute_data L
   \<and> off_prev_execute_data L + 8 \<le> sizeof_execute_data L
   \<and> off_fn_type L + 1 \<le> sizeof_zend_function L \<and> off_function_name L + 8 \<le> sizeof_zend_function L
   \<and> off_scope L + 8 \<le> sizeof_zend_function L \<and> off_last_var L + 4 \<le> sizeof_zend_function L
   \<and> off_vars L + 8 \<le> sizeof_zend_function L \<and> off_filename L + 8 \<le> sizeof_zend_function L
   \<and> off_line_start L + 4 \<le> sizeof_zend_function L
   \<and> off_ce_name L + 8 \<le> sizeof_class_entry L
   \<and> off_str_len L + 8 \<le> off_str_val L \<and> sizeof_zend_string L = off_str_val L + 1
   \<and> off_lineno L + 4 \<le> sizeof_zend_op L
   \<and> off_zv_value L = 0 \<and> off_zv_type L = 8 \<and> off_zv_next L = 12 \<and> sizeof_zval L = 16
   \<and> off_b_val L = 0 \<and> off_b_key L + 8 = sizeof_Bucket L \<and> sizeof_Bucket L = 32
   \<and> off_flags L + 1 \<le> sizeof_zend_array L \<and> off_nTableMask L + 4 \<le> sizeof_zend_array L
   \<and> off_arData L + 8 \<le> sizeof_zend_array L \<and> off_nNumUsed L + 4 \<le> sizeof_zend_array L
   \<and> off_query_string L + 8 \<le> sizeof_sapi_globals L \<and> off_cookie_data L + 8 \<le> sizeof_sapi_globals L
   \<and> off_path_translated L + 8 \<le> sizeof_sapi_globals L
   \<and> off_request_uri L + 8 \<le> sizeof_sapi_globals L
   \<and> off_global_request_time L + 8 \<le> sizeof_sapi_globals L
   \<and> off_mm_heap L + 8 \<le> sizeof_alloc_globals L
   \<and> off_mm_size L + 8 \<le> sizeof_mm_heap L \<and> off_mm_peak L + 8 \<le> sizeof_mm_heap L
   \<and> off_properties_table L + sizeof_zval L \<le> sizeof_zend_object L
   \<and> off_bound_params L + 8 \<le> sizeof_pdo_stmt L \<and> off_std L + sizeof_zend_object L \<le> sizeof_pdo_stmt L
   \<and> off_bp_parameter L + sizeof_zval L \<le> sizeof_pdo_bp L \<and> off_bp_paramno L + 8 \<le> sizeof_pdo_bp L
   \<and> off_bp_name L + 8 \<le> sizeof_pdo_bp L
   \<and> (frame_slot L = 5 \<or> frame_slot L = 6)"

end
