(* ===== verification/Proc_Mem.thy ===== *)
theory Proc_Mem
  imports Php_Structs
begin

text \<open>
  Reading the traced process: \<^verbatim>\<open>copy_proc_mem\<close> of \<^verbatim>\<open>phpspy.c\<close>. The system call under it,
  \<^verbatim>\<open>process_vm_readv\<close>, is a parameter: a function of the pid, the remote address, the number of
  bytes wanted and the state \<open>'w\<close> of the world, which returns an errno or the bytes it copied
  (possibly fewer than wanted) and the next world. The traced process keeps running, so two
  reads of one address may differ: nothing is assumed about how the answers are related.

  The contract of a reader that the printers and the tracer rely on is the locale \<open>mem_reader\<close>;
  \<^verbatim>\<open>copy_proc_mem\<close> keeps it whatever the system call does.
\<close>

abbreviation (input) PHPSPY_OK :: int where "PHPSPY_OK \<equiv> 0"
abbreviation (input) PHPSPY_ERR :: int where "PHPSPY_ERR \<equiv> 1"
abbreviation (input) PHPSPY_ERR_PID_DEAD :: int where "PHPSPY_ERR_PID_DEAD \<equiv> 2"
abbreviation (input) PHPSPY_ERR_TRUNCATED :: int where "PHPSPY_ERR_TRUNCATED \<equiv> 4"
abbreviation (input) PHPSPY_ERR_SKIPPED :: int where "PHPSPY_ERR_SKIPPED \<equiv> 8"

abbreviation (input) ESRCH :: errno where "ESRCH \<equiv> 3"

abbreviation (input) PHPSPY_STR_SIZE :: nat where "PHPSPY_STR_SIZE \<equiv> 256"
abbreviation (input) PHPSPY_MAX_ARRAY_BUCKETS :: nat where "PHPSPY_MAX_ARRAY_BUCKETS \<equiv> 128"
abbreviation (input) PHPSPY_MAX_STACK_WALK :: nat where "PHPSPY_MAX_STACK_WALK \<equiv> 1024"

type_synonym 'w readv = "pid \<Rightarrow> addr \<Rightarrow> nat \<Rightarrow> 'w \<Rightarrow> (errno + string) \<times> 'w"
type_synonym 'w reader = "addr \<Rightarrow> nat \<Rightarrow> ('w, string) cfun"

definition copy_proc_mem :: "'w readv \<Rightarrow> pid \<Rightarrow> 'w reader" where
  "copy_proc_mem process_vm_readv pid raddr sz w =
     (if raddr = 0 then (Rv PHPSPY_ERR, w)
      else case process_vm_readv pid raddr sz w of
        (Inl errno, w') \<Rightarrow>
          (if errno = ESRCH then (Rv (PHPSPY_ERR OR PHPSPY_ERR_PID_DEAD), w')
           else (Rv PHPSPY_ERR, w'))
      | (Inr bytes, w') \<Rightarrow>
          (if length bytes \<noteq> sz then (Rv PHPSPY_ERR, w') else (Ok bytes, w')))"

text \<open>The statuses of a failed read.\<close>

definition read_err :: "int \<Rightarrow> bool" where
  "read_err r \<longleftrightarrow> r = PHPSPY_ERR \<or> r = PHPSPY_ERR OR PHPSPY_ERR_PID_DEAD"

lemma read_err_ERR [simp]: "read_err PHPSPY_ERR"
  by (simp add: read_err_def)

subsection \<open>The contract of a reader\<close>

locale mem_reader =
  fixes cp :: "'w reader"
  assumes cp_wp: "wp {} (cp a n) (\<lambda>bs w'. length bs = n) (\<lambda>r w'. read_err r) w"
    and cp_null: "cp 0 n w = (Rv PHPSPY_ERR, w)"
begin

lemma cp_wpI:
  assumes "\<And>bs w'. length bs = n \<Longrightarrow> Q bs w'" and "\<And>r w'. read_err r \<Longrightarrow> E r w'"
  shows "wp F (cp a n) Q E w"
proof -
  have "wp F (cp a n) (\<lambda>bs w'. length bs = n) (\<lambda>r w'. read_err r) w"
    by (rule wp_fault_mono [OF cp_wp]) simp
  then show ?thesis by (rule wp_mono) (use assms in auto)
qed

end

lemma copy_proc_mem_reader: "mem_reader (copy_proc_mem rd pid)"
  by unfold_locales
    (auto simp: copy_proc_mem_def wp_def read_err_def split: prod.splits sum.splits)

interpretation pm: mem_reader "copy_proc_mem rd pid" for rd :: "'w readv" and pid
  by (rule copy_proc_mem_reader)

subsection \<open>Still memory\<close>

text \<open>
  A process that does not change while it is read, and of which every byte is mapped: the
  reader of a function from addresses to bytes.
\<close>

definition bytes_at :: "(addr \<Rightarrow> char) \<Rightarrow> addr \<Rightarrow> nat \<Rightarrow> string" where
  "bytes_at m a n = map (\<lambda>i. m (a + of_nat i)) [0..<n]"

definition still :: "(addr \<Rightarrow> char) \<Rightarrow> 'w readv" where
  "still m = (\<lambda>pid a n w. (Inr (bytes_at m a n), w))"

lemma length_bytes_at [simp]: "length (bytes_at m a n) = n"
  by (simp add: bytes_at_def)

lemma copy_still: "a \<noteq> 0 \<Longrightarrow> copy_proc_mem (still m) pid a n w = (Ok (bytes_at m a n), w)"
  by (simp add: copy_proc_mem_def still_def)

lemma copy_still_null: "copy_proc_mem (still m) pid 0 n w = (Rv PHPSPY_ERR, w)"
  by (simp add: copy_proc_mem_def)

text \<open>A process of which some segments of bytes are known, the rest being zero.\<close>

fun mem_segs :: "(nat \<times> string) list \<Rightarrow> addr \<Rightarrow> char" where
  "mem_segs [] a = NUL"
| "mem_segs ((base, bs) # segs) a =
     (if base \<le> unat a \<and> unat a < base + length bs then bs ! (unat a - base) else mem_segs segs a)"

lemma unat_add_of_nat: "unat a + i < 2 ^ 64 \<Longrightarrow> unat (a + of_nat i :: addr) = unat a + i"
  by (simp add: unat_word_ariths unat_of_nat)

lemma bytes_at_hit:
  assumes "base \<le> unat a" and "unat a + n \<le> base + length bs" and "base + length bs < 2 ^ 64"
  shows "bytes_at (mem_segs ((base, bs) # segs)) a n = take n (drop (unat a - base) bs)"
proof (rule nth_equalityI)
  fix i assume "i < length (bytes_at (mem_segs ((base, bs) # segs)) a n)"
  then have i: "i < n" by simp
  then have "unat (a + of_nat i) = unat a + i" using assms by (intro unat_add_of_nat) linarith
  moreover have "unat a + i < base + length bs" using assms i by linarith
  ultimately show "bytes_at (mem_segs ((base, bs) # segs)) a n ! i = take n (drop (unat a - base) bs) ! i"
    using assms i by (simp add: bytes_at_def)
qed (use assms in simp)

lemma bytes_at_miss:
  assumes "unat a + n \<le> base \<or> base + length bs \<le> unat a" and "unat a + n < 2 ^ 64"
  shows "bytes_at (mem_segs ((base, bs) # segs)) a n = bytes_at (mem_segs segs) a n"
proof -
  have "mem_segs ((base, bs) # segs) (a + of_nat i) = mem_segs segs (a + of_nat i)" if "i < n" for i
  proof -
    have "unat (a + of_nat i) = unat a + i" using assms that by (intro unat_add_of_nat) linarith
    then show ?thesis using assms(1) that by auto
  qed
  then show ?thesis by (simp add: bytes_at_def)
qed

declare mem_segs.simps [simp del]

lemmas mem_eval = bytes_at_hit bytes_at_miss fld_hit fld_last fld_skip

end
