(* ===== verification/Zend_Print.thy ===== *)
theory Zend_Print
  imports Proc_Mem
begin

text \<open>
  The values of the traced PHP process: the hash function of \<^verbatim>\<open>phpspy.c\<close> and the copy and print
  functions of \<^verbatim>\<open>phpspy_trace.c\<close>. A local \<^verbatim>\<open>char *buf, size_t buf_size\<close> is an array \<open>b\<close>, an index
  \<open>p\<close> into it and the size \<open>sz\<close> left from there; the out-parameter \<^verbatim>\<open>*buf_len\<close> is the second
  component of the result. \<open>cp\<close> is \<^verbatim>\<open>copy_proc_mem(context->target.pid, ...)\<close>.

  \<^verbatim>\<open>sprint_zval\<close> and \<^verbatim>\<open>sprint_zarray\<close> call each other as deep as the remote arrays nest, and
  \<^verbatim>\<open>copy_zarray_bucket\<close> follows a collision chain without a bound, so both carry fuel; the fault
  \<open>OutOfFuel\<close> stands for a C stack or a loop that did not end.
\<close>

abbreviation (input) TYPE_UNDEF :: nat where "TYPE_UNDEF \<equiv> 0"
abbreviation (input) TYPE_LONG :: nat where "TYPE_LONG \<equiv> 4"
abbreviation (input) TYPE_DOUBLE :: nat where "TYPE_DOUBLE \<equiv> 5"
abbreviation (input) TYPE_STRING :: nat where "TYPE_STRING \<equiv> 6"
abbreviation (input) TYPE_ARRAY :: nat where "TYPE_ARRAY \<equiv> 7"
abbreviation (input) TYPE_OBJECT :: nat where "TYPE_OBJECT \<equiv> 8"
abbreviation (input) TYPE_REFERENCE :: nat where "TYPE_REFERENCE \<equiv> 10"

subsection \<open>Structures copied from the target\<close>

definition ptr_at :: "string \<Rightarrow> nat \<Rightarrow> addr" where
  "ptr_at bs off = word_of_nat (fld bs off 8)"

record zval =
  zv_value :: "64 word"
  zv_type :: nat
  zv_next :: "32 word"

definition zval_of :: "layout \<Rightarrow> string \<Rightarrow> nat \<Rightarrow> zval" where
  "zval_of L bs off = \<lparr>
     zv_value = ptr_at bs (off + off_zv_value L),
     zv_type = fld bs (off + off_zv_type L) 1,
     zv_next = word_of_nat (fld bs (off + off_zv_next L) 4) \<rparr>"

record Bucket =
  b_val :: zval
  b_key :: addr

definition bucket_of :: "layout \<Rightarrow> string \<Rightarrow> nat \<Rightarrow> Bucket" where
  "bucket_of L bs off = \<lparr>
     b_val = zval_of L bs (off + off_b_val L),
     b_key = ptr_at bs (off + off_b_key L) \<rparr>"

record zend_array =
  za_flags :: nat
  za_nTableMask :: "32 word"
  za_arData :: addr
  za_nNumUsed :: nat

definition zend_array_of :: "layout \<Rightarrow> string \<Rightarrow> zend_array" where
  "zend_array_of L bs = \<lparr>
     za_flags = fld bs (off_flags L) 1,
     za_nTableMask = word_of_nat (fld bs (off_nTableMask L) 4),
     za_arData = ptr_at bs (off_arData L),
     za_nNumUsed = fld bs (off_nNumUsed L) 4 \<rparr>"

subsection \<open>The hash function\<close>

text \<open>\<open>sg\<close>: whether plain \<^verbatim>\<open>char\<close> is signed, in which case \<^verbatim>\<open>*str++\<close> is sign-extended.\<close>

definition char_word :: "bool \<Rightarrow> char \<Rightarrow> 64 word" where
  "char_word sg c =
     (let n = (of_char c :: nat)
      in if sg \<and> 128 \<le> n then word_of_int (int n - 256) else word_of_nat n)"

definition hash_step :: "bool \<Rightarrow> 64 word \<Rightarrow> char \<Rightarrow> 64 word" where
  "hash_step sg hash c = (push_bit 5 hash + hash) + char_word sg c"

text \<open>The \<^verbatim>\<open>switch\<close> with its fall-through: entered at case \<open>n\<close>, it takes \<open>n\<close> more characters.\<close>

fun hash_switch :: "bool \<Rightarrow> nat \<Rightarrow> 64 word \<Rightarrow> string \<Rightarrow> 64 word" where
  "hash_switch sg 0 hash str = hash"
| "hash_switch sg (Suc n) hash [] = hash"
| "hash_switch sg (Suc n) hash (c # str) = hash_switch sg n (hash_step sg hash c) str"

text \<open>The unrolled loop: eight characters a round while at least eight are left.\<close>

fun hash_loop :: "bool \<Rightarrow> 64 word \<Rightarrow> string \<Rightarrow> 64 word" where
  "hash_loop sg hash (c1 # c2 # c3 # c4 # c5 # c6 # c7 # c8 # str) =
     (let hash = hash_step sg hash c1;
          hash = hash_step sg hash c2;
          hash = hash_step sg hash c3;
          hash = hash_step sg hash c4;
          hash = hash_step sg hash c5;
          hash = hash_step sg hash c6;
          hash = hash_step sg hash c7;
          hash = hash_step sg hash c8
      in hash_loop sg hash str)"
| "hash_loop sg hash str = hash_switch sg (length str) hash str"

definition phpspy_zend_inline_hash_func :: "bool \<Rightarrow> string \<Rightarrow> 64 word" where
  "phpspy_zend_inline_hash_func sg str = hash_loop sg 5381 str OR 0x8000000000000000"

subsection \<open>Printing\<close>

text \<open>\<^verbatim>\<open>snprintf(buf, buf_size, ...); *buf_len = strlen(buf);\<close>\<close>

definition print_fmt :: "string \<Rightarrow> string \<Rightarrow> nat \<Rightarrow> nat \<Rightarrow> ('w, string \<times> nat) cfun" where
  "print_fmt s b p sz =
     try_c (of_opt OutOfBounds (snprintf_at b p sz s)) (\<lambda>b.
     try_c (of_opt OutOfBounds (c_strlen b p)) (\<lambda>n.
     ok (b, n)))"

definition sprint_zstring :: "layout \<Rightarrow> 'w reader \<Rightarrow> addr \<Rightarrow> string \<Rightarrow> nat \<Rightarrow> nat \<Rightarrow> ('w, string \<times> nat) cfun" where
  "sprint_zstring L cp rzstring b p sz =
     try_c (of_opt OutOfBounds (put b p [NUL])) (\<lambda>b.
     try_c (cp rzstring (sizeof_zend_string L)) (\<lambda>lzstring.
     let buf_len = min (fld lzstring (off_str_len L) 8) (max 1 sz - 1) in
     try_c (cp (rzstring + of_nat (off_str_val L)) buf_len) (\<lambda>val.
     try_c (of_opt OutOfBounds (put b p val)) (\<lambda>b.
     try_c (of_opt OutOfBounds (put b (p + buf_len) [NUL])) (\<lambda>b.
     ok (b, buf_len))))))"

definition sprint_zarray_packed ::
  "(zval \<Rightarrow> string \<Rightarrow> nat \<Rightarrow> nat \<Rightarrow> ('w, string \<times> nat) cfun) \<Rightarrow> nat \<Rightarrow> zval
     \<Rightarrow> string \<Rightarrow> nat \<Rightarrow> nat \<Rightarrow> ('w, string \<times> nat) cfun" where
  "sprint_zarray_packed sprint_zv idx lzval b p sz =
     (if zv_type lzval = TYPE_UNDEF then ok (b, 0)
      else let txt = dec_int (int idx) @ ''=''; n = length txt in
        try_c (of_opt OutOfBounds (snprintf_at b p sz txt)) (\<lambda>b.
        if sz \<le> n then ok (b, 0)
        else try_c (sprint_zv lzval b (p + n) (sz_minus sz n)) (\<lambda>(b, tmp_len).
          ok (b, n + tmp_len))))"

definition sprint_zarray_bucket ::
  "layout \<Rightarrow> 'w reader \<Rightarrow> (zval \<Rightarrow> string \<Rightarrow> nat \<Rightarrow> nat \<Rightarrow> ('w, string \<times> nat) cfun) \<Rightarrow> Bucket
     \<Rightarrow> string \<Rightarrow> nat \<Rightarrow> nat \<Rightarrow> ('w, string \<times> nat) cfun" where
  "sprint_zarray_bucket L cp sprint_zv lbucket b p sz =
     (if zv_type (b_val lbucket) = TYPE_UNDEF then ok (b, 0)
      else
        try_c
          (if b_key lbucket \<noteq> 0 then
             try_c (sprint_zstring L cp (b_key lbucket) (replicate PHPSPY_STR_SIZE NUL) 0 PHPSPY_STR_SIZE)
               (\<lambda>(tmp_key, tmp_len).
             if sz > tmp_len + 1 + 1 then
               try_c (of_opt OutOfBounds (snprintf_at b p sz (c_str tmp_key 0 @ ''=''))) (\<lambda>b.
               ok (b, tmp_len + 1))
             else ok (b, 0))
           else ok (b, 0)) (\<lambda>(b, adv).
        try_c (sprint_zv (b_val lbucket) b (p + adv) (sz_minus sz adv)) (\<lambda>(b, tmp_len).
        ok (b, adv + tmp_len))))"

text \<open>
  The loop over the elements with its separating commas, from \<^verbatim>\<open>for\<close> to the removal of the last
  comma; \<open>el i\<close> prints element \<open>i\<close>, \<open>k\<close> elements are left, \<open>obuf\<close> is where the text began.
  \<^verbatim>\<open>sprint_zarray\<close> and \<^verbatim>\<open>sprint_pdo_binds\<close> contain the same loop.
\<close>

definition sprint_elems_end :: "nat \<Rightarrow> string \<Rightarrow> nat \<Rightarrow> ('w, string \<times> nat) cfun" where
  "sprint_elems_end obuf b p =
     (if p > obuf then
        if length b \<le> p - 1 then fault OutOfBounds
        else if b ! (p - 1) = CHR '','' then ok (b, p - 1 - obuf) else ok (b, p - obuf)
      else ok (b, p - obuf))"

fun sprint_elems ::
  "(nat \<Rightarrow> string \<Rightarrow> nat \<Rightarrow> nat \<Rightarrow> ('w, string \<times> nat) cfun) \<Rightarrow> nat \<Rightarrow> nat \<Rightarrow> nat
     \<Rightarrow> string \<Rightarrow> nat \<Rightarrow> nat \<Rightarrow> ('w, string \<times> nat) cfun" where
  "sprint_elems el obuf i 0 b p sz = sprint_elems_end obuf b p"
| "sprint_elems el obuf i (Suc k) b p sz =
     try_c (el i b p sz) (\<lambda>(b, tmp_len).
     if tmp_len = 0 then sprint_elems el obuf (Suc i) k b p sz
     else
       let p = p + tmp_len; sz = sz_minus sz tmp_len in
       if sz < 2 then sprint_elems_end obuf b p
       else try_c (of_opt OutOfBounds (put b p '','')) (\<lambda>b.
         sprint_elems el obuf (Suc i) k b (p + 1) (sz_minus sz 1)))"

definition is_packed :: "zend_array \<Rightarrow> bool" where
  "is_packed za \<longleftrightarrow> odd (za_flags za div 4)"

definition sprint_zarray ::
  "layout \<Rightarrow> 'w reader \<Rightarrow> (zval \<Rightarrow> string \<Rightarrow> nat \<Rightarrow> nat \<Rightarrow> ('w, string \<times> nat) cfun) \<Rightarrow> addr
     \<Rightarrow> string \<Rightarrow> nat \<Rightarrow> nat \<Rightarrow> ('w, string \<times> nat) cfun" where
  "sprint_zarray L cp sprint_zv rzarray b p sz =
     try_c (cp rzarray (sizeof_zend_array L)) (\<lambda>bs.
     let lzarray = zend_array_of L bs;
         array_len = min (za_nNumUsed lzarray) PHPSPY_MAX_ARRAY_BUCKETS in
     if is_packed lzarray then
       try_c (cp (za_arData lzarray) (sizeof_zval L * array_len)) (\<lambda>zvals.
       sprint_elems (\<lambda>i. sprint_zarray_packed sprint_zv i (zval_of L zvals (i * sizeof_zval L)))
         p 0 array_len b p sz)
     else
       try_c (cp (za_arData lzarray) (sizeof_Bucket L * array_len)) (\<lambda>buckets.
       sprint_elems (\<lambda>i. sprint_zarray_bucket L cp sprint_zv (bucket_of L buckets (i * sizeof_Bucket L)))
         p 0 array_len b p sz))"

fun sprint_zval :: "layout \<Rightarrow> 'w reader \<Rightarrow> nat \<Rightarrow> zval \<Rightarrow> string \<Rightarrow> nat \<Rightarrow> nat \<Rightarrow> ('w, string \<times> nat) cfun" where
  "sprint_zval L cp 0 lzval b p sz = fault OutOfFuel"
| "sprint_zval L cp (Suc fuel) lzval b p sz =
     (if zv_type lzval = TYPE_LONG then print_fmt (dec_int (sint (zv_value lzval))) b p sz
      else if zv_type lzval = TYPE_DOUBLE then print_fmt (fmt_f (unat (zv_value lzval))) b p sz
      else if zv_type lzval = TYPE_STRING then sprint_zstring L cp (zv_value lzval) b p sz
      else if zv_type lzval = TYPE_ARRAY then
        sprint_zarray L cp (\<lambda>zv b p sz. sprint_zval L cp fuel zv b p sz) (zv_value lzval) b p sz
      else rv PHPSPY_ERR)"

subsection \<open>Looking up an array element\<close>

fun bucket_chain :: "layout \<Rightarrow> 'w reader \<Rightarrow> nat \<Rightarrow> addr \<Rightarrow> string \<Rightarrow> nat \<Rightarrow> ('w, Bucket) cfun" where
  "bucket_chain L cp 0 arData key hash_bucket = fault OutOfFuel"
| "bucket_chain L cp (Suc fuel) arData key hash_bucket =
     (if hash_bucket = 2 ^ 32 - 1 then rv PHPSPY_ERR
      else try_c (cp (arData + of_nat (hash_bucket * sizeof_Bucket L)) (sizeof_Bucket L)) (\<lambda>bs.
        let lbucket = bucket_of L bs 0 in
        if b_key lbucket = 0 then ok lbucket
        else try_c (sprint_zstring L cp (b_key lbucket) (replicate PHPSPY_STR_SIZE NUL) 0 PHPSPY_STR_SIZE)
               (\<lambda>(tmp_key, tmp_len).
          if key = c_str tmp_key 0 then ok lbucket
          else bucket_chain L cp fuel arData key (unat (zv_next (b_val lbucket))))))"

definition copy_zarray_bucket :: "layout \<Rightarrow> 'w reader \<Rightarrow> nat \<Rightarrow> addr \<Rightarrow> string \<Rightarrow> ('w, Bucket) cfun" where
  "copy_zarray_bucket L cp fuel rzarray key =
     try_c (cp rzarray (sizeof_zend_array L)) (\<lambda>bs.
     let lzarray = zend_array_of L bs;
         hash_val = phpspy_zend_inline_hash_func (char_signed L) key;
         hash_table_size = - za_nTableMask lzarray in
     if hash_table_size = 0 then fault DivByZero
     else
       let hash_index = unat hash_val mod unat hash_table_size in
       try_c (cp (za_arData lzarray - of_nat (4 * unat hash_table_size) + of_nat (4 * hash_index)) 4)
         (\<lambda>hash_table_val.
       bucket_chain L cp fuel (za_arData lzarray) key (fld hash_table_val 0 4)))"

definition sprint_zarray_val ::
  "layout \<Rightarrow> 'w reader \<Rightarrow> nat \<Rightarrow> addr \<Rightarrow> string \<Rightarrow> string \<Rightarrow> nat \<Rightarrow> nat \<Rightarrow> ('w, string \<times> nat) cfun" where
  "sprint_zarray_val L cp fuel rzarray key b p sz =
     try_c (copy_zarray_bucket L cp fuel rzarray key) (\<lambda>bucket.
     sprint_zval L cp fuel (b_val bucket) b p sz)"

subsection \<open>Bound parameters of a PDO statement\<close>

definition pdo_bind_value ::
  "layout \<Rightarrow> 'w reader \<Rightarrow> string \<Rightarrow> ('w, zval) cfun" where
  "pdo_bind_value L cp lbp =
     (let parameter = zval_of L lbp (off_bp_parameter L) in
      if zv_type parameter = TYPE_REFERENCE \<and> zv_value parameter \<noteq> 0 then
        with_rv (cp (zv_value parameter + 8) (sizeof_zval L)) (\<lambda>r lref.
        ok (case lref of Some bs \<Rightarrow> zval_of L bs 0 | None \<Rightarrow> parameter))
      else ok parameter)"

definition pdo_bind_name :: "layout \<Rightarrow> 'w reader \<Rightarrow> string \<Rightarrow> ('w, string \<times> nat) cfun" where
  "pdo_bind_name L cp lbp =
     (let nm = ptr_at lbp (off_bp_name L); tmp_name = replicate PHPSPY_STR_SIZE NUL in
      if nm \<noteq> 0 then sprint_zstring L cp nm tmp_name 0 PHPSPY_STR_SIZE
      else print_fmt (dec_int (sint (ptr_at lbp (off_bp_paramno L)))) tmp_name 0 PHPSPY_STR_SIZE)"

definition sprint_pdo_bind ::
  "layout \<Rightarrow> 'w reader \<Rightarrow> nat \<Rightarrow> zval \<Rightarrow> string \<Rightarrow> nat \<Rightarrow> nat \<Rightarrow> ('w, string \<times> nat) cfun" where
  "sprint_pdo_bind L cp fuel lzval b p sz =
     (if zv_type lzval = TYPE_UNDEF then ok (b, 0)
      else if zv_value lzval = 0 then ok (b, 0)
      else with_rv (cp (zv_value lzval) (sizeof_pdo_bp L)) (\<lambda>r lbp_o.
        case lbp_o of None \<Rightarrow> ok (b, 0) | Some lbp \<Rightarrow>
        with_rv (pdo_bind_name L cp lbp) (\<lambda>r name_o.
        case name_o of None \<Rightarrow> ok (b, 0) | Some (tmp_name, name_len) \<Rightarrow>
        let txt = fmt_prec_s name_len tmp_name @ ''=''; n = length txt in
        try_c (of_opt OutOfBounds (snprintf_at b p sz txt)) (\<lambda>b.
        if sz \<le> n then ok (b, 0)
        else
          try_c (pdo_bind_value L cp lbp) (\<lambda>vptr.
          try_c (sprint_zval L cp fuel vptr b (p + n) (sz_minus sz n)) (\<lambda>(b, tmp_len).
          ok (b, n + tmp_len)))))))"

definition sprint_pdo_binds ::
  "layout \<Rightarrow> 'w reader \<Rightarrow> nat \<Rightarrow> addr \<Rightarrow> string \<Rightarrow> nat \<Rightarrow> nat \<Rightarrow> ('w, string \<times> nat) cfun" where
  "sprint_pdo_binds L cp fuel rht b p sz =
     (if rht = 0 then ok (b, 0)
      else try_c (cp rht (sizeof_zend_array L)) (\<lambda>bs.
        let lht = zend_array_of L bs;
            used = min (za_nNumUsed lht) PHPSPY_MAX_ARRAY_BUCKETS in
        if used = 0 \<or> za_arData lht = 0 then ok (b, 0)
        else if is_packed lht then
          try_c (cp (za_arData lht) (sizeof_zval L * used)) (\<lambda>zvals.
          sprint_elems (\<lambda>i. sprint_pdo_bind L cp fuel (zval_of L zvals (i * sizeof_zval L)))
            p 0 used b p sz)
        else
          try_c (cp (za_arData lht) (sizeof_Bucket L * used)) (\<lambda>buckets.
          sprint_elems (\<lambda>i. sprint_pdo_bind L cp fuel (b_val (bucket_of L buckets (i * sizeof_Bucket L))))
            p 0 used b p sz)))"

subsection \<open>The unrolled hash is the plain one\<close>

lemma hash_loop_foldl: "hash_loop sg hash str = foldl (hash_step sg) hash str"
  by (induction sg hash str rule: hash_loop.induct)
    (simp_all add: Let_def)

subsection \<open>Printers stay inside their buffer\<close>

text \<open>\<open>within p sz b b'\<close>: going from \<open>b\<close> to \<open>b'\<close> changed only the \<open>sz\<close> bytes from \<open>p\<close> on.\<close>

definition within :: "nat \<Rightarrow> nat \<Rightarrow> string \<Rightarrow> string \<Rightarrow> bool" where
  "within p sz b b' \<longleftrightarrow>
     length b' = length b \<and> take p b' = take p b \<and> drop (p + sz) b' = drop (p + sz) b"

lemma within_refl [simp]: "within p sz b b"
  by (simp add: within_def)

lemma within_trans: "within p sz b b' \<Longrightarrow> within p sz b' b'' \<Longrightarrow> within p sz b b''"
  by (simp add: within_def)

lemma within_length: "within p sz b b' \<Longrightarrow> length b' = length b"
  by (simp add: within_def)

lemma within_fits: "within p sz b b' \<Longrightarrow> n \<le> length b \<Longrightarrow> n \<le> length b'"
  by (simp add: within_def)

lemma within_sub:
  assumes "within q n b b'" and "p \<le> q" and "q + n \<le> p + sz"
  shows "within p sz b b'"
proof -
  have "take p b' = take p (take q b')" and "take p b = take p (take q b)"
    using assms(2) by (simp_all add: min_def)
  moreover have "drop (p + sz) b' = drop (p + sz - (q + n)) (drop (q + n) b')"
    and "drop (p + sz) b = drop (p + sz - (q + n)) (drop (q + n) b)"
    using assms(3) by simp_all
  moreover have "length b' = length b" "take q b' = take q b" "drop (q + n) b' = drop (q + n) b"
    using assms(1) by (simp_all add: within_def)
  ultimately show ?thesis unfolding within_def by metis
qed

lemma within_put: "put b p cs = Some b' \<Longrightarrow> within p (length cs) b b'"
  by (simp add: within_def put_length put_take put_drop)

lemma within_snprintf: "snprintf_at b p sz s = Some b' \<Longrightarrow> within p sz b b'"
  by (simp add: within_def snprintf_at_length snprintf_at_take snprintf_at_drop)

lemma wp_put:
  assumes "p \<le> q" and "q + length cs \<le> p + sz" and "p + sz \<le> length b"
    and "\<And>b'. put b q cs = Some b' \<Longrightarrow> within p sz b b' \<Longrightarrow> Q b' s"
  shows "wp F (of_opt OutOfBounds (put b q cs)) Q E s"
proof -
  obtain b' where b': "put b q cs = Some b'"
    using put_Some [of q cs b] assms(2,3) by auto
  with assms show ?thesis
    by (auto simp: wp_of_opt intro: within_sub [OF within_put])
qed

lemma wp_snprintf:
  assumes "p \<le> q" and "q + n \<le> p + sz" and "p + sz \<le> length b"
    and "\<And>b'. snprintf_at b q n str = Some b' \<Longrightarrow> within p sz b b' \<Longrightarrow> Q b' s"
  shows "wp F (of_opt OutOfBounds (snprintf_at b q n str)) Q E s"
proof -
  obtain b' where b': "snprintf_at b q n str = Some b'"
    using snprintf_at_Some [of q n b str] assms(2,3) by auto
  with assms show ?thesis
    by (auto simp: wp_of_opt intro: within_sub [OF within_snprintf])
qed

text \<open>
  The contract of a print function: given a buffer of at least one byte that lies inside its
  array, it never faults (but for the faults \<open>F\<close>), writes inside the buffer only, and reports
  a length that leaves room for the terminator.
\<close>

definition prints :: "fault set \<Rightarrow> (string \<Rightarrow> nat \<Rightarrow> nat \<Rightarrow> ('w, string \<times> nat) cfun) \<Rightarrow> bool" where
  "prints F pr \<longleftrightarrow>
     (\<forall>b p sz w. 0 < sz \<longrightarrow> sz < 2 ^ 64 \<longrightarrow> p + sz \<le> length b \<longrightarrow>
        wp F (pr b p sz) (\<lambda>(b', n) w'. within p sz b b' \<and> n < sz) (\<lambda>r w'. read_err r) w)"

lemma printsD:
  assumes "prints F pr" and "0 < sz" and "sz < 2 ^ 64" and "p + sz \<le> length b"
    and "\<And>b' n w'. within p sz b b' \<Longrightarrow> n < sz \<Longrightarrow> Q (b', n) w'"
    and "\<And>r w'. read_err r \<Longrightarrow> E r w'"
  shows "wp F (pr b p sz) Q E w"
proof -
  have "wp F (pr b p sz) (\<lambda>(b', n) w'. within p sz b b' \<and> n < sz) (\<lambda>r w'. read_err r) w"
    using assms(1-4) by (simp add: prints_def)
  then show ?thesis by (rule wp_mono) (use assms(5,6) in auto)
qed

lemma prints_result:
  assumes "prints F pr" and "0 < sz" and "sz < 2 ^ 64" and "p + sz \<le> length b"
  shows "case pr b p sz w of
      (Ok (b', n), _) \<Rightarrow> within p sz b b' \<and> n < sz
    | (Rv r, _) \<Rightarrow> read_err r
    | (Fault f, _) \<Rightarrow> f \<in> F"
proof -
  have "wp F (pr b p sz) (\<lambda>(b', n) w'. within p sz b b' \<and> n < sz) (\<lambda>r w'. read_err r) w"
    using assms by (simp add: prints_def)
  then show ?thesis by (auto simp: wp_def split: prod.splits result.splits)
qed

lemma prints_mono: "prints F pr \<Longrightarrow> F \<subseteq> G \<Longrightarrow> prints G pr"
  unfolding prints_def by (blast intro: wp_fault_mono)

lemma prints_if: "prints F f \<Longrightarrow> prints F g \<Longrightarrow> prints F (\<lambda>b p sz. if c then f b p sz else g b p sz)"
  by (simp add: prints_def)

lemma prints_rv: "read_err r \<Longrightarrow> prints F (\<lambda>b p sz. rv r)"
  by (simp add: prints_def wp_rules)

lemma print_fmt_prints:
  assumes "NUL \<notin> set s"
  shows "prints F (print_fmt s)"
proof (unfold prints_def, intro allI impI)
  fix b :: string and p sz :: nat and w :: 'w
  assume sz: "0 < sz" "p + sz \<le> length b"
  then obtain b' where b': "snprintf_at b p sz s = Some b'"
    using snprintf_at_Some by blast
  have "c_strlen b' p = Some (length (take (sz - 1) s))"
    using snprintf_at_c_str(2) [OF b' sz(1) assms] .
  with b' sz show "wp F (print_fmt s b p sz) (\<lambda>(b', n) w'. within p sz b b' \<and> n < sz)
      (\<lambda>r w'. read_err r) w"
    by (simp add: print_fmt_def wp_rules within_snprintf)
qed

context mem_reader
begin

lemma sprint_zstring_prints: "prints F (sprint_zstring L cp rz)"
proof (unfold prints_def, intro allI impI)
  fix b :: string and p sz :: nat and w
  assume sz: "0 < sz" "p + sz \<le> length b"
  define l where "l lz = min (fld lz (off_str_len L) 8) (max 1 sz - 1)" for lz
  have l: "l lz < sz" for lz using sz(1) by (auto simp: l_def)
  show "wp F (sprint_zstring L cp rz b p sz) (\<lambda>(b', n) w'. within p sz b b' \<and> n < sz)
      (\<lambda>r w'. read_err r) w"
    unfolding sprint_zstring_def Let_def wp_try wp_basic l_def [symmetric]
  proof (rule wp_put [where p = p and sz = sz], goal_cases)
    case (4 b1)
    show ?case
    proof (rule cp_wpI, rule cp_wpI, goal_cases)
      case (1 lz w1 val w2)
      show ?case
      proof (rule wp_put [where p = p and sz = sz], goal_cases)
        case (4 b2)
        show ?case
          by (rule wp_put [where p = p and sz = sz])
            (use 4 \<open>within p sz b b1\<close> l [of lz] sz in
              \<open>auto intro: within_trans elim!: within_fits\<close>)
      qed (use 1 l [of lz] sz within_length [OF \<open>within p sz b b1\<close>] in auto)
    qed auto
  qed (use sz in auto)
qed

end

text \<open>The element loop is a printer when the element printer is one.\<close>

lemma wp_elems_end:
  assumes "obuf \<le> p" and "p < length b" and "p - obuf < sz"
  shows "wp F (sprint_elems_end obuf b p) (\<lambda>(b', n) w'. b' = b \<and> n < sz) E w"
  using assms by (auto simp: sprint_elems_end_def wp_rules)

lemma sprint_elems_wp:
  assumes el: "\<And>i. prints F (el i)"
    and "obuf \<le> p" and "0 < sz" and "p + sz = obuf + tot" and "tot < 2 ^ 64"
    and "obuf + tot \<le> length b"
  shows "wp F (sprint_elems el obuf i k b p sz) (\<lambda>(b', n) w'. within obuf tot b b' \<and> n < tot)
           (\<lambda>r w'. read_err r) w"
  using assms(2-)
proof (induction k arbitrary: i b p sz w)
  case (0 i b p sz w)
  have "wp F (sprint_elems_end obuf b p) (\<lambda>(b', n) w'. b' = b \<and> n < tot) (\<lambda>r w'. read_err r) w"
    by (rule wp_elems_end) (use 0 in auto)
  then show ?case by (auto elim: wp_mono)
next
  case (Suc k i b p sz w)
  show ?case unfolding sprint_elems.simps wp_try
  proof (rule printsD [OF el], goal_cases)
    case (4 b1 n w1)
    have w1: "within obuf tot b b1"
      by (rule within_sub [OF 4(1)]) (use Suc.prems in auto)
    then have l1: "obuf + tot \<le> length b1" using Suc.prems by (auto elim: within_fits)
    have sz': "sz_minus sz n = sz - n" using 4(2) Suc.prems by (simp add: sz_minus_ge)
    show ?case
    proof (cases "n = 0")
      case True
      have "wp F (sprint_elems el obuf (Suc i) k b1 p sz) (\<lambda>(b', n) w'. within obuf tot b1 b' \<and> n < tot)
          (\<lambda>r w'. read_err r) w1"
        by (rule Suc.IH) (use Suc.prems l1 in auto)
      then show ?thesis using True w1 by (auto elim!: wp_mono intro: within_trans)
    next
      case False
      show ?thesis
      proof (cases "sz - n < 2")
        case True
        have "wp F (sprint_elems_end obuf b1 (p + n)) (\<lambda>(b', n) w'. b' = b1 \<and> n < tot) (\<lambda>r w'. read_err r) w1"
          by (rule wp_elems_end) (use Suc.prems 4(2) l1 in auto)
        then show ?thesis using False True w1 by (auto simp: Let_def sz' elim!: wp_mono)
      next
        case 2: False
        have "sz_minus (sz - n) 1 = sz - n - 1"
          by (rule sz_minus_ge) (use 2 Suc.prems in auto)
        moreover have "wp F (of_opt OutOfBounds (put b1 (p + n) '',''))
            (\<lambda>b. wp F (sprint_elems el obuf (Suc i) k b (p + n + 1) (sz - n - 1))
                 (\<lambda>(b', n) w'. within obuf tot b1 b' \<and> n < tot) (\<lambda>r w'. read_err r))
            (\<lambda>r w'. read_err r) w1"
        proof (rule wp_put [where p = obuf and sz = tot], goal_cases)
          case (4 b2)
          have "wp F (sprint_elems el obuf (Suc i) k b2 (p + n + 1) (sz - n - 1))
              (\<lambda>(b', n) w'. within obuf tot b2 b' \<and> n < tot) (\<lambda>r w'. read_err r) w1"
            by (rule Suc.IH) (use Suc.prems 2 4 l1 in \<open>auto elim: within_fits\<close>)
          then show ?case using 4 by (auto elim!: wp_mono intro: within_trans)
        qed (use Suc.prems \<open>n < sz\<close> l1 in auto)
        ultimately show ?thesis using False 2 w1
          by (auto simp: Let_def sz' wp_try elim!: wp_mono intro: within_trans)
      qed
    qed
  qed (use Suc.prems in auto)
qed

lemma sprint_elems_prints:
  assumes "\<And>i. prints F (el i)"
  shows "prints F (\<lambda>b p sz. sprint_elems el p 0 k b p sz)"
  unfolding prints_def using sprint_elems_wp [OF assms] by auto

locale value_printer = mem_reader cp for cp :: "'w reader" +
  fixes pv :: "zval \<Rightarrow> string \<Rightarrow> nat \<Rightarrow> nat \<Rightarrow> ('w, string \<times> nat) cfun" and F :: "fault set"
  assumes pv_prints: "prints F (pv zv)"
begin

text \<open>A prefix that fits, then the value: the pattern of the three element printers.\<close>

lemma wp_value_after:
  assumes "n < sz" and "sz < 2 ^ 64" and "p + sz \<le> length b"
  shows "wp F (try_c (pv zv b (p + n) (sz_minus sz n)) (\<lambda>(b', m). ok (b', n + m)))
    (\<lambda>(b', m) w'. within p sz b b' \<and> m < sz) (\<lambda>r w'. read_err r) w"
  unfolding wp_try
proof (rule printsD [OF pv_prints], goal_cases)
  case (4 b' m w')
  then have "within p sz b b'"
    using assms by (auto simp: sz_minus_ge intro: within_sub)
  with 4 assms show ?case by (auto simp: sz_minus_ge wp_rules)
qed (use assms in \<open>auto simp: sz_minus_ge\<close>)

lemma sprint_zarray_packed_prints: "prints F (sprint_zarray_packed pv i zv)"
proof (unfold prints_def, intro allI impI)
  fix b :: string and p sz :: nat and w
  assume sz: "0 < sz" "sz < 2 ^ 64" "p + sz \<le> length b"
  show "wp F (sprint_zarray_packed pv i zv b p sz) (\<lambda>(b', n) w'. within p sz b b' \<and> n < sz)
      (\<lambda>r w'. read_err r) w"
  proof (cases "zv_type zv = TYPE_UNDEF")
    case True
    then show ?thesis using sz by (simp add: sprint_zarray_packed_def wp_rules)
  next
    case False
    let ?t = "dec_int (int i) @ ''=''"
    have "wp F (of_opt OutOfBounds (snprintf_at b p sz ?t))
      (\<lambda>b'. wp F (if sz \<le> length ?t then ok (b', 0) else
          try_c (pv zv b' (p + length ?t) (sz_minus sz (length ?t))) (\<lambda>(b'', m). ok (b'', length ?t + m)))
        (\<lambda>(b'', n) w'. within p sz b b'' \<and> n < sz) (\<lambda>r w'. read_err r)) (\<lambda>r w'. read_err r) w"
    proof (rule wp_snprintf [where p = p and sz = sz], goal_cases)
      case (4 b1)
      have "wp F (try_c (pv zv b1 (p + length ?t) (sz_minus sz (length ?t))) (\<lambda>(b'', m). ok (b'', length ?t + m)))
         (\<lambda>(b', m) w'. within p sz b1 b' \<and> m < sz) (\<lambda>r w'. read_err r) w" if "length ?t < sz"
        by (rule wp_value_after) (use that sz 4 in \<open>auto elim: within_fits\<close>)
      then show ?case using 4 sz by (auto simp: wp_rules elim!: wp_mono intro: within_trans)
    qed (use sz in auto)
    then show ?thesis using False by (simp add: sprint_zarray_packed_def wp_try Let_def)
  qed
qed

lemma sprint_zarray_bucket_prints: "prints F (sprint_zarray_bucket L cp pv bk)"
proof (unfold prints_def, intro allI impI)
  fix b :: string and p sz :: nat and w
  assume sz: "0 < sz" "sz < 2 ^ 64" "p + sz \<le> length b"
  let ?key = "if b_key bk \<noteq> 0 then
       try_c (sprint_zstring L cp (b_key bk) (replicate PHPSPY_STR_SIZE NUL) 0 PHPSPY_STR_SIZE)
         (\<lambda>(tmp_key, tmp_len).
       if sz > tmp_len + 1 + 1 then
         try_c (of_opt OutOfBounds (snprintf_at b p sz (c_str tmp_key 0 @ ''=''))) (\<lambda>b.
         ok (b, tmp_len + 1))
       else ok (b, 0))
     else ok (b, 0)"
  have key: "wp F ?key (\<lambda>(b', adv) w'. within p sz b b' \<and> adv < sz) (\<lambda>r w'. read_err r) w"
  proof (cases "b_key bk = 0")
    case True
    then show ?thesis using sz by (simp add: wp_rules)
  next
    case False
    have "wp F (sprint_zstring L cp (b_key bk) (replicate PHPSPY_STR_SIZE NUL) 0 PHPSPY_STR_SIZE)
      (\<lambda>(tmp_key, tmp_len). wp F (if sz > tmp_len + 1 + 1 then
         try_c (of_opt OutOfBounds (snprintf_at b p sz (c_str tmp_key 0 @ ''=''))) (\<lambda>b.
         ok (b, tmp_len + 1)) else ok (b, 0))
        (\<lambda>(b', adv) w'. within p sz b b' \<and> adv < sz) (\<lambda>r w'. read_err r)) (\<lambda>r w'. read_err r) w"
    proof (rule printsD [OF sprint_zstring_prints], goal_cases)
      case (4 tk n w')
      have "wp F (of_opt OutOfBounds (snprintf_at b p sz (c_str tk 0 @ ''='')))
          (\<lambda>b'. wp F (ok (b', n + 1)) (\<lambda>(b', adv) w'. within p sz b b' \<and> adv < sz) (\<lambda>r w'. read_err r))
          (\<lambda>r w'. read_err r) w'" if "n + 1 + 1 < sz"
        by (rule wp_snprintf [where p = p and sz = sz]) (use sz that in \<open>auto simp: wp_rules\<close>)
      then show ?case using sz by (simp add: wp_try wp_basic)
    qed auto
    with False show ?thesis by (simp add: wp_try case_prod_unfold)
  qed
  show "wp F (sprint_zarray_bucket L cp pv bk b p sz) (\<lambda>(b', n) w'. within p sz b b' \<and> n < sz)
      (\<lambda>r w'. read_err r) w"
  proof (cases "zv_type (b_val bk) = TYPE_UNDEF")
    case True
    then show ?thesis using sz by (simp add: sprint_zarray_bucket_def wp_rules)
  next
    case False
    have val: "wp F (try_c (pv (b_val bk) b1 (p + adv) (sz_minus sz adv)) (\<lambda>(b', m). ok (b', adv + m)))
        (\<lambda>(b', m) w'. within p sz b b' \<and> m < sz) (\<lambda>r w'. read_err r) w'"
      if "within p sz b b1" "adv < sz" for b1 adv w'
      using wp_value_after [of adv sz p b1 "b_val bk" w'] that sz within_fits [OF that(1) sz(3)]
      by (auto elim!: wp_mono intro: within_trans)
    have "wp F ?key (\<lambda>(b1, adv). wp F (try_c (pv (b_val bk) b1 (p + adv) (sz_minus sz adv))
          (\<lambda>(b', m). ok (b', adv + m))) (\<lambda>(b', m) w'. within p sz b b' \<and> m < sz) (\<lambda>r w'. read_err r))
        (\<lambda>r w'. read_err r) w"
      using key by (rule wp_mono) (use val in auto)
    with False show ?thesis
      unfolding sprint_zarray_bucket_def by (simp only: wp_try if_False case_prod_unfold)
  qed
qed

lemma sprint_zarray_prints: "prints F (sprint_zarray L cp pv rz)"
  unfolding prints_def sprint_zarray_def Let_def wp_try
proof (intro allI impI cp_wpI, goal_cases)
  case (1 b p sz w bs w')
  have packed: "prints F (\<lambda>b p sz. sprint_elems
      (\<lambda>i. sprint_zarray_packed pv i (zval_of L zvals (i * sizeof_zval L))) p 0 k b p sz)" for zvals k
    by (rule sprint_elems_prints) (rule sprint_zarray_packed_prints)
  have bucket: "prints F (\<lambda>b p sz. sprint_elems
      (\<lambda>i. sprint_zarray_bucket L cp pv (bucket_of L bks (i * sizeof_Bucket L))) p 0 k b p sz)" for bks k
    by (rule sprint_elems_prints) (rule sprint_zarray_bucket_prints)
  show ?case
    using 1 packed bucket by (auto simp: wp_try prints_def intro!: cp_wpI)
qed

end

context mem_reader
begin

text \<open>
  Printing a value of any depth: the only fault left is running out of stack.
\<close>

lemma sprint_zval_prints: "prints {OutOfFuel} (sprint_zval L cp fuel zv)"
proof (induction fuel arbitrary: zv)
  case 0
  show ?case by (simp add: prints_def wp_rules)
next
  case (Suc fuel)
  have vp: "value_printer cp (sprint_zval L cp fuel) {OutOfFuel}"
    using Suc.IH by unfold_locales
  show ?case
    unfolding sprint_zval.simps
    by (intro prints_if print_fmt_prints dec_int_no_nul fmt_f_no_nul sprint_zstring_prints
        value_printer.sprint_zarray_prints [OF vp] prints_rv read_err_ERR)
qed

lemma value_printer_zval: "value_printer cp (sprint_zval L cp fuel) {OutOfFuel}"
  using sprint_zval_prints by unfold_locales

lemma bucket_chain_wp:
  "wp {OutOfFuel} (bucket_chain L cp fuel arData key i) (\<lambda>_ _. True) (\<lambda>r w'. read_err r) w"
proof (induction fuel arbitrary: i w)
  case 0
  show ?case by (simp add: wp_rules)
next
  case (Suc fuel)
  show ?case
    by (auto simp: wp_try wp_basic Let_def Suc.IH
        intro!: cp_wpI printsD [OF sprint_zstring_prints])
qed

lemma copy_zarray_bucket_wp:
  "wp {OutOfFuel, DivByZero} (copy_zarray_bucket L cp fuel rz key) (\<lambda>_ _. True) (\<lambda>r w'. read_err r) w"
  unfolding copy_zarray_bucket_def Let_def wp_try
  by (rule cp_wpI) (auto simp: wp_try wp_basic intro!: cp_wpI wp_fault_mono [OF bucket_chain_wp])

lemma sprint_zarray_val_prints: "prints {OutOfFuel, DivByZero} (sprint_zarray_val L cp fuel rz key)"
  unfolding prints_def sprint_zarray_val_def wp_try
proof (intro allI impI, goal_cases)
  case (1 b p sz w)
  have "prints {OutOfFuel, DivByZero} (sprint_zval L cp fuel zv)" for zv
    by (rule prints_mono [OF sprint_zval_prints]) auto
  then show ?case using 1
    by (intro wp_mono [OF copy_zarray_bucket_wp]) (auto simp: prints_def)
qed

end

context mem_reader
begin

lemma pdo_bind_value_wp: "wp F (pdo_bind_value L cp lbp) (\<lambda>_ _. True) (\<lambda>r w'. False) w"
  by (auto simp: pdo_bind_value_def Let_def wp_with_rv wp_basic intro!: cp_wpI)

lemma pdo_bind_name_wp: "wp F (pdo_bind_name L cp lbp) (\<lambda>_ _. True) (\<lambda>r w'. read_err r) w"
  by (auto simp: pdo_bind_name_def Let_def
      intro!: printsD [OF sprint_zstring_prints] printsD [OF print_fmt_prints] dec_int_no_nul)

lemma sprint_pdo_bind_prints: "prints {OutOfFuel} (sprint_pdo_bind L cp fuel zv)"
proof (unfold prints_def, intro allI impI)
  fix b :: string and p sz :: nat and w
  assume sz: "0 < sz" "sz < 2 ^ 64" "p + sz \<le> length b"
  let ?Q = "\<lambda>(b', n) w'. within p sz b b' \<and> n < sz"
  let ?E = "\<lambda>r w'. read_err r"
  have body: "wp {OutOfFuel} (try_c (of_opt OutOfBounds (snprintf_at b p sz str)) (\<lambda>b.
        if sz \<le> length str then ok (b, 0)
        else
          try_c (pdo_bind_value L cp lbp) (\<lambda>vptr.
          try_c (sprint_zval L cp fuel vptr b (p + length str) (sz_minus sz (length str))) (\<lambda>(b, tmp_len).
          ok (b, length str + tmp_len))))) ?Q ?E w'" for str lbp w'
    unfolding wp_try
  proof (rule wp_snprintf [where p = p and sz = sz], goal_cases)
    case (4 b1)
    have "wp {OutOfFuel} (try_c (sprint_zval L cp fuel v b1 (p + length str) (sz_minus sz (length str)))
          (\<lambda>(b, tmp_len). ok (b, length str + tmp_len))) ?Q ?E w''" if "length str < sz" for v w''
      using value_printer.wp_value_after [OF value_printer_zval that sz(2), of p b1 L fuel v w'']
        4 sz(3) within_fits [OF 4(2) sz(3)] by (auto elim!: wp_mono intro: within_trans)
    then show ?case
      using 4 sz by (auto simp: wp_basic wp_try intro!: wp_mono [OF pdo_bind_value_wp])
  qed (use sz in auto)
  show "wp {OutOfFuel} (sprint_pdo_bind L cp fuel zv b p sz) ?Q ?E w"
    using sz body
    by (auto simp: sprint_pdo_bind_def Let_def wp_basic wp_with_rv simp del: length_append
        intro!: cp_wpI wp_mono [OF pdo_bind_name_wp])
qed

lemma sprint_pdo_binds_prints: "prints {OutOfFuel} (sprint_pdo_binds L cp fuel rht)"
proof -
  have *: "prints {OutOfFuel} (\<lambda>b p sz. sprint_elems (\<lambda>i. sprint_pdo_bind L cp fuel (f i)) p 0 k b p sz)"
    for f k by (rule sprint_elems_prints) (rule sprint_pdo_bind_prints)
  show ?thesis
    using * by (auto simp: prints_def sprint_pdo_binds_def Let_def wp_basic wp_try intro!: cp_wpI)
qed

end

interpretation zp: value_printer "copy_proc_mem rd pid" "sprint_zval L (copy_proc_mem rd pid) fuel"
    "{OutOfFuel}"
  for rd :: "'w readv" and pid L fuel
  by (rule pm.value_printer_zval)

end
