(* ===== verification/Uthash.thy ===== *)
theory Uthash
  imports Prelude
begin

text \<open>
  The hash tables of \<^verbatim>\<open>uthash\<close>, as phpspy uses them: \<^verbatim>\<open>HASH_ADD\<close> appends an element to the
  application-order list and never looks for an equal key, \<^verbatim>\<open>HASH_FIND\<close> returns an element
  with the key, \<^verbatim>\<open>HASH_ITER\<close> visits the elements in insertion order, and an element found is
  updated in place through its pointer; \<^verbatim>\<open>HASH_DEL\<close> takes an element out. The contract the clients rely on is the locale
  \<open>hash_table\<close>; the association lists below provide it.
\<close>

type_synonym ('k, 'v) hash = "('k \<times> 'v) list"

definition hash_find :: "'k \<Rightarrow> ('k, 'v) hash \<Rightarrow> 'v option" where
  "hash_find k m = map_of m k"

definition hash_add :: "'k \<Rightarrow> 'v \<Rightarrow> ('k, 'v) hash \<Rightarrow> ('k, 'v) hash" where
  "hash_add k v m = m @ [(k, v)]"

definition hash_upd :: "'k \<Rightarrow> ('v \<Rightarrow> 'v) \<Rightarrow> ('k, 'v) hash \<Rightarrow> ('k, 'v) hash" where
  "hash_upd k f m = map (\<lambda>(k', v). (k', if k' = k then f v else v)) m"

definition hash_del :: "'k \<Rightarrow> ('k, 'v) hash \<Rightarrow> ('k, 'v) hash" where
  "hash_del k m = filter (\<lambda>(j, v). j \<noteq> k) m"

definition hash_keys :: "('k, 'v) hash \<Rightarrow> 'k list" where
  "hash_keys m = map fst m"

text \<open>The idiom "find, add when missing, then update through the pointer".\<close>

definition hash_touch :: "'k \<Rightarrow> 'v \<Rightarrow> ('v \<Rightarrow> 'v) \<Rightarrow> ('k, 'v) hash \<Rightarrow> ('k, 'v) hash" where
  "hash_touch k v0 f m =
     hash_upd k f (case hash_find k m of None \<Rightarrow> hash_add k v0 m | Some _ \<Rightarrow> m)"

subsection \<open>The contract\<close>

locale hash_table =
  fixes find :: "'k \<Rightarrow> 'm \<Rightarrow> 'v option"
    and add :: "'k \<Rightarrow> 'v \<Rightarrow> 'm \<Rightarrow> 'm"
    and upd :: "'k \<Rightarrow> ('v \<Rightarrow> 'v) \<Rightarrow> 'm \<Rightarrow> 'm"
    and keys :: "'m \<Rightarrow> 'k list"
  assumes find_None: "find k m = None \<longleftrightarrow> k \<notin> set (keys m)"
    and find_add: "find k m = None \<Longrightarrow> find j (add k v m) = (if j = k then Some v else find j m)"
    and find_upd: "find j (upd k f m) = (if j = k then map_option f (find j m) else find j m)"
    and keys_add: "keys (add k v m) = keys m @ [k]"
    and keys_upd: "keys (upd k f m) = keys m"
begin

definition touch :: "'k \<Rightarrow> 'v \<Rightarrow> ('v \<Rightarrow> 'v) \<Rightarrow> 'm \<Rightarrow> 'm" where
  "touch k v0 f m = upd k f (case find k m of None \<Rightarrow> add k v0 m | Some _ \<Rightarrow> m)"

lemma find_touch:
  "find j (touch k v0 f m) =
     (if j = k then Some (f (case find k m of None \<Rightarrow> v0 | Some v \<Rightarrow> v)) else find j m)"
  by (auto simp: touch_def find_upd find_add split: option.splits)

lemma keys_touch: "keys (touch k v0 f m) = (if k \<in> set (keys m) then keys m else keys m @ [k])"
  by (auto simp: touch_def keys_upd keys_add find_None [symmetric] split: option.splits)

lemma distinct_touch: "distinct (keys m) \<Longrightarrow> distinct (keys (touch k v0 f m))"
  by (auto simp: keys_touch)

end

subsection \<open>Association lists keep it\<close>

lemma hash_find_None: "hash_find k m = None \<longleftrightarrow> k \<notin> set (hash_keys m)"
  by (simp add: hash_find_def hash_keys_def map_of_eq_None_iff)

lemma hash_find_add:
  "hash_find k m = None \<Longrightarrow> hash_find j (hash_add k v m) = (if j = k then Some v else hash_find j m)"
  by (auto simp: hash_find_def hash_add_def map_add_def split: option.splits)

lemma hash_find_upd:
  "hash_find j (hash_upd k f m) =
     (if j = k then map_option f (hash_find j m) else hash_find j m)"
  by (induction m) (auto simp: hash_find_def hash_upd_def)

interpretation uth: hash_table hash_find hash_add hash_upd hash_keys
  rewrites "hash_table.touch hash_find hash_add hash_upd = hash_touch"
proof -
  show h: "hash_table (hash_find :: 'k \<Rightarrow> ('k, 'v) hash \<Rightarrow> 'v option) hash_add hash_upd hash_keys"
    by unfold_locales
      (auto simp: hash_find_None hash_find_add hash_find_upd,
       auto simp: hash_keys_def hash_add_def hash_upd_def)
  show "hash_table.touch (hash_find :: 'k \<Rightarrow> ('k, 'v) hash \<Rightarrow> 'v option) hash_add hash_upd = hash_touch"
    by (simp add: hash_table.touch_def [OF h] hash_touch_def fun_eq_iff)
qed

lemma hash_upd_cong_len [simp]: "length (hash_upd k f m) = length m"
  by (simp add: hash_upd_def)

lemma hash_find_del: "hash_find j (hash_del k m) = (if j = k then None else hash_find j m)"
  by (induction m) (auto simp: hash_find_def hash_del_def)

text \<open>\<^verbatim>\<open>HASH_ITER\<close> that deletes every element leaves an empty table.\<close>

definition hash_clear :: "('k, 'v) hash \<Rightarrow> ('k, 'v) hash" where
  "hash_clear m = fold hash_del (hash_keys m) m"

lemma hash_clear_empty: "hash_clear m = []"
proof -
  have "fold hash_del ks m = filter (\<lambda>(j, v). j \<notin> set ks) m" for ks and m :: "('a, 'b) hash"
    by (induction ks arbitrary: m) (auto simp: hash_del_def intro: filter_cong)
  then show ?thesis by (force simp: hash_clear_def hash_keys_def filter_empty_conv)
qed

end
