(* ===== verification/Options.thy ===== *)
theory Options
  imports C_Library Uthash Proc_Mem
begin

text \<open>
  The command line: the option variables of \<^verbatim>\<open>phpspy.c\<close> as a record, the \<^verbatim>\<open>switch\<close> of
  \<^verbatim>\<open>parse_opts\<close>, \<^verbatim>\<open>varpeek_add\<close> and \<^verbatim>\<open>glopeek_add\<close>. The scanner \<^verbatim>\<open>getopt_long\<close> is in the theory \<open>Getopt\<close>: here a
  run of \<^verbatim>\<open>parse_opts\<close> is the list of the pairs (option character, \<^verbatim>\<open>optarg\<close>) that it returns.
  \<open>Exit n\<close> is \<^verbatim>\<open>exit(n)\<close>, also from \<^verbatim>\<open>usage\<close>, which never returns (the theory \<open>Usage\<close> has the division
  in it that can crash instead), \<open>Diverge\<close> a loop that does not end. A compiled
  regular expression is represented by its source text.
\<close>

datatype handler_kind = Handler_fout | Handler_callgrind

record glopeek_entry =
  ge_key :: string
  ge_gloname :: string
  ge_varname :: string

type_synonym varpeek_map = "(string, string list) hash"

record options =
  opt_pid :: pid
  opt_pgrep_args :: "string option"
  opt_num_workers :: int
  opt_frame_delim :: char
  opt_trace_delim :: char
  opt_time_limit_ms :: int
  opt_path_output :: string
  opt_filter_re :: "string option"
  opt_filter_negate :: bool
  opt_verbose_fields_pid :: bool
  opt_verbose_fields_ts :: bool
  opt_fout_buffer_size :: int
  opt_libname_awk_patt :: string
  opt_quiet :: bool
  opt_peek_pdo :: bool
  opt_top_mode :: bool
  opt_sleep_ns :: int
  opt_executor_globals_addr :: "64 word"
  opt_sapi_globals_addr :: "64 word"
  opt_capture_req :: bool
  opt_capture_req_qstring :: bool
  opt_capture_req_cookie :: bool
  opt_capture_req_uri :: bool
  opt_capture_req_path :: bool
  opt_capture_mem :: bool
  opt_max_stack_depth_from_leaf :: int
  opt_max_stack_depth_from_root :: int
  opt_trace_limit :: nat
  opt_path_child_out :: string
  opt_path_child_err :: string
  opt_phpv :: string
  opt_pause :: bool
  opt_event_handler :: handler_kind
  opt_event_handler_opts :: "string option"
  opt_continue_on_error :: bool
  opt_varpeek_map :: varpeek_map
  opt_glopeek_map :: "glopeek_entry list"

abbreviation tab :: char where "tab \<equiv> CHR 0x09"

definition default_options :: options where
  "default_options = \<lparr>
     opt_pid = -1, opt_pgrep_args = None, opt_num_workers = 16,
     opt_frame_delim = newline, opt_trace_delim = newline, opt_time_limit_ms = 0,
     opt_path_output = ''-'', opt_filter_re = None, opt_filter_negate = False,
     opt_verbose_fields_pid = False, opt_verbose_fields_ts = False,
     opt_fout_buffer_size = 4096, opt_libname_awk_patt = ''libphp[78]?'', opt_quiet = False,
     opt_peek_pdo = False, opt_top_mode = False, opt_sleep_ns = 10101010,
     opt_executor_globals_addr = 0, opt_sapi_globals_addr = 0,
     opt_capture_req = False, opt_capture_req_qstring = False, opt_capture_req_cookie = False,
     opt_capture_req_uri = False, opt_capture_req_path = False, opt_capture_mem = False,
     opt_max_stack_depth_from_leaf = -1, opt_max_stack_depth_from_root = -1,
     opt_trace_limit = 0, opt_path_child_out = ''phpspy.%d.out'',
     opt_path_child_err = ''phpspy.%d.err'', opt_phpv = ''auto'', opt_pause = False,
     opt_event_handler = Handler_fout, opt_event_handler_opts = None,
     opt_continue_on_error = False, opt_varpeek_map = [], opt_glopeek_map = [] \<rparr>"

subsection \<open>Numbers\<close>

datatype 'a parsed = Cont 'a | Exit int | Diverge

primrec then_p :: "'a parsed \<Rightarrow> ('a \<Rightarrow> 'b parsed) \<Rightarrow> 'b parsed" where
  "then_p (Cont a) k = k a"
| "then_p (Exit n) k = Exit n"
| "then_p Diverge k = Diverge"

definition strtol_with_min_or_exit :: "string \<Rightarrow> int \<Rightarrow> int parsed" where
  "strtol_with_min_or_exit str mn =
     (let (result, end_p) = strtol str in
      if end_p = str \<or> end_p \<noteq> [] then Exit 1
      else if result < mn then Exit 1
      else Cont result)"

definition atoi_with_min_or_exit :: "string \<Rightarrow> int \<Rightarrow> int parsed" where
  "atoi_with_min_or_exit str mn =
     then_p (strtol_with_min_or_exit str mn) (\<lambda>result.
     if result > INT_MAX then Exit 1 else Cont result)"

subsection \<open>Peeked variables\<close>

text \<open>\<^verbatim>\<open>%.*s\<close> with a precision that may be negative, in which case it is ignored.\<close>

definition fmt_iprec_s :: "int \<Rightarrow> string \<Rightarrow> string" where
  "fmt_iprec_s n s = (if n < 0 then s else fmt_prec_s (nat n) s)"

definition varpeek_key :: "int \<Rightarrow> string \<Rightarrow> 32 word \<Rightarrow> string" where
  "varpeek_key prec file lineno =
     take (PHPSPY_STR_SIZE - 1) (fmt_iprec_s prec file @ '':'' @ dec_int (sint lineno))"

definition varpeek_line :: "string \<Rightarrow> string \<Rightarrow> varpeek_map \<Rightarrow> varpeek_map" where
  "varpeek_line key name m = hash_touch key [] (\<lambda>varmap. varmap @ [take (PHPSPY_STR_SIZE - 1) name]) m"

partial_function (option) varpeek_lines ::
  "(32 word \<Rightarrow> string) \<Rightarrow> string \<Rightarrow> 32 word \<Rightarrow> 32 word \<Rightarrow> varpeek_map \<Rightarrow> varpeek_map option" where
  "varpeek_lines key name lineno line_end m =
     (if lineno \<le> line_end then
        varpeek_lines key name (lineno + 1) line_end (varpeek_line (key lineno) name m)
      else Some m)"

declare varpeek_lines.simps [code]

definition varpeek_add :: "string \<Rightarrow> varpeek_map \<Rightarrow> varpeek_map parsed" where
  "varpeek_add varspec m =
     (case (find_from 0 CHR ''@'' varspec, rfind_from 0 CHR '':'' varspec) of
        (Some at_sign, Some colon) \<Rightarrow>
          (let line_start = word_of_nat (fst (strtoull 10 (drop (colon + 1) varspec)));
               line_end =
                 (case rfind_from colon CHR ''-'' (drop colon varspec) of
                    Some dash \<Rightarrow> word_of_nat (fst (strtoull 10 (drop (dash + 1) varspec)))
                  | None \<Rightarrow> line_start)
           in case varpeek_lines
                     (varpeek_key (int colon - int at_sign - 1) (drop (at_sign + 1) varspec))
                     (take at_sign varspec) line_start line_end m of
                Some m' \<Rightarrow> Cont m'
              | None \<Rightarrow> Diverge)
      | _ \<Rightarrow> Exit 1)"

subsection \<open>Peeked globals\<close>

definition strncmp_eq :: "string \<Rightarrow> string \<Rightarrow> nat \<Rightarrow> bool" where
  "strncmp_eq a b n \<longleftrightarrow> take n a = take n b"

definition glopeek_gloname :: "string \<Rightarrow> nat \<Rightarrow> string option" where
  "glopeek_gloname glospec n =
     (if strncmp_eq ''post.'' glospec n then Some ''_POST''
      else if strncmp_eq ''get.'' glospec n then Some ''_GET''
      else if strncmp_eq ''cookie.'' glospec n then Some ''_COOKIE''
      else if strncmp_eq ''server.'' glospec n then Some ''_SERVER''
      else if strncmp_eq ''files.'' glospec n then Some ''_FILES''
      else if strncmp_eq ''globals.'' glospec n then Some []
      else None)"

definition glopeek_add :: "string \<Rightarrow> glopeek_entry list \<Rightarrow> glopeek_entry list parsed" where
  "glopeek_add glospec m =
     (case find_from 0 CHR ''.'' glospec of
        None \<Rightarrow> Exit 1
      | Some dot \<Rightarrow>
          if glospec \<in> set (map ge_key m) then Cont m
          else case glopeek_gloname glospec dot of
            None \<Rightarrow> Exit 1
          | Some gloname \<Rightarrow> Cont (m @ [\<lparr>
              ge_key = take (PHPSPY_STR_SIZE - 1) glospec,
              ge_gloname = gloname,
              ge_varname = take (PHPSPY_STR_SIZE - 1) (drop (dot + 1) glospec) \<rparr>]))"

subsection \<open>The options\<close>

datatype opt =
    Opt char
  | ADDR_EXECUTOR_GLOBALS
  | ADDR_SAPI_GLOBALS
  | LIBNAME_AWK_PATT
  | EVENT_HANDLER
  | EVENT_HANDLER_OPTS

definition req_flag :: "char \<Rightarrow> options \<Rightarrow> options" where
  "req_flag c o' =
     (if c = CHR ''q'' then o'\<lparr>opt_capture_req_qstring := True\<rparr>
      else if c = CHR ''c'' then o'\<lparr>opt_capture_req_cookie := True\<rparr>
      else if c = CHR ''u'' then o'\<lparr>opt_capture_req_uri := True\<rparr>
      else if c = CHR ''p'' then o'\<lparr>opt_capture_req_path := True\<rparr>
      else if c = CHR ''Q'' then o'\<lparr>opt_capture_req_qstring := False\<rparr>
      else if c = CHR ''C'' then o'\<lparr>opt_capture_req_cookie := False\<rparr>
      else if c = CHR ''U'' then o'\<lparr>opt_capture_req_uri := False\<rparr>
      else if c = CHR ''P'' then o'\<lparr>opt_capture_req_path := False\<rparr>
      else o')"

definition verbose_flag :: "char \<Rightarrow> options \<Rightarrow> options" where
  "verbose_flag c o' =
     (if c = CHR ''p'' then o'\<lparr>opt_verbose_fields_pid := True\<rparr>
      else if c = CHR ''t'' then o'\<lparr>opt_verbose_fields_ts := True\<rparr>
      else if c = CHR ''P'' then o'\<lparr>opt_verbose_fields_pid := False\<rparr>
      else if c = CHR ''T'' then o'\<lparr>opt_verbose_fields_ts := False\<rparr>
      else o')"

definition opt_case :: "(string \<Rightarrow> bool) \<Rightarrow> opt \<Rightarrow> string \<Rightarrow> options \<Rightarrow> options parsed" where
  "opt_case regcomp c optarg o' =
     (if c = Opt CHR ''h'' then Exit 0
      else if c = Opt CHR ''p'' then
        then_p (atoi_with_min_or_exit optarg 1) (\<lambda>v. Cont (o'\<lparr>opt_pid := v\<rparr>))
      else if c = Opt CHR ''P'' then Cont (o'\<lparr>opt_pgrep_args := Some optarg\<rparr>)
      else if c = Opt CHR ''T'' then
        then_p (atoi_with_min_or_exit optarg 1) (\<lambda>v. Cont (o'\<lparr>opt_num_workers := v\<rparr>))
      else if c = Opt CHR ''s'' then
        then_p (strtol_with_min_or_exit optarg 1) (\<lambda>v. Cont (o'\<lparr>opt_sleep_ns := v\<rparr>))
      else if c = Opt CHR ''H'' then
        then_p (strtol_with_min_or_exit optarg 1) (\<lambda>v. Cont (o'\<lparr>opt_sleep_ns := 1000000000 div v\<rparr>))
      else if c = Opt CHR ''V'' then Cont (o'\<lparr>opt_phpv := optarg\<rparr>)
      else if c = Opt CHR ''l'' then Cont (o'\<lparr>opt_trace_limit := fst (strtoull 10 optarg)\<rparr>)
      else if c = Opt CHR ''i'' then
        then_p (strtol_with_min_or_exit optarg 0) (\<lambda>v. Cont (o'\<lparr>opt_time_limit_ms := v\<rparr>))
      else if c = Opt CHR ''n'' then
        then_p (atoi_with_min_or_exit optarg (-1)) (\<lambda>v. Cont (o'\<lparr>opt_max_stack_depth_from_leaf := v\<rparr>))
      else if c = Opt CHR ''N'' then
        then_p (atoi_with_min_or_exit optarg 0) (\<lambda>v. Cont (o'\<lparr>opt_max_stack_depth_from_root := v\<rparr>))
      else if c = Opt CHR ''r'' then
        Cont (let o2 = fold req_flag optarg o'
              in o2\<lparr>opt_capture_req := opt_capture_req_qstring o2 \<or> opt_capture_req_cookie o2 \<or>
                      opt_capture_req_uri o2 \<or> opt_capture_req_path o2\<rparr>)
      else if c = Opt CHR ''m'' then Cont (o'\<lparr>opt_capture_mem := True\<rparr>)
      else if c = Opt CHR ''o'' then Cont (o'\<lparr>opt_path_output := optarg\<rparr>)
      else if c = Opt CHR ''O'' then Cont (o'\<lparr>opt_path_child_out := optarg\<rparr>)
      else if c = Opt CHR ''E'' then Cont (o'\<lparr>opt_path_child_err := optarg\<rparr>)
      else if c = ADDR_EXECUTOR_GLOBALS then
        Cont (o'\<lparr>opt_executor_globals_addr := word_of_nat (fst (strtoull 16 optarg))\<rparr>)
      else if c = ADDR_SAPI_GLOBALS then
        Cont (o'\<lparr>opt_sapi_globals_addr := word_of_nat (fst (strtoull 16 optarg))\<rparr>)
      else if c = Opt CHR ''1'' then Cont (o'\<lparr>opt_frame_delim := tab, opt_trace_delim := newline\<rparr>)
      else if c = Opt CHR ''b'' then
        then_p (atoi_with_min_or_exit optarg 1) (\<lambda>v. Cont (o'\<lparr>opt_fout_buffer_size := v\<rparr>))
      else if c = Opt CHR ''f'' \<or> c = Opt CHR ''F'' then
        if regcomp optarg
        then Cont (o'\<lparr>opt_filter_re := Some optarg, opt_filter_negate := (c = Opt CHR ''F'')\<rparr>)
        else Exit 1
      else if c = Opt CHR ''d'' then Cont (fold verbose_flag optarg o')
      else if c = Opt CHR ''c'' then Cont (o'\<lparr>opt_continue_on_error := True\<rparr>)
      else if c = Opt CHR ''q'' then Cont (o'\<lparr>opt_quiet := True\<rparr>)
      else if c = EVENT_HANDLER then
        if optarg = ''fout'' then Cont (o'\<lparr>opt_event_handler := Handler_fout\<rparr>)
        else if optarg = ''callgrind'' then Cont (o'\<lparr>opt_event_handler := Handler_callgrind\<rparr>)
        else Exit 1
      else if c = EVENT_HANDLER_OPTS then Cont (o'\<lparr>opt_event_handler_opts := Some optarg\<rparr>)
      else if c = Opt CHR ''v'' then Exit 0
      else if c = Opt CHR ''S'' then Cont (o'\<lparr>opt_pause := True\<rparr>)
      else if c = Opt CHR ''e'' then
        then_p (varpeek_add optarg (opt_varpeek_map o')) (\<lambda>m. Cont (o'\<lparr>opt_varpeek_map := m\<rparr>))
      else if c = Opt CHR ''g'' then
        then_p (glopeek_add optarg (opt_glopeek_map o')) (\<lambda>m. Cont (o'\<lparr>opt_glopeek_map := m\<rparr>))
      else if c = Opt CHR ''t'' then Cont (o'\<lparr>opt_top_mode := True\<rparr>)
      else if c = LIBNAME_AWK_PATT then Cont (o'\<lparr>opt_libname_awk_patt := optarg\<rparr>)
      else if c = Opt CHR ''D'' then Cont (o'\<lparr>opt_peek_pdo := True\<rparr>)
      else Cont o')"

fun parse_opts :: "(string \<Rightarrow> bool) \<Rightarrow> (opt \<times> string) list \<Rightarrow> options \<Rightarrow> options parsed" where
  "parse_opts regcomp [] o' = Cont o'"
| "parse_opts regcomp ((c, optarg) # args) o' =
     then_p (opt_case regcomp c optarg o') (parse_opts regcomp args)"

subsection \<open>What the options may be\<close>

definition numbers_ok :: "options \<Rightarrow> bool" where
  "numbers_ok o' \<longleftrightarrow>
     (opt_pid o' = -1 \<or> 1 \<le> opt_pid o') \<and> opt_pid o' \<le> INT_MAX \<and>
     1 \<le> opt_num_workers o' \<and> opt_num_workers o' \<le> INT_MAX \<and>
     0 \<le> opt_sleep_ns o' \<and> opt_sleep_ns o' \<le> LONG_MAX \<and>
     0 \<le> opt_time_limit_ms o' \<and> opt_time_limit_ms o' \<le> LONG_MAX \<and>
     -1 \<le> opt_max_stack_depth_from_leaf o' \<and> opt_max_stack_depth_from_leaf o' \<le> INT_MAX \<and>
     -1 \<le> opt_max_stack_depth_from_root o' \<and> opt_max_stack_depth_from_root o' \<le> INT_MAX \<and>
     1 \<le> opt_fout_buffer_size o' \<and> opt_fout_buffer_size o' \<le> INT_MAX \<and>
     opt_trace_limit o' < 2 ^ 64"

definition delims_ok :: "options \<Rightarrow> bool" where
  "delims_ok o' \<longleftrightarrow>
     opt_trace_delim o' = newline \<and> (opt_frame_delim o' = newline \<or> opt_frame_delim o' = tab)"

definition peeks_ok :: "options \<Rightarrow> bool" where
  "peeks_ok o' \<longleftrightarrow>
     distinct (hash_keys (opt_varpeek_map o')) \<and>
     (\<forall>k \<in> set (hash_keys (opt_varpeek_map o')). length k < PHPSPY_STR_SIZE) \<and>
     (\<forall>g \<in> set (opt_glopeek_map o'). length (ge_key g) < PHPSPY_STR_SIZE \<and>
        length (ge_gloname g) < PHPSPY_STR_SIZE \<and> length (ge_varname g) < PHPSPY_STR_SIZE)"

definition req_ok :: "options \<Rightarrow> bool" where
  "req_ok o' \<longleftrightarrow> opt_capture_req o' =
     (opt_capture_req_qstring o' \<or> opt_capture_req_cookie o' \<or> opt_capture_req_uri o' \<or>
      opt_capture_req_path o')"

definition options_ok :: "options \<Rightarrow> bool" where
  "options_ok o' \<longleftrightarrow> numbers_ok o' \<and> delims_ok o' \<and> peeks_ok o' \<and> req_ok o'"

lemma default_options_ok: "options_ok default_options"
  by (simp add: options_ok_def numbers_ok_def delims_ok_def peeks_ok_def req_ok_def
      default_options_def hash_keys_def INT_MAX_def LONG_MAX_def)

lemma then_p_Cont: "then_p m k = Cont b \<longleftrightarrow> (\<exists>a. m = Cont a \<and> k a = Cont b)"
  by (cases m) auto

lemma strtol_with_min_range: "strtol_with_min_or_exit s mn = Cont v \<Longrightarrow> mn \<le> v \<and> v \<le> LONG_MAX"
  using strtol_range [of s]
  by (auto simp: strtol_with_min_or_exit_def Let_def split: prod.splits if_splits)

lemma atoi_with_min_range: "atoi_with_min_or_exit s mn = Cont v \<Longrightarrow> mn \<le> v \<and> v \<le> INT_MAX"
  by (auto simp: atoi_with_min_or_exit_def then_p_Cont dest: strtol_with_min_range split: if_splits)

lemma hz_range: "1 \<le> v \<Longrightarrow> 0 \<le> 1000000000 div v \<and> 1000000000 div v \<le> (LONG_MAX :: int)"
  using zdiv_mono2 [of 1000000000 1 v] by (auto simp: LONG_MAX_def pos_imp_zdiv_nonneg_iff)

lemma fold_req_flag:
  "numbers_ok (fold req_flag s o') = numbers_ok o'" (is ?n)
  "delims_ok (fold req_flag s o') = delims_ok o'" (is ?d)
  "peeks_ok (fold req_flag s o') = peeks_ok o'" (is ?p)
proof -
  have "numbers_ok (req_flag c q) = numbers_ok q" "delims_ok (req_flag c q) = delims_ok q"
    "peeks_ok (req_flag c q) = peeks_ok q" for c q
    by (simp_all add: req_flag_def numbers_ok_def delims_ok_def peeks_ok_def)
  then show ?n ?d ?p by (induction s arbitrary: o') simp_all
qed

lemma fold_verbose_flag: "options_ok (fold verbose_flag s o') = options_ok o'"
proof -
  have "options_ok (verbose_flag c q) = options_ok q" for c q
    by (simp add: verbose_flag_def options_ok_def numbers_ok_def delims_ok_def peeks_ok_def req_ok_def)
  then show ?thesis by (induction s arbitrary: o') simp_all
qed

lemma varpeek_line_keys:
  "distinct (hash_keys m) \<and> (\<forall>k \<in> set (hash_keys m). length k < n) \<Longrightarrow> length key < n \<Longrightarrow>
   distinct (hash_keys (varpeek_line key name m)) \<and>
   (\<forall>k \<in> set (hash_keys (varpeek_line key name m)). length k < n)"
  by (auto simp: varpeek_line_def uth.keys_touch uth.distinct_touch split: if_splits)

text \<open>
  The loop over the lines in closed form. The counter is a \<^verbatim>\<open>uint32_t\<close>: it passes every end but
  the greatest.
\<close>

definition line_range :: "32 word \<Rightarrow> 32 word \<Rightarrow> 32 word list" where
  "line_range i j = map word_of_nat [unat i..<Suc (unat j)]"

lemma line_range_empty: "j < i \<Longrightarrow> line_range i j = []"
  by (simp add: line_range_def word_less_nat_alt)

lemma unat_line_Suc:
  assumes "i \<le> j" and "j \<noteq> (-1 :: 32 word)"
  shows "unat (i + 1) = unat i + 1"
proof -
  have "j < -1" using assms(2) by (simp add: order.not_eq_order_implies_strict)
  then have "unat j < unat (-1 :: 32 word)" by (simp add: word_less_nat_alt)
  moreover have "unat (-1 :: 32 word) = 2 ^ 32 - 1"
    by (simp add: unsigned_minus_1_eq_mask mask_eq_exp_minus_1)
  ultimately have "unat i + 1 < 2 ^ 32" using assms(1) by (simp add: word_le_nat_alt)
  then show ?thesis by (simp add: unat_word_ariths)
qed

lemma line_range_Cons:
  assumes "i \<le> j" and "j \<noteq> -1"
  shows "line_range i j = i # line_range (i + 1) j"
proof -
  have "unat i < Suc (unat j)" using assms(1) by (simp add: word_le_nat_alt)
  then show ?thesis
    unfolding line_range_def unat_line_Suc [OF assms] by (subst upt_conv_Cons) auto
qed

lemma varpeek_lines_Some:
  "j \<noteq> -1 \<Longrightarrow> varpeek_lines key name i j m =
    Some (fold (\<lambda>l. varpeek_line (key l) name) (line_range i j) m)"
proof (induction "unat j + 1 - unat i" arbitrary: i m)
  case 0
  then have "j < i" by (simp add: word_less_nat_alt)
  moreover from this have "\<not> i \<le> j" by simp
  ultimately show ?case by (subst varpeek_lines.simps) (simp add: line_range_empty)
next
  case (Suc n)
  then have "i \<le> j" by (simp add: word_le_nat_alt)
  have "n = unat j + 1 - unat (i + 1)"
    using Suc(2) unat_line_Suc [OF \<open>i \<le> j\<close> Suc.prems] by simp
  from Suc(1) [OF this Suc.prems] \<open>i \<le> j\<close> line_range_Cons [OF \<open>i \<le> j\<close> Suc.prems]
  show ?case by (subst varpeek_lines.simps) simp
qed

lemma varpeek_lines_None: "varpeek_lines key name i (-1) m = None"
proof -
  have "j \<noteq> -1" if "varpeek_lines key name i j m = Some y" for j y
    using that
    by (rule varpeek_lines.raw_induct [rotated]) (auto split: if_splits)
  then show ?thesis by (cases "varpeek_lines key name i (-1) m") auto
qed

lemma varpeek_lines_eq:
  "varpeek_lines key name i j m =
    (if j = -1 then None else Some (fold (\<lambda>l. varpeek_line (key l) name) (line_range i j) m))"
  by (simp add: varpeek_lines_Some varpeek_lines_None)

lemma fold_varpeek_keys:
  assumes "distinct (hash_keys m) \<and> (\<forall>k \<in> set (hash_keys m). length k < n)" and "\<And>l. length (key l) < n"
  shows "distinct (hash_keys (fold (\<lambda>l. varpeek_line (key l) name) ls m)) \<and>
    (\<forall>k \<in> set (hash_keys (fold (\<lambda>l. varpeek_line (key l) name) ls m)). length k < n)"
  using assms(1)
proof (induction ls arbitrary: m)
  case (Cons l ls)
  from Cons.IH [OF varpeek_line_keys [OF Cons.prems assms(2)]] show ?case by simp
qed simp

lemma varpeek_key_length: "length (varpeek_key prec file l) < PHPSPY_STR_SIZE"
  by (simp add: varpeek_key_def)

lemma varpeek_add_Cont:
  "varpeek_add spec m = Cont m' \<Longrightarrow>
    \<exists>prec file name i j. m' = fold (\<lambda>l. varpeek_line (varpeek_key prec file l) name) (line_range i j) m"
  by (auto simp: varpeek_add_def varpeek_lines_eq Let_def intro!: exI split: option.splits if_splits)

lemma varpeek_add_ok:
  assumes "varpeek_add spec m = Cont m'"
    and "distinct (hash_keys m) \<and> (\<forall>k \<in> set (hash_keys m). length k < PHPSPY_STR_SIZE)"
  shows "distinct (hash_keys m') \<and> (\<forall>k \<in> set (hash_keys m'). length k < PHPSPY_STR_SIZE)"
proof -
  obtain prec fl name i j where
    m': "m' = fold (\<lambda>l. varpeek_line (varpeek_key prec fl l) name) (line_range i j) m"
    using varpeek_add_Cont [OF assms(1)] by blast
  show ?thesis unfolding m' by (rule fold_varpeek_keys [OF assms(2) varpeek_key_length])
qed

lemma glopeek_gloname_length: "glopeek_gloname s n = Some g \<Longrightarrow> length g < PHPSPY_STR_SIZE"
  by (auto simp: glopeek_gloname_def split: if_splits)

lemma glopeek_add_ok:
  assumes "glopeek_add spec m = Cont m'"
    and "\<forall>g \<in> set m. length (ge_key g) < PHPSPY_STR_SIZE \<and>
        length (ge_gloname g) < PHPSPY_STR_SIZE \<and> length (ge_varname g) < PHPSPY_STR_SIZE"
  shows "\<forall>g \<in> set m'. length (ge_key g) < PHPSPY_STR_SIZE \<and>
        length (ge_gloname g) < PHPSPY_STR_SIZE \<and> length (ge_varname g) < PHPSPY_STR_SIZE"
  using assms(1)
  by (auto simp: glopeek_add_def split: option.splits if_splits)
    (use assms(2) in \<open>auto dest: glopeek_gloname_length\<close>)

lemmas options_ok_defs = options_ok_def numbers_ok_def delims_ok_def peeks_ok_def req_ok_def

lemma options_ok_neutral [simp]:
  "options_ok (o'\<lparr>opt_pgrep_args := a\<rparr>) = options_ok o'"
  "options_ok (o'\<lparr>opt_phpv := v\<rparr>) = options_ok o'"
  "options_ok (o'\<lparr>opt_capture_mem := b\<rparr>) = options_ok o'"
  "options_ok (o'\<lparr>opt_path_output := v\<rparr>) = options_ok o'"
  "options_ok (o'\<lparr>opt_path_child_out := v\<rparr>) = options_ok o'"
  "options_ok (o'\<lparr>opt_path_child_err := v\<rparr>) = options_ok o'"
  "options_ok (o'\<lparr>opt_executor_globals_addr := x\<rparr>) = options_ok o'"
  "options_ok (o'\<lparr>opt_sapi_globals_addr := x\<rparr>) = options_ok o'"
  "options_ok (o'\<lparr>opt_filter_re := a, opt_filter_negate := b\<rparr>) = options_ok o'"
  "options_ok (o'\<lparr>opt_continue_on_error := b\<rparr>) = options_ok o'"
  "options_ok (o'\<lparr>opt_quiet := b\<rparr>) = options_ok o'"
  "options_ok (o'\<lparr>opt_event_handler := h\<rparr>) = options_ok o'"
  "options_ok (o'\<lparr>opt_event_handler_opts := a\<rparr>) = options_ok o'"
  "options_ok (o'\<lparr>opt_pause := b\<rparr>) = options_ok o'"
  "options_ok (o'\<lparr>opt_top_mode := b\<rparr>) = options_ok o'"
  "options_ok (o'\<lparr>opt_libname_awk_patt := v\<rparr>) = options_ok o'"
  "options_ok (o'\<lparr>opt_peek_pdo := b\<rparr>) = options_ok o'"
  by (simp_all add: options_ok_defs)

lemma options_ok_number:
  assumes "options_ok o'"
  shows "1 \<le> v \<Longrightarrow> v \<le> INT_MAX \<Longrightarrow> options_ok (o'\<lparr>opt_pid := v\<rparr>)"
    and "1 \<le> v \<Longrightarrow> v \<le> INT_MAX \<Longrightarrow> options_ok (o'\<lparr>opt_num_workers := v\<rparr>)"
    and "0 \<le> v \<Longrightarrow> v \<le> LONG_MAX \<Longrightarrow> options_ok (o'\<lparr>opt_sleep_ns := v\<rparr>)"
    and "0 \<le> v \<Longrightarrow> v \<le> LONG_MAX \<Longrightarrow> options_ok (o'\<lparr>opt_time_limit_ms := v\<rparr>)"
    and "-1 \<le> v \<Longrightarrow> v \<le> INT_MAX \<Longrightarrow> options_ok (o'\<lparr>opt_max_stack_depth_from_leaf := v\<rparr>)"
    and "-1 \<le> v \<Longrightarrow> v \<le> INT_MAX \<Longrightarrow> options_ok (o'\<lparr>opt_max_stack_depth_from_root := v\<rparr>)"
    and "1 \<le> v \<Longrightarrow> v \<le> INT_MAX \<Longrightarrow> options_ok (o'\<lparr>opt_fout_buffer_size := v\<rparr>)"
    and "n < 2 ^ 64 \<Longrightarrow> options_ok (o'\<lparr>opt_trace_limit := n\<rparr>)"
    and "options_ok (o'\<lparr>opt_frame_delim := tab, opt_trace_delim := newline\<rparr>)"
  using assms by (simp_all add: options_ok_defs)

lemma options_ok_peeks:
  assumes "options_ok o'"
  shows "varpeek_add s (opt_varpeek_map o') = Cont m \<Longrightarrow> options_ok (o'\<lparr>opt_varpeek_map := m\<rparr>)"
    and "glopeek_add s (opt_glopeek_map o') = Cont g \<Longrightarrow> options_ok (o'\<lparr>opt_glopeek_map := g\<rparr>)"
proof goal_cases
  case 1
  from varpeek_add_ok [OF this] assms show ?case unfolding options_ok_defs by simp
next
  case 2
  from glopeek_add_ok [OF this] assms show ?case unfolding options_ok_defs by simp
qed

lemma options_ok_req:
  "options_ok o' \<Longrightarrow> options_ok (let o2 = fold req_flag s o'
      in o2\<lparr>opt_capture_req := opt_capture_req_qstring o2 \<or> opt_capture_req_cookie o2 \<or>
           opt_capture_req_uri o2 \<or> opt_capture_req_path o2\<rparr>)"
  using fold_req_flag [of s o'] by (simp add: options_ok_def delims_ok_def numbers_ok_def peeks_ok_def req_ok_def Let_def)

text \<open>Every branch of the \<^verbatim>\<open>switch\<close> leaves good options, or exits.\<close>

definition cont_all :: "('a \<Rightarrow> bool) \<Rightarrow> 'a parsed \<Rightarrow> bool" where
  "cont_all P r \<longleftrightarrow> (\<forall>a. r = Cont a \<longrightarrow> P a)"

lemma cont_all_intros:
  "P a \<Longrightarrow> cont_all P (Cont a)"
  "cont_all P (Exit n)"
  "cont_all P r \<Longrightarrow> cont_all P r' \<Longrightarrow> cont_all P (if b then r else r')"
  by (simp_all add: cont_all_def)

lemma cont_all_then: "(\<And>v. m = Cont v \<Longrightarrow> cont_all P (k v)) \<Longrightarrow> cont_all P (then_p m k)"
  by (auto simp: cont_all_def then_p_Cont)

lemma opt_case_ok:
  assumes "options_ok o'"
  shows "cont_all options_ok (opt_case regcomp c optarg o')"
proof -
  note nums = options_ok_number [OF assms] and peeks = options_ok_peeks [OF assms]
  have "cont_all options_ok (then_p (atoi_with_min_or_exit optarg mn) (\<lambda>v. Cont (f v)))"
    if "\<And>v. mn \<le> v \<Longrightarrow> v \<le> INT_MAX \<Longrightarrow> options_ok (f v)" for f mn
    using atoi_with_min_range that by (intro cont_all_then cont_all_intros) blast
  note atoi = this
  have "cont_all options_ok (then_p (strtol_with_min_or_exit optarg mn) (\<lambda>v. Cont (f v)))"
    if "\<And>v. mn \<le> v \<Longrightarrow> v \<le> LONG_MAX \<Longrightarrow> options_ok (f v)" for f mn
    using strtol_with_min_range that by (intro cont_all_then cont_all_intros) blast
  note strtol = this
  show ?thesis
    unfolding opt_case_def
    by (intro cont_all_intros(2,3);
        ((rule atoi, rule nums; simp)
        | (rule strtol, rule nums; simp add: hz_range)
        | (rule cont_all_then, rule cont_all_intros(1), erule peeks)
        | (rule cont_all_intros(1), simp add: assms fold_verbose_flag nums options_ok_req)
        | (rule cont_all_intros(1), rule nums, rule strtoull_range)))
qed

lemma parse_opts_ok:
  "options_ok o' \<Longrightarrow> cont_all options_ok (parse_opts regcomp args o')"
proof (induction args arbitrary: o')
  case (Cons ca args)
  obtain c a where "ca = (c, a)" by (cases ca)
  with opt_case_ok [OF Cons.prems, of regcomp c a] Cons.IH show ?case
    by (auto simp: cont_all_def then_p_Cont)
qed (simp add: cont_all_def)

text \<open>A numeric argument is read back: \<^verbatim>\<open>strtol_with_min_or_exit\<close> accepts the decimal text of
  every \<^verbatim>\<open>long\<close> not below the minimum and returns that number, and exits with status 1 below it.\<close>

lemma strtol_with_min_dec:
  "LONG_MIN \<le> i \<Longrightarrow> i \<le> LONG_MAX \<Longrightarrow>
    strtol_with_min_or_exit (dec_int i) mn = (if i < mn then Exit 1 else Cont i)"
  using strtol_dec_int [of i] dec_int_nonempty [of i, symmetric] by (simp add: strtol_with_min_or_exit_def)

lemma atoi_with_min_dec:
  assumes "LONG_MIN \<le> i" and "i \<le> LONG_MAX"
  shows "atoi_with_min_or_exit (dec_int i) mn = (if i < mn \<or> INT_MAX < i then Exit 1 else Cont i)"
  using strtol_with_min_dec [OF assms] by (simp add: atoi_with_min_or_exit_def)

subsection \<open>Properties\<close>

lemma demo_atoi: "atoi_with_min_or_exit (dec_int 100) 1 = Cont 100"
  using atoi_with_min_dec [of 100 1] by (simp add: LONG_MIN_def LONG_MAX_def INT_MAX_def)

lemma demo_parse:
  "parse_opts (\<lambda>_. True) [(Opt CHR ''b'', dec_int 100), (Opt CHR ''1'', []), (Opt CHR ''r'', ''uq'')] default_options =
    Cont (default_options\<lparr>opt_fout_buffer_size := 100, opt_frame_delim := tab,
      opt_capture_req := True, opt_capture_req_uri := True, opt_capture_req_qstring := True\<rparr>)"
  by (simp add: opt_case_def demo_atoi req_flag_def default_options_def Let_def)

text \<open>What \<^verbatim>\<open>strtol_with_min_or_exit\<close> rejects: the empty argument, and a number followed by
  anything, such as a unit.\<close>

lemma strtol_with_min_rejects:
  assumes "r \<noteq> []" and "digit_val 10 (hd r) = None"
  shows "strtol_with_min_or_exit [] mn = Exit 1 \<and> strtol_with_min_or_exit (dec_nat n @ r) mn = Exit 1"
proof
  show "strtol_with_min_or_exit [] mn = Exit 1"
    by (simp add: strtol_with_min_or_exit_def strtol_def strto_def Let_def)
  show "strtol_with_min_or_exit (dec_nat n @ r) mn = Exit 1"
    using strto_dec(1) [of r n] assms by (simp add: strtol_with_min_or_exit_def strtol_def)
qed

text \<open>The varspec of a variable over a range of lines.\<close>

definition varspec_range :: "string \<Rightarrow> string \<Rightarrow> nat \<Rightarrow> nat \<Rightarrow> string" where
  "varspec_range name path a b = name @ ''@'' @ path @ '':'' @ dec_nat a @ ''-'' @ dec_nat b"

lemma dec_nat_not_in: "CHR '':'' \<notin> set (dec_nat n)" "CHR ''-'' \<notin> set (dec_nat n)"
  using dec_nat_of_char [of _ n] by force+

lemma varpeek_add_range:
  assumes "CHR ''@'' \<notin> set name" and "a < 2 ^ 32" and "b < 2 ^ 32"
  shows "varpeek_add (varspec_range name path a b) m =
    (case varpeek_lines (varpeek_key (int (length path)) (path @ '':'' @ dec_nat a @ ''-'' @ dec_nat b)) name
            (word_of_nat a) (word_of_nat b) m of
       Some m' \<Rightarrow> Cont m' | None \<Rightarrow> Diverge)"
proof -
  let ?s = "varspec_range name path a b"
  let ?c = "length name + 1 + length path"
  have at: "find_from 0 CHR ''@'' ?s = Some (length name)"
    using find_from_append [OF assms(1), of 0] by (simp add: varspec_range_def)
  have colon: "rfind_from 0 CHR '':'' ?s = Some ?c"
    using rfind_from_append [of "CHR '':''" "dec_nat a @ ''-'' @ dec_nat b" 0 "name @ ''@'' @ path"]
      dec_nat_not_in by (simp add: varspec_range_def)
  have drop: "drop ?c ?s = '':'' @ dec_nat a @ ''-'' @ dec_nat b"
    by (simp add: varspec_range_def)
  have dash: "rfind_from ?c CHR ''-'' (drop ?c ?s) = Some (?c + 1 + length (dec_nat a))"
    unfolding drop
    using rfind_from_append [of "CHR ''-''" "dec_nat b" ?c "'':'' @ dec_nat a"] dec_nat_not_in by simp
  have "strtoull 10 (drop (?c + 1) ?s) = (a, ''-'' @ dec_nat b)"
    using strtoull_dec_nat [of "''-'' @ dec_nat b" a] assms(2)
    by (simp add: varspec_range_def digit_val_def)
  moreover have "drop (?c + 1 + length (dec_nat a) + 1) ?s = dec_nat b"
    using append_eq_conv_conj [of "name @ ''@'' @ path @ '':'' @ dec_nat a @ ''-''" "dec_nat b" ?s]
    by (simp add: varspec_range_def)
  then have "strtoull 10 (drop (?c + 1 + length (dec_nat a) + 1) ?s) = (b, [])"
    using strtoull_dec_nat [of "[]" b] assms(3) by simp
  ultimately show ?thesis
    unfolding varpeek_add_def at colon using dash
    by (simp add: Let_def varspec_range_def)
qed

lemma varpeek_line_new:
  assumes "key \<notin> set (hash_keys m)"
  shows "varpeek_line key name m = m @ [(key, [take (PHPSPY_STR_SIZE - 1) name])]"
proof -
  have "hash_find key m = None" using assms by (simp add: hash_find_None)
  moreover have "map (\<lambda>(k', v). (k', if k' = key then f v else v)) m = m" for f
    using assms by (intro map_idI) (auto simp: hash_keys_def image_iff)
  ultimately show ?thesis
    by (simp add: varpeek_line_def hash_touch_def hash_add_def hash_upd_def)
qed

text \<open>\<^verbatim>\<open>varpeek_add\<close> on a fresh table: the varspec \<^verbatim>\<open>name@path:a-b\<close> adds one entry per line of
  the range, in order, each peeking at the one variable.\<close>

lemma varpeek_add_table:
  assumes "CHR ''@'' \<notin> set name" and "length name < PHPSPY_STR_SIZE"
    and "NUL \<notin> set path" and "length path < PHPSPY_STR_SIZE - 11" and "a \<le> b" and "b < 2 ^ 31"
  shows "varpeek_add (varspec_range name path a b) [] =
    Cont (map (\<lambda>l. (path @ '':'' @ dec_nat l, [name])) [a..<Suc b])"
proof -
  let ?key = "varpeek_key (int (length path)) (path @ '':'' @ dec_nat a @ ''-'' @ dec_nat b)"
  have key: "?key (word_of_nat l) = path @ '':'' @ dec_nat l" if "l < 2 ^ 31" for l
  proof -
    have "sint (word_of_nat l :: 32 word) = int l"
      using that by (simp add: signed_of_nat signed_take_bit_int_eq_self)
    moreover have "length (dec_nat l) \<le> 10" using that by (intro length_dec_nat) auto
    ultimately show ?thesis
      using assms(3,4) by (simp add: varpeek_key_def fmt_iprec_s_def fmt_prec_s_def takeWhile_no_nul dec_int_def)
  qed
  have range: "line_range (word_of_nat a) (word_of_nat b) = map word_of_nat [a..<Suc b]"
    using assms(5,6) by (simp add: line_range_def unat_of_nat)
  have "fold (\<lambda>l. varpeek_line (?key l) name) (map word_of_nat [a..<c]) [] =
      map (\<lambda>l. (path @ '':'' @ dec_nat l, [name])) [a..<c]" if "a \<le> c" "c \<le> 2 ^ 31" for c
    using that
  proof (induction c rule: nat_induct_at_least)
    case (Suc c)
    let ?m = "map (\<lambda>l. (path @ '':'' @ dec_nat l, [name])) [a..<c]"
    have "path @ '':'' @ dec_nat c \<notin> set (hash_keys ?m)"
      by (auto simp: hash_keys_def dest: dec_nat_inj)
    moreover have "c < 2 ^ 31" using Suc.prems by simp
    note key [OF this]
    ultimately show ?case using Suc assms(2) by (simp add: varpeek_line_new)
  qed simp
  moreover have nmax: "word_of_nat b \<noteq> (- 1 :: 32 word)"
  proof
    assume "word_of_nat b = (- 1 :: 32 word)"
    then have "unat (word_of_nat b :: 32 word) = 2 ^ 32 - 1"
      by (simp add: unsigned_minus_1_eq_mask mask_eq_exp_minus_1)
    with assms(6) show False by (simp add: unat_of_nat)
  qed
  ultimately have "varpeek_lines ?key name (word_of_nat a) (word_of_nat b) [] =
      Some (map (\<lambda>l. (path @ '':'' @ dec_nat l, [name])) [a..<Suc b])"
    using assms(5,6) nmax by (simp add: varpeek_lines_eq range del: upt_Suc)
  with varpeek_add_range [OF assms(1), of a b path "[]"] assms(5,6) show ?thesis by simp
qed

text \<open>C40: A range that ends at the greatest line number never ends: the 32-bit counter of
  \<^verbatim>\<open>varpeek_add\<close> wraps around before it passes the end.\<close>

theorem varpeek_add_diverges:
  assumes "CHR ''@'' \<notin> set name" and "a < 2 ^ 32"
  shows "varpeek_add (varspec_range name path a (2 ^ 32 - 1)) m = Diverge"
proof -
  have "(word_of_nat (2 ^ 32 - 1) :: 32 word) = -1" by simp
  then show ?thesis
    using varpeek_add_range [OF assms, of "2 ^ 32 - 1" path m]
    by (simp only: varpeek_lines_None option.case) simp
qed

theorem varpeek_add_diverges_witness:
  "varpeek_add (varspec_range ''x'' ''/a.php'' 1 4294967295) [] = Diverge"
  using varpeek_add_diverges [of "''x''" 1 "''/a.php''" "[]"] by simp

text \<open>The global named in \<^verbatim>\<open>-g\<close> is recognised by a prefix of its name: \<^verbatim>\<open>glopeek_add\<close> takes any
  abbreviation, and the empty name for \<^verbatim>\<open>_POST\<close>.\<close>

lemma glopeek_gloname_prefix:
  assumes "CHR ''.'' \<notin> set n"
  shows "glopeek_gloname (n @ ''.'' @ key) (length n) =
    (if take (length n) ''post'' = n then Some ''_POST''
     else if take (length n) ''get'' = n then Some ''_GET''
     else if take (length n) ''cookie'' = n then Some ''_COOKIE''
     else if take (length n) ''server'' = n then Some ''_SERVER''
     else if take (length n) ''files'' = n then Some ''_FILES''
     else if take (length n) ''globals'' = n then Some []
     else None)"
proof -
  have "strncmp_eq (s @ ''.'') (n @ ''.'' @ key) (length n) \<longleftrightarrow> take (length n) s = n" for s
    using assms by (cases "length n \<le> length s") (auto simp: strncmp_eq_def)
  from this [of "''post''"] this [of "''get''"] this [of "''cookie''"] this [of "''server''"]
    this [of "''files''"] this [of "''globals''"]
  show ?thesis unfolding glopeek_gloname_def by simp
qed

end
