(* ===== verification/Trace.thy ===== *)
theory Trace
  imports Zend_Print Options
begin

text \<open>
  One trace: \<^verbatim>\<open>do_trace\<close> of \<^verbatim>\<open>phpspy_trace.c\<close> and the functions under it. The state is the
  \<^verbatim>\<open>trace_context\<close>: the target's addresses, the event records handed to the event handler, the
  handler's own data (\<open>event_udata\<close>, of a type the handler chooses) and the world that the
  system calls act on. \<open>cp\<close> is \<^verbatim>\<open>copy_proc_mem(context->target.pid, ...)\<close> and \<open>h\<close> the event
  handler \<^verbatim>\<open>context->event_handler\<close>.

  Character arrays are kept whole, 256 bytes each. When a print function fails, the C array may
  be left partly written; the model leaves it as it was, which no handler can see: every event
  record is written completely before the handler is called with it.
\<close>

subsection \<open>The context\<close>

datatype event_type =
    INIT | STACK_BEGIN | FRAME | VARPEEK | GLOPEEK | REQUEST | MEM | STACK_END | ERROR | DEINIT

record trace_frame =
  f_func :: string
  f_func_len :: nat
  f_class :: string
  f_class_len :: nat
  f_file :: string
  f_file_len :: nat
  f_lineno :: int
  f_depth :: int

record trace_request =
  r_uri :: string
  r_path :: string
  r_qstring :: string
  r_cookie :: string
  r_ts :: nat

record trace_mem =
  m_size :: nat
  m_peak :: nat

record trace_varpeek =
  vp_entry :: string
  vp_var :: string
  vp_str :: string
  vp_str_len :: nat

record trace_glopeek =
  gp_entry :: glopeek_entry
  gp_str :: string
  gp_str_len :: nat

record ('w, 'u) trace_context =
  tc_pid :: pid
  executor_globals_addr :: addr
  sapi_globals_addr :: addr
  alloc_globals_addr :: addr
  basic_functions_module_addr :: addr
  ev_frame :: trace_frame
  ev_request :: trace_request
  ev_mem :: trace_mem
  ev_varpeek :: trace_varpeek
  ev_glopeek :: trace_glopeek
  event_udata :: 'u
  tc_buf :: string
  tc_buf_len :: nat
  stack_ptrs :: "addr list"
  world :: 'w

type_synonym ('w, 'u, 'a) tfun = "(('w, 'u) trace_context, 'a) cfun"
type_synonym ('w, 'u) handler = "event_type \<Rightarrow> ('w, 'u, unit) tfun"

text \<open>A function that acts on the world only.\<close>

definition on_world :: "('w, 'a) cfun \<Rightarrow> ('w, 'u, 'a) tfun" where
  "on_world m s = (case m (world s) of (r, w') \<Rightarrow> (r, s\<lparr>world := w'\<rparr>))"

definition tmp_buf :: string where
  "tmp_buf = replicate PHPSPY_STR_SIZE NUL"

text \<open>\<^verbatim>\<open>len = snprintf(arr, sizeof(arr), ...)\<close> with a text that fits.\<close>

definition set_str :: "string \<Rightarrow> string \<Rightarrow> string" where
  "set_str b s = s @ NUL # drop (length s + 1) b"

definition int32_at :: "string \<Rightarrow> nat \<Rightarrow> int" where
  "int32_at bs off = sint (word_of_nat (fld bs off 4) :: 32 word)"

subsection \<open>Variables\<close>

definition emit_varpeek ::
  "('w, 'u) handler \<Rightarrow> string \<Rightarrow> string \<Rightarrow> string \<Rightarrow> nat \<Rightarrow> ('w, 'u, unit) tfun" where
  "emit_varpeek h entry var str n =
     try_c (modify (ev_varpeek_update (\<lambda>_. \<lparr> vp_entry = entry, vp_var = var, vp_str = str, vp_str_len = n \<rparr>)))
       (\<lambda>_. h VARPEEK)"

text \<open>The loop over the compiled variables; \<open>k\<close> are left, \<open>found\<close> have been found.\<close>

fun locals_loop ::
  "layout \<Rightarrow> 'w reader \<Rightarrow> nat \<Rightarrow> ('w, 'u) handler \<Rightarrow> addr \<Rightarrow> addr \<Rightarrow> string \<Rightarrow> string list
     \<Rightarrow> nat \<Rightarrow> nat \<Rightarrow> nat \<Rightarrow> string \<Rightarrow> ('w, 'u, unit) tfun" where
  "locals_loop L cp fuel h remote vars entry varmap i 0 found tmp = ok ()"
| "locals_loop L cp fuel h remote vars entry varmap i (Suc k) found tmp =
     try_c (on_world (cp (vars + of_nat (8 * i)) 8)) (\<lambda>zstrp.
     try_c (on_world (sprint_zstring L cp (ptr_at zstrp 0) tmp 0 PHPSPY_STR_SIZE)) (\<lambda>(tmp, tmp_len).
     let var = take tmp_len tmp in
     if var \<notin> set varmap then
       locals_loop L cp fuel h remote vars entry varmap (Suc i) k found tmp
     else
       try_c (on_world (cp (remote + of_nat ((frame_slot L + i) * sizeof_zval L)) (sizeof_zval L))) (\<lambda>zv.
       try_c (on_world (sprint_zval L cp fuel (zval_of L zv 0) tmp 0 PHPSPY_STR_SIZE)) (\<lambda>(tmp, tmp_len).
       try_c (emit_varpeek h entry var tmp tmp_len) (\<lambda>_.
       if length varmap \<le> found + 1 then ok ()
       else locals_loop L cp fuel h remote vars entry varmap (Suc i) k (found + 1) tmp)))))"

definition trace_locals ::
  "options \<Rightarrow> layout \<Rightarrow> 'w reader \<Rightarrow> nat \<Rightarrow> ('w, 'u) handler \<Rightarrow> string \<Rightarrow> addr \<Rightarrow> string \<Rightarrow> string \<Rightarrow> nat
     \<Rightarrow> ('w, 'u, unit) tfun" where
  "trace_locals opts L cp fuel h zop remote op_array file file_len =
     (let key = take (PHPSPY_STR_SIZE - 1)
                  (fmt_prec_s file_len file @ '':'' @ dec_int (int32_at zop (off_lineno L)))
      in case hash_find key (opt_varpeek_map opts) of
           None \<Rightarrow> ok ()
         | Some varmap \<Rightarrow>
             locals_loop L cp fuel h remote (ptr_at op_array (off_vars L)) key varmap
               0 (nat (int32_at op_array (off_last_var L))) 0 tmp_buf)"

definition pdo_name :: "trace_frame \<Rightarrow> string" where
  "pdo_name frame = fmt_prec_s 96 (f_class frame) @ ''::'' @ fmt_prec_s 96 (f_func frame)"

definition trace_pdo ::
  "layout \<Rightarrow> 'w reader \<Rightarrow> nat \<Rightarrow> ('w, 'u) handler \<Rightarrow> addr \<Rightarrow> string \<Rightarrow> trace_frame \<Rightarrow> ('w, 'u, unit) tfun" where
  "trace_pdo L cp fuel h remote exec frame =
     (let cls = c_str (f_class frame) 0; func = c_str (f_func frame) 0;
          is_stmt_execute = (cls = ''PDOStatement'' \<and> func = ''execute'');
          is_pdo_query_or_exec = (cls = ''PDO'' \<and> (func = ''query'' \<or> func = ''exec''));
          this = zval_of L exec (off_This L);
          num_args = unat (zv_next this);
          robj = zv_value this;
          arg0 = on_world (cp (remote + of_nat (5 * sizeof_zval L)) (sizeof_zval L))
      in
      if \<not> is_stmt_execute \<and> \<not> is_pdo_query_or_exec then ok ()
      else if is_stmt_execute then
        if zv_type this \<noteq> TYPE_OBJECT then rv 1
        else if robj = 0 then rv 1
        else
          try_c (on_world (cp robj (sizeof_zend_object L))) (\<lambda>lobj.
          let prop = zval_of L lobj (off_properties_table L) in
          try_c
            (if zv_type prop = TYPE_STRING then
               try_c (on_world (sprint_zstring L cp (zv_value prop) tmp_buf 0 PHPSPY_STR_SIZE)) (\<lambda>(b, n).
               try_c (emit_varpeek h (pdo_name frame) ''#pdo_sql'' b n) (\<lambda>_. ok b))
             else ok tmp_buf) (\<lambda>b.
          if num_args > 0 then
            try_c arg0 (\<lambda>zv.
            let first_arg = zval_of L zv 0 in
            if zv_type first_arg = TYPE_ARRAY then
              with_rv (on_world (sprint_zarray L cp (sprint_zval L cp fuel) (zv_value first_arg) b 0 PHPSPY_STR_SIZE))
                (\<lambda>r v. case v of
                   Some (b, n) \<Rightarrow>
                     if n > 0 then try_c (emit_varpeek h (pdo_name frame) ''#pdo_args'' b n) (\<lambda>_. rv 1) else rv 1
                 | None \<Rightarrow> rv 1)
            else rv 1)
          else
            try_c (on_world (cp (robj - of_nat (off_std L)) (sizeof_pdo_stmt L))) (\<lambda>lstmt.
            if ptr_at lstmt (off_bound_params L) \<noteq> 0 then
              with_rv (on_world (sprint_pdo_binds L cp fuel (ptr_at lstmt (off_bound_params L)) b 0 PHPSPY_STR_SIZE))
                (\<lambda>r v. case v of
                   Some (b, n) \<Rightarrow>
                     if n > 0 then try_c (emit_varpeek h (pdo_name frame) ''#pdo_args'' b n) (\<lambda>_. rv 1) else rv 1
                 | None \<Rightarrow> rv 1)
            else rv 1)))
      else if num_args < 1 then rv 1
      else
        try_c arg0 (\<lambda>zv.
        let first_arg = zval_of L zv 0 in
        if zv_type first_arg = TYPE_STRING then
          try_c (on_world (sprint_zstring L cp (zv_value first_arg) tmp_buf 0 PHPSPY_STR_SIZE)) (\<lambda>(b, n).
          try_c (emit_varpeek h (pdo_name frame) ''#pdo_sql'' b n) (\<lambda>_. rv 1))
        else rv 1))"

subsection \<open>The call stack\<close>

function stack_walk :: "layout \<Rightarrow> 'w reader \<Rightarrow> nat \<Rightarrow> addr \<Rightarrow> ('w, 'u, unit) tfun" where
  "stack_walk L cp n remote =
     (if remote = 0 then ok ()
      else if PHPSPY_MAX_STACK_WALK \<le> n then ok ()
      else
        try_c (modify (stack_ptrs_update (\<lambda>ps. ps @ [remote]))) (\<lambda>_.
        try_c (on_world (cp (remote + of_nat (off_prev_execute_data L)) 8)) (\<lambda>nxt.
        stack_walk L cp (Suc n) (ptr_at nxt 0))))"
  by pat_completeness auto

termination by (relation "measure (\<lambda>(L, cp, n, remote). PHPSPY_MAX_STACK_WALK - n)") auto

declare stack_walk.simps [simp del]

definition stack_collect :: "layout \<Rightarrow> 'w reader \<Rightarrow> addr \<Rightarrow> ('w, 'u, unit) tfun" where
  "stack_collect L cp remote =
     try_c (modify (stack_ptrs_update (\<lambda>_. []))) (\<lambda>_. stack_walk L cp 0 remote)"

definition set_func :: "string \<Rightarrow> nat \<Rightarrow> ('w, 'u, unit) tfun" where
  "set_func b n = modify (ev_frame_update (\<lambda>f. f\<lparr>f_func := b, f_func_len := n\<rparr>))"

definition set_class :: "string \<Rightarrow> nat \<Rightarrow> ('w, 'u, unit) tfun" where
  "set_class b n = modify (ev_frame_update (\<lambda>f. f\<lparr>f_class := b, f_class_len := n\<rparr>))"

definition set_file :: "string \<Rightarrow> nat \<Rightarrow> ('w, 'u, unit) tfun" where
  "set_file b n = modify (ev_frame_update (\<lambda>f. f\<lparr>f_file := b, f_file_len := n\<rparr>))"

definition set_lineno :: "int \<Rightarrow> ('w, 'u, unit) tfun" where
  "set_lineno l = modify (ev_frame_update (\<lambda>f. f\<lparr>f_lineno := l\<rparr>))"

definition set_depth :: "int \<Rightarrow> ('w, 'u, unit) tfun" where
  "set_depth d = modify (ev_frame_update (\<lambda>f. f\<lparr>f_depth := d\<rparr>))"

definition frame_func :: "layout \<Rightarrow> 'w reader \<Rightarrow> string \<Rightarrow> ('w, 'u, unit) tfun" where
  "frame_func L cp zfunc =
     get_s (\<lambda>s. let b = f_func (ev_frame s); nm = ptr_at zfunc (off_function_name L) in
       if nm \<noteq> 0 then
         try_c (on_world (sprint_zstring L cp nm b 0 PHPSPY_STR_SIZE)) (\<lambda>(b, n). set_func b n)
       else set_func (set_str b ''<main>'') (length ''<main>''))"

definition frame_class :: "layout \<Rightarrow> 'w reader \<Rightarrow> string \<Rightarrow> ('w, 'u, unit) tfun" where
  "frame_class L cp zfunc =
     get_s (\<lambda>s. let b = f_class (ev_frame s); scope = ptr_at zfunc (off_scope L) in
       if scope \<noteq> 0 then
         try_c (on_world (cp scope (sizeof_class_entry L))) (\<lambda>zce.
         try_c (on_world (sprint_zstring L cp (ptr_at zce (off_ce_name L)) b 0 PHPSPY_STR_SIZE)) (\<lambda>(b, n).
         set_class b n))
       else set_class (set_str b []) 0)"

definition frame_file ::
  "options \<Rightarrow> layout \<Rightarrow> 'w reader \<Rightarrow> nat \<Rightarrow> ('w, 'u) handler \<Rightarrow> addr \<Rightarrow> string \<Rightarrow> string \<Rightarrow> ('w, 'u, unit) tfun" where
  "frame_file opts L cp fuel h remote exec zfunc =
     get_s (\<lambda>s. let b = f_file (ev_frame s) in
       if fld zfunc (off_fn_type L) 1 = 2 then
         try_c (on_world (sprint_zstring L cp (ptr_at zfunc (off_filename L)) b 0 PHPSPY_STR_SIZE)) (\<lambda>(b, n).
         try_c (set_file b n) (\<lambda>_.
         try_c (set_lineno (int32_at zfunc (off_line_start L))) (\<lambda>_.
         with_rv (on_world (cp (ptr_at exec (off_opline L)) (sizeof_zend_op L))) (\<lambda>r zop_o.
         case zop_o of
           None \<Rightarrow> ok ()
         | Some zop \<Rightarrow>
             try_c (set_lineno (int32_at zop (off_lineno L))) (\<lambda>_.
             if opt_varpeek_map opts \<noteq> [] then
               with_rv (trace_locals opts L cp fuel h zop remote zfunc b n) (\<lambda>_ _. ok ())
             else ok ())))))
       else
         try_c (set_file (set_str b ''<internal>'') (length ''<internal>'')) (\<lambda>_.
         set_lineno (-1)))"

definition stack_emit_frame ::
  "options \<Rightarrow> layout \<Rightarrow> 'w reader \<Rightarrow> nat \<Rightarrow> ('w, 'u) handler \<Rightarrow> addr \<Rightarrow> nat \<Rightarrow> ('w, 'u, addr) tfun" where
  "stack_emit_frame opts L cp fuel h remote dep =
     try_c (on_world (cp remote (sizeof_execute_data L))) (\<lambda>exec.
     try_c (on_world (cp (ptr_at exec (off_func L)) (sizeof_zend_function L))) (\<lambda>zfunc.
     try_c (frame_func L cp zfunc) (\<lambda>_.
     try_c (frame_class L cp zfunc) (\<lambda>_.
     try_c (frame_file opts L cp fuel h remote exec zfunc) (\<lambda>_.
     try_c (set_depth (int dep)) (\<lambda>_.
     try_c (h FRAME) (\<lambda>_.
     try_c
       (if opt_peek_pdo opts then
          get_s (\<lambda>s. with_rv (trace_pdo L cp fuel h remote exec (ev_frame s)) (\<lambda>_ _. ok ()))
        else ok ()) (\<lambda>_.
     ok (ptr_at exec (off_prev_execute_data L))))))))))"

text \<open>\<^verbatim>\<open>trace_stack\<close> leaves \<^verbatim>\<open>*depth\<close> behind on errors too: its value is the status and the depth.\<close>

function trace_leaf ::
  "options \<Rightarrow> layout \<Rightarrow> 'w reader \<Rightarrow> nat \<Rightarrow> ('w, 'u) handler \<Rightarrow> nat \<Rightarrow> addr \<Rightarrow> ('w, 'u, int \<times> nat) tfun" where
  "trace_leaf opts L cp fuel h dep remote =
     (if remote = 0 \<or> int dep = opt_max_stack_depth_from_leaf opts then ok (PHPSPY_OK, dep)
      else if PHPSPY_MAX_STACK_WALK \<le> dep then ok (PHPSPY_OK, dep)
      else with_rv (stack_emit_frame opts L cp fuel h remote dep) (\<lambda>r nxt.
        case nxt of
          None \<Rightarrow> ok (r, dep)
        | Some nxt \<Rightarrow> trace_leaf opts L cp fuel h (Suc dep) nxt))"
  by pat_completeness auto

termination
  by (relation "measure (\<lambda>(opts, L, cp, fuel, h, dep, remote). PHPSPY_MAX_STACK_WALK - dep)") auto

declare trace_leaf.simps [simp del]

definition emit_elided :: "('w, 'u) handler \<Rightarrow> nat \<Rightarrow> int \<Rightarrow> ('w, 'u, unit) tfun" where
  "emit_elided h i num_elided =
     get_s (\<lambda>s. let f = ev_frame s; str = ''<elided:'' @ dec_int num_elided @ ''>'' in
     try_c (set_func (set_str (f_func f) str) (length str)) (\<lambda>_.
     try_c (set_class (set_str (f_class f) []) 0) (\<lambda>_.
     try_c (set_file (set_str (f_file f) ''<elided>'') (length ''<elided>'')) (\<lambda>_.
     try_c (set_lineno (-1)) (\<lambda>_.
     try_c (set_depth (int i)) (\<lambda>_.
     h FRAME))))))"

text \<open>The loop of the \<^verbatim>\<open>-N\<close> mode, over the collected pointers from index \<open>i\<close> on.\<close>

fun trace_outer ::
  "options \<Rightarrow> layout \<Rightarrow> 'w reader \<Rightarrow> nat \<Rightarrow> ('w, 'u) handler \<Rightarrow> int \<Rightarrow> int \<Rightarrow> int \<Rightarrow> nat \<Rightarrow> addr list
     \<Rightarrow> ('w, 'u, unit) tfun" where
  "trace_outer opts L cp fuel h keep_inner keep_outer_from num_elided i [] = ok ()"
| "trace_outer opts L cp fuel h keep_inner keep_outer_from num_elided i (p # ps) =
     try_c (if int i = keep_inner \<and> num_elided > 0 then emit_elided h i num_elided else ok ()) (\<lambda>_.
     try_c
       (if keep_inner \<le> int i \<and> int i < keep_outer_from then ok ()
        else try_c (stack_emit_frame opts L cp fuel h p i) (\<lambda>_. ok ())) (\<lambda>_.
     trace_outer opts L cp fuel h keep_inner keep_outer_from num_elided (Suc i) ps))"

definition trace_stack ::
  "options \<Rightarrow> layout \<Rightarrow> 'w reader \<Rightarrow> nat \<Rightarrow> ('w, 'u) handler \<Rightarrow> addr \<Rightarrow> ('w, 'u, int \<times> nat) tfun" where
  "trace_stack opts L cp fuel h remote =
     (if 0 \<le> opt_max_stack_depth_from_root opts then
        with_rv (stack_collect L cp remote) (\<lambda>r v.
        if v = None then ok (r, 0)
        else get_s (\<lambda>s.
          let total_depth = int (length (stack_ptrs s));
              root = opt_max_stack_depth_from_root opts;
              leaf = opt_max_stack_depth_from_leaf opts;
              keep_inner = (if 0 \<le> leaf then leaf else 0);
              keep_outer_from = (if keep_inner + root < total_depth then total_depth - root else keep_inner);
              num_elided = (if keep_inner + root < total_depth then keep_outer_from - keep_inner else 0)
          in with_rv (trace_outer opts L cp fuel h keep_inner keep_outer_from num_elided 0 (stack_ptrs s))
               (\<lambda>r v. if v = None then ok (r, 0) else ok (PHPSPY_OK, nat total_depth))))
      else trace_leaf opts L cp fuel h 0 remote)"

subsection \<open>Request, memory and globals\<close>

text \<open>One expansion of \<^verbatim>\<open>try_copy_sapi_global_field\<close>: 256 raw bytes, or \<^verbatim>\<open>"-"\<close>.\<close>

definition sapi_field ::
  "'w reader \<Rightarrow> bool \<Rightarrow> addr \<Rightarrow> ((string \<Rightarrow> string) \<Rightarrow> trace_request \<Rightarrow> trace_request)
     \<Rightarrow> ('w, 'u, unit) tfun" where
  "sapi_field cp opt p upd =
     (if opt \<and> p \<noteq> 0 then
        try_c (on_world (cp p PHPSPY_STR_SIZE)) (\<lambda>bytes.
        modify (ev_request_update (upd (\<lambda>_. bytes))))
      else modify (ev_request_update (upd (\<lambda>b. CHR ''-'' # NUL # drop 2 b))))"

definition trace_request_info ::
  "options \<Rightarrow> layout \<Rightarrow> 'w reader \<Rightarrow> ('w, 'u) handler \<Rightarrow> ('w, 'u, unit) tfun" where
  "trace_request_info opts L cp h =
     get_s (\<lambda>s.
     try_c (on_world (cp (sapi_globals_addr s) (sizeof_sapi_globals L))) (\<lambda>sg.
     try_c (sapi_field cp (opt_capture_req_qstring opts) (ptr_at sg (off_query_string L)) r_qstring_update) (\<lambda>_.
     try_c (sapi_field cp (opt_capture_req_cookie opts) (ptr_at sg (off_cookie_data L)) r_cookie_update) (\<lambda>_.
     try_c (sapi_field cp (opt_capture_req_uri opts) (ptr_at sg (off_request_uri L)) r_uri_update) (\<lambda>_.
     try_c (sapi_field cp (opt_capture_req_path opts) (ptr_at sg (off_path_translated L)) r_path_update) (\<lambda>_.
     try_c (modify (ev_request_update (r_ts_update (\<lambda>_. fld sg (off_global_request_time L) 8)))) (\<lambda>_.
     h REQUEST)))))))"

definition trace_memory_info :: "layout \<Rightarrow> 'w reader \<Rightarrow> ('w, 'u) handler \<Rightarrow> ('w, 'u, unit) tfun" where
  "trace_memory_info L cp h =
     get_s (\<lambda>s.
     try_c (on_world (cp (alloc_globals_addr s) (sizeof_alloc_globals L))) (\<lambda>ag.
     try_c (on_world (cp (ptr_at ag (off_mm_heap L)) (sizeof_mm_heap L))) (\<lambda>mm_heap.
     try_c (modify (ev_mem_update (\<lambda>_. \<lparr> m_size = fld mm_heap (off_mm_size L) 8,
                                         m_peak = fld mm_heap (off_mm_peak L) 8 \<rparr>))) (\<lambda>_.
     h MEM))))"

fun globals_loop ::
  "layout \<Rightarrow> 'w reader \<Rightarrow> nat \<Rightarrow> ('w, 'u) handler \<Rightarrow> addr \<Rightarrow> glopeek_entry list \<Rightarrow> ('w, 'u, unit) tfun" where
  "globals_loop L cp fuel h symtable [] = ok ()"
| "globals_loop L cp fuel h symtable (gentry # gs) =
     try_c
       (if ge_gloname gentry \<noteq> [] then
          try_c (on_world (copy_zarray_bucket L cp fuel symtable (ge_gloname gentry))) (\<lambda>lbucket.
          ok (zv_value (b_val lbucket)))
        else ok symtable) (\<lambda>garray.
     get_s (\<lambda>s.
     with_rv (on_world (sprint_zarray_val L cp fuel garray (ge_varname gentry) (tc_buf s) 0 PHPSPY_STR_SIZE)) (\<lambda>r v.
     try_c
       (case v of
          None \<Rightarrow> ok ()
        | Some (b, n) \<Rightarrow>
            try_c (modify (\<lambda>s. s\<lparr>tc_buf := b, tc_buf_len := n,
                ev_glopeek := \<lparr> gp_entry = gentry, gp_str = b, gp_str_len = n \<rparr>\<rparr>)) (\<lambda>_.
            h GLOPEEK)) (\<lambda>_.
     globals_loop L cp fuel h symtable gs))))"

definition trace_globals ::
  "options \<Rightarrow> layout \<Rightarrow> 'w reader \<Rightarrow> nat \<Rightarrow> ('w, 'u) handler \<Rightarrow> ('w, 'u, unit) tfun" where
  "trace_globals opts L cp fuel h =
     get_s (\<lambda>s. globals_loop L cp fuel h (executor_globals_addr s + of_nat (off_symbol_table L))
                  (opt_glopeek_map opts))"

subsection \<open>A whole trace\<close>

definition copy_executor_globals :: "layout \<Rightarrow> 'w reader \<Rightarrow> ('w, 'u, addr) tfun" where
  "copy_executor_globals L cp =
     get_s (\<lambda>s.
     try_c (on_world (cp (executor_globals_addr s) (sizeof_executor_globals L))) (\<lambda>eg.
     ok (ptr_at eg (off_current_execute_data L))))"

definition should_stop_trace :: "options \<Rightarrow> int \<Rightarrow> bool" where
  "should_stop_trace opts r \<longleftrightarrow>
     r AND PHPSPY_ERR_PID_DEAD \<noteq> 0 \<or> r AND PHPSPY_ERR_TRUNCATED \<noteq> 0 \<or>
     (r \<noteq> PHPSPY_OK \<and> \<not> opt_continue_on_error opts)"

text \<open>A section of \<^verbatim>\<open>do_trace\<close>: \<^verbatim>\<open>if (on) { rv |= m; if (should_stop_trace(rv)) goto end; }\<close>. The
  value is the status so far, and whether to go on.\<close>

definition trace_section ::
  "options \<Rightarrow> bool \<Rightarrow> ('w, 'u, unit) tfun \<Rightarrow> int \<Rightarrow> (int \<Rightarrow> ('w, 'u, int) tfun) \<Rightarrow> ('w, 'u, int) tfun" where
  "trace_section opts on m r k =
     (if on then
        with_rv m (\<lambda>r' _.
        let r2 = r OR r' in if should_stop_trace opts r2 then ok r2 else k r2)
      else k r)"

definition do_trace_end :: "options \<Rightarrow> ('w, 'u) handler \<Rightarrow> int \<Rightarrow> ('w, 'u, unit) tfun" where
  "do_trace_end opts h r =
     (if r = PHPSPY_OK \<or> opt_continue_on_error opts then h STACK_END else ret r)"

definition do_trace ::
  "options \<Rightarrow> layout \<Rightarrow> 'w reader \<Rightarrow> nat \<Rightarrow> ('w, 'u) handler \<Rightarrow> ('w, 'u, unit) tfun" where
  "do_trace opts L cp fuel h =
     try_c (copy_executor_globals L cp) (\<lambda>current_execute_data.
     try_c (h STACK_BEGIN) (\<lambda>_.
     try_c (trace_stack opts L cp fuel h current_execute_data) (\<lambda>(r, dep).
     try_c
       (if should_stop_trace opts r then ok r
        else if dep < 1 then ok r
        else
          trace_section opts (opt_capture_req opts) (trace_request_info opts L cp h) r (\<lambda>r.
          trace_section opts (opt_capture_mem opts) (trace_memory_info L cp h) r (\<lambda>r.
          trace_section opts (opt_glopeek_map opts \<noteq> []) (trace_globals opts L cp fuel h) r (\<lambda>r.
          ok r)))) (\<lambda>r.
     do_trace_end opts h r))))"

subsection \<open>The contract of an event handler\<close>

text \<open>The arrays of the context have their sizes, and the lengths stored beside them are inside.\<close>

definition frame_ok :: "trace_frame \<Rightarrow> bool" where
  "frame_ok f \<longleftrightarrow>
     length (f_func f) = PHPSPY_STR_SIZE \<and> f_func_len f < PHPSPY_STR_SIZE \<and>
     length (f_class f) = PHPSPY_STR_SIZE \<and> f_class_len f < PHPSPY_STR_SIZE \<and>
     length (f_file f) = PHPSPY_STR_SIZE \<and> f_file_len f < PHPSPY_STR_SIZE"

definition request_ok :: "trace_request \<Rightarrow> bool" where
  "request_ok r \<longleftrightarrow>
     length (r_uri r) = PHPSPY_STR_SIZE \<and> length (r_path r) = PHPSPY_STR_SIZE \<and>
     length (r_qstring r) = PHPSPY_STR_SIZE \<and> length (r_cookie r) = PHPSPY_STR_SIZE"

definition ctx_ok :: "('w, 'u) trace_context \<Rightarrow> bool" where
  "ctx_ok s \<longleftrightarrow>
     frame_ok (ev_frame s) \<and> request_ok (ev_request s) \<and>
     length (vp_str (ev_varpeek s)) = PHPSPY_STR_SIZE \<and> vp_str_len (ev_varpeek s) < PHPSPY_STR_SIZE \<and>
     length (gp_str (ev_glopeek s)) = PHPSPY_STR_SIZE \<and> gp_str_len (ev_glopeek s) < PHPSPY_STR_SIZE \<and>
     length (tc_buf s) = PHPSPY_STR_SIZE \<and> length (stack_ptrs s) \<le> PHPSPY_MAX_STACK_WALK"

text \<open>The strings of the request event end inside their arrays.\<close>

definition request_terminated :: "trace_request \<Rightarrow> bool" where
  "request_terminated r \<longleftrightarrow>
     NUL \<in> set (r_uri r) \<and> NUL \<in> set (r_path r) \<and> NUL \<in> set (r_qstring r) \<and> NUL \<in> set (r_cookie r)"

text \<open>A handler changes its own data and the world only.\<close>

definition handler_step :: "('w, 'u) trace_context \<Rightarrow> ('w, 'u) trace_context \<Rightarrow> bool" where
  "handler_step s s' \<longleftrightarrow> s' = s\<lparr>event_udata := event_udata s', world := world s'\<rparr>"

lemma handler_step_ctx_ok: "handler_step s s' \<Longrightarrow> ctx_ok s' = ctx_ok s"
  unfolding handler_step_def ctx_ok_def by (cases s; cases s') simp

lemma wp_on_world:
  "wp F (on_world m) Q E s =
     wp F m (\<lambda>a w'. Q a (s\<lparr>world := w'\<rparr>)) (\<lambda>r w'. E r (s\<lparr>world := w'\<rparr>)) (world s)"
  by (simp add: wp_def on_world_def split: prod.splits result.splits)

locale event_handler =
  fixes h :: "('w, 'u) handler" and I :: "'u \<Rightarrow> bool"
  assumes h_wp: "I (event_udata s) \<Longrightarrow> ctx_ok s \<Longrightarrow> e \<noteq> INIT \<Longrightarrow> e \<noteq> DEINIT \<Longrightarrow>
    (e = REQUEST \<Longrightarrow> request_terminated (ev_request s)) \<Longrightarrow>
    wp {} (h e) (\<lambda>_ s'. handler_step s s' \<and> I (event_udata s'))
      (\<lambda>_ s'. handler_step s s' \<and> I (event_udata s')) s"

locale tracer = mem_reader cp + event_handler h I
  for cp :: "'w reader" and h :: "('w, 'u) handler" and I :: "'u \<Rightarrow> bool"
begin

definition inv :: "('w, 'u) trace_context \<Rightarrow> bool" where
  "inv s \<longleftrightarrow> ctx_ok s \<and> I (event_udata s)"

text \<open>\<open>m\<close> keeps the invariant and yields values of \<open>P\<close>; of the faults it has only those two.\<close>

definition keeps :: "('w, 'u, 'a) tfun \<Rightarrow> ('a \<Rightarrow> bool) \<Rightarrow> bool" where
  "keeps m P \<longleftrightarrow> (\<forall>s. inv s \<longrightarrow>
     wp {OutOfFuel, DivByZero} m (\<lambda>a s'. inv s' \<and> P a) (\<lambda>_ s'. inv s') s)"

lemma keeps_basic:
  "P a \<Longrightarrow> keeps (ok a) P"
  "keeps (rv r) P"
  "(\<And>s. inv s \<Longrightarrow> inv (f s)) \<Longrightarrow> Q () \<Longrightarrow> keeps (modify f) Q"
  "Q () \<Longrightarrow> keeps (ret n) Q"
  by (simp_all add: keeps_def wp_basic)

lemma keeps_try: "keeps m P \<Longrightarrow> (\<And>a. P a \<Longrightarrow> keeps (k a) Q) \<Longrightarrow> keeps (try_c m k) Q"
  unfolding keeps_def wp_try by (blast intro: wp_mono)

lemma keeps_with_rv:
  "keeps m P \<Longrightarrow> (\<And>a. P a \<Longrightarrow> keeps (k 0 (Some a)) Q) \<Longrightarrow> (\<And>r. keeps (k r None) Q) \<Longrightarrow>
    keeps (with_rv m k) Q"
  unfolding keeps_def wp_with_rv by (blast intro: wp_mono)

lemma keeps_get: "(\<And>s. inv s \<Longrightarrow> keeps (g s) Q) \<Longrightarrow> keeps (get_s g) Q"
  by (simp add: keeps_def wp_get)

lemma keeps_if: "(b \<Longrightarrow> keeps m P) \<Longrightarrow> (\<not> b \<Longrightarrow> keeps m' P) \<Longrightarrow> keeps (if b then m else m') P"
  by simp

lemma inv_world [simp]: "inv (s\<lparr>world := w\<rparr>) = inv s"
  by (simp add: inv_def ctx_ok_def)

lemma keeps_cp: "keeps (on_world (cp a n)) (\<lambda>bs. length bs = n)"
  by (auto simp: keeps_def wp_on_world intro: cp_wpI)

definition str_ok :: "string \<times> nat \<Rightarrow> bool" where
  "str_ok = (\<lambda>(b, n). length b = PHPSPY_STR_SIZE \<and> n < PHPSPY_STR_SIZE)"

lemma keeps_print:
  assumes "prints {OutOfFuel, DivByZero} pr" and "length b = PHPSPY_STR_SIZE"
  shows "keeps (on_world (pr b 0 PHPSPY_STR_SIZE)) str_ok"
  unfolding keeps_def wp_on_world
  using assms(2) by (auto intro!: printsD [OF assms(1)] simp: str_ok_def within_length)

lemma keeps_printers:
  assumes "length b = PHPSPY_STR_SIZE"
  shows "keeps (on_world (sprint_zstring L cp a b 0 PHPSPY_STR_SIZE)) str_ok"
    and "keeps (on_world (sprint_zval L cp fuel zv b 0 PHPSPY_STR_SIZE)) str_ok"
    and "keeps (on_world (sprint_zarray L cp (sprint_zval L cp fuel) a b 0 PHPSPY_STR_SIZE)) str_ok"
    and "keeps (on_world (sprint_pdo_binds L cp fuel a b 0 PHPSPY_STR_SIZE)) str_ok"
    and "keeps (on_world (sprint_zarray_val L cp fuel a key b 0 PHPSPY_STR_SIZE)) str_ok"
  by (rule keeps_print [OF _ assms],
      rule sprint_zstring_prints prints_mono [OF sprint_zval_prints]
        prints_mono [OF value_printer.sprint_zarray_prints [OF value_printer_zval]]
        prints_mono [OF sprint_pdo_binds_prints] sprint_zarray_val_prints, simp?)+

lemma keeps_bucket: "keeps (on_world (copy_zarray_bucket L cp fuel a key)) (\<lambda>_. True)"
  unfolding keeps_def wp_on_world by (auto intro: wp_mono [OF copy_zarray_bucket_wp])

lemma keeps_h:
  assumes "e \<noteq> INIT" and "e \<noteq> DEINIT" and "e \<noteq> REQUEST"
  shows "keeps (h e) (\<lambda>_. True)"
proof -
  have "wp {} (h e) (\<lambda>_ s'. inv s') (\<lambda>_ s'. inv s') s" if "inv s" for s
    using h_wp [of s e] that assms handler_step_ctx_ok
    by (auto simp: inv_def elim!: wp_mono)
  then show ?thesis unfolding keeps_def by (auto intro: wp_fault_mono)
qed

end

lemma set_str_length: "length s < length b \<Longrightarrow> length (set_str b s) = length b"
  by (simp add: set_str_def)

context tracer
begin

lemma keeps_set:
  "length b = PHPSPY_STR_SIZE \<Longrightarrow> n < PHPSPY_STR_SIZE \<Longrightarrow> keeps (set_func b n) (\<lambda>_. True)"
  "length b = PHPSPY_STR_SIZE \<Longrightarrow> n < PHPSPY_STR_SIZE \<Longrightarrow> keeps (set_class b n) (\<lambda>_. True)"
  "length b = PHPSPY_STR_SIZE \<Longrightarrow> n < PHPSPY_STR_SIZE \<Longrightarrow> keeps (set_file b n) (\<lambda>_. True)"
  "keeps (set_lineno l) (\<lambda>_. True)"
  "keeps (set_depth d) (\<lambda>_. True)"
  unfolding set_func_def set_class_def set_file_def set_lineno_def set_depth_def
  by (rule keeps_basic; simp add: inv_def ctx_ok_def frame_ok_def)+

lemma keeps_emit_varpeek:
  "length b = PHPSPY_STR_SIZE \<Longrightarrow> n < PHPSPY_STR_SIZE \<Longrightarrow> keeps (emit_varpeek h entry var b n) (\<lambda>_. True)"
  unfolding emit_varpeek_def
  by (rule keeps_try [where P = "\<lambda>_. True"]) (auto intro!: keeps_basic keeps_h simp: inv_def ctx_ok_def)

lemma tmp_buf_length [simp]: "length tmp_buf = PHPSPY_STR_SIZE"
  by (simp add: tmp_buf_def)

lemma keeps_locals_loop:
  "length tmp = PHPSPY_STR_SIZE \<Longrightarrow>
    keeps (locals_loop L cp fuel h remote vars entry varmap i k found tmp) (\<lambda>_. True)"
proof (induction k arbitrary: i found tmp)
  case 0
  show ?case by (simp add: keeps_basic)
next
  case (Suc k)
  show ?case
    unfolding locals_loop.simps Let_def
    by (rule keeps_try [OF keeps_cp], rule keeps_try [OF keeps_printers(1) [OF Suc.prems]])
      (auto simp: str_ok_def intro!: Suc.IH keeps_basic keeps_try [OF keeps_cp]
        keeps_try [OF keeps_printers(2)] keeps_try [OF keeps_emit_varpeek])
qed

lemma keeps_trace_locals:
  "keeps (trace_locals opts L cp fuel h zop remote op_array fl n) (\<lambda>_. True)"
  unfolding trace_locals_def Let_def
  by (auto intro!: keeps_basic keeps_locals_loop split: option.splits)

lemma keeps_pdo_args:
  assumes "keeps m str_ok"
  shows "keeps (with_rv m (\<lambda>r v. case v of
       Some (b, n) \<Rightarrow>
         if n > 0 then try_c (emit_varpeek h entry var b n) (\<lambda>_. rv 1) else rv 1
     | None \<Rightarrow> rv 1)) (\<lambda>_. True)"
  by (rule keeps_with_rv [OF assms])
    (auto simp: str_ok_def intro!: keeps_basic keeps_try [OF keeps_emit_varpeek])

lemma keeps_trace_pdo: "keeps (trace_pdo L cp fuel h remote exec frame) (\<lambda>_. True)"
proof -
  have sql: "keeps (try_c (on_world (sprint_zstring L cp a tmp_buf 0 PHPSPY_STR_SIZE)) (\<lambda>(b, n).
      try_c (emit_varpeek h (pdo_name frame) ''#pdo_sql'' b n) (\<lambda>_. f b))) Q"
    if "\<And>b. length b = PHPSPY_STR_SIZE \<Longrightarrow> keeps (f b) Q" for a f and Q :: "'b \<Rightarrow> bool"
    by (rule keeps_try [OF keeps_printers(1)])
      (auto simp: str_ok_def intro!: keeps_try [OF keeps_emit_varpeek] that)
  have first: "keeps (if c then try_c (on_world (sprint_zstring L cp a tmp_buf 0 PHPSPY_STR_SIZE)) (\<lambda>(b, n).
      try_c (emit_varpeek h (pdo_name frame) ''#pdo_sql'' b n) (\<lambda>_. ok b)) else ok tmp_buf)
      (\<lambda>b. length b = PHPSPY_STR_SIZE)" for c a
    by (auto intro!: sql keeps_basic)
  show ?thesis
    unfolding trace_pdo_def Let_def
    by (intro keeps_if keeps_basic(1,2) TrueI keeps_try [OF keeps_cp] keeps_try [OF first]
        keeps_pdo_args keeps_printers sql)
qed

lemmas keeps_frame = keeps_set keeps_cp keeps_printers

lemma keeps_frame_func: "keeps (frame_func L cp zfunc) (\<lambda>_. True)"
  unfolding frame_func_def Let_def
  by (intro keeps_get keeps_if keeps_try [OF keeps_printers(1)])
    (auto simp: inv_def ctx_ok_def frame_ok_def str_ok_def set_str_length intro!: keeps_set)

lemma keeps_frame_class: "keeps (frame_class L cp zfunc) (\<lambda>_. True)"
  unfolding frame_class_def Let_def
  by (intro keeps_get keeps_if keeps_try [OF keeps_cp] keeps_try [OF keeps_printers(1)])
    (auto simp: inv_def ctx_ok_def frame_ok_def str_ok_def set_str_length intro!: keeps_set)

lemma keeps_frame_file: "keeps (frame_file opts L cp fuel h remote exec zfunc) (\<lambda>_. True)"
proof -
  have line: "keeps (with_rv (on_world (cp a n)) (\<lambda>r zop_o. case zop_o of
         None \<Rightarrow> ok ()
       | Some zop \<Rightarrow>
           try_c (set_lineno (int32_at zop off)) (\<lambda>_.
           if c then with_rv (trace_locals opts L cp fuel h zop remote zfunc b m) (\<lambda>_ _. ok ())
           else ok ()))) (\<lambda>_. True)" for a n off c b m
    by (rule keeps_with_rv [OF keeps_cp])
      (auto intro!: keeps_basic keeps_try [OF keeps_set(4)] keeps_with_rv [OF keeps_trace_locals])
  show ?thesis
    unfolding frame_file_def Let_def
    by (intro keeps_get keeps_if keeps_try [OF keeps_printers(1)])
      (auto simp: inv_def ctx_ok_def frame_ok_def str_ok_def set_str_length
        intro!: line keeps_set keeps_try [OF keeps_set(3)] keeps_try [OF keeps_set(4)])
qed

lemma keeps_stack_emit_frame: "keeps (stack_emit_frame opts L cp fuel h remote dep) (\<lambda>_. True)"
proof -
  have pdo: "keeps (if c then get_s (\<lambda>s. with_rv (trace_pdo L cp fuel h remote exec (ev_frame s)) (\<lambda>_ _. ok ()))
      else ok ()) (\<lambda>_. True)" for c exec
    by (intro keeps_if keeps_get keeps_with_rv [OF keeps_trace_pdo] keeps_basic TrueI)
  show ?thesis
    unfolding stack_emit_frame_def
    by (intro keeps_try [OF keeps_cp] keeps_try [OF keeps_frame_func] keeps_try [OF keeps_frame_class]
        keeps_try [OF keeps_frame_file] keeps_try [OF keeps_set(5)] keeps_try [OF keeps_h]
        keeps_try [OF pdo] keeps_basic TrueI) simp_all
qed

end

lemma elided_length: "length (''<elided:'' @ dec_int n @ ''>'') < PHPSPY_STR_SIZE"
  if "0 \<le> n" and "n \<le> int PHPSPY_MAX_STACK_WALK"
proof -
  have "length (dec_nat (nat n)) \<le> 4" by (rule length_dec_nat) (use that in auto)
  with that show ?thesis by (simp add: dec_int_def)
qed

context tracer
begin

lemma keeps_stack_walk:
  "inv s \<Longrightarrow> length (stack_ptrs s) = n \<Longrightarrow>
    wp {OutOfFuel, DivByZero} (stack_walk L cp n remote) (\<lambda>_ s'. inv s') (\<lambda>_ s'. inv s') s"
proof (induction "PHPSPY_MAX_STACK_WALK - n" arbitrary: n remote s)
  case 0
  then show ?case by (subst stack_walk.simps) (auto simp: wp_basic)
next
  case (Suc k)
  have IH: "wp {OutOfFuel, DivByZero} (stack_walk L cp (Suc (length (stack_ptrs s))) a)
      (\<lambda>_ s'. inv s') (\<lambda>_ s'. inv s') s'"
    if "inv s'" "length (stack_ptrs s') = Suc (length (stack_ptrs s))" for a s'
    by (rule Suc(1)) (use Suc(2,4) that in auto)
  have "inv (stack_ptrs_update (\<lambda>ps. ps @ [remote]) s)"
    using Suc(2-4) by (simp add: inv_def ctx_ok_def)
  then show ?case
    by (subst stack_walk.simps)
      (use Suc(3,4) in \<open>auto simp: wp_basic wp_try wp_on_world intro!: cp_wpI IH\<close>)
qed

lemma keeps_stack_collect: "keeps (stack_collect L cp remote) (\<lambda>_. True)"
proof -
  have "inv (stack_ptrs_update (\<lambda>_. []) s)" if "inv s" for s
    using that by (simp add: inv_def ctx_ok_def)
  then show ?thesis
    unfolding keeps_def stack_collect_def wp_try wp_basic by (auto intro!: keeps_stack_walk)
qed

lemma keeps_trace_leaf: "keeps (trace_leaf opts L cp fuel h dep remote) (\<lambda>_. True)"
proof (induction "PHPSPY_MAX_STACK_WALK - dep" arbitrary: dep remote)
  case 0
  then show ?case by (subst trace_leaf.simps) (auto intro!: keeps_basic)
next
  case (Suc k)
  have "keeps (trace_leaf opts L cp fuel h (Suc dep) a) (\<lambda>_. True)" for a
    by (rule Suc(1)) (use Suc(2) in auto)
  then show ?case
    by (subst trace_leaf.simps)
      (auto intro!: keeps_basic keeps_with_rv [OF keeps_stack_emit_frame])
qed

lemma keeps_emit_elided:
  assumes "0 \<le> n" and "n \<le> int PHPSPY_MAX_STACK_WALK"
  shows "keeps (emit_elided h i n) (\<lambda>_. True)"
  unfolding emit_elided_def Let_def
  using elided_length [OF assms]
  by (intro keeps_get keeps_try [OF keeps_set(1)] keeps_try [OF keeps_set(2)] keeps_try [OF keeps_set(3)]
      keeps_try [OF keeps_set(4)] keeps_try [OF keeps_set(5)] keeps_h)
    (auto simp: inv_def ctx_ok_def frame_ok_def set_str_length)

lemma keeps_trace_outer:
  assumes "num_elided \<le> int PHPSPY_MAX_STACK_WALK"
  shows "keeps (trace_outer opts L cp fuel h ki ko num_elided i ps) (\<lambda>_. True)"
proof (induction ps arbitrary: i)
  case Nil
  show ?case by (simp add: keeps_basic)
next
  case (Cons p ps)
  have "keeps (if c \<and> 0 < num_elided then emit_elided h i num_elided else ok ()) (\<lambda>_. True)" for c
    using assms by (auto intro!: keeps_emit_elided keeps_basic)
  moreover have "keeps (if c then ok () else try_c (stack_emit_frame opts L cp fuel h p i) (\<lambda>_. ok ())) (\<lambda>_. True)" for c
    by (intro keeps_if keeps_try [OF keeps_stack_emit_frame] keeps_basic TrueI)
  ultimately show ?case
    unfolding trace_outer.simps by (intro keeps_try Cons)
qed

end

context tracer
begin

lemma keeps_trace_stack: "keeps (trace_stack opts L cp fuel h remote) (\<lambda>_. True)"
  unfolding trace_stack_def Let_def
  by (intro keeps_if keeps_with_rv [OF keeps_stack_collect] keeps_get keeps_trace_leaf)
    (auto intro!: keeps_basic keeps_with_rv [OF keeps_trace_outer] simp: inv_def ctx_ok_def)

lemma keeps_trace_memory_info: "keeps (trace_memory_info L cp h) (\<lambda>_. True)"
proof -
  have "keeps (modify (ev_mem_update (\<lambda>_. m))) (\<lambda>_. True)" for m
    by (rule keeps_basic) (simp_all add: inv_def ctx_ok_def)
  then show ?thesis
    unfolding trace_memory_info_def
    by (intro keeps_get keeps_try [OF keeps_cp] keeps_try [of "modify f" for f] keeps_h) simp_all
qed

lemma keeps_globals_loop: "keeps (globals_loop L cp fuel h symtable gs) (\<lambda>_. True)"
proof (induction gs)
  case Nil
  show ?case by (simp add: keeps_basic)
next
  case (Cons g gs)
  have arr: "keeps (if c then try_c (on_world (copy_zarray_bucket L cp fuel symtable k)) (\<lambda>lb. ok (f lb))
      else ok symtable) (\<lambda>_. True)" for c k f
    by (intro keeps_if keeps_try [OF keeps_bucket] keeps_basic TrueI)
  have upd: "keeps (modify (\<lambda>s. s\<lparr>tc_buf := b, tc_buf_len := n,
      ev_glopeek := \<lparr> gp_entry = g, gp_str = b, gp_str_len = n \<rparr>\<rparr>)) (\<lambda>_. True)" if "str_ok (b, n)" for b n
    using that by (intro keeps_basic) (simp_all add: inv_def ctx_ok_def str_ok_def)
  have glo: "keeps (h GLOPEEK) (\<lambda>_. True)" by (rule keeps_h) simp_all
  show ?case
    unfolding globals_loop.simps
  proof (intro keeps_try [OF arr] keeps_get keeps_with_rv [OF keeps_printers(5)])
    fix s :: "('w, 'u) trace_context" assume "inv s"
    then show "length (tc_buf s) = PHPSPY_STR_SIZE" by (simp add: inv_def ctx_ok_def)
  next
    fix bn assume "str_ok bn"
    then show "keeps (try_c (case Some bn of None \<Rightarrow> ok ()
        | Some (b, n) \<Rightarrow> try_c (modify (\<lambda>s. s\<lparr>tc_buf := b, tc_buf_len := n,
            ev_glopeek := \<lparr> gp_entry = g, gp_str = b, gp_str_len = n \<rparr>\<rparr>)) (\<lambda>_. h GLOPEEK))
        (\<lambda>_. globals_loop L cp fuel h symtable gs)) (\<lambda>_. True)"
      by (cases bn) (auto intro!: keeps_try [OF keeps_try [OF upd glo]] Cons)
  next
    show "keeps (try_c (case None of None \<Rightarrow> ok ()
        | Some (b, n) \<Rightarrow> try_c (modify (\<lambda>s. s\<lparr>tc_buf := b, tc_buf_len := n,
            ev_glopeek := \<lparr> gp_entry = g, gp_str = b, gp_str_len = n \<rparr>\<rparr>)) (\<lambda>_. h GLOPEEK))
        (\<lambda>_. globals_loop L cp fuel h symtable gs)) (\<lambda>_. True)"
      by (auto intro!: keeps_try keeps_basic(1) Cons)
  qed
qed

lemma keeps_section:
  assumes "on \<Longrightarrow> keeps m (\<lambda>_. True)" and "\<And>r. keeps (k r) (\<lambda>_. True)"
  shows "keeps (trace_section opts on m r k) (\<lambda>_. True)"
  using assms unfolding trace_section_def Let_def
  by (auto intro!: keeps_with_rv [where P = "\<lambda>_. True"] keeps_basic)

lemma do_trace_keeps:
  assumes "\<not> opt_capture_req opts"
  shows "keeps (do_trace opts L cp fuel h) (\<lambda>_. True)"
proof -
  have eg: "keeps (copy_executor_globals L cp) (\<lambda>_. True)"
    unfolding copy_executor_globals_def by (intro keeps_get keeps_try [OF keeps_cp] keeps_basic TrueI)
  have fin: "keeps (do_trace_end opts h r) (\<lambda>_. True)" for r
    unfolding do_trace_end_def by (intro keeps_if keeps_h keeps_basic TrueI) simp_all
  have mid: "keeps (if c then ok r else if dep < 1 then ok r
        else
          trace_section opts (opt_capture_req opts) (trace_request_info opts L cp h) r (\<lambda>r.
          trace_section opts (opt_capture_mem opts) (trace_memory_info L cp h) r (\<lambda>r.
          trace_section opts (opt_glopeek_map opts \<noteq> []) (trace_globals opts L cp fuel h) r (\<lambda>r.
          ok r)))) (\<lambda>_. True)" for c r and dep :: nat
    using assms unfolding trace_globals_def
    by (intro keeps_if keeps_section keeps_basic TrueI keeps_trace_memory_info keeps_get keeps_globals_loop) simp
  show ?thesis
    unfolding do_trace_def
    by (rule keeps_try [OF eg], rule keeps_try [OF keeps_h], simp, simp, simp,
        rule keeps_try [OF keeps_trace_stack]) (auto intro!: keeps_try [OF mid] fin)
qed

end

end
