(* ===== verification/Zend_Value.thy ===== *)
theory Zend_Value
  imports Zend_Print
begin

text \<open>
  What the value printers promise. \<open>php_value\<close> is a PHP value as a tree, \<open>rep\<close> says that a
  \<^verbatim>\<open>zval\<close> and the memory it points into hold that tree, and \<open>show_value\<close> is the text of the
  tree. The theorem of this theory is the refinement: with room for the text, \<^verbatim>\<open>sprint_zval\<close>
  run on a process that holds still prints exactly that text. The depth of the tree bounds the
  fuel that the recursion needs.
\<close>

datatype php_value =
    PLong int
  | PDouble nat
  | PString string
  | PPacked "php_value option list"
  | PHash "(string option \<times> php_value) option list"

subsection \<open>The text of a value\<close>

fun join_comma :: "string list \<Rightarrow> string" where
  "join_comma [] = []"
| "join_comma [t] = t"
| "join_comma (t # u # ts) = t @ '','' @ join_comma (u # ts)"

definition packed_text :: "nat \<Rightarrow> string option \<Rightarrow> string" where
  "packed_text i e = (case e of None \<Rightarrow> [] | Some t \<Rightarrow> dec_int (int i) @ ''='' @ t)"

definition bucket_text :: "(string option \<times> string) option \<Rightarrow> string" where
  "bucket_text e =
     (case e of None \<Rightarrow> []
      | Some (None, t) \<Rightarrow> t
      | Some (Some k, t) \<Rightarrow> k @ ''='' @ t)"

definition elems_text :: "string list \<Rightarrow> string" where
  "elems_text ts = join_comma (filter (\<lambda>t. t \<noteq> []) ts)"

primrec show_value :: "php_value \<Rightarrow> string" where
  "show_value (PLong i) = dec_int i"
| "show_value (PDouble d) = fmt_f d"
| "show_value (PString s) = s"
| "show_value (PPacked xs) =
     (let ts = take PHPSPY_MAX_ARRAY_BUCKETS (map (map_option show_value) xs)
      in elems_text (map (\<lambda>i. packed_text i (ts ! i)) [0..<length ts]))"
| "show_value (PHash xs) =
     elems_text (map bucket_text
       (take PHPSPY_MAX_ARRAY_BUCKETS (map (map_option (map_prod id show_value)) xs)))"

primrec depth :: "php_value \<Rightarrow> nat" where
  "depth (PLong i) = 1"
| "depth (PDouble d) = 1"
| "depth (PString s) = 1"
| "depth (PPacked xs) =
     Suc (foldr max (map (case_option 0 id) (map (map_option depth) xs)) 0)"
| "depth (PHash xs) =
     Suc (foldr max (map (case_option 0 snd) (map (map_option (map_prod id depth)) xs)) 0)"

subsection \<open>Values in memory\<close>

definition zstring_at :: "layout \<Rightarrow> (addr \<Rightarrow> char) \<Rightarrow> addr \<Rightarrow> string \<Rightarrow> bool" where
  "zstring_at L m a s \<longleftrightarrow>
     a \<noteq> 0 \<and> a + of_nat (off_str_val L) \<noteq> 0 \<and>
     fld (bytes_at m a (sizeof_zend_string L)) (off_str_len L) 8 = length s \<and>
     bytes_at m (a + of_nat (off_str_val L)) (length s) = s"

definition key_at :: "layout \<Rightarrow> (addr \<Rightarrow> char) \<Rightarrow> addr \<Rightarrow> string option \<Rightarrow> bool" where
  "key_at L m a k \<longleftrightarrow>
     (case k of None \<Rightarrow> a = 0
      | Some s \<Rightarrow> zstring_at L m a s \<and> length s < PHPSPY_STR_SIZE \<and> NUL \<notin> set s)"

definition zarray_at :: "layout \<Rightarrow> (addr \<Rightarrow> char) \<Rightarrow> addr \<Rightarrow> bool \<Rightarrow> nat \<Rightarrow> addr \<Rightarrow> bool" where
  "zarray_at L m a packed n data \<longleftrightarrow>
     a \<noteq> 0 \<and> data \<noteq> 0 \<and>
     (let za = zend_array_of L (bytes_at m a (sizeof_zend_array L))
      in is_packed za = packed \<and> za_nNumUsed za = n \<and> za_arData za = data)"

definition packed_elem :: "layout \<Rightarrow> (addr \<Rightarrow> char) \<Rightarrow> addr \<Rightarrow> nat \<Rightarrow> nat \<Rightarrow> zval" where
  "packed_elem L m data k i = zval_of L (bytes_at m data (sizeof_zval L * k)) (i * sizeof_zval L)"

definition bucket_elem :: "layout \<Rightarrow> (addr \<Rightarrow> char) \<Rightarrow> addr \<Rightarrow> nat \<Rightarrow> nat \<Rightarrow> Bucket" where
  "bucket_elem L m data k i = bucket_of L (bytes_at m data (sizeof_Bucket L * k)) (i * sizeof_Bucket L)"

text \<open>The part of an array that is printed: at most \<^verbatim>\<open>PHPSPY_MAX_ARRAY_BUCKETS\<close> elements.\<close>

abbreviation shown :: "'a list \<Rightarrow> nat" where
  "shown xs \<equiv> min (length xs) PHPSPY_MAX_ARRAY_BUCKETS"

primrec rep :: "layout \<Rightarrow> (addr \<Rightarrow> char) \<Rightarrow> php_value \<Rightarrow> zval \<Rightarrow> bool" where
  "rep L m (PLong i) = (\<lambda>zv. zv_type zv = TYPE_LONG \<and> sint (zv_value zv) = i)"
| "rep L m (PDouble d) = (\<lambda>zv. zv_type zv = TYPE_DOUBLE \<and> unat (zv_value zv) = d)"
| "rep L m (PString s) = (\<lambda>zv. zv_type zv = TYPE_STRING \<and> zstring_at L m (zv_value zv) s)"
| "rep L m (PPacked xs) = (\<lambda>zv. zv_type zv = TYPE_ARRAY \<and>
     (let data = za_arData (zend_array_of L (bytes_at m (zv_value zv) (sizeof_zend_array L)))
      in zarray_at L m (zv_value zv) True (length xs) data \<and>
         list_all (\<lambda>(i, e).
             let z = packed_elem L m data (shown xs) i
             in case e of None \<Rightarrow> zv_type z = TYPE_UNDEF | Some r \<Rightarrow> zv_type z \<noteq> TYPE_UNDEF \<and> r z)
           (take PHPSPY_MAX_ARRAY_BUCKETS (enumerate 0 (map (map_option (rep L m)) xs)))))"
| "rep L m (PHash xs) = (\<lambda>zv. zv_type zv = TYPE_ARRAY \<and>
     (let data = za_arData (zend_array_of L (bytes_at m (zv_value zv) (sizeof_zend_array L)))
      in zarray_at L m (zv_value zv) False (length xs) data \<and>
         list_all (\<lambda>(i, e).
             let b = bucket_elem L m data (shown xs) i
             in case e of None \<Rightarrow> zv_type (b_val b) = TYPE_UNDEF
                | Some (k, r) \<Rightarrow> zv_type (b_val b) \<noteq> TYPE_UNDEF \<and> key_at L m (b_key b) k \<and> r (b_val b))
           (take PHPSPY_MAX_ARRAY_BUCKETS (enumerate 0 (map (map_option (map_prod id (rep L m))) xs)))))"

subsection \<open>Printing exactly a text\<close>

text \<open>The room a print function needs for a text: the comma after it and the terminator.\<close>

definition room :: "string \<Rightarrow> nat" where
  "room t = (if t = [] then 1 else length t + 2)"

definition holds :: "string \<Rightarrow> nat \<Rightarrow> string \<Rightarrow> bool" where
  "holds b p t \<longleftrightarrow> take (length t) (drop p b) = t"

definition prints_text :: "(string \<Rightarrow> nat \<Rightarrow> nat \<Rightarrow> ('w, string \<times> nat) cfun) \<Rightarrow> string \<Rightarrow> bool" where
  "prints_text pr t \<longleftrightarrow>
     (\<forall>b p sz w. room t \<le> sz \<longrightarrow> sz < 2 ^ 64 \<longrightarrow> p + sz \<le> length b \<longrightarrow>
        (\<exists>b'. pr b p sz w = (Ok (b', length t), w) \<and> within p sz b b' \<and> holds b' p t))"

lemma prints_textE:
  assumes "prints_text pr t" and "room t \<le> sz" and "sz < 2 ^ 64" and "p + sz \<le> length b"
  obtains b' where "pr b p sz w = (Ok (b', length t), w)" and "within p sz b b'" and "holds b' p t"
  using assms unfolding prints_text_def by blast

lemma room_pos: "0 < room t"
  by (simp add: room_def)

lemma room_length: "length t < room t"
  by (simp add: room_def)

lemma within_take: "within q n b b' \<Longrightarrow> k \<le> q \<Longrightarrow> take k b' = take k b"
  by (metis min.absorb1 take_take within_def)

lemma within_holds: "within q n b b' \<Longrightarrow> p + length t \<le> q \<Longrightarrow> holds b' p t = holds b p t"
  by (simp add: holds_def take_drop within_take)

lemma within_nth: "within q n b b' \<Longrightarrow> i < q \<Longrightarrow> b' ! i = b ! i"
  by (metis nth_take within_def)

lemma holds_iff: "holds b p t \<longleftrightarrow> (\<exists>r. drop p b = t @ r)"
  unfolding holds_def by (metis append_eq_conv_conj append_take_drop_id)

lemma holds_append: "holds b p (s @ t) \<longleftrightarrow> holds b p s \<and> holds b (p + length s) t"
proof -
  have *: "drop (p + length s) b = drop (length s) (drop p b)" by (simp add: add.commute)
  show ?thesis unfolding * holds_iff by (auto simp del: drop_drop)
qed

lemma holds_Cons: "holds b p (c # t) \<longleftrightarrow> holds b p [c] \<and> holds b (Suc p) t"
  using holds_append [of b p "[c]" t] by simp

lemma put_holds: "put b p t = Some b' \<Longrightarrow> holds b' p t"
  by (simp add: holds_def put_content)

lemma snprintf_holds: "snprintf_at b p sz t = Some b' \<Longrightarrow> length t < sz \<Longrightarrow> holds b' p t"
  using put_holds [of b p "t @ [NUL]" b'] by (simp add: snprintf_at_fits holds_append)

lemma join_comma_Cons: "join_comma (t # ts) = (if ts = [] then t else t @ '','' @ join_comma ts)"
  by (cases ts) auto

lemma elems_text_Nil [simp]: "elems_text [] = []"
  by (simp add: elems_text_def)

lemma elems_text_eq_Nil: "elems_text ts = [] \<longleftrightarrow> filter (\<lambda>t. t \<noteq> []) ts = []"
proof -
  have "join_comma us = [] \<longleftrightarrow> us = []" if "[] \<notin> set us" for us
    using that by (cases us) (auto simp: join_comma_Cons)
  then show ?thesis unfolding elems_text_def by fastforce
qed

lemma elems_text_Cons:
  "elems_text (t # ts) =
     (if t = [] then elems_text ts
      else if elems_text ts = [] then t else t @ '','' @ elems_text ts)"
  using elems_text_eq_Nil [of ts] by (auto simp: elems_text_def join_comma_Cons)

text \<open>The element loop prints the texts of its elements, separated by commas.\<close>

lemma sprint_elems_text:
  assumes "\<And>j. j < length ts \<Longrightarrow> prints_text (el (i + j)) (ts ! j)"
    and "obuf \<le> p" and "room (elems_text ts) \<le> sz" and "sz < 2 ^ 64" and "p + sz \<le> length b"
  shows "\<exists>b'. sprint_elems el obuf i (length ts) b p sz w =
      (Ok (b', if elems_text ts = [] \<and> obuf < p \<and> b ! (p - 1) = CHR '','' then p - 1 - obuf
               else p - obuf + length (elems_text ts)), w) \<and>
    within p sz b b' \<and> holds b' p (elems_text ts)"
  using assms
proof (induction ts arbitrary: i b p sz)
  case Nil
  then have "p - Suc 0 < length b" using room_pos [of "[]"] by (simp add: room_def)
  with Nil show ?case
    by (auto simp: sprint_elems_end_def run_simps holds_def)
next
  case (Cons t ts)
  have el: "prints_text (el i) t" using Cons.prems(1) [of 0] by simp
  have els: "prints_text (el (Suc i + j)) (ts ! j)" if "j < length ts" for j
    using Cons.prems(1) [of "Suc j"] that by simp
  have "room t \<le> sz" using Cons.prems(3) by (auto simp: elems_text_Cons room_def split: if_splits)
  with el Cons.prems(4,5) obtain b1 where
    b1: "el i b p sz w = (Ok (b1, length t), w)" "within p sz b b1" "holds b1 p t"
    by (elim prints_textE)
  have len1: "p + sz \<le> length b1" using b1(2) Cons.prems(5) by (simp add: within_length)
  show ?case
  proof (cases "t = []")
    case True
    have "obuf < p \<Longrightarrow> b1 ! (p - 1) = b ! (p - 1)" using b1(2) by (simp add: within_nth)
    moreover have "\<exists>b'. sprint_elems el obuf (Suc i) (length ts) b1 p sz w =
      (Ok (b', if elems_text ts = [] \<and> obuf < p \<and> b1 ! (p - 1) = CHR '','' then p - 1 - obuf
               else p - obuf + length (elems_text ts)), w) \<and>
      within p sz b1 b' \<and> holds b' p (elems_text ts)"
      by (rule Cons.IH [OF els]) (use Cons.prems True len1 in \<open>auto simp: elems_text_Cons\<close>)
    ultimately show ?thesis
      using True b1 within_trans [OF b1(2)] by (auto simp: elems_text_Cons)
  next
    case False
    define q where "q = p + length t"
    have sz: "length t + 2 \<le> sz" using \<open>room t \<le> sz\<close> False by (simp add: room_def)
    obtain b2 where b2: "put b1 q '','' = Some b2"
      using put_Some [of q "'',''" b1] len1 sz by (auto simp: q_def)
    have w2: "within q 1 b1 b2" using within_put [OF b2] by simp
    have len2: "q + 1 + (sz - length t - 1) \<le> length b2"
      using len1 within_length [OF w2] sz by (simp add: q_def)
    have comma: "b2 ! q = CHR '',''"
      using put_holds [OF b2] len2 by (auto simp: holds_def take_Suc_conv_app_nth hd_drop_conv_nth take_Suc split: if_splits)
    have "\<exists>b'. sprint_elems el obuf (Suc i) (length ts) b2 (q + 1) (sz - length t - 1) w =
      (Ok (b', if elems_text ts = [] \<and> obuf < q + 1 \<and> b2 ! (q + 1 - 1) = CHR '','' then q + 1 - 1 - obuf
               else q + 1 - obuf + length (elems_text ts)), w) \<and>
      within (q + 1) (sz - length t - 1) b2 b' \<and> holds b' (q + 1) (elems_text ts)"
      by (rule Cons.IH [OF els])
        (use Cons.prems False len2 sz in \<open>auto simp: elems_text_Cons q_def room_def split: if_splits\<close>)
    then obtain b3 where
      b3: "sprint_elems el obuf (Suc i) (length ts) b2 (q + 1) (sz - length t - 1) w =
          (Ok (b3, if elems_text ts = [] then q - obuf else q + 1 - obuf + length (elems_text ts)), w)"
        "within (q + 1) (sz - length t - 1) b2 b3" "holds b3 (q + 1) (elems_text ts)"
      using comma Cons.prems(2) by (auto simp: q_def)
    have "within p sz b b3"
      using b1(2) within_sub [OF w2, of p sz] within_sub [OF b3(2), of p sz] sz
      by (auto simp: q_def intro: within_trans)
    moreover have "holds b3 p t" and "holds b3 q '',''"
      using b1(3) put_holds [OF b2] w2 b3(2) by (simp_all add: within_holds q_def)
    moreover have "sz_minus sz (length t) = sz - length t"
      and "sz_minus (sz - length t) 1 = sz - length t - 1"
      using sz Cons.prems(4) sz_minus_ge [of 1 "sz - length t"] by (simp_all add: sz_minus_ge)
    ultimately show ?thesis
      using False b1(1) b2 b3 sz Cons.prems(2)
      by (auto simp: elems_text_Cons Let_def q_def holds_append holds_Cons [of _ _ _ "elems_text ts"] run_simps)
  qed
qed

subsection \<open>The value printers refine the text\<close>

lemma print_fmt_text:
  assumes "NUL \<notin> set t"
  shows "prints_text (print_fmt t) t"
  unfolding prints_text_def
proof (intro allI impI)
  fix b :: string and p sz :: nat and w :: 'w
  assume sz: "room t \<le> sz" "p + sz \<le> length b"
  then have l: "length t < sz" using room_length [of t] by simp
  obtain b' where b': "snprintf_at b p sz t = Some b'" using snprintf_at_Some sz(2) by blast
  have "c_strlen b' p = Some (length t)"
    using snprintf_at_c_str(2) [OF b' _ assms] l by simp
  with b' show "\<exists>b'. print_fmt t b p sz w = (Ok (b', length t), w) \<and> within p sz b b' \<and> holds b' p t"
    using within_snprintf [OF b'] snprintf_holds [OF b' l] by (simp add: print_fmt_def run_simps)
qed

lemma sprint_zstring_run:
  assumes "zstring_at L m a s" and l: "length s < sz" and sz: "p + sz \<le> length b"
  obtains b' where "sprint_zstring L (copy_proc_mem (still m) pid) a b p sz w = (Ok (b', length s), w)"
    and "within p sz b b'" and "holds b' p (s @ [NUL])"
proof -
  obtain b1 where b1: "put b p [NUL] = Some b1" using put_Some [of p "[NUL]" b] sz l by auto
  obtain b2 where b2: "put b1 p s = Some b2" using put_Some [of p s b1] sz l put_length [OF b1] by auto
  obtain b3 where b3: "put b2 (p + length s) [NUL] = Some b3"
    using put_Some [of "p + length s" "[NUL]" b2] sz l put_length [OF b1] put_length [OF b2] by auto
  have "sprint_zstring L (copy_proc_mem (still m) pid) a b p sz w = (Ok (b3, length s), w)"
    using assms b1 b2 b3 l
    by (simp add: sprint_zstring_def zstring_at_def copy_still run_simps Let_def)
  moreover have "within p sz b b3"
    using within_sub [OF within_put [OF b1], of p sz] within_sub [OF within_put [OF b2], of p sz]
      within_sub [OF within_put [OF b3], of p sz] l by (auto intro: within_trans)
  moreover have "holds b3 p (s @ [NUL])"
    using put_holds [OF b2] put_holds [OF b3] within_holds [OF within_put [OF b3]]
    by (simp add: holds_append)
  ultimately show ?thesis by (rule that)
qed

lemma holds_c_str: "holds b p (s @ [NUL]) \<Longrightarrow> NUL \<notin> set s \<Longrightarrow> c_str b p = s"
  by (auto simp: holds_iff c_str_def takeWhile_append)

lemma sprint_zstring_text:
  assumes "zstring_at L m a s"
  shows "prints_text (sprint_zstring L (copy_proc_mem (still m) pid) a) s"
  unfolding prints_text_def
proof (intro allI impI)
  fix b :: string and p sz :: nat and w
  assume sz: "room s \<le> sz" "p + sz \<le> length b"
  then have "length s < sz" using room_length [of s] by simp
  with assms sz(2) show "\<exists>b'. sprint_zstring L (copy_proc_mem (still m) pid) a b p sz w =
      (Ok (b', length s), w) \<and> within p sz b b' \<and> holds b' p s"
    by (elim sprint_zstring_run) (auto simp: holds_append)
qed

text \<open>A prefix, then the value.\<close>

lemma value_after_text:
  assumes "prints_text (pr) t" and "holds b p k" and "k \<noteq> []"
    and "room (k @ t) \<le> sz" and "sz < 2 ^ 64" and "p + sz \<le> length b"
  shows "\<exists>b'. try_c (pr b (p + length k) (sz_minus sz (length k))) (\<lambda>(b', n). ok (b', length k + n)) w =
      (Ok (b', length (k @ t)), w) \<and> within p sz b b' \<and> holds b' p (k @ t)"
proof -
  have s: "sz_minus sz (length k) = sz - length k"
    using assms(3-5) by (intro sz_minus_ge) (auto simp: room_def)
  have "room t \<le> sz - length k" and "sz - length k < 2 ^ 64"
    and "p + length k + (sz - length k) \<le> length b"
    using assms(3-6) by (auto simp: room_def)
  with assms(1) obtain b' where
    b': "pr b (p + length k) (sz - length k) w = (Ok (b', length t), w)"
      "within (p + length k) (sz - length k) b b'" "holds b' (p + length k) t"
    by (elim prints_textE)
  have "within p sz b b'"
    by (rule within_sub [OF b'(2)]) (use assms(3,4) in \<open>auto simp: room_def\<close>)
  moreover have "holds b' p (k @ t)"
    using b'(3) within_holds [OF b'(2)] assms(2) by (simp add: holds_append)
  ultimately show ?thesis using b'(1) s by (simp add: run_simps)
qed

lemma packed_elem_text:
  assumes "zv_type zv \<noteq> TYPE_UNDEF \<Longrightarrow> prints_text (pv zv) t"
  shows "prints_text (sprint_zarray_packed pv i zv)
    (packed_text i (if zv_type zv = TYPE_UNDEF then None else Some t))"
proof (cases "zv_type zv = TYPE_UNDEF")
  case True
  then show ?thesis
    by (simp add: prints_text_def sprint_zarray_packed_def packed_text_def run_simps holds_def)
next
  case False
  let ?k = "dec_int (int i) @ ''=''"
  have "\<exists>b'. sprint_zarray_packed pv i zv b p sz w = (Ok (b', length (?k @ t)), w) \<and>
      within p sz b b' \<and> holds b' p (?k @ t)"
    if sz: "room (?k @ t) \<le> sz" "sz < 2 ^ 64" "p + sz \<le> length b" for b p sz w
  proof -
    obtain b1 where b1: "snprintf_at b p sz ?k = Some b1" using snprintf_at_Some sz(3) by blast
    have l: "length ?k < sz" using sz(1) by (auto simp: room_def)
    have "holds b1 p ?k" by (rule snprintf_holds [OF b1 l])
    from value_after_text [where k = ?k, OF assms [OF False] this _ sz(1,2), of w] sz(3) snprintf_at_length [OF b1]
    obtain b' where b': "try_c (pv zv b1 (p + length ?k) (sz_minus sz (length ?k)))
        (\<lambda>(b', n). ok (b', length ?k + n)) w = (Ok (b', length (?k @ t)), w)"
      "within p sz b1 b'" "holds b' p (?k @ t)" by auto
    have "sprint_zarray_packed pv i zv b p sz w =
        try_c (pv zv b1 (p + length ?k) (sz_minus sz (length ?k))) (\<lambda>(b', n). ok (b', length ?k + n)) w"
      using False b1 l by (simp add: sprint_zarray_packed_def Let_def run_simps)
    with b' within_trans [OF within_snprintf [OF b1] b'(2)] show ?thesis by auto
  qed
  with False show ?thesis by (simp add: prints_text_def packed_text_def)
qed

lemma bucket_elem_text:
  assumes "zv_type (b_val bk) \<noteq> TYPE_UNDEF" and "prints_text (pv (b_val bk)) t"
    and "key_at L m (b_key bk) k"
  shows "prints_text (sprint_zarray_bucket L (copy_proc_mem (still m) pid) pv bk) (bucket_text (Some (k, t)))"
proof (cases k)
  case None
  then have "b_key bk = 0" using assms(3) by (simp add: key_at_def)
  have "\<exists>b'. sprint_zarray_bucket L (copy_proc_mem (still m) pid) pv bk b p sz w = (Ok (b', length t), w) \<and>
      within p sz b b' \<and> holds b' p t"
    if sz: "room t \<le> sz" "sz < 2 ^ 64" "p + sz \<le> length b" for b p sz w
  proof -
    have "sz_minus sz 0 = sz" using sz(2) by (simp add: sz_minus_ge)
    moreover obtain b' where "pv (b_val bk) b p sz w = (Ok (b', length t), w)"
      "within p sz b b'" "holds b' p t" using prints_textE [OF assms(2) sz] .
    ultimately show ?thesis using assms(1) \<open>b_key bk = 0\<close>
      by (simp add: sprint_zarray_bucket_def run_simps)
  qed
  with None show ?thesis by (simp add: prints_text_def bucket_text_def)
next
  case (Some s)
  let ?k = "s @ ''=''"
  have s: "zstring_at L m (b_key bk) s" "length s < PHPSPY_STR_SIZE" "NUL \<notin> set s"
    using assms(3) Some by (auto simp: key_at_def)
  have nz: "b_key bk \<noteq> 0" using s(1) by (simp add: zstring_at_def)
  have "\<exists>b'. sprint_zarray_bucket L (copy_proc_mem (still m) pid) pv bk b p sz w = (Ok (b', length (?k @ t)), w) \<and>
      within p sz b b' \<and> holds b' p (?k @ t)"
    if sz: "room (?k @ t) \<le> sz" "sz < 2 ^ 64" "p + sz \<le> length b" for b p sz w
  proof -
    obtain tk where tk: "sprint_zstring L (copy_proc_mem (still m) pid) (b_key bk)
        (replicate PHPSPY_STR_SIZE NUL) 0 PHPSPY_STR_SIZE w = (Ok (tk, length s), w)"
      "holds tk 0 (s @ [NUL])"
      by (rule sprint_zstring_run [OF s(1,2), of 0 "replicate PHPSPY_STR_SIZE NUL" pid w]) auto
    have c: "c_str tk 0 = s" by (rule holds_c_str [OF tk(2) s(3)])
    obtain b1 where b1: "snprintf_at b p sz ?k = Some b1" using snprintf_at_Some sz(3) by blast
    have l: "length s + 1 + 1 < sz" using sz(1) by (auto simp: room_def)
    have "holds b1 p ?k" by (rule snprintf_holds [OF b1]) (use l in auto)
    from value_after_text [where k = ?k, OF assms(2) this _ sz(1,2), of w] sz(3) snprintf_at_length [OF b1]
    obtain b' where b': "try_c (pv (b_val bk) b1 (p + length ?k) (sz_minus sz (length ?k)))
        (\<lambda>(b', n). ok (b', length ?k + n)) w = (Ok (b', length (?k @ t)), w)"
      "within p sz b1 b'" "holds b' p (?k @ t)" by auto
    have "sprint_zarray_bucket L (copy_proc_mem (still m) pid) pv bk b p sz w =
        try_c (pv (b_val bk) b1 (p + length ?k) (sz_minus sz (length ?k))) (\<lambda>(b', n). ok (b', length ?k + n)) w"
      using assms(1) nz b1 l tk(1) c
      by (simp add: sprint_zarray_bucket_def run_simps try_c_assoc)
    with b' within_trans [OF within_snprintf [OF b1] b'(2)] show ?thesis by auto
  qed
  with Some show ?thesis by (simp add: prints_text_def bucket_text_def)
qed

lemma bucket_undef_text:
  "zv_type (b_val bk) = TYPE_UNDEF \<Longrightarrow>
    prints_text (sprint_zarray_bucket L cp pv bk) (bucket_text None)"
  by (simp add: prints_text_def sprint_zarray_bucket_def bucket_text_def run_simps holds_def)

lemma elems_prints_text:
  assumes "\<And>j. j < length ts \<Longrightarrow> prints_text (el j) (ts ! j)"
  shows "prints_text (\<lambda>b p sz. sprint_elems el p 0 (length ts) b p sz) (elems_text ts)"
  unfolding prints_text_def
proof (intro allI impI)
  fix b :: string and p sz :: nat and w
  assume "room (elems_text ts) \<le> sz" "sz < 2 ^ 64" "p + sz \<le> length b"
  with sprint_elems_text [of ts el 0 p p sz b w] assms
  show "\<exists>b'. sprint_elems el p 0 (length ts) b p sz w = (Ok (b', length (elems_text ts)), w) \<and>
      within p sz b b' \<and> holds b' p (elems_text ts)" by simp
qed

lemma zarray_packed_text:
  assumes "zarray_at L m a True n data" and "length ts = min n PHPSPY_MAX_ARRAY_BUCKETS"
    and "\<And>i. i < length ts \<Longrightarrow>
      prints_text (sprint_zarray_packed pv i (packed_elem L m data (length ts) i)) (ts ! i)"
  shows "prints_text (sprint_zarray L (copy_proc_mem (still m) pid) pv a) (elems_text ts)"
proof -
  have "sprint_zarray L (copy_proc_mem (still m) pid) pv a b p sz w =
      sprint_elems (\<lambda>i. sprint_zarray_packed pv i (packed_elem L m data (length ts) i))
        p 0 (length ts) b p sz w" for b p sz w
    using assms(1,2)
    by (simp add: sprint_zarray_def zarray_at_def copy_still Let_def packed_elem_def)
  with elems_prints_text [of ts, OF assms(3)] show ?thesis by (simp add: prints_text_def)
qed

lemma zarray_bucket_text:
  assumes "zarray_at L m a False n data" and "length ts = min n PHPSPY_MAX_ARRAY_BUCKETS"
    and "\<And>i. i < length ts \<Longrightarrow>
      prints_text (sprint_zarray_bucket L (copy_proc_mem (still m) pid) pv
        (bucket_elem L m data (length ts) i)) (ts ! i)"
  shows "prints_text (sprint_zarray L (copy_proc_mem (still m) pid) pv a) (elems_text ts)"
proof -
  have "sprint_zarray L (copy_proc_mem (still m) pid) pv a b p sz w =
      sprint_elems (\<lambda>i. sprint_zarray_bucket L (copy_proc_mem (still m) pid) pv
        (bucket_elem L m data (length ts) i)) p 0 (length ts) b p sz w" for b p sz w
    using assms(1,2)
    by (simp add: sprint_zarray_def zarray_at_def copy_still Let_def bucket_elem_def)
  with elems_prints_text [of ts, OF assms(3)] show ?thesis by (simp add: prints_text_def)
qed

lemma foldr_max_ge: "x \<in> set xs \<Longrightarrow> x \<le> foldr max xs (0 :: nat)"
  by (induction xs) auto

lemma depth_packed: "Some v \<in> set xs \<Longrightarrow> depth v < depth (PPacked xs)"
  using foldr_max_ge [of "depth v" "map (case_option 0 id) (map (map_option depth) xs)"]
  by (force simp: less_Suc_eq_le)

lemma depth_hash: "Some (k, v) \<in> set xs \<Longrightarrow> depth v < depth (PHash xs)"
  using foldr_max_ge [of "depth v" "map (case_option 0 snd) (map (map_option (map_prod id depth)) xs)"]
  by (force simp: less_Suc_eq_le)

lemma list_all_enum:
  "list_all P (take n (enumerate 0 ys)) \<longleftrightarrow> (\<forall>i < min (length ys) n. P (i, ys ! i))"
  by (auto simp: list_all_length nth_enumerate_eq)

lemma rep_packedD:
  assumes "rep L m (PPacked xs) zv"
  shows "\<exists>data. zv_type zv = TYPE_ARRAY \<and> zarray_at L m (zv_value zv) True (length xs) data \<and>
    (\<forall>i < shown xs. case xs ! i of
        None \<Rightarrow> zv_type (packed_elem L m data (shown xs) i) = TYPE_UNDEF
      | Some v \<Rightarrow> zv_type (packed_elem L m data (shown xs) i) \<noteq> TYPE_UNDEF \<and>
          rep L m v (packed_elem L m data (shown xs) i))"
  using assms
  unfolding rep.simps Let_def list_all_enum
  by (intro exI [of _ "za_arData (zend_array_of L (bytes_at m (zv_value zv) (sizeof_zend_array L)))"])
      (simp add: case_prod_unfold cong: option.case_cong)

lemma rep_hashD:
  assumes "rep L m (PHash xs) zv"
  shows "\<exists>data. zv_type zv = TYPE_ARRAY \<and> zarray_at L m (zv_value zv) False (length xs) data \<and>
    (\<forall>i < shown xs. case xs ! i of
        None \<Rightarrow> zv_type (b_val (bucket_elem L m data (shown xs) i)) = TYPE_UNDEF
      | Some (k, v) \<Rightarrow> zv_type (b_val (bucket_elem L m data (shown xs) i)) \<noteq> TYPE_UNDEF \<and>
          key_at L m (b_key (bucket_elem L m data (shown xs) i)) k \<and>
          rep L m v (b_val (bucket_elem L m data (shown xs) i)))"
  using assms
  unfolding rep.simps Let_def list_all_enum
  by (intro exI [of _ "za_arData (zend_array_of L (bytes_at m (zv_value zv) (sizeof_zend_array L)))"])
      (simp add: case_prod_unfold cong: option.case_cong)

lemma sprint_zval_text:
  "rep L m v zv \<Longrightarrow> depth v \<le> fuel \<Longrightarrow>
    prints_text (sprint_zval L (copy_proc_mem (still m) pid :: 'w reader) fuel zv) (show_value v)"
proof (induction v arbitrary: zv fuel)
  case (PLong i)
  then show ?case
    using print_fmt_text [OF dec_int_no_nul, of i] by (cases fuel) (auto simp: prints_text_def)
next
  case (PDouble d)
  then show ?case
    using print_fmt_text [OF fmt_f_no_nul, of d] by (cases fuel) (auto simp: prints_text_def)
next
  case (PString s)
  then show ?case
    using sprint_zstring_text [of L m "zv_value zv" s pid] by (cases fuel) (auto simp: prints_text_def)
next
  case (PPacked xs)
  obtain f where f: "fuel = Suc f" using PPacked.prems by (cases fuel) auto
  from PPacked.prems(1) obtain data where d: "zv_type zv = TYPE_ARRAY"
    "zarray_at L m (zv_value zv) True (length xs) data"
    "\<And>i. i < shown xs \<Longrightarrow> case xs ! i of
        None \<Rightarrow> zv_type (packed_elem L m data (shown xs) i) = TYPE_UNDEF
      | Some v \<Rightarrow> zv_type (packed_elem L m data (shown xs) i) \<noteq> TYPE_UNDEF \<and>
          rep L m v (packed_elem L m data (shown xs) i)"
    using rep_packedD by meson
  define ts where "ts = map (\<lambda>i. packed_text i (map_option show_value (xs ! i))) [0..<shown xs]"
  have sv: "show_value (PPacked xs) = elems_text ts"
    by (auto simp: ts_def Let_def intro!: arg_cong [where f = elems_text])
  have "prints_text (sprint_zarray L (copy_proc_mem (still m) pid :: 'w reader)
      (sprint_zval L (copy_proc_mem (still m) pid :: 'w reader) f) (zv_value zv)) (elems_text ts)"
  proof (rule zarray_packed_text [OF d(2)])
    fix i assume "i < length ts"
    then have i: "i < shown xs" by (simp add: ts_def)
    let ?z = "packed_elem L m data (length ts) i"
    have l: "length ts = shown xs" by (simp add: ts_def)
    have "prints_text (sprint_zval L (copy_proc_mem (still m) pid :: 'w reader) f ?z) (show_value v)"
      if v: "xs ! i = Some v" for v
    proof (rule PPacked.IH)
      show in_xs: "Some v \<in> set xs" using v i by (metis min_less_iff_conj nth_mem)
      show "depth v \<le> f" using depth_packed [OF in_xs] PPacked.prems(2) f by simp
      show "rep L m v ?z" using d(3) [OF i] v l by simp
    qed simp
    with d(3) [OF i] l
      packed_elem_text [of ?z "sprint_zval L (copy_proc_mem (still m) pid :: 'w reader) f" "show_value (the (xs ! i))" i]
    show "prints_text (sprint_zarray_packed (sprint_zval L (copy_proc_mem (still m) pid :: 'w reader) f) i ?z) (ts ! i)"
      using i by (auto simp: ts_def split: option.splits)
  qed (simp add: ts_def)
  with d(1) show ?case unfolding f sv prints_text_def by simp
next
  case (PHash xs)
  obtain f where f: "fuel = Suc f" using PHash.prems by (cases fuel) auto
  from PHash.prems(1) obtain data where d: "zv_type zv = TYPE_ARRAY"
    "zarray_at L m (zv_value zv) False (length xs) data"
    "\<And>i. i < shown xs \<Longrightarrow> case xs ! i of
        None \<Rightarrow> zv_type (b_val (bucket_elem L m data (shown xs) i)) = TYPE_UNDEF
      | Some (k, v) \<Rightarrow> zv_type (b_val (bucket_elem L m data (shown xs) i)) \<noteq> TYPE_UNDEF \<and>
          key_at L m (b_key (bucket_elem L m data (shown xs) i)) k \<and>
          rep L m v (b_val (bucket_elem L m data (shown xs) i))"
    using rep_hashD by meson
  define ts where "ts = map (\<lambda>i. bucket_text (map_option (map_prod id show_value) (xs ! i))) [0..<shown xs]"
  have sv: "show_value (PHash xs) = elems_text ts"
    by (auto simp: ts_def intro!: arg_cong [where f = elems_text] nth_equalityI)
  have "prints_text (sprint_zarray L (copy_proc_mem (still m) pid :: 'w reader)
      (sprint_zval L (copy_proc_mem (still m) pid :: 'w reader) f) (zv_value zv)) (elems_text ts)"
  proof (rule zarray_bucket_text [OF d(2)])
    fix i assume "i < length ts"
    then have i: "i < shown xs" by (simp add: ts_def)
    let ?b = "bucket_elem L m data (length ts) i"
    have l: "length ts = shown xs" by (simp add: ts_def)
    have "prints_text (sprint_zval L (copy_proc_mem (still m) pid :: 'w reader) f (b_val ?b)) (show_value v)"
      if v: "xs ! i = Some (k, v)" for k v
    proof (rule PHash.IH)
      show in_xs: "Some (k, v) \<in> set xs" using v i by (metis min_less_iff_conj nth_mem)
      show "depth v \<le> f" using depth_hash [OF in_xs] PHash.prems(2) f by simp
      show "rep L m v (b_val ?b)" using d(3) [OF i] v l by simp
    qed auto
    with d(3) [OF i] l
    show "prints_text (sprint_zarray_bucket L (copy_proc_mem (still m) pid :: 'w reader)
        (sprint_zval L (copy_proc_mem (still m) pid :: 'w reader) f) ?b) (ts ! i)"
      using i by (auto simp: ts_def intro!: bucket_undef_text bucket_elem_text split: option.splits)
  qed (simp add: ts_def)
  with d(1) show ?case unfolding f sv prints_text_def by simp
qed

subsection \<open>Looking up a key\<close>

text \<open>
  A collision chain in memory: from index \<open>i\<close> of the table at \<open>data\<close> the links lead through the
  buckets of \<open>ch\<close>, each with its string key, to the end mark.
\<close>

fun chain_at :: "layout \<Rightarrow> (addr \<Rightarrow> char) \<Rightarrow> addr \<Rightarrow> nat \<Rightarrow> (string \<times> Bucket) list \<Rightarrow> bool" where
  "chain_at L m data i [] \<longleftrightarrow> i = 2 ^ 32 - 1"
| "chain_at L m data i ((k, bk) # ch) \<longleftrightarrow>
     i \<noteq> 2 ^ 32 - 1 \<and> data + of_nat (i * sizeof_Bucket L) \<noteq> 0 \<and>
     bucket_of L (bytes_at m (data + of_nat (i * sizeof_Bucket L)) (sizeof_Bucket L)) 0 = bk \<and>
     key_at L m (b_key bk) (Some k) \<and>
     chain_at L m data (unat (zv_next (b_val bk))) ch"

lemma bucket_chain_lookup:
  "chain_at L m data i ch \<Longrightarrow> length ch < fuel \<Longrightarrow>
    bucket_chain L (copy_proc_mem (still m) pid) fuel data key i w =
      (case map_of ch key of None \<Rightarrow> Rv PHPSPY_ERR | Some bk \<Rightarrow> Ok bk, w)"
proof (induction ch arbitrary: i fuel)
  case Nil
  then show ?case by (cases fuel) (auto simp: run_simps)
next
  case (Cons kb ch)
  obtain k bk where kb: "kb = (k, bk)" by (cases kb)
  obtain f where f: "fuel = Suc f" "length ch < f" using Cons.prems(2) by (cases fuel) auto
  have key: "key_at L m (b_key bk) (Some k)" using Cons.prems(1) kb by simp
  then have k: "zstring_at L m (b_key bk) k" "length k < PHPSPY_STR_SIZE" "NUL \<notin> set k"
    by (simp_all add: key_at_def)
  obtain tk where tk: "sprint_zstring L (copy_proc_mem (still m) pid) (b_key bk)
      (replicate PHPSPY_STR_SIZE NUL) 0 PHPSPY_STR_SIZE w = (Ok (tk, length k), w)"
    "holds tk 0 (k @ [NUL])"
    by (rule sprint_zstring_run [OF k(1,2), of 0 "replicate PHPSPY_STR_SIZE NUL" pid w]) auto
  have "c_str tk 0 = k" by (rule holds_c_str [OF tk(2) k(3)])
  moreover have "b_key bk \<noteq> 0" using k(1) by (simp add: zstring_at_def)
  moreover have "bucket_chain L (copy_proc_mem (still m) pid) f data key (unat (zv_next (b_val bk))) w =
      (case map_of ch key of None \<Rightarrow> Rv PHPSPY_ERR | Some bk \<Rightarrow> Ok bk, w)"
    by (rule Cons.IH) (use Cons.prems(1) kb f(2) in auto)
  ultimately show ?case
    using Cons.prems(1) kb f(1) tk(1) by (auto simp: copy_still run_simps Let_def)
qed

text \<open>The first link of the chain that the key's hash selects.\<close>

definition hash_slot :: "layout \<Rightarrow> zend_array \<Rightarrow> string \<Rightarrow> addr" where
  "hash_slot L za key =
     (let n = unat (- za_nTableMask za)
      in za_arData za - of_nat (4 * n)
         + of_nat (4 * (unat (phpspy_zend_inline_hash_func (char_signed L) key) mod n)))"

definition table_at :: "layout \<Rightarrow> (addr \<Rightarrow> char) \<Rightarrow> addr \<Rightarrow> string \<Rightarrow> (string \<times> Bucket) list \<Rightarrow> bool" where
  "table_at L m a key ch \<longleftrightarrow>
     (let za = zend_array_of L (bytes_at m a (sizeof_zend_array L)); slot = hash_slot L za key
      in a \<noteq> 0 \<and> za_nTableMask za \<noteq> 0 \<and> slot \<noteq> 0 \<and>
         chain_at L m (za_arData za) (fld (bytes_at m slot 4) 0 4) ch)"

lemma copy_zarray_bucket_lookup:
  assumes "table_at L m a key ch" and "length ch < fuel"
  shows "copy_zarray_bucket L (copy_proc_mem (still m) pid) fuel a key w =
    (case map_of ch key of None \<Rightarrow> Rv PHPSPY_ERR | Some bk \<Rightarrow> Ok bk, w)"
  using assms
  by (simp add: table_at_def copy_zarray_bucket_def hash_slot_def Let_def copy_still
      bucket_chain_lookup)

text \<open>A chain that leads back to its own bucket is never left.\<close>

lemma bucket_chain_cycle:
  assumes "i \<noteq> 2 ^ 32 - 1" and "data + of_nat (i * sizeof_Bucket L) \<noteq> 0"
    and "bucket_of L (bytes_at m (data + of_nat (i * sizeof_Bucket L)) (sizeof_Bucket L)) 0 = bk"
    and "key_at L m (b_key bk) (Some k)" and "k \<noteq> key" and "unat (zv_next (b_val bk)) = i"
  shows "bucket_chain L (copy_proc_mem (still m) pid) fuel data key i w = (Fault OutOfFuel, w)"
proof (induction fuel)
  case 0
  show ?case by (simp add: run_simps)
next
  case (Suc f)
  have k: "zstring_at L m (b_key bk) k" "length k < PHPSPY_STR_SIZE" "NUL \<notin> set k"
    using assms(4) by (simp_all add: key_at_def)
  obtain tk where tk: "sprint_zstring L (copy_proc_mem (still m) pid) (b_key bk)
      (replicate PHPSPY_STR_SIZE NUL) 0 PHPSPY_STR_SIZE w = (Ok (tk, length k), w)"
    "holds tk 0 (k @ [NUL])"
    by (rule sprint_zstring_run [OF k(1,2), of 0 "replicate PHPSPY_STR_SIZE NUL" pid w]) auto
  have "c_str tk 0 = k" by (rule holds_c_str [OF tk(2) k(3)])
  moreover have "b_key bk \<noteq> 0" using k(1) by (simp add: zstring_at_def)
  ultimately show ?case
    using assms(1-3,5,6) tk(1) Suc by (auto simp: copy_still run_simps Let_def)
qed

end
