(* ===== verification/Zend_Props.thy ===== *)
theory Zend_Props
  imports Zend_Value Php_Structs_X86_64
begin

text \<open>
  The properties of the value printers and of the array lookup, with an example process for
  the witnesses: a PHP 8.4 array laid out byte by byte as the structs of
  \<^verbatim>\<open>structs/x86_64/php_structs_84.h\<close> say.
\<close>

subsection \<open>An array in the memory of a PHP 8.4 process\<close>

text \<open>
  \<^verbatim>\<open>['id' => 7, 5 => 'hi']\<close> with a deleted element between the two, at address 4096: the header,
  the two hash slots, three buckets, the key and the string.
\<close>

definition zval_bytes :: "nat \<Rightarrow> nat \<Rightarrow> nat \<Rightarrow> string" where
  "zval_bytes v ty nxt = le_bytes 8 v @ le_bytes 1 ty @ le_bytes 3 0 @ le_bytes 4 nxt"

definition zstring_bytes :: "string \<Rightarrow> string" where
  "zstring_bytes s = le_bytes 16 0 @ le_bytes 8 (length s) @ s @ [NUL]"

definition demo_mem :: "addr \<Rightarrow> char" where
  "demo_mem = mem_segs [
     (4096, le_bytes 8 0 @ le_bytes 1 0 @ le_bytes 3 0 @ le_bytes 4 0xFFFFFFFE @ le_bytes 8 8192
       @ le_bytes 4 3 @ le_bytes 8 0),
     (8184, le_bytes 4 0 @ le_bytes 4 2),
     (8192, zval_bytes 7 TYPE_LONG 0xFFFFFFFF @ le_bytes 8 0 @ le_bytes 8 12288
       @ zval_bytes 0 TYPE_UNDEF 0 @ le_bytes 8 0 @ le_bytes 8 0
       @ zval_bytes 16384 TYPE_STRING 0xFFFFFFFF @ le_bytes 8 5 @ le_bytes 8 0),
     (12288, zstring_bytes ''id''),
     (16384, zstring_bytes ''hi'')]"

definition demo_zval :: zval where
  "demo_zval = \<lparr> zv_value = 4096, zv_type = TYPE_ARRAY, zv_next = 0 \<rparr>"

definition demo_value :: php_value where
  "demo_value = PHash [Some (Some ''id'', PLong 7), None, Some (None, PString ''hi'')]"

abbreviation demo_layout :: layout where
  "demo_layout \<equiv> layout_of True 84 php_structs_84_x86_64"

lemmas demo_eval = layout_84_x86_64 demo_mem_def mem_eval zval_bytes_def zstring_bytes_def Let_def
  zarray_at_def zend_array_of_def ptr_at_def is_packed_def bucket_elem_def bucket_of_def zval_of_def
  key_at_def zstring_at_def

lemma demo_rep: "rep demo_layout demo_mem demo_value demo_zval"
  by (simp add: demo_value_def demo_zval_def demo_eval del: le_bytes.simps)

lemma demo_show: "show_value demo_value = ''id=7,hi''"
  by (simp add: demo_value_def elems_text_def bucket_text_def dec_int_def dec_nat.simps digit_simps)

lemma demo_depth: "depth demo_value = 2"
  by (simp add: demo_value_def)

lemma demo_hash:
  "unat (phpspy_zend_inline_hash_func True ''id'') mod 2 = 0"
  "unat (phpspy_zend_inline_hash_func True ''ie'') mod 2 = 1"
  by (simp_all add: phpspy_zend_inline_hash_func_def hash_loop_foldl hash_step_def char_word_def
      push_bit_eq_mult)

lemma demo_table:
  "table_at demo_layout demo_mem 4096 ''id''
     [(''id'', \<lparr> b_val = \<lparr> zv_value = 7, zv_type = TYPE_LONG, zv_next = 0xFFFFFFFF \<rparr>, b_key = 12288 \<rparr>)]"
  by (simp add: table_at_def hash_slot_def demo_hash demo_eval del: le_bytes.simps)

subsection \<open>Properties\<close>

text \<open>C22: The unrolled hash of \<^verbatim>\<open>phpspy_zend_inline_hash_func\<close> is the plain DJB hash
  \<open>h * 33 + c\<close> over all the characters, from 5381 on, with the top bit set.\<close>

theorem hash_func_is_djb:
  "phpspy_zend_inline_hash_func sg str =
     foldl (\<lambda>h c. h * 33 + char_word sg c) 5381 str OR 0x8000000000000000"
proof -
  have "hash_step sg = (\<lambda>h c. h * 33 + char_word sg c)"
    by (simp add: fun_eq_iff hash_step_def push_bit_eq_mult)
  then show ?thesis by (simp add: phpspy_zend_inline_hash_func_def hash_loop_foldl)
qed

text \<open>C15: Whatever the memory of the traced process holds and however it changes between two
  reads, \<^verbatim>\<open>sprint_zval\<close> writes inside its buffer only and reports a length below its size, or
  returns the status of a failed read; the only fault is the recursion on nested arrays.\<close>

theorem sprint_zval_safe:
  assumes "0 < sz" and "sz < 2 ^ 64" and "p + sz \<le> length b"
  shows "case sprint_zval L (copy_proc_mem rd pid) fuel zv b p sz w of
      (Ok (b', n), _) \<Rightarrow> within p sz b b' \<and> n < sz
    | (Rv r, _) \<Rightarrow> read_err r
    | (Fault f, _) \<Rightarrow> f = OutOfFuel"
  using prints_result [OF pm.sprint_zval_prints assms, of L rd pid fuel zv w]
  by (auto split: prod.splits result.splits)

theorem sprint_zval_safe_witness:
  "case sprint_zval demo_layout (copy_proc_mem (still demo_mem) 1) 5 demo_zval (replicate 16 NUL) 0 16 () of
      (Ok (b', n), _) \<Rightarrow> within 0 16 (replicate 16 NUL) b' \<and> n < 16
    | (Rv r, _) \<Rightarrow> read_err r
    | (Fault f, _) \<Rightarrow> f = OutOfFuel"
  by (rule sprint_zval_safe) simp_all

text \<open>C9: \<^verbatim>\<open>sprint_zval\<close> refines the text of a value: on a process that holds still and whose
  memory holds the value \<open>v\<close>, with room for the text and fuel for its depth, it returns OK,
  reports the length of the text and leaves exactly the text in the buffer.\<close>

theorem sprint_zval_prints_value:
  assumes "rep L m v zv" and "depth v \<le> fuel"
    and "length (show_value v) + 2 \<le> sz" and "sz < 2 ^ 64" and "p + sz \<le> length b"
  shows "\<exists>b'. sprint_zval L (copy_proc_mem (still m) pid) fuel zv b p sz w =
      (Ok (b', length (show_value v)), w) \<and>
    within p sz b b' \<and> take (length (show_value v)) (drop p b') = show_value v"
proof -
  have "room (show_value v) \<le> sz" using assms(3) by (simp add: room_def)
  from prints_textE [OF sprint_zval_text [OF assms(1,2), of pid] this assms(4,5), of w]
  show ?thesis unfolding holds_def by metis
qed

theorem sprint_zval_prints_value_witness:
  "\<exists>b'. sprint_zval demo_layout (copy_proc_mem (still demo_mem) 1) 2 demo_zval (replicate 16 NUL) 0 16 () =
      (Ok (b', length ''id=7,hi''), ()) \<and> take (length ''id=7,hi'') b' = ''id=7,hi''"
  using sprint_zval_prints_value [OF demo_rep, of 2 16 0 "replicate 16 NUL" 1 "()"]
  by (auto simp: demo_show demo_depth)

text \<open>C21: \<^verbatim>\<open>copy_zarray_bucket\<close> finds a string key: when every bucket of the chain that the hash
  selects has a string key, it returns the first bucket with the key looked for, and
  \<^verbatim>\<open>PHPSPY_ERR\<close> when there is none, in as many rounds as the chain has buckets.\<close>

theorem copy_zarray_bucket_finds:
  assumes "table_at L m a key ch" and "length ch < fuel"
  shows "copy_zarray_bucket L (copy_proc_mem (still m) pid) fuel a key w =
    (case map_of ch key of None \<Rightarrow> Rv PHPSPY_ERR | Some bk \<Rightarrow> Ok bk, w)"
  using assms by (rule copy_zarray_bucket_lookup)

theorem copy_zarray_bucket_finds_witness:
  "copy_zarray_bucket demo_layout (copy_proc_mem (still demo_mem) 1) 2 4096 ''id'' () =
    (Ok \<lparr> b_val = \<lparr> zv_value = 7, zv_type = TYPE_LONG, zv_next = 0xFFFFFFFF \<rparr>, b_key = 12288 \<rparr>, ())"
  using copy_zarray_bucket_finds [OF demo_table, of 2 1 "()"] by simp

text \<open>C31: A bucket with an integer key ends the search of \<^verbatim>\<open>copy_zarray_bucket\<close> as if it had been
  found: when the first bucket of the chain has a null key, the function returns OK with that
  bucket, whatever key was looked for.\<close>

theorem copy_zarray_bucket_int_key:
  assumes "a \<noteq> 0" and "za = zend_array_of L (bytes_at m a (sizeof_zend_array L))"
    and "za_nTableMask za \<noteq> 0" and "hash_slot L za key \<noteq> 0"
    and "i = fld (bytes_at m (hash_slot L za key) 4) 0 4" and "i \<noteq> 2 ^ 32 - 1"
    and "q = za_arData za + of_nat (i * sizeof_Bucket L)" and "q \<noteq> 0"
    and "bk = bucket_of L (bytes_at m q (sizeof_Bucket L)) 0" and "b_key bk = 0"
  shows "copy_zarray_bucket L (copy_proc_mem (still m) pid) (Suc fuel) a key w = (Ok bk, w)"
  using assms by (simp add: copy_zarray_bucket_def hash_slot_def Let_def copy_still run_simps)

theorem copy_zarray_bucket_int_key_witness:
  "copy_zarray_bucket demo_layout (copy_proc_mem (still demo_mem) 1) 1 4096 ''ie'' () =
    (Ok \<lparr> b_val = \<lparr> zv_value = 16384, zv_type = TYPE_STRING, zv_next = 0xFFFFFFFF \<rparr>, b_key = 0 \<rparr>, ())"
  using copy_zarray_bucket_int_key [OF _ refl _ _ refl _ refl _ refl,
      of 4096 demo_layout demo_mem "''ie''" 1 0 "()"]
  by (simp add: hash_slot_def demo_hash demo_eval del: le_bytes.simps)

end
