(* ===== verification/Stack_Spec.thy ===== *)
theory Stack_Spec
  imports Trace Zend_Props
begin

text \<open>
  What tracing a call stack means. A \<open>php_frame\<close> is a frame as PHP sees it; \<open>stack_at\<close> says that
  the chain of \<^verbatim>\<open>zend_execute_data\<close> at an address holds a list of frames; \<open>kept_items\<close> is the
  selection that the options \<^verbatim>\<open>-n\<close> and \<^verbatim>\<open>-N\<close> ask for. The theorems say that \<^verbatim>\<open>trace_stack\<close>, run on a
  process that holds still, hands exactly these frames to the event handler, in order, for any
  handler that keeps to its own data.
\<close>

record php_frame =
  pf_func :: "string option"
  pf_class :: "string option"
  pf_code :: "(string \<times> int) option"

definition clip :: "string \<Rightarrow> string" where
  "clip s = take (PHPSPY_STR_SIZE - 1) s"

definition func_text :: "php_frame \<Rightarrow> string" where
  "func_text fr = (case pf_func fr of None \<Rightarrow> ''<main>'' | Some s \<Rightarrow> clip s)"

definition class_text :: "php_frame \<Rightarrow> string" where
  "class_text fr = (case pf_class fr of None \<Rightarrow> [] | Some s \<Rightarrow> clip s)"

definition file_text :: "php_frame \<Rightarrow> string" where
  "file_text fr = (case pf_code fr of None \<Rightarrow> ''<internal>'' | Some (s, _) \<Rightarrow> clip s)"

definition line_of :: "php_frame \<Rightarrow> int" where
  "line_of fr = (case pf_code fr of None \<Rightarrow> -1 | Some (_, l) \<Rightarrow> l)"

text \<open>What the handler is called with: a frame at its depth, or the mark of elided frames.\<close>

datatype item = Frame nat php_frame | Elided nat nat

primrec fill_item :: "item \<Rightarrow> trace_frame \<Rightarrow> trace_frame" where
  "fill_item (Frame d fr) f = \<lparr>
     f_func = set_str (f_func f) (func_text fr), f_func_len = length (func_text fr),
     f_class = set_str (f_class f) (class_text fr), f_class_len = length (class_text fr),
     f_file = set_str (f_file f) (file_text fr), f_file_len = length (file_text fr),
     f_lineno = line_of fr, f_depth = int d \<rparr>"
| "fill_item (Elided d n) f =
     (let str = ''<elided:'' @ dec_nat n @ ''>'' in \<lparr>
     f_func = set_str (f_func f) str, f_func_len = length str,
     f_class = set_str (f_class f) [], f_class_len = 0,
     f_file = set_str (f_file f) ''<elided>'', f_file_len = length ''<elided>'',
     f_lineno = -1, f_depth = int d \<rparr>)"

definition emit_item :: "('w, 'u) handler \<Rightarrow> item \<Rightarrow> ('w, 'u, unit) tfun" where
  "emit_item h it = try_c (modify (ev_frame_update (fill_item it))) (\<lambda>_. h FRAME)"

fun emit_items :: "('w, 'u) handler \<Rightarrow> item list \<Rightarrow> ('w, 'u, unit) tfun" where
  "emit_items h [] = ok ()"
| "emit_items h (it # its) = try_c (emit_item h it) (\<lambda>_. emit_items h its)"

text \<open>The \<^verbatim>\<open>-n\<close> mode reports the number of frames done, on errors too.\<close>

fun emit_counted :: "('w, 'u) handler \<Rightarrow> nat \<Rightarrow> php_frame list \<Rightarrow> ('w, 'u, int \<times> nat) tfun" where
  "emit_counted h d [] = ok (PHPSPY_OK, d)"
| "emit_counted h d (fr # frs) =
     with_rv (emit_item h (Frame d fr)) (\<lambda>r v.
       if v = None then ok (r, d) else emit_counted h (Suc d) frs)"

subsection \<open>Frames in memory\<close>

definition frame_exec :: "layout \<Rightarrow> (addr \<Rightarrow> char) \<Rightarrow> addr \<Rightarrow> string" where
  "frame_exec L m a = bytes_at m a (sizeof_execute_data L)"

definition frame_zfunc :: "layout \<Rightarrow> (addr \<Rightarrow> char) \<Rightarrow> addr \<Rightarrow> string" where
  "frame_zfunc L m a = bytes_at m (ptr_at (frame_exec L m a) (off_func L)) (sizeof_zend_function L)"

definition frame_prev :: "layout \<Rightarrow> (addr \<Rightarrow> char) \<Rightarrow> addr \<Rightarrow> addr" where
  "frame_prev L m a = ptr_at (frame_exec L m a) (off_prev_execute_data L)"

definition code_line :: "layout \<Rightarrow> (addr \<Rightarrow> char) \<Rightarrow> addr \<Rightarrow> int" where
  "code_line L m a =
     (let opline = ptr_at (frame_exec L m a) (off_opline L)
      in if opline = 0 then int32_at (frame_zfunc L m a) (off_line_start L)
         else int32_at (bytes_at m opline (sizeof_zend_op L)) (off_lineno L))"

definition frame_at :: "layout \<Rightarrow> (addr \<Rightarrow> char) \<Rightarrow> addr \<Rightarrow> php_frame \<Rightarrow> bool" where
  "frame_at L m a fr \<longleftrightarrow>
     a \<noteq> 0 \<and> a + of_nat (off_prev_execute_data L) \<noteq> 0 \<and>
     ptr_at (frame_exec L m a) (off_func L) \<noteq> 0 \<and>
     (let zfunc = frame_zfunc L m a; nm = ptr_at zfunc (off_function_name L); scope = ptr_at zfunc (off_scope L)
      in (case pf_func fr of None \<Rightarrow> nm = 0 | Some s \<Rightarrow> zstring_at L m nm s) \<and>
         (case pf_class fr of
            None \<Rightarrow> scope = 0
          | Some s \<Rightarrow> scope \<noteq> 0 \<and>
              zstring_at L m (ptr_at (bytes_at m scope (sizeof_class_entry L)) (off_ce_name L)) s) \<and>
         (case pf_code fr of
            None \<Rightarrow> fld zfunc (off_fn_type L) 1 \<noteq> 2
          | Some (s, l) \<Rightarrow> fld zfunc (off_fn_type L) 1 = 2 \<and>
              zstring_at L m (ptr_at zfunc (off_filename L)) s \<and> l = code_line L m a))"

fun stack_at :: "layout \<Rightarrow> (addr \<Rightarrow> char) \<Rightarrow> addr \<Rightarrow> php_frame list \<Rightarrow> bool" where
  "stack_at L m a [] \<longleftrightarrow> a = 0"
| "stack_at L m a (fr # frs) \<longleftrightarrow> frame_at L m a fr \<and> stack_at L m (frame_prev L m a) frs"

subsection \<open>The selection\<close>

definition kept_items :: "int \<Rightarrow> int \<Rightarrow> php_frame list \<Rightarrow> item list" where
  "kept_items leaf root frs =
     (let n = length frs; inner = nat leaf; outer = nat root;
          frames = map (\<lambda>i. Frame i (frs ! i))
      in if inner + outer < n
         then frames [0..<inner] @ [Elided inner (n - outer - inner)] @ frames [n - outer..<n]
         else frames [0..<n])"

definition leaf_limit :: "int \<Rightarrow> nat" where
  "leaf_limit leaf = (if 0 \<le> leaf then min (nat leaf) PHPSPY_MAX_STACK_WALK else PHPSPY_MAX_STACK_WALK)"

subsection \<open>One frame\<close>

lemma bytes_at_take: "n \<le> k \<Longrightarrow> take n (bytes_at m a k) = bytes_at m a n"
  by (simp add: bytes_at_def take_map)

lemma sprint_zstring_exact:
  assumes "zstring_at L m a s" and "length b = PHPSPY_STR_SIZE"
  shows "sprint_zstring L (copy_proc_mem (still m) pid) a b 0 PHPSPY_STR_SIZE w =
    (Ok (set_str b (clip s), length (clip s)), w)"
proof -
  have s: "bytes_at m (a + of_nat (off_str_val L)) (min (length s) 255) = clip s"
    using assms(1) bytes_at_take [of "min (length s) 255" "length s" m "a + of_nat (off_str_val L)"]
    by (cases "length s \<le> 255") (simp_all add: zstring_at_def clip_def)
  have l: "length (clip s) = min (length s) 255" by (simp add: clip_def)
  then have l': "length (clip s) < 256" "Suc 0 \<le> 256 - length (clip s)" by simp_all
  have "put b 0 [NUL] = Some (NUL # drop 1 b)" using assms(2) by (simp add: put_def)
  moreover have "put (NUL # drop 1 b) 0 (clip s) = Some (clip s @ drop (length (clip s)) (NUL # drop 1 b))"
    using assms(2) by (simp add: put_def l)
  moreover have "put (clip s @ drop (length (clip s)) (NUL # drop 1 b)) (min (length s) 255) [NUL] =
      Some (set_str b (clip s))"
    using assms(2) l' by (simp add: put_def set_str_def l [symmetric] drop_Cons')
  ultimately show ?thesis
    using assms(1) s l
    by (simp add: sprint_zstring_def zstring_at_def copy_still run_simps Let_def)
qed

lemma on_world_copy:
  "a \<noteq> 0 \<Longrightarrow> on_world (copy_proc_mem (still m) pid a n) s = (Ok (bytes_at m a n), s)"
  by (simp add: on_world_def copy_still)

lemma on_world_null: "on_world (copy_proc_mem (still m) pid 0 n) s = (Rv PHPSPY_ERR, s)"
  by (simp add: on_world_def copy_still_null)

lemma on_world_zstring:
  "zstring_at L m a str \<Longrightarrow> length b = PHPSPY_STR_SIZE \<Longrightarrow>
    on_world (sprint_zstring L (copy_proc_mem (still m) pid) a b 0 PHPSPY_STR_SIZE) s =
      (Ok (set_str b (clip str), length (clip str)), s)"
  by (simp add: on_world_def sprint_zstring_exact)

lemma frame_func_still:
  assumes "case pf_func fr of None \<Rightarrow> ptr_at zfunc (off_function_name L) = 0
      | Some str \<Rightarrow> zstring_at L m (ptr_at zfunc (off_function_name L)) str"
    and "length (f_func (ev_frame s)) = PHPSPY_STR_SIZE"
  shows "frame_func L (copy_proc_mem (still m) pid) zfunc s =
    (Ok (), s\<lparr>ev_frame := (ev_frame s)\<lparr>f_func := set_str (f_func (ev_frame s)) (func_text fr),
       f_func_len := length (func_text fr)\<rparr>\<rparr>)"
  using assms
  by (cases "pf_func fr")
    (simp_all add: frame_func_def set_func_def run_simps Let_def func_text_def zstring_at_def [THEN iffD1, THEN conjunct1]
      on_world_zstring)

lemma frame_class_still:
  assumes "case pf_class fr of None \<Rightarrow> ptr_at zfunc (off_scope L) = 0
      | Some str \<Rightarrow> ptr_at zfunc (off_scope L) \<noteq> 0 \<and>
          zstring_at L m (ptr_at (bytes_at m (ptr_at zfunc (off_scope L)) (sizeof_class_entry L)) (off_ce_name L)) str"
    and "length (f_class (ev_frame s)) = PHPSPY_STR_SIZE"
  shows "frame_class L (copy_proc_mem (still m) pid) zfunc s =
    (Ok (), s\<lparr>ev_frame := (ev_frame s)\<lparr>f_class := set_str (f_class (ev_frame s)) (class_text fr),
       f_class_len := length (class_text fr)\<rparr>\<rparr>)"
  using assms
  by (cases "pf_class fr")
    (auto simp: frame_class_def set_class_def run_simps Let_def class_text_def on_world_zstring on_world_copy)

lemma frame_file_still:
  assumes "case pf_code fr of None \<Rightarrow> fld (frame_zfunc L m a) (off_fn_type L) 1 \<noteq> 2
      | Some (str, l) \<Rightarrow> fld (frame_zfunc L m a) (off_fn_type L) 1 = 2 \<and>
          zstring_at L m (ptr_at (frame_zfunc L m a) (off_filename L)) str \<and> l = code_line L m a"
    and "length (f_file (ev_frame s)) = PHPSPY_STR_SIZE" and "opt_varpeek_map opts = []"
  shows "frame_file opts L (copy_proc_mem (still m) pid) fuel h a (frame_exec L m a) (frame_zfunc L m a) s =
    (Ok (), s\<lparr>ev_frame := (ev_frame s)\<lparr>f_file := set_str (f_file (ev_frame s)) (file_text fr),
       f_file_len := length (file_text fr), f_lineno := line_of fr\<rparr>\<rparr>)"
proof (cases "pf_code fr")
  case None
  with assms show ?thesis
    by (simp add: frame_file_def set_file_def set_lineno_def run_simps Let_def file_text_def line_of_def)
next
  case (Some c)
  obtain str l where c: "c = (str, l)" by fastforce
  let ?opline = "ptr_at (frame_exec L m a) (off_opline L)"
  show ?thesis
    using assms Some c
    by (cases s; cases "ev_frame s"; cases "?opline = 0")
      (auto simp: frame_file_def set_file_def set_lineno_def run_simps Let_def file_text_def line_of_def
        on_world_zstring on_world_copy on_world_null code_line_def)
qed

lemma stack_emit_frame_still:
  assumes "frame_at L m a fr" and "frame_ok (ev_frame s)"
    and "\<not> opt_peek_pdo opts" and "opt_varpeek_map opts = []"
  shows "stack_emit_frame opts L (copy_proc_mem (still m) pid) fuel h a d s =
    try_c (emit_item h (Frame d fr)) (\<lambda>_. ok (frame_prev L m a)) s"
proof -
  have exec: "on_world (copy_proc_mem (still m) pid a (sizeof_execute_data L)) s = (Ok (frame_exec L m a), s)"
    using assms(1) by (simp add: on_world_copy frame_exec_def frame_at_def)
  have zfunc: "on_world (copy_proc_mem (still m) pid (ptr_at (frame_exec L m a) (off_func L))
      (sizeof_zend_function L)) s = (Ok (frame_zfunc L m a), s)"
    using assms(1) by (simp add: on_world_copy frame_zfunc_def frame_at_def)
  note parts = assms(1) [unfolded frame_at_def Let_def, THEN conjunct2, THEN conjunct2, THEN conjunct2]
  show ?thesis
    unfolding stack_emit_frame_def
    using assms(2-4) exec zfunc
    by (cases s; cases "ev_frame s") (simp add: frame_func_still [OF parts [THEN conjunct1]]
        frame_class_still [OF parts [THEN conjunct2, THEN conjunct1]]
        frame_file_still [OF parts [THEN conjunct2, THEN conjunct2]]
        frame_ok_def set_depth_def run_simps emit_item_def try_c_assoc frame_prev_def, simp add: ok_def [abs_def])
qed

lemma try_c_ok_right [simp]: "try_c m ok = m"
  by (auto simp: try_c_def run_simps fun_eq_iff split: prod.splits result.splits)

text \<open>Two sequences agree when their parts do, on the states that occur.\<close>

lemma try_c_cong_state:
  assumes "m s = m' s" and "\<And>a t. m' s = (Ok a, t) \<Longrightarrow> k a t = k' a t"
  shows "try_c m k s = try_c m' k' s"
  using assms by (auto simp: try_c_def split: prod.splits result.splits)

subsection \<open>The whole stack\<close>

text \<open>A handler that leaves the rest of the context alone.\<close>

definition quiet :: "('w, 'u) handler \<Rightarrow> bool" where
  "quiet h \<longleftrightarrow> (\<forall>e s. handler_step s (snd (h e s)))"

definition only_frames :: "options \<Rightarrow> bool" where
  "only_frames opts \<longleftrightarrow> \<not> opt_peek_pdo opts \<and> opt_varpeek_map opts = []"

lemma handler_step_frame: "handler_step s s' \<Longrightarrow> ev_frame s' = ev_frame s"
  unfolding handler_step_def by (cases s; cases s') simp

lemma text_lengths:
  "length (func_text fr) < PHPSPY_STR_SIZE" "length (class_text fr) < PHPSPY_STR_SIZE"
  "length (file_text fr) < PHPSPY_STR_SIZE"
  by (auto simp: func_text_def class_text_def file_text_def clip_def min_less_iff_disj split: option.splits)

lemma fill_frame_ok: "frame_ok f \<Longrightarrow> frame_ok (fill_item (Frame d fr) f)"
  using text_lengths by (simp add: frame_ok_def set_str_length)

lemma fill_elided_ok: "frame_ok f \<Longrightarrow> n \<le> PHPSPY_MAX_STACK_WALK \<Longrightarrow> frame_ok (fill_item (Elided d n) f)"
  using elided_length [of "int n"] by (simp add: frame_ok_def set_str_length Let_def dec_int_def)

lemma emit_item_frame:
  assumes "quiet h" and "emit_item h it s = (r, s')"
  shows "ev_frame s' = fill_item it (ev_frame s)"
proof -
  have "handler_step (ev_frame_update (fill_item it) s) s'"
    using assms(1) [unfolded quiet_def, rule_format, of "ev_frame_update (fill_item it) s" FRAME] assms(2)
    by (simp add: emit_item_def run_simps)
  then show ?thesis by (simp add: handler_step_frame)
qed

lemma trace_leaf_still:
  assumes "quiet h" and "only_frames opts"
  shows "stack_at L m a frs \<Longrightarrow> frame_ok (ev_frame s) \<Longrightarrow>
    d \<le> leaf_limit (opt_max_stack_depth_from_leaf opts) \<Longrightarrow>
    trace_leaf opts L (copy_proc_mem (still m) pid) fuel h d a s =
      emit_counted h d (take (leaf_limit (opt_max_stack_depth_from_leaf opts) - d) frs) s"
proof (induction frs arbitrary: a d s)
  case Nil
  then show ?case by (subst trace_leaf.simps) simp
next
  case (Cons fr frs)
  let ?lim = "leaf_limit (opt_max_stack_depth_from_leaf opts)"
  have a: "a \<noteq> 0" "frame_at L m a fr" using Cons.prems(1) by (simp_all add: frame_at_def)
  show ?case
  proof (cases "d = ?lim")
    case True
    then show ?thesis
      by (subst trace_leaf.simps) (auto simp: leaf_limit_def min_def split: if_splits)
  next
    case False
    then have d: "d < ?lim" using Cons.prems(3) by simp
    then have nostop: "int d \<noteq> opt_max_stack_depth_from_leaf opts" "\<not> PHPSPY_MAX_STACK_WALK \<le> d"
      by (auto simp: leaf_limit_def split: if_splits)
    have take: "take (?lim - d) (fr # frs) = fr # take (?lim - Suc d) frs"
      using d by (simp add: take_Cons')
    have emit: "stack_emit_frame opts L (copy_proc_mem (still m) pid) fuel h a d s =
        try_c (emit_item h (Frame d fr)) (\<lambda>_. ok (frame_prev L m a)) s"
      using a(2) Cons.prems(2) assms(2) by (intro stack_emit_frame_still) (simp_all add: only_frames_def)
    obtain r s' where r: "emit_item h (Frame d fr) s = (r, s')" by fastforce
    have "frame_ok (ev_frame s')"
      using emit_item_frame [OF assms(1) r] fill_frame_ok [OF Cons.prems(2)] by simp
    then have "trace_leaf opts L (copy_proc_mem (still m) pid) fuel h (Suc d) (frame_prev L m a) s' =
        emit_counted h (Suc d) (take (?lim - Suc d) frs) s'"
      using Cons.prems(1) d by (intro Cons.IH) simp_all
    with r emit nostop a(1) show ?thesis
      unfolding take
      by (subst trace_leaf.simps) (cases r; simp add: with_rv_def try_c_def run_simps)
  qed
qed

fun stack_addrs :: "layout \<Rightarrow> (addr \<Rightarrow> char) \<Rightarrow> addr \<Rightarrow> php_frame list \<Rightarrow> addr list" where
  "stack_addrs L m a [] = []"
| "stack_addrs L m a (fr # frs) = a # stack_addrs L m (frame_prev L m a) frs"

lemma length_stack_addrs [simp]: "length (stack_addrs L m a frs) = length frs"
  by (induction frs arbitrary: a) simp_all

lemma stack_addrs_frames: "stack_at L m a frs \<Longrightarrow> list_all2 (frame_at L m) (stack_addrs L m a frs) frs"
  by (induction frs arbitrary: a) simp_all

lemma bytes_at_drop: "off + k \<le> n \<Longrightarrow> take k (drop off (bytes_at m a n)) = bytes_at m (a + of_nat off) k"
  by (intro nth_equalityI) (simp_all add: bytes_at_def algebra_simps)

lemma stack_walk_still:
  assumes "off_prev_execute_data L + 8 \<le> sizeof_execute_data L"
  shows "stack_at L m a frs \<Longrightarrow>
    stack_walk L (copy_proc_mem (still m) pid) n a s =
      (Ok (), s\<lparr>stack_ptrs := stack_ptrs s @ take (PHPSPY_MAX_STACK_WALK - n) (stack_addrs L m a frs)\<rparr>)"
proof (induction frs arbitrary: a n s)
  case Nil
  then show ?case by (subst stack_walk.simps) (simp add: run_simps)
next
  case (Cons fr frs)
  have a: "a \<noteq> 0" "a + of_nat (off_prev_execute_data L) \<noteq> 0"
    using Cons.prems by (simp_all add: frame_at_def)
  have prev: "ptr_at (bytes_at m (a + of_nat (off_prev_execute_data L)) 8) 0 = frame_prev L m a"
    using assms bytes_at_drop [of "off_prev_execute_data L" 8 "sizeof_execute_data L" m a]
    by (simp add: frame_prev_def frame_exec_def ptr_at_def fld_def)
  show ?case
  proof (cases "PHPSPY_MAX_STACK_WALK \<le> n")
    case True
    with a show ?thesis by (subst stack_walk.simps) (simp add: run_simps)
  next
    case False
    then have "take (PHPSPY_MAX_STACK_WALK - n) (a # as) = a # take (PHPSPY_MAX_STACK_WALK - Suc n) as" for as
      by (simp add: take_Cons')
    moreover have "stack_at L m (frame_prev L m a) frs" using Cons.prems by simp
    ultimately show ?thesis
      using False a
      by (subst stack_walk.simps) (simp add: run_simps on_world_copy prev Cons.IH)
  qed
qed

fun items_from :: "int \<Rightarrow> int \<Rightarrow> int \<Rightarrow> nat \<Rightarrow> php_frame list \<Rightarrow> item list" where
  "items_from ki ko ne i [] = []"
| "items_from ki ko ne i (fr # frs) =
     (if int i = ki \<and> ne > 0 then [Elided i (nat ne)] else []) @
     (if ki \<le> int i \<and> int i < ko then [] else [Frame i fr]) @ items_from ki ko ne (Suc i) frs"

lemma emit_items_append: "emit_items h (xs @ ys) = try_c (emit_items h xs) (\<lambda>_. emit_items h ys)"
  by (induction xs) (simp_all add: try_c_assoc)

lemma emit_elided_item: "0 \<le> n \<Longrightarrow> emit_elided h i n s = emit_item h (Elided i (nat n)) s"
  by (cases s; cases "ev_frame s")
    (simp add: emit_elided_def emit_item_def set_func_def set_class_def set_file_def set_lineno_def
      set_depth_def run_simps Let_def dec_int_def)

lemma trace_outer_still:
  assumes "quiet h" and "only_frames opts" and "ne \<le> int PHPSPY_MAX_STACK_WALK"
  shows "list_all2 (frame_at L m) ps frs \<Longrightarrow> frame_ok (ev_frame s) \<Longrightarrow>
    trace_outer opts L (copy_proc_mem (still m) pid) fuel h ki ko ne i ps s =
      emit_items h (items_from ki ko ne i frs) s"
proof (induction ps frs arbitrary: i s rule: list_all2_induct)
  case Nil
  show ?case by simp
next
  case (Cons p ps fr frs)
  let ?el = "if int i = ki \<and> ne > 0 then [Elided i (nat ne)] else []"
  let ?fr = "if ki \<le> int i \<and> int i < ko then [] else [Frame i fr]"
  let ?rest = "trace_outer opts L (copy_proc_mem (still m) pid) fuel h ki ko ne (Suc i) ps"
  have el: "(if int i = ki \<and> ne > 0 then emit_elided h i ne else ok ()) s = emit_items h ?el s"
    by (simp add: emit_elided_item)
  have fr: "(if ki \<le> int i \<and> int i < ko then ok ()
      else try_c (stack_emit_frame opts L (copy_proc_mem (still m) pid) fuel h p i) (\<lambda>_. ok ())) t =
      emit_items h ?fr t" if "frame_ok (ev_frame t)" for t
  proof -
    have "stack_emit_frame opts L (copy_proc_mem (still m) pid) fuel h p i t =
        try_c (emit_item h (Frame i fr)) (\<lambda>_. ok (frame_prev L m p)) t"
      using Cons.hyps(1) that assms(2) by (intro stack_emit_frame_still) (simp_all add: only_frames_def)
    then have "try_c (stack_emit_frame opts L (copy_proc_mem (still m) pid) fuel h p i) (\<lambda>_. ok ()) t =
        try_c (try_c (emit_item h (Frame i fr)) (\<lambda>_. ok (frame_prev L m p))) (\<lambda>_. ok ()) t"
      by (rule try_c_cong_state) simp
    then show ?thesis by (simp add: try_c_assoc)
  qed
  have ok1: "frame_ok (ev_frame t)" if "emit_items h ?el s = (Ok a, t)" for a t
    using that Cons.prems assms(3) emit_item_frame [OF assms(1), of _ s "Ok a" t] fill_elided_ok
    by (auto simp: run_simps nat_le_iff split: if_splits)
  have ok2: "frame_ok (ev_frame t')" if "emit_items h ?fr t = (Ok a, t')" "frame_ok (ev_frame t)" for a t t'
    using that emit_item_frame [OF assms(1), of _ t "Ok a" t'] fill_frame_ok
    by (auto simp: run_simps split: if_splits)
  show ?case
    unfolding trace_outer.simps items_from.simps emit_items_append
    by (rule try_c_cong_state, rule el, rule try_c_cong_state, rule fr)
      (auto dest!: ok1 intro: ok2 Cons.IH)
qed

lemma upt_split: "i \<le> j \<Longrightarrow> j \<le> k \<Longrightarrow> [i..<k] = [i..<j] @ [j..<k]"
  using upt_add_eq_append [of i j "k - j"] by simp

lemma items_from_concat:
  "items_from ki ko ne i frs = concat (map (\<lambda>j.
     (if int j = ki \<and> ne > 0 then [Elided j (nat ne)] else []) @
     (if ki \<le> int j \<and> int j < ko then [] else [Frame j (frs ! (j - i))])) [i..<i + length frs])"
proof (induction frs arbitrary: i)
  case Nil
  show ?case by simp
next
  case (Cons fr frs)
  have "(fr # frs) ! (j - i) = frs ! (j - Suc i)" if "Suc i \<le> j" for j
    using that by (simp add: nth_Cons' Suc_diff_le)
  then have "map (\<lambda>j. F j (frs ! (j - Suc i))) [Suc i..<Suc i + length frs] =
      map (\<lambda>j. F j ((fr # frs) ! (j - i))) [Suc i..<Suc i + length frs]" for F :: "nat \<Rightarrow> php_frame \<Rightarrow> item list"
    by (intro map_cong refl) (simp only: set_upt atLeastLessThan_iff)
  note eq = this
  let ?F = "\<lambda>j fr. (if int j = ki \<and> ne > 0 then [Elided j (nat ne)] else []) @
     (if ki \<le> int j \<and> int j < ko then [] else [Frame j fr])"
  have "items_from ki ko ne i (fr # frs) =
      ?F i fr @ concat (map (\<lambda>j. ?F j (frs ! (j - Suc i))) [Suc i..<Suc i + length frs])"
    by (simp only: items_from.simps Cons append_assoc)
  also have "\<dots> = ?F i ((fr # frs) ! (i - i)) @
      concat (map (\<lambda>j. ?F j ((fr # frs) ! (j - i))) [Suc i..<Suc i + length frs])"
    by (simp only: eq [of ?F] diff_self_eq_0 nth_Cons_0)
  also have "\<dots> = concat (map (\<lambda>j. ?F j ((fr # frs) ! (j - i))) (i # [Suc i..<Suc i + length frs]))"
    by (simp only: list.map concat.simps)
  also have "i # [Suc i..<Suc i + length frs] = [i..<i + length (fr # frs)]"
    by (simp add: upt_conv_Cons del: upt_Suc)
  finally show ?case .
qed

lemma kept_items_from:
  assumes "0 \<le> root" and "n = length frs" and "inner = nat leaf" and "outer = nat root"
    and "ki = int inner"
    and "ko = (if inner + outer < n then int n - int outer else ki)"
    and "ne = (if inner + outer < n then ko - ki else 0)"
  shows "items_from ki ko ne 0 frs = kept_items leaf root frs"
proof (cases "inner + outer < n")
  case True
  let ?f = "\<lambda>j. (if int j = ki \<and> ne > 0 then [Elided j (nat ne)] else []) @
     (if ki \<le> int j \<and> int j < ko then [] else [Frame j (frs ! j)])"
  have split: "[0..<n] = [0..<inner] @ [inner] @ [Suc inner..<n - outer] @ [n - outer..<n]"
    using True upt_split [of 0 inner n] upt_split [of "Suc inner" "n - outer" n]
    by (simp add: upt_conv_Cons)
  have a: "map ?f [0..<inner] = map (\<lambda>j. [Frame j (frs ! j)]) [0..<inner]"
    by (rule map_cong) (auto simp: assms(5))
  have b: "?f inner = [Elided inner (n - outer - inner)]"
    using True assms(5-7) by (auto simp: nat_diff_distrib)
  have c: "map ?f [Suc inner..<n - outer] = map (\<lambda>j. []) [Suc inner..<n - outer]"
    using True by (intro map_cong) (auto simp: assms(5-7))
  have d: "map ?f [n - outer..<n] = map (\<lambda>j. [Frame j (frs ! j)]) [n - outer..<n]"
    using True by (intro map_cong) (auto simp: assms(5-7))
  have "items_from ki ko ne 0 frs = concat (map ?f [0..<n])"
    by (simp add: items_from_concat assms(2) cong: if_cong)
  also have "\<dots> = concat (map ?f [0..<inner]) @ ?f inner @ concat (map ?f [Suc inner..<n - outer]) @
      concat (map ?f [n - outer..<n])"
    unfolding split by simp
  also have "\<dots> = kept_items leaf root frs"
    unfolding a b c d using True assms(2-4) by (simp add: kept_items_def Let_def)
  finally show ?thesis .
next
  case False
  have "(\<lambda>j. if ki \<le> int j \<and> int j < ki then [] else [Frame j (frs ! j)]) = (\<lambda>j. [Frame j (frs ! j)])"
    by auto
  then show ?thesis
    using False assms(2-4,6,7) by (simp add: items_from_concat kept_items_def Let_def cong: if_cong)
qed

text \<open>Frames done are at most 1024, whatever the memory holds: also when the chain is a cycle.\<close>

lemma trace_leaf_depth:
  "dep \<le> PHPSPY_MAX_STACK_WALK \<Longrightarrow>
    trace_leaf opts L cp fuel h dep a s = (Ok (r, d), s') \<Longrightarrow> d \<le> PHPSPY_MAX_STACK_WALK"
proof (induction "PHPSPY_MAX_STACK_WALK - dep" arbitrary: dep a s)
  case 0
  then show ?case by (subst (asm) trace_leaf.simps) (auto simp: run_simps split: if_splits)
next
  case (Suc k)
  have IH: "d \<le> PHPSPY_MAX_STACK_WALK"
    if "trace_leaf opts L cp fuel h (Suc dep) nxt t = (Ok (r, d), s')" for nxt t
    using that by (rule Suc(1) [rotated 2]) (use Suc(2) in auto)
  from Suc(2-4) show ?case
    by (subst (asm) trace_leaf.simps)
      (auto simp: run_simps with_rv_def dest: IH split: if_splits prod.splits result.splits)
qed

lemma stack_walk_length:
  fixes s :: "('w, 'u) trace_context"
  shows "length (stack_ptrs s) = n \<Longrightarrow> n \<le> PHPSPY_MAX_STACK_WALK \<Longrightarrow>
    length (stack_ptrs (snd (stack_walk L cp n a s))) \<le> PHPSPY_MAX_STACK_WALK"
proof (induction "PHPSPY_MAX_STACK_WALK - n" arbitrary: n a s)
  case 0
  then show ?case by (subst stack_walk.simps) (auto simp: run_simps)
next
  case (Suc k)
  have IH: "length (stack_ptrs (snd (stack_walk L cp (Suc (length (stack_ptrs s))) nxt t))) \<le> PHPSPY_MAX_STACK_WALK"
    if "length (stack_ptrs t) = Suc (length (stack_ptrs s))" for nxt and t :: "('w, 'u) trace_context"
    by (rule Suc(1)) (use Suc(2,3) that in auto)
  show ?case
    by (subst stack_walk.simps)
      (use Suc(2-4) in \<open>auto simp: run_simps try_c_def on_world_def intro!: IH split: prod.splits result.splits\<close>)
qed

subsection \<open>A call stack in the memory of a PHP 8.4 process\<close>

text \<open>The internal function \<^verbatim>\<open>f\<close>, called from line 3 of the script \<^verbatim>\<open>/a.php\<close>.\<close>

definition stack_mem :: "addr \<Rightarrow> char" where
  "stack_mem = mem_segs [
     (4096, le_bytes 8 0 @ le_bytes 16 0 @ le_bytes 8 8192 @ le_bytes 16 0 @ le_bytes 8 4352 @ le_bytes 8 0),
     (4352, le_bytes 8 12288 @ le_bytes 16 0 @ le_bytes 8 8448 @ le_bytes 16 0 @ le_bytes 8 0 @ le_bytes 8 0),
     (8192, le_bytes 1 1 @ le_bytes 7 0 @ le_bytes 8 20480 @ le_bytes 8 0 @ le_bytes 156 0),
     (8448, le_bytes 1 2 @ le_bytes 7 0 @ le_bytes 8 0 @ le_bytes 8 0 @ le_bytes 144 0 @ le_bytes 8 20736
       @ le_bytes 4 1),
     (12288, le_bytes 24 0 @ le_bytes 4 3),
     (20480, zstring_bytes ''f''),
     (20736, zstring_bytes ''/a.php''),
     (32768, le_bytes 488 0 @ le_bytes 8 4096)]"

definition stack_frames :: "php_frame list" where
  "stack_frames = [\<lparr> pf_func = Some ''f'', pf_class = None, pf_code = None \<rparr>,
     \<lparr> pf_func = None, pf_class = None, pf_code = Some (''/a.php'', 3) \<rparr>]"

lemmas stack_eval = layout_84_x86_64 stack_mem_def mem_eval zstring_bytes_def Let_def ptr_at_def zstring_at_def
  frame_at_def frame_exec_def frame_zfunc_def frame_prev_def code_line_def int32_at_def

lemma stack_frames_at: "stack_at demo_layout stack_mem 4096 stack_frames"
  by (simp add: stack_frames_def stack_eval del: le_bytes.simps)

text \<open>A handler that writes down the frames it gets.\<close>

definition note_frames :: "('w, (string \<times> string \<times> string \<times> int \<times> int) list) handler" where
  "note_frames e = (if e = FRAME then modify (\<lambda>s. s\<lparr>event_udata := event_udata s @
     [(c_str (f_class (ev_frame s)) 0, c_str (f_func (ev_frame s)) 0, c_str (f_file (ev_frame s)) 0,
       f_lineno (ev_frame s), f_depth (ev_frame s))]\<rparr>) else ok ())"

definition fresh_frame :: trace_frame where
  "fresh_frame = \<lparr> f_func = tmp_buf, f_func_len = 0, f_class = tmp_buf, f_class_len = 0,
     f_file = tmp_buf, f_file_len = 0, f_lineno = 0, f_depth = 0 \<rparr>"

definition fresh_context :: "'u \<Rightarrow> (unit, 'u) trace_context" where
  "fresh_context u = \<lparr> tc_pid = 1, executor_globals_addr = 32768, sapi_globals_addr = 0, alloc_globals_addr = 0,
     basic_functions_module_addr = 0, ev_frame = fresh_frame,
     ev_request = \<lparr> r_uri = tmp_buf, r_path = tmp_buf, r_qstring = tmp_buf, r_cookie = tmp_buf, r_ts = 0 \<rparr>,
     ev_mem = \<lparr> m_size = 0, m_peak = 0 \<rparr>,
     ev_varpeek = \<lparr> vp_entry = [], vp_var = [], vp_str = tmp_buf, vp_str_len = 0 \<rparr>,
     ev_glopeek = \<lparr> gp_entry = \<lparr> ge_key = [], ge_gloname = [], ge_varname = [] \<rparr>, gp_str = tmp_buf, gp_str_len = 0 \<rparr>,
     event_udata = u, tc_buf = tmp_buf, tc_buf_len = 0, stack_ptrs = [], world = () \<rparr>"

lemma quiet_note_frames: "quiet note_frames"
  by (simp add: quiet_def note_frames_def handler_step_def run_simps)

lemma c_str_set_str: "NUL \<notin> set str \<Longrightarrow> c_str (set_str b str) 0 = str"
  by (simp add: c_str_def set_str_def takeWhile_append)

lemma default_opts:
  "only_frames default_options" "opt_max_stack_depth_from_root default_options = -1"
  "opt_max_stack_depth_from_leaf default_options = -1"
  by (simp_all add: only_frames_def default_options_def)

lemma only_frames_upd [simp]:
  "only_frames (opts\<lparr>opt_max_stack_depth_from_root := i\<rparr>) = only_frames opts"
  "only_frames (opts\<lparr>opt_max_stack_depth_from_leaf := i\<rparr>) = only_frames opts"
  "only_frames (opts\<lparr>opt_continue_on_error := c\<rparr>) = only_frames opts"
  by (simp_all add: only_frames_def)

lemma fresh_frame_ok: "frame_ok (ev_frame (fresh_context u))"
  by (simp add: frame_ok_def fresh_context_def fresh_frame_def tmp_buf_def)

lemma fresh_globals: "executor_globals_addr (fresh_context u) = 32768"
  by (simp add: fresh_context_def)

lemma demo_layout_ok: "layout_ok demo_layout"
  by (simp add: layout_ok_def layout_84_x86_64)

lemmas note_eval = numeral_2_eq_2 default_opts stack_frames_def note_frames_def fresh_context_def fresh_frame_def emit_item_def run_simps
  c_str_set_str func_text_def class_text_def file_text_def line_of_def clip_def leaf_limit_def

subsection \<open>Properties\<close>

text \<open>Without \<^verbatim>\<open>-N\<close>, \<^verbatim>\<open>trace_stack\<close> refines the call stack: on a process that holds still and whose
  chain of \<^verbatim>\<open>zend_execute_data\<close> holds the frames \<open>frs\<close>, it calls the handler with the innermost \<open>n\<close>
  of them for \<^verbatim>\<open>-n\<close> \<open>n\<close>, and with 1024 at most, in order, each with its depth, class, function, file and line,
  until the handler fails; it returns the number of frames done.\<close>

lemma trace_stack_leaf:
  assumes "stack_at L m a frs" and "opt_max_stack_depth_from_root opts < 0"
    and "only_frames opts" and "quiet h" and "frame_ok (ev_frame s)"
  shows "trace_stack opts L (copy_proc_mem (still m) pid) fuel h a s =
    emit_counted h 0 (take (leaf_limit (opt_max_stack_depth_from_leaf opts)) frs) s"
  using assms trace_leaf_still [of h opts L m a frs s 0 pid fuel] by (simp add: trace_stack_def)

text \<open>C8: With \<^verbatim>\<open>-N\<close>, \<^verbatim>\<open>trace_stack\<close> keeps both ends of the stack: of the 1024 innermost frames it
  reports the innermost \<open>leaf\<close> and the outermost \<open>root\<close>, with one \<^verbatim>\<open><elided:k>\<close> frame that counts the
  \<open>k\<close> frames between them, and all of them when there are no more than both together.\<close>

theorem trace_stack_root:
  assumes "layout_ok L" and "stack_at L m a frs" and "0 \<le> opt_max_stack_depth_from_root opts"
    and "only_frames opts" and "quiet h" and "frame_ok (ev_frame s)"
  shows "trace_stack opts L (copy_proc_mem (still m) pid) fuel h a s =
    with_rv (emit_items h (kept_items (opt_max_stack_depth_from_leaf opts)
        (opt_max_stack_depth_from_root opts) (take PHPSPY_MAX_STACK_WALK frs)))
      (\<lambda>r v. if v = None then ok (r, 0) else ok (PHPSPY_OK, min (length frs) PHPSPY_MAX_STACK_WALK))
      (s\<lparr>stack_ptrs := take PHPSPY_MAX_STACK_WALK (stack_addrs L m a frs)\<rparr>)"
proof -
  let ?ps = "take PHPSPY_MAX_STACK_WALK (stack_addrs L m a frs)"
  let ?frs = "take PHPSPY_MAX_STACK_WALK frs"
  let ?s = "s\<lparr>stack_ptrs := ?ps\<rparr>"
  let ?root = "opt_max_stack_depth_from_root opts"
  let ?leaf = "opt_max_stack_depth_from_leaf opts"
  let ?n = "int (length ?ps)"
  define ki where "ki = (if 0 \<le> ?leaf then ?leaf else 0)"
  define ko where "ko = (if ki + ?root < ?n then ?n - ?root else ki)"
  define ne where "ne = (if ki + ?root < ?n then ko - ki else 0)"
  have "off_prev_execute_data L + 8 \<le> sizeof_execute_data L"
    using assms(1) by (simp add: layout_ok_def)
  then have collect: "stack_collect L (copy_proc_mem (still m) pid) a s = (Ok (), ?s)"
    using stack_walk_still [OF _ assms(2), of pid 0 "s\<lparr>stack_ptrs := []\<rparr>"]
    by (simp add: stack_collect_def run_simps)
  have "ne \<le> int PHPSPY_MAX_STACK_WALK"
    using assms(3) by (auto simp: ne_def ko_def ki_def min_def)
  moreover have "list_all2 (frame_at L m) ?ps ?frs"
    using stack_addrs_frames [OF assms(2)] by (rule list_all2_takeI)
  ultimately have outer: "trace_outer opts L (copy_proc_mem (still m) pid) fuel h ki ko ne 0 ?ps ?s =
      emit_items h (items_from ki ko ne 0 ?frs) ?s"
    using assms(4-6) by (intro trace_outer_still) simp_all
  have items: "items_from ki ko ne 0 ?frs = kept_items ?leaf ?root ?frs"
    by (rule kept_items_from [OF assms(3) refl refl refl])
      (use assms(3) in \<open>auto simp: ki_def ko_def ne_def\<close>)
  have "trace_stack opts L (copy_proc_mem (still m) pid) fuel h a s =
      with_rv (trace_outer opts L (copy_proc_mem (still m) pid) fuel h ki ko ne 0 ?ps)
        (\<lambda>r v. if v = None then ok (r, 0) else ok (PHPSPY_OK, nat ?n)) ?s"
    using assms(3) collect
    by (simp add: trace_stack_def get_s_def Let_def ki_def [symmetric] ko_def ne_def cong: if_cong)
  also have "\<dots> = with_rv (emit_items h (kept_items ?leaf ?root ?frs))
      (\<lambda>r v. if v = None then ok (r, 0) else ok (PHPSPY_OK, min (length frs) PHPSPY_MAX_STACK_WALK)) ?s"
    unfolding with_rv_def outer items by (auto split: prod.splits result.splits)
  finally show ?thesis .
qed

theorem trace_stack_root_witness:
  "\<exists>s'. trace_stack (default_options\<lparr>opt_max_stack_depth_from_root := 1, opt_max_stack_depth_from_leaf := 0\<rparr>)
      demo_layout (copy_proc_mem (still stack_mem) 1) 0 note_frames 4096 (fresh_context []) =
      (Ok (PHPSPY_OK, 2), s') \<and>
    event_udata s' = [([], ''<elided:1>'', ''<elided>'', -1, 0), ([], ''<main>'', ''/a.php'', 3, 1)]"
  using trace_stack_root [OF demo_layout_ok stack_frames_at _ _ quiet_note_frames fresh_frame_ok,
      of "default_options\<lparr>opt_max_stack_depth_from_root := 1, opt_max_stack_depth_from_leaf := 0\<rparr>" 1 0 "[]"]
  by (simp add: note_eval kept_items_def Let_def dec_nat.simps digit_simps)

text \<open>C16: A trace has at most 1024 frames, for any memory, any reader and any handler: a cyclic or
  endless chain of \<^verbatim>\<open>zend_execute_data\<close> cannot keep the tracer in its loop.\<close>

theorem trace_stack_depth:
  assumes "trace_stack opts L cp fuel h a s = (Ok (r, d), s')"
  shows "d \<le> PHPSPY_MAX_STACK_WALK"
proof (cases "0 \<le> opt_max_stack_depth_from_root opts")
  case False
  with assms show ?thesis using trace_leaf_depth [of 0] by (simp add: trace_stack_def)
next
  case True
  have len: "length (stack_ptrs t) \<le> PHPSPY_MAX_STACK_WALK"
    if "stack_collect L cp a s = (x, t)" for x t
    using that stack_walk_length [of "s\<lparr>stack_ptrs := []\<rparr>" 0 L cp a]
    by (simp add: stack_collect_def run_simps)
  from assms True show ?thesis
    by (auto simp: trace_stack_def with_rv_def get_s_def run_simps Let_def dest!: len
        split: prod.splits result.splits)
qed

theorem trace_stack_depth_witness:
  "\<exists>r d s'. trace_stack default_options demo_layout (copy_proc_mem (still stack_mem) 1) 0 note_frames 4096
      (fresh_context []) = (Ok (r, d), s') \<and> d \<le> PHPSPY_MAX_STACK_WALK"
proof -
  have "\<exists>r d s'. trace_stack default_options demo_layout (copy_proc_mem (still stack_mem) 1) 0 note_frames 4096
      (fresh_context []) = (Ok (r, d), s')"
    using trace_leaf_still [OF quiet_note_frames default_opts(1) stack_frames_at fresh_frame_ok, of 0 1 0 "[]"]
    by (simp add: trace_stack_def note_eval)
  then show ?thesis using trace_stack_depth by blast
qed

text \<open>With \<^verbatim>\<open>-c\<close> the status of a trace is that of the \<^verbatim>\<open>STACK_END\<close> event: an error met while
  walking the stack, the death of the traced process included, is forgotten, and the caller counts the
  trace as done.\<close>

lemma do_trace_continue_forgets:
  assumes "opt_continue_on_error opts"
    and "copy_executor_globals L cp s = (Ok a, s1)" and "h STACK_BEGIN s1 = (Ok (), s2)"
    and "trace_stack opts L cp fuel h a s2 = (Ok (r, d), s3)" and "r AND PHPSPY_ERR_PID_DEAD \<noteq> 0"
  shows "do_trace opts L cp fuel h s = h STACK_END s3"
  using assms by (simp add: do_trace_def should_stop_trace_def do_trace_end_def)

end
