(* ===== verification/C_Double.thy ===== *)
theory C_Double
  imports C_Library
begin

text \<open>
  The floating point arithmetic of phpspy: the time of a trace is a \<^verbatim>\<open>double\<close> computed from a \<^verbatim>\<open>timeval\<close>, and the
  share of a function in the top mode is a \<^verbatim>\<open>float\<close>. Results are rounded to the nearest, ties to even.
\<close>

fun nbits :: "nat \<Rightarrow> nat" where
  "nbits n = (if n = 0 then 0 else Suc (nbits (n div 2)))"

declare nbits.simps [simp del]

definition scale2 :: "nat \<Rightarrow> nat \<Rightarrow> int \<Rightarrow> nat \<times> nat" where
  "scale2 a b s = (if 0 \<le> s then (a * 2 ^ nat s, b) else (a, b * 2 ^ nat (- s)))"

text \<open>The number with \<open>p\<close> bits nearest to \<open>a / b\<close>.\<close>

definition round_bits :: "nat \<Rightarrow> nat \<Rightarrow> nat \<Rightarrow> nat \<times> int" where
  "round_bits p a b =
     (if a = 0 then (0, 0)
      else
        let s = int p + int (nbits b) - int (nbits a);
            s = (case scale2 a b s of (x, y) \<Rightarrow> if 2 ^ p \<le> x div y then s - 1 else s)
        in case scale2 a b s of (x, y) \<Rightarrow> (round_div x y, - s))"

text \<open>\<^verbatim>\<open>(double)(tv.tv_sec + tv.tv_usec / 1000000.0)\<close>\<close>

definition timeval_double :: "nat \<Rightarrow> nat \<Rightarrow> nat \<times> int" where
  "timeval_double sec usec =
     (case round_bits 53 usec 1000000 of (m, e) \<Rightarrow>
        if 0 \<le> e then round_bits 53 (sec + m * 2 ^ nat e) 1
        else round_bits 53 (sec * 2 ^ nat (- e) + m) (2 ^ nat (- e)))"

text \<open>\<^verbatim>\<open>float\<close>: the value of an integer, products and quotients.\<close>

definition float_of :: "nat \<Rightarrow> nat \<times> int" where
  "float_of n = round_bits 24 n 1"

definition float_mul :: "nat \<times> int \<Rightarrow> nat \<times> int \<Rightarrow> nat \<times> int" where
  "float_mul = (\<lambda>(m, e) (m', e'). case scale2 (m * m') 1 (e + e') of (a, b) \<Rightarrow> round_bits 24 a b)"

definition float_div :: "nat \<times> int \<Rightarrow> nat \<times> int \<Rightarrow> nat \<times> int" where
  "float_div = (\<lambda>(m, e) (m', e'). case scale2 m m' (e - e') of (a, b) \<Rightarrow> round_bits 24 a b)"

lemma round_div_exact: "b \<noteq> 0 \<Longrightarrow> round_div (q * b) b = q"
  by (simp add: round_div_def)

text \<open>A value that is an integer prints with zeros behind the point.\<close>

lemma fmt_fixed_integer:
  assumes "e < 0" and "0 < k"
  shows "fmt_fixed k (n * 2 ^ nat (- e), e) = dec_nat n @ CHR ''.'' # replicate k CHR ''0''"
proof -
  have "round_div (n * 2 ^ nat (- e) * 10 ^ k) (2 ^ nat (- e)) = n * 10 ^ k"
    using round_div_exact [of "2 ^ nat (- e)" "n * 10 ^ k"] by (simp add: mult_ac)
  moreover have "replicate (k - 1) CHR ''0'' @ ''0'' = replicate k CHR ''0''"
    using assms(2) replicate_append_same [of "k - 1" "CHR ''0''"] replicate_Suc [of "k - 1" "CHR ''0''"] by simp
  ultimately show ?thesis
    using assms by (simp add: fmt_fixed_def Let_def dec_nat.simps [of 0] digit_simps)
qed

end
