(* ===== verification/Event_Fout.thy ===== *)
theory Event_Fout
  imports Trace C_Double
begin

text \<open>
  The file output handler, \<^verbatim>\<open>event_fout.c\<close>. A trace is collected as text in a growing buffer, one
  record per event, and goes out in one \<^verbatim>\<open>writev\<close> when it fits the buffer size of \<^verbatim>\<open>-b\<close>, or else in
  chunks that end at record boundaries.

  The handler's data are its \<^verbatim>\<open>udata\<close> (absent before \<^verbatim>\<open>INIT\<close>), the static trace id and shared
  descriptor of the file, and, as a ghost, the list of its visible actions. System calls and the
  regular expression library are the record \<open>fout_env\<close> of functions on the world; \<^verbatim>\<open>realloc\<close> keeps
  the old bytes, and what follows them is whatever the environment chooses.
\<close>

subsection \<open>State\<close>

record fout_udata =
  ud_fd :: int
  ud_buf :: string
  ud_len :: nat
  ud_cap :: nat
  ud_use_mutex :: bool
  ud_truncated :: bool
  ud_trunc_marker :: string
  ud_trace_id_tail :: string
  ud_trunc_marker_len :: nat
  ud_trace_id_tail_len :: nat

datatype io = Lock | Unlock | Writev int string | Close int

record fout_state =
  fo_udata :: "fout_udata option"
  fo_trace_id :: "64 word"
  fo_shared_fd :: int
  fo_io :: "io list"

record 'w fout_env =
  e_writev :: "int \<Rightarrow> string \<Rightarrow> 'w \<Rightarrow> int \<times> 'w"
  e_realloc :: "nat \<Rightarrow> 'w \<Rightarrow> (nat \<Rightarrow> char) option \<times> 'w"
  e_gettimeofday :: "'w \<Rightarrow> (nat \<times> nat) \<times> 'w"
  e_gettid :: "'w \<Rightarrow> int \<times> 'w"
  e_alloc :: "'w \<Rightarrow> bool \<times> 'w"
  e_open :: "string \<Rightarrow> 'w \<Rightarrow> int \<times> 'w"
  e_dup :: "int \<Rightarrow> 'w \<Rightarrow> int \<times> 'w"
  e_regexec :: "string \<Rightarrow> string \<Rightarrow> bool"

text \<open>The functions under the handler work on one \<^verbatim>\<open>udata\<close>, the trace id, the actions and the world.\<close>

record 'w fctx =
  fc_ud :: fout_udata
  fc_trace_id :: "64 word"
  fc_io :: "io list"
  fc_world :: 'w

type_synonym ('w, 'a) ffun = "('w fctx, 'a) cfun"

abbreviation (input) PHPSPY_FOUT_MAX_BUFFER :: nat where "PHPSPY_FOUT_MAX_BUFFER \<equiv> 4194304"

definition get_ud :: "(fout_udata \<Rightarrow> ('w, 'a) ffun) \<Rightarrow> ('w, 'a) ffun" where
  "get_ud k = get_s (\<lambda>s. k (fc_ud s))"

definition upd_ud :: "(fout_udata \<Rightarrow> fout_udata) \<Rightarrow> ('w, unit) ffun" where
  "upd_ud f = modify (fc_ud_update f)"

definition sys :: "('w \<Rightarrow> 'a \<times> 'w) \<Rightarrow> ('w, 'a) ffun" where
  "sys f s = (case f (fc_world s) of (a, w') \<Rightarrow> (Ok a, s\<lparr>fc_world := w'\<rparr>))"

definition act :: "io \<Rightarrow> ('w, unit) ffun" where
  "act a = modify (fc_io_update (\<lambda>as. as @ [a]))"

text \<open>The bytes \<^verbatim>\<open>b[p .. p + n)\<close>; reading outside the array is a fault.\<close>

definition slice :: "string \<Rightarrow> nat \<Rightarrow> nat \<Rightarrow> string option" where
  "slice b p n = (if p + n \<le> length b then Some (take n (drop p b)) else None)"

definition resize :: "string \<Rightarrow> nat \<Rightarrow> (nat \<Rightarrow> char) \<Rightarrow> string" where
  "resize b n junk = take n b @ map junk [length b..<n]"

subsection \<open>The buffer\<close>

text \<open>\<^verbatim>\<open>while (new_cap < needed_cap) new_cap *= 2;\<close> with \<open>None\<close> when it runs forever.\<close>

partial_function (option) grow :: "nat \<Rightarrow> nat \<Rightarrow> nat option" where
  "grow new_cap needed_cap = (if new_cap < needed_cap then grow (new_cap * 2) needed_cap else Some new_cap)"

definition event_handler_fout_realloc :: "'w fout_env \<Rightarrow> nat \<Rightarrow> ('w, unit) ffun" where
  "event_handler_fout_realloc env needed_cap =
     (if PHPSPY_FOUT_MAX_BUFFER < needed_cap then rv PHPSPY_ERR
      else get_ud (\<lambda>u.
        try_c (of_opt OutOfFuel (grow (ud_cap u) needed_cap)) (\<lambda>new_cap.
        let new_cap = (if PHPSPY_FOUT_MAX_BUFFER < new_cap then PHPSPY_FOUT_MAX_BUFFER else new_cap) in
        try_c (sys (e_realloc env new_cap)) (\<lambda>new_buf.
        case new_buf of
          None \<Rightarrow> rv PHPSPY_ERR
        | Some junk \<Rightarrow> upd_ud (\<lambda>u. u\<lparr>ud_buf := resize (ud_buf u) new_cap junk, ud_cap := new_cap\<rparr>)))))"

definition event_handler_fout_truncate :: "options \<Rightarrow> ('w, unit) ffun" where
  "event_handler_fout_truncate opts =
     get_ud (\<lambda>u.
     try_c (of_opt OutOfBounds (slice (ud_buf u) 0 (ud_len u))) (\<lambda>_.
     let n = (case memrchr (ud_buf u) 0 (opt_frame_delim opts) (ud_len u) of Some i \<Rightarrow> i + 1 | None \<Rightarrow> 0) in
     try_c (of_opt OutOfBounds (put (ud_buf u) n [NUL])) (\<lambda>b.
     upd_ud (\<lambda>u. u\<lparr>ud_truncated := True, ud_len := n, ud_buf := b\<rparr>))))"

text \<open>One pass of the loop that replaces a delimiter, from \<open>cur\<close> to \<open>stop\<close>. It yields the bytes and
  where \<^verbatim>\<open>cur\<close> ends up.\<close>

lemma memchr_ge: "memchr b start c n = Some i \<Longrightarrow> start \<le> i \<and> i < start + n"
  by (auto simp: memchr_def dest!: find_from_Some)
    (metis add_less_cancel_left length_append length_Cons length_take min_less_iff_conj
      less_add_Suc1 less_le_trans min.cobounded1 add_Suc_right)

function strip_pass :: "char \<Rightarrow> nat \<Rightarrow> nat \<Rightarrow> string \<Rightarrow> string \<times> nat" where
  "strip_pass c stop cur b =
     (if cur < stop then
        case memchr b cur c (stop - cur) of
          None \<Rightarrow> (b, cur)
        | Some delim \<Rightarrow> strip_pass c stop (delim + 1) (b[delim := CHR ''?''])
      else (b, cur))"
  by pat_completeness auto

termination
  by (relation "measure (\<lambda>(c, stop, cur, b). stop - cur)") (auto dest: memchr_ge)

declare strip_pass.simps [simp del]

definition vsnprintf_len :: "string \<Rightarrow> int" where
  "vsnprintf_len text = (if INT_MAX < int (length text) then -1 else int (length text))"

text \<open>\<^verbatim>\<open>event_handler_fout_snprintf(udata, strip_delim, fmt, ...)\<close>; \<open>text\<close> is the whole formatted text.\<close>

definition fout_append :: "options \<Rightarrow> bool \<Rightarrow> string \<Rightarrow> ('w, unit) ffun" where
  "fout_append opts strip_delim text =
     get_ud (\<lambda>u.
     let stop = ud_len u + length text in
     if strip_delim then
       try_c (of_opt OutOfBounds (slice (ud_buf u) (ud_len u) (length text))) (\<lambda>_.
       let (b, cur) = strip_pass (opt_frame_delim opts) stop (ud_len u) (ud_buf u);
           (b, cur) = strip_pass (opt_trace_delim opts) stop cur b
       in upd_ud (\<lambda>u. u\<lparr>ud_buf := b, ud_len := stop\<rparr>))
     else upd_ud (\<lambda>u. u\<lparr>ud_len := stop\<rparr>))"

text \<open>\<^verbatim>\<open>rem_cap = udata->cap - udata->len; vsnprintf(udata->buf + udata->len, rem_cap, fmt, vl);\<close>\<close>

definition fout_vsnprintf :: "string \<Rightarrow> ('w, nat) ffun" where
  "fout_vsnprintf text =
     get_ud (\<lambda>u.
     let rem_cap = sz_minus (ud_cap u) (ud_len u) in
     try_c (of_opt OutOfBounds (snprintf_at (ud_buf u) (ud_len u) rem_cap text)) (\<lambda>b.
     try_c (upd_ud (\<lambda>u. u\<lparr>ud_buf := b\<rparr>)) (\<lambda>_.
     ok rem_cap)))"

definition event_handler_fout_snprintf ::
  "options \<Rightarrow> 'w fout_env \<Rightarrow> bool \<Rightarrow> string \<Rightarrow> ('w, unit) ffun" where
  "event_handler_fout_snprintf opts env strip_delim text =
     get_ud (\<lambda>u.
     if ud_truncated u then ok ()
     else
       try_c (fout_vsnprintf text) (\<lambda>rem_cap.
       let append_len = vsnprintf_len text in
       if append_len < 0 then event_handler_fout_truncate opts
       else if rem_cap \<le> nat append_len then
         with_rv (event_handler_fout_realloc env (ud_len u + nat append_len + 1)) (\<lambda>r v.
         if v = None then event_handler_fout_truncate opts
         else try_c (fout_vsnprintf text) (\<lambda>_. fout_append opts strip_delim text))
       else fout_append opts strip_delim text))"

subsection \<open>Writing\<close>

definition event_handler_fout_writev :: "'w fout_env \<Rightarrow> string list \<Rightarrow> ('w, unit) ffun" where
  "event_handler_fout_writev env iov =
     get_ud (\<lambda>u.
     try_c (act (Writev (ud_fd u) (concat iov))) (\<lambda>_.
     try_c (sys (e_writev env (ud_fd u) (concat iov))) (\<lambda>n.
     if n \<noteq> int (sum_list (map length iov)) then rv PHPSPY_ERR else ok ())))"

definition event_handler_fout_write_whole :: "options \<Rightarrow> 'w fout_env \<Rightarrow> ('w, unit) ffun" where
  "event_handler_fout_write_whole opts env =
     get_ud (\<lambda>u.
     try_c (of_opt OutOfBounds (slice (ud_buf u) 0 (ud_len u))) (\<lambda>body.
     try_c
       (if ud_truncated u then
          try_c (of_opt OutOfBounds (slice (ud_trunc_marker u) 0 (ud_trunc_marker_len u))) (\<lambda>marker. ok [marker])
        else ok []) (\<lambda>marker.
     event_handler_fout_writev env ([body] @ marker @ [[opt_trace_delim opts]]))))"

definition trace_id_text :: "options \<Rightarrow> 64 word \<Rightarrow> 64 word \<Rightarrow> char \<Rightarrow> string" where
  "trace_id_text opts trace_id chunk_idx sentinel =
     ''# trace_id = '' @ dec_nat (unat trace_id) @ ''.'' @ dec_nat (unat chunk_idx) @
     [sentinel, opt_frame_delim opts, opt_trace_delim opts]"

definition event_handler_fout_fill_trace_id :: "options \<Rightarrow> 64 word \<Rightarrow> 64 word \<Rightarrow> ('w, unit) ffun" where
  "event_handler_fout_fill_trace_id opts trace_id chunk_idx =
     (let text = trace_id_text opts trace_id chunk_idx CHR ''~'' in
      get_ud (\<lambda>u.
      try_c (of_opt OutOfBounds (snprintf_at (ud_trace_id_tail u) 0 64 text)) (\<lambda>b.
      upd_ud (\<lambda>u. u\<lparr>ud_trace_id_tail := b, ud_trace_id_tail_len := length text\<rparr>))))"

definition event_handler_fout_write_chunk :: "'w fout_env \<Rightarrow> string \<Rightarrow> char \<Rightarrow> ('w, unit) ffun" where
  "event_handler_fout_write_chunk env body sentinel =
     get_ud (\<lambda>u.
     if ud_trace_id_tail_len u < 3 then fault AssertFailed
     else
       try_c (of_opt OutOfBounds (put (ud_trace_id_tail u) (ud_trace_id_tail_len u - 3) [sentinel])) (\<lambda>b.
       try_c (upd_ud (\<lambda>u. u\<lparr>ud_trace_id_tail := b\<rparr>)) (\<lambda>_.
       try_c (of_opt OutOfBounds (slice b 0 (ud_trace_id_tail_len u))) (\<lambda>tail.
       event_handler_fout_writev env [body, tail]))))"

definition event_handler_fout_find_chunk_end ::
  "options \<Rightarrow> string \<Rightarrow> nat \<Rightarrow> nat \<Rightarrow> nat \<Rightarrow> nat option" where
  "event_handler_fout_find_chunk_end opts buf chunk_start stop max_chunk_len =
     (if stop - chunk_start \<le> max_chunk_len then Some stop
      else case memrchr buf chunk_start (opt_frame_delim opts) max_chunk_len of
        None \<Rightarrow> None
      | Some last_delim \<Rightarrow> Some (last_delim + 1))"

lemma memrchr_ge: "memrchr b start c n = Some i \<Longrightarrow> start \<le> i \<and> i < start + n"
  by (auto simp: memrchr_def dest!: rfind_from_Some)
    (metis add_less_cancel_left length_append length_Cons length_take min_less_iff_conj
      less_add_Suc1 less_le_trans min.cobounded1 add_Suc_right)

lemma find_chunk_end_gt:
  "event_handler_fout_find_chunk_end opts buf start stop n = Some e \<Longrightarrow> start < stop \<Longrightarrow> start < e"
  by (auto simp: event_handler_fout_find_chunk_end_def dest: memrchr_ge split: if_splits option.splits)

text \<open>The loop of \<^verbatim>\<open>event_handler_fout_write_chunked\<close>; it yields \<^verbatim>\<open>chunk_start\<close>, \<^verbatim>\<open>chunk_idx\<close> and \<^verbatim>\<open>rv\<close>.\<close>

function chunk_loop ::
  "options \<Rightarrow> 'w fout_env \<Rightarrow> 64 word \<Rightarrow> string \<Rightarrow> nat \<Rightarrow> bool \<Rightarrow> nat \<Rightarrow> 64 word \<Rightarrow> int
     \<Rightarrow> ('w, nat \<times> 64 word \<times> int) ffun" where
  "chunk_loop opts env trace_id buf stop truncated chunk_start chunk_idx r =
     (if chunk_start < stop then
        try_c (event_handler_fout_fill_trace_id opts trace_id chunk_idx) (\<lambda>_.
        get_ud (\<lambda>u.
        let size = nat (opt_fout_buffer_size opts);
            max_chunk_len = (if ud_trace_id_tail_len u < size then size - ud_trace_id_tail_len u else 0) in
        case event_handler_fout_find_chunk_end opts buf chunk_start stop max_chunk_len of
          None \<Rightarrow> ok (chunk_start, chunk_idx, r)
        | Some chunk_end \<Rightarrow>
            let sentinel = (if chunk_end = stop \<and> \<not> truncated then CHR ''!'' else CHR ''~'') in
            try_c (of_opt OutOfBounds (slice buf chunk_start (chunk_end - chunk_start))) (\<lambda>body.
            with_rv (event_handler_fout_write_chunk env body sentinel) (\<lambda>r' _.
            chunk_loop opts env trace_id buf stop truncated chunk_end (chunk_idx + 1) (r OR r')))))
      else ok (chunk_start, chunk_idx, r))"
  by pat_completeness auto

termination
  by (relation "measure (\<lambda>(opts, env, trace_id, buf, stop, truncated, chunk_start, chunk_idx, r). stop - chunk_start)")
    (auto dest: find_chunk_end_gt)

declare chunk_loop.simps [simp del]

definition event_handler_fout_write_chunked :: "options \<Rightarrow> 'w fout_env \<Rightarrow> ('w, unit) ffun" where
  "event_handler_fout_write_chunked opts env =
     get_s (\<lambda>s. let trace_id = fc_trace_id s; u = fc_ud s in
     try_c (modify (fc_trace_id_update (\<lambda>t. t + 1))) (\<lambda>_.
     try_c (chunk_loop opts env trace_id (ud_buf u) (ud_len u) (ud_truncated u) 0 0 PHPSPY_OK)
       (\<lambda>(chunk_start, chunk_idx, r).
     try_c (if chunk_start < ud_len u then upd_ud (\<lambda>u. u\<lparr>ud_truncated := True\<rparr>) else ok ()) (\<lambda>_.
     get_ud (\<lambda>u.
     if \<not> ud_truncated u then ret r
     else
       try_c (event_handler_fout_fill_trace_id opts trace_id chunk_idx) (\<lambda>_.
       try_c (of_opt OutOfBounds (slice (ud_trunc_marker u) 0 (ud_trunc_marker_len u))) (\<lambda>marker.
       with_rv (event_handler_fout_write_chunk env marker CHR ''!'') (\<lambda>r' _. ret (r OR r')))))))))"

definition event_handler_fout_write :: "options \<Rightarrow> 'w fout_env \<Rightarrow> ('w, unit) ffun" where
  "event_handler_fout_write opts env =
     get_ud (\<lambda>u.
     let total_len = ud_len u + 1 + (if ud_truncated u then ud_trunc_marker_len u else 0) in
     try_c (if ud_use_mutex u then act Lock else ok ()) (\<lambda>_.
     with_rv
       (if total_len \<le> nat (opt_fout_buffer_size opts) then event_handler_fout_write_whole opts env
        else event_handler_fout_write_chunked opts env) (\<lambda>r _.
     try_c (if ud_use_mutex u then act Unlock else ok ()) (\<lambda>_.
     get_ud (\<lambda>u. ret (if ud_truncated u then r OR PHPSPY_ERR_TRUNCATED else r))))))"

subsection \<open>Opening the output\<close>

fun strstr_in :: "string \<Rightarrow> string \<Rightarrow> bool" where
  "strstr_in pat [] \<longleftrightarrow> pat = []"
| "strstr_in pat (c # cs) \<longleftrightarrow> take (length pat) (c # cs) = pat \<or> strstr_in pat cs"

text \<open>\<^verbatim>\<open>asprintf(&apath, opt_path_output, gettid())\<close>: the format is the user's. A conversion other than
  \<^verbatim>\<open>%d\<close>, or a second one, has no argument and is undefined (\<open>None\<close>).\<close>

fun expand_fmt :: "string \<Rightarrow> int list \<Rightarrow> string option" where
  "expand_fmt [] args = Some []"
| "expand_fmt (c # cs) args =
     (if c \<noteq> CHR ''%'' then map_option (Cons c) (expand_fmt cs args)
      else case cs of
        [] \<Rightarrow> None
      | d # ds \<Rightarrow>
          if d = CHR ''%'' then map_option (Cons d) (expand_fmt ds args)
          else if d = CHR ''d'' then
            (case args of [] \<Rightarrow> None | a # rest \<Rightarrow> map_option ((@) (dec_int a)) (expand_fmt ds rest))
          else None)"

definition fout_act :: "io \<Rightarrow> ('w, fout_state, unit) tfun" where
  "fout_act a = modify (event_udata_update (fo_io_update (\<lambda>as. as @ [a])))"

definition tsys :: "('w \<Rightarrow> 'a \<times> 'w) \<Rightarrow> ('w, 'u, 'a) tfun" where
  "tsys f = on_world (\<lambda>w. case f w of (a, w') \<Rightarrow> (Ok a, w'))"

definition fout_open_fd :: "options \<Rightarrow> 'w fout_env \<Rightarrow> ('w, fout_state, int) tfun" where
  "fout_open_fd opts env =
     (if strstr_in ''%d'' (opt_path_output opts) then
        try_c (tsys (e_gettid env)) (\<lambda>tid.
        try_c (tsys (e_alloc env)) (\<lambda>alloc.
        if \<not> alloc then ok (-1)
        else
          try_c (of_opt OutOfBounds (expand_fmt (opt_path_output opts) [tid])) (\<lambda>apath.
          tsys (e_open env apath))))
      else if opt_path_output opts = ''-'' then tsys (e_dup env 1)
      else get_s (\<lambda>s.
        if fo_shared_fd (event_udata s) < 0 then
          try_c (tsys (e_open env (opt_path_output opts))) (\<lambda>tfd.
          try_c (modify (event_udata_update (fo_shared_fd_update (\<lambda>_. tfd)))) (\<lambda>_.
          ok tfd))
        else tsys (e_dup env (fo_shared_fd (event_udata s)))))"

definition event_handler_fout_open :: "options \<Rightarrow> 'w fout_env \<Rightarrow> ('w, fout_state, int) tfun" where
  "event_handler_fout_open opts env =
     try_c (fout_act Lock) (\<lambda>_.
     try_c (fout_open_fd opts env) (\<lambda>tfd.
     try_c (fout_act Unlock) (\<lambda>_.
     if tfd < 0 then rv PHPSPY_ERR else ok tfd)))"

subsection \<open>The handler\<close>

definition to_fctx :: "fout_udata \<Rightarrow> ('w, fout_state) trace_context \<Rightarrow> 'w fctx" where
  "to_fctx u s = \<lparr> fc_ud = u, fc_trace_id = fo_trace_id (event_udata s), fc_io = fo_io (event_udata s),
     fc_world = world s \<rparr>"

definition of_fctx :: "'w fctx \<Rightarrow> ('w, fout_state) trace_context \<Rightarrow> ('w, fout_state) trace_context" where
  "of_fctx c s = s\<lparr>event_udata := (event_udata s)\<lparr>fo_trace_id := fc_trace_id c, fo_io := fc_io c\<rparr>,
     world := fc_world c\<rparr>"

text \<open>A call with a \<^verbatim>\<open>udata\<close> that the context does not hold yet, and one with the context's own.\<close>

definition run_ud :: "fout_udata \<Rightarrow> ('w, unit) ffun \<Rightarrow> ('w, fout_state, fout_udata) tfun" where
  "run_ud u m s =
     (case m (to_fctx u s) of
        (Ok _, c) \<Rightarrow> (Ok (fc_ud c), of_fctx c s)
      | (Rv r, c) \<Rightarrow> (Rv r, of_fctx c s)
      | (Fault f, c) \<Rightarrow> (Fault f, of_fctx c s))"

definition set_ud :: "fout_udata option \<Rightarrow> ('w, fout_state) trace_context \<Rightarrow> ('w, fout_state) trace_context" where
  "set_ud u s = s\<lparr>event_udata := (event_udata s)\<lparr>fo_udata := u\<rparr>\<rparr>"

definition on_udata :: "('w, 'a) ffun \<Rightarrow> ('w, fout_state, 'a) tfun" where
  "on_udata m s =
     (case fo_udata (event_udata s) of
        None \<Rightarrow> (Rv PHPSPY_ERR, s)
      | Some u \<Rightarrow> (case m (to_fctx u s) of (r, c) \<Rightarrow> (r, set_ud (Some (fc_ud c)) (of_fctx c s))))"

definition fout_init :: "options \<Rightarrow> 'w fout_env \<Rightarrow> ('w, fout_state, unit) tfun" where
  "fout_init opts env =
     try_c (event_handler_fout_open opts env) (\<lambda>fd.
     let cap = nat (opt_fout_buffer_size opts);
         udata = \<lparr> ud_fd = fd, ud_buf = [], ud_len = 0, ud_cap = cap, ud_use_mutex = False,
           ud_truncated = False, ud_trunc_marker = replicate 32 NUL, ud_trace_id_tail = replicate 64 NUL,
           ud_trunc_marker_len = 0, ud_trace_id_tail_len = 0 \<rparr> in
     try_c (run_ud udata (event_handler_fout_realloc env cap)) (\<lambda>udata.
     let text = ''# truncated = 1'' @ [opt_frame_delim opts] in
     try_c (of_opt OutOfBounds (snprintf_at (ud_trunc_marker udata) 0 32 text)) (\<lambda>marker.
     modify (set_ud (Some (udata\<lparr>
       ud_use_mutex := (case opt_event_handler_opts opts of None \<Rightarrow> False | Some ho \<Rightarrow> CHR ''m'' \<in> set ho),
       ud_trunc_marker := marker, ud_trunc_marker_len := length text\<rparr>))))))"

text \<open>\<^verbatim>\<open>%.*s\<close> of an array; \<open>None\<close> when it would be read past its end.\<close>

definition fmt_prec :: "nat \<Rightarrow> string \<Rightarrow> string option" where
  "fmt_prec n b = (if n \<le> length b \<or> NUL \<in> set b then Some (fmt_prec_s n b) else None)"

text \<open>A record: its text, in which delimiters are replaced, and the frame delimiter.\<close>

definition fout_record :: "options \<Rightarrow> 'w fout_env \<Rightarrow> string option \<Rightarrow> ('w, unit) ffun" where
  "fout_record opts env text =
     try_c (of_opt OutOfBounds text) (\<lambda>text.
     try_c (event_handler_fout_snprintf opts env True text) (\<lambda>_.
     event_handler_fout_snprintf opts env False [opt_frame_delim opts]))"

definition fout_frame_text :: "trace_frame \<Rightarrow> string option" where
  "fout_frame_text f =
     (case (fmt_prec (f_class_len f) (f_class f), fmt_prec (f_func_len f) (f_func f), fmt_prec (f_file_len f) (f_file f)) of
        (Some cls, Some func, Some fl) \<Rightarrow>
          Some (dec_int (f_depth f) @ '' '' @ cls @ (if f_class_len f > 0 then ''::'' else []) @ func @ '' '' @
            fl @ '':'' @ dec_int (f_lineno f))
      | _ \<Rightarrow> None)"

definition prefixed :: "string \<Rightarrow> string option \<Rightarrow> string option" where
  "prefixed pre = map_option ((@) pre)"

definition fout_request :: "options \<Rightarrow> 'w fout_env \<Rightarrow> trace_request \<Rightarrow> ('w, unit) ffun" where
  "fout_request opts env r =
     try_c (fout_record opts env (prefixed ''# uri = '' (fmt_s (r_uri r)))) (\<lambda>_.
     try_c (fout_record opts env (prefixed ''# path = '' (fmt_s (r_path r)))) (\<lambda>_.
     try_c (fout_record opts env (prefixed ''# qstring = '' (fmt_s (r_qstring r)))) (\<lambda>_.
     try_c (fout_record opts env (prefixed ''# cookie = '' (fmt_s (r_cookie r)))) (\<lambda>_.
     fout_record opts env (Some (''# ts = '' @ fmt_f (r_ts r)))))))"

definition fout_skips :: "options \<Rightarrow> 'w fout_env \<Rightarrow> string \<Rightarrow> bool" where
  "fout_skips opts env buf =
     (case opt_filter_re opts of
        None \<Rightarrow> False
      | Some re \<Rightarrow> if opt_filter_negate opts then e_regexec env re buf else \<not> e_regexec env re buf)"

definition fout_stack_end :: "options \<Rightarrow> 'w fout_env \<Rightarrow> pid \<Rightarrow> ('w, unit) ffun" where
  "fout_stack_end opts env pid =
     get_ud (\<lambda>u.
     if ud_len u = 0 then ok ()
     else
       try_c (if opt_filter_re opts \<noteq> None then of_opt OutOfBounds (fmt_s (ud_buf u)) else ok []) (\<lambda>buf.
       if fout_skips opts env buf then rv PHPSPY_ERR_SKIPPED
       else
         try_c
           (if opt_verbose_fields_ts opts then
              try_c (sys (e_gettimeofday env)) (\<lambda>(sec, usec).
              fout_record opts env (Some (''# trace_ts = '' @ fmt_fixed 6 (timeval_double sec usec))))
            else ok ()) (\<lambda>_.
         try_c
           (if opt_verbose_fields_pid opts then fout_record opts env (Some (''# pid = '' @ dec_int pid))
            else ok ()) (\<lambda>_.
         event_handler_fout_write opts env))))"

definition event_handler_fout :: "options \<Rightarrow> 'w fout_env \<Rightarrow> ('w, fout_state) handler" where
  "event_handler_fout opts env event =
     get_s (\<lambda>s.
     if fo_udata (event_udata s) = None \<and> event \<noteq> INIT then rv PHPSPY_ERR
     else case event of
       INIT \<Rightarrow> fout_init opts env
     | STACK_BEGIN \<Rightarrow>
         on_udata (get_ud (\<lambda>u.
           try_c (of_opt OutOfBounds (put (ud_buf u) 0 [NUL])) (\<lambda>b.
           upd_ud (\<lambda>u. u\<lparr>ud_len := 0, ud_buf := b, ud_truncated := False\<rparr>))))
     | FRAME \<Rightarrow> on_udata (fout_record opts env (fout_frame_text (ev_frame s)))
     | VARPEEK \<Rightarrow>
         let v = ev_varpeek s in
         on_udata (fout_record opts env
           (prefixed (''# varpeek '' @ vp_var v @ ''@'' @ vp_entry v @ '' = '') (fmt_prec (vp_str_len v) (vp_str v))))
     | GLOPEEK \<Rightarrow>
         let g = ev_glopeek s in
         on_udata (fout_record opts env
           (prefixed (''# glopeek '' @ ge_key (gp_entry g) @ '' = '') (fmt_prec (gp_str_len g) (gp_str g))))
     | REQUEST \<Rightarrow> on_udata (fout_request opts env (ev_request s))
     | MEM \<Rightarrow>
         on_udata (fout_record opts env
           (Some (''# mem '' @ dec_nat (m_size (ev_mem s)) @ '' '' @ dec_nat (m_peak (ev_mem s)))))
     | STACK_END \<Rightarrow> on_udata (fout_stack_end opts env (tc_pid s))
     | ERROR \<Rightarrow> ok ()
     | DEINIT \<Rightarrow>
         (case fo_udata (event_udata s) of
            None \<Rightarrow> ok ()
          | Some u \<Rightarrow>
              try_c (if ud_fd u \<noteq> fo_shared_fd (event_udata s) then fout_act (Close (ud_fd u)) else ok ()) (\<lambda>_.
              modify (set_ud None))))"

end
