(* ===== verification/Fout_Buffer.thy ===== *)
theory Fout_Buffer
  imports Event_Fout "HOL-Library.Sublist"
begin

text \<open>
  What the buffer of the file output handler holds: the invariant of its data, the effect of appending a
  text in terms of \<open>ud_text\<close>, the text collected so far, and the growth and truncation of the buffer.
\<close>

subsection \<open>What the buffer holds\<close>

text \<open>The text collected so far, and the invariant of the handler's data.\<close>

definition ud_text :: "fout_udata \<Rightarrow> string" where
  "ud_text u = take (ud_len u) (ud_buf u)"

definition ud_ok :: "options \<Rightarrow> fout_udata \<Rightarrow> bool" where
  "ud_ok opts u \<longleftrightarrow>
     length (ud_buf u) = ud_cap u \<and> ud_len u < ud_cap u \<and> ud_cap u \<le> PHPSPY_FOUT_MAX_BUFFER \<and>
     (ud_len u = 0 \<or> ud_buf u ! ud_len u = NUL) \<and>
     length (ud_trunc_marker u) = 32 \<and> ud_trunc_marker_len u = 16 \<and>
     take 16 (ud_trunc_marker u) = ''# truncated = 1'' @ [opt_frame_delim opts] \<and>
     length (ud_trace_id_tail u) = 64"

text \<open>Where the last record of a text ends, and what replacing the delimiters makes of a text: the
  trace delimiter is looked for only after the last frame delimiter.\<close>

definition last_end :: "char \<Rightarrow> string \<Rightarrow> nat" where
  "last_end c s = (case rfind_from 0 c s of None \<Rightarrow> 0 | Some i \<Rightarrow> i + 1)"

definition mask_char :: "char \<Rightarrow> string \<Rightarrow> string" where
  "mask_char c = map (\<lambda>x. if x = c then CHR ''?'' else x)"

definition strip_text :: "options \<Rightarrow> string \<Rightarrow> string" where
  "strip_text opts t =
     (let n = last_end (opt_frame_delim opts) t
      in mask_char (opt_frame_delim opts) (take n t) @ mask_char (opt_trace_delim opts) (drop n t))"

lemma mask_simps [simp]: "length (mask_char c s) = length s" "mask_char c [] = []"
  by (simp_all add: mask_char_def)

lemma mask_id: "c \<notin> set s \<Longrightarrow> mask_char c s = s"
  unfolding mask_char_def by (induction s) auto

lemma last_end_notin: "c \<notin> set s \<Longrightarrow> last_end c s = 0"
  by (simp add: last_end_def rfind_from_None [THEN iffD2])

lemma last_end_append: "last_end c (ys @ c # zs) = length ys + 1 + last_end c zs"
proof (cases "c \<in> set zs")
  case True
  then obtain i where "rfind_from 0 c zs = Some i" using rfind_from_None [of 0 c zs] by auto
  with rfind_from_Some obtain as bs where "zs = as @ c # bs" "c \<notin> set bs" "i = length as" by fastforce
  then show ?thesis
    using rfind_from_append [of c bs 0 "ys @ c # as"] rfind_from_append [of c bs 0 as]
    by (simp add: last_end_def)
next
  case False
  then show ?thesis by (simp add: last_end_notin) (simp add: last_end_def rfind_from_append)
qed

lemma last_end_le: "last_end c s \<le> length s"
  by (auto simp: last_end_def dest!: rfind_from_Some split: option.splits)

lemma length_strip_text [simp]: "length (strip_text opts t) = length t"
  using last_end_le [of _ t] by (simp add: strip_text_def Let_def)

lemma strip_pass_eq:
  "strip_pass c (length pre + length t) (length pre) (pre @ t @ post) =
     (pre @ mask_char c t @ post, length pre + last_end c t)"
proof (induction "length t" arbitrary: pre t rule: less_induct)
  case less
  let ?b = "pre @ t @ post"
  have m: "memchr ?b (length pre) c (length t) = find_from (length pre) c t"
    by (simp add: memchr_def)
  show ?case
  proof (cases "c \<in> set t")
    case False
    then have "find_from (length pre) c t = None" by (simp add: find_from_None)
    with False m show ?thesis
      by (subst strip_pass.simps) (simp add: mask_id last_end_notin)
  next
    case True
    then obtain i where i: "find_from (length pre) c t = Some i"
      using find_from_None [of "length pre" c t] by auto
    then obtain ys zs where t: "t = ys @ c # zs" "c \<notin> set ys" "i = length pre + length ys"
      using find_from_Some by blast
    have upd: "?b[i := CHR ''?''] = (pre @ ys @ [CHR ''?'']) @ zs @ post"
      by (simp add: t list_update_append)
    have "strip_pass c (length (pre @ ys @ [CHR ''?'']) + length zs) (length (pre @ ys @ [CHR ''?'']))
        ((pre @ ys @ [CHR ''?'']) @ zs @ post) =
      ((pre @ ys @ [CHR ''?'']) @ mask_char c zs @ post, length (pre @ ys @ [CHR ''?'']) + last_end c zs)"
      by (rule less) (simp add: t)
    moreover have "mask_char c t = ys @ CHR ''?'' # mask_char c zs"
      using t(2) mask_id [of c ys] by (simp add: t mask_char_def)
    ultimately show ?thesis
      using m i upd t by (subst strip_pass.simps) (simp add: last_end_append add.assoc)
  qed
qed

text \<open>Both passes, on the bytes just appended.\<close>

lemma strip_passes:
  assumes "strip_pass (opt_frame_delim opts) (length pre + length t) (length pre) (pre @ t @ post) = (b, cur)"
  shows "fst (strip_pass (opt_trace_delim opts) (length pre + length t) cur b) = pre @ strip_text opts t @ post"
proof -
  let ?n = "last_end (opt_frame_delim opts) t"
  have n: "?n \<le> length t" by (rule last_end_le)
  have b: "b = (pre @ mask_char (opt_frame_delim opts) (take ?n t)) @ drop ?n t @ post"
  proof -
    have "t = take ?n t @ drop ?n t" by simp
    moreover have "opt_frame_delim opts \<notin> set (drop ?n t)"
      using rfind_from_Some [of 0 "opt_frame_delim opts" t] rfind_from_None [of 0 "opt_frame_delim opts" t]
      by (fastforce simp: last_end_def split: option.splits)
    ultimately have "mask_char (opt_frame_delim opts) t = mask_char (opt_frame_delim opts) (take ?n t) @ drop ?n t"
      by (metis mask_char_def mask_id map_append)
    then show ?thesis using assms by (simp add: strip_pass_eq)
  qed
  have "cur = length (pre @ mask_char (opt_frame_delim opts) (take ?n t))"
    using assms n by (simp add: strip_pass_eq)
  then show ?thesis
    using strip_pass_eq [of "opt_trace_delim opts" "pre @ mask_char (opt_frame_delim opts) (take ?n t)" "drop ?n t" post] n
    by (simp add: b strip_text_def Let_def)
qed

subsection \<open>The buffer operations\<close>

lemma grow_terminates: "0 < c \<Longrightarrow> \<exists>n. grow c k = Some n \<and> k \<le> n \<and> c \<le> n"
proof (induction "k - c" arbitrary: c rule: less_induct)
  case less
  show ?case
  proof (cases "c < k")
    case True
    then have "k - c * 2 < k - c" "0 < c * 2" using less.prems by simp_all
    from less.hyps [OF this] obtain n where "grow (c * 2) k = Some n" "k \<le> n" "c * 2 \<le> n" by blast
    with True show ?thesis by (subst grow.simps) simp
  next
    case False
    then show ?thesis by (subst grow.simps) simp
  qed
qed

text \<open>All but the buffer, its length and capacity, and the truncation flag.\<close>

definition same_meta :: "fout_udata \<Rightarrow> fout_udata \<Rightarrow> bool" where
  "same_meta u u' \<longleftrightarrow>
     u' = u\<lparr>ud_buf := ud_buf u', ud_len := ud_len u', ud_cap := ud_cap u', ud_truncated := ud_truncated u'\<rparr>"

lemma same_meta_refl [simp]: "same_meta u u"
  by (simp add: same_meta_def)

lemma same_meta_trans: "same_meta u v \<Longrightarrow> same_meta v w \<Longrightarrow> same_meta u w"
  unfolding same_meta_def by (cases u; cases v; cases w) simp

lemma same_meta_fields:
  "same_meta u u' \<Longrightarrow> ud_fd u' = ud_fd u \<and> ud_use_mutex u' = ud_use_mutex u \<and>
    ud_trunc_marker u' = ud_trunc_marker u \<and> ud_trunc_marker_len u' = ud_trunc_marker_len u \<and>
    ud_trace_id_tail u' = ud_trace_id_tail u"
  unfolding same_meta_def by (cases u; cases u') simp

lemma same_meta_ok:
  "same_meta u u' \<Longrightarrow> ud_ok opts u \<Longrightarrow> length (ud_buf u') = ud_cap u' \<Longrightarrow> ud_len u' < ud_cap u' \<Longrightarrow>
    ud_cap u' \<le> PHPSPY_FOUT_MAX_BUFFER \<Longrightarrow> ud_len u' = 0 \<or> ud_buf u' ! ud_len u' = NUL \<Longrightarrow> ud_ok opts u'"
  using same_meta_fields [of u u'] by (simp add: ud_ok_def)

lemma wp_get_ud [wp_rules]: "wp F (get_ud k) Q E s = wp F (k (fc_ud s)) Q E s"
  by (simp add: get_ud_def wp_get)

lemma wp_upd_ud [wp_rules]: "wp F (upd_ud f) Q E s = Q () (fc_ud_update f s)"
  by (simp add: upd_ud_def wp_basic)

lemma wp_sys [wp_rules]:
  "wp F (sys f) Q E s = (case f (fc_world s) of (a, w') \<Rightarrow> Q a (s\<lparr>fc_world := w'\<rparr>))"
  by (simp add: wp_def sys_def split: prod.splits)

lemma wp_act [wp_rules]: "wp F (act a) Q E s = Q () (fc_io_update (\<lambda>as. as @ [a]) s)"
  by (simp add: act_def wp_basic)

text \<open>A state that differs in the data and the world only.\<close>

definition only_ud :: "'w fctx \<Rightarrow> 'w fctx \<Rightarrow> bool" where
  "only_ud c c' \<longleftrightarrow> fc_io c' = fc_io c \<and> fc_trace_id c' = fc_trace_id c"

lemma only_ud_simps [simp]:
  "only_ud c c" "only_ud c (c'\<lparr>fc_world := w\<rparr>) = only_ud c c'"
  "only_ud c (fc_ud_update f c') = only_ud c c'" "only_ud (fc_ud_update f c) c' = only_ud c c'"
  by (simp_all add: only_ud_def)

lemma only_ud_trans: "only_ud a b \<Longrightarrow> only_ud b c \<Longrightarrow> only_ud a c"
  by (simp add: only_ud_def)

lemma length_resize: "length b \<le> n \<Longrightarrow> length (resize b n junk) = n"
  by (simp add: resize_def)

lemma resize_take: "k \<le> length b \<Longrightarrow> length b \<le> n \<Longrightarrow> take k (resize b n junk) = take k b"
  by (simp add: resize_def)

text \<open>\<^verbatim>\<open>realloc\<close> makes room and keeps the bytes, or leaves all as it was.\<close>

definition no_room :: "'w fout_env \<Rightarrow> nat \<Rightarrow> bool" where
  "no_room env n \<longleftrightarrow> PHPSPY_FOUT_MAX_BUFFER < n \<or> (\<exists>k w. fst (e_realloc env k w) = None)"

lemma no_roomI: "e_realloc env k w = (None, w') \<Longrightarrow> no_room env n"
  unfolding no_room_def by (metis fst_conv)

lemma no_room_mono: "no_room env n \<Longrightarrow> n \<le> k \<Longrightarrow> no_room env k"
  by (auto simp: no_room_def)

lemma realloc_wp:
  assumes "length (ud_buf (fc_ud c)) \<le> ud_cap (fc_ud c)" and "0 < ud_cap (fc_ud c)"
    and "ud_cap (fc_ud c) \<le> PHPSPY_FOUT_MAX_BUFFER"
  shows "wp {} (event_handler_fout_realloc env needed)
    (\<lambda>_ c'. only_ud c c' \<and> needed \<le> PHPSPY_FOUT_MAX_BUFFER \<and>
       (\<exists>n junk. needed \<le> n \<and> ud_cap (fc_ud c) \<le> n \<and> n \<le> PHPSPY_FOUT_MAX_BUFFER \<and>
         fc_ud c' = (fc_ud c)\<lparr>ud_buf := resize (ud_buf (fc_ud c)) n junk, ud_cap := n\<rparr>))
    (\<lambda>r c'. r = PHPSPY_ERR \<and> only_ud c c' \<and> fc_ud c' = fc_ud c \<and> no_room env needed) c"
proof (cases "PHPSPY_FOUT_MAX_BUFFER < needed")
  case True
  then show ?thesis by (simp add: event_handler_fout_realloc_def wp_basic no_room_def)
next
  case False
  obtain n where n: "grow (ud_cap (fc_ud c)) needed = Some n" "needed \<le> n" "ud_cap (fc_ud c) \<le> n"
    using grow_terminates [OF assms(2)] by blast
  have "\<exists>n' junk'. needed \<le> n' \<and> ud_cap (fc_ud c) \<le> n' \<and> n' \<le> PHPSPY_FOUT_MAX_BUFFER \<and>
      fc_ud c\<lparr>ud_buf := resize (ud_buf (fc_ud c)) m junk, ud_cap := m\<rparr> =
      fc_ud c\<lparr>ud_buf := resize (ud_buf (fc_ud c)) n' junk', ud_cap := n'\<rparr>"
    if "m = (if PHPSPY_FOUT_MAX_BUFFER < n then PHPSPY_FOUT_MAX_BUFFER else n)" for m junk
    by (rule exI [of _ m], rule exI [of _ junk]) (use that n False assms(3) in auto)
  note room = this [OF refl]
  show ?thesis
    using False n(1) room
    by (auto simp: event_handler_fout_realloc_def wp_rules Let_def only_ud_def split: prod.splits option.splits
        intro: no_roomI)
qed

lemma memrchr_text: "ud_len u \<le> length (ud_buf u) \<Longrightarrow>
    (case memrchr (ud_buf u) 0 d (ud_len u) of Some i \<Rightarrow> i + 1 | None \<Rightarrow> 0) = last_end d (ud_text u)"
  by (simp add: memrchr_def last_end_def ud_text_def split: option.splits)

text \<open>Truncation cuts the text back to the end of its last record.\<close>

lemma truncate_wp:
  assumes "ud_ok opts u" and "same_meta u (fc_ud c)" and "ud_text (fc_ud c) = ud_text u"
    and "length (ud_buf (fc_ud c)) = ud_cap (fc_ud c)" and "ud_len (fc_ud c) < ud_cap (fc_ud c)"
    and "ud_cap (fc_ud c) \<le> PHPSPY_FOUT_MAX_BUFFER"
  shows "wp {} (event_handler_fout_truncate opts)
    (\<lambda>_ c'. only_ud c c' \<and> same_meta u (fc_ud c') \<and> ud_ok opts (fc_ud c') \<and> ud_truncated (fc_ud c') \<and>
       ud_text (fc_ud c') = take (last_end (opt_frame_delim opts) (ud_text u)) (ud_text u))
    (\<lambda>_ _. False) c"
proof -
  let ?v = "fc_ud c"
  let ?n = "last_end (opt_frame_delim opts) (ud_text u)"
  have "length (ud_text u) = ud_len ?v" unfolding assms(3) [symmetric] using assms(4,5) by (simp add: ud_text_def)
  then have n: "?n \<le> ud_len ?v" using last_end_le [of _ "ud_text u"] by simp
  define b where "b = take ?n (ud_buf ?v) @ [NUL] @ drop (Suc ?n) (ud_buf ?v)"
  have put: "put (ud_buf ?v) ?n [NUL] = Some b" using n assms(4,5) by (simp add: put_def b_def)
  define u' where "u' = ?v\<lparr>ud_truncated := True, ud_len := ?n, ud_buf := b\<rparr>"
  have "same_meta ?v u'" by (simp add: same_meta_def u'_def)
  then have meta: "same_meta u u'" by (rule same_meta_trans [OF assms(2)])
  from meta assms(1) have ok': "ud_ok opts u'"
    by (rule same_meta_ok) (use n assms(4-6) in \<open>auto simp: b_def u'_def nth_append\<close>)
  have "take ?n (ud_buf ?v) = take ?n (ud_text u)"
    using n unfolding assms(3) [symmetric] by (simp add: ud_text_def)
  moreover have "take ?n b = take ?n (ud_buf ?v)" using n assms(4,5) by (simp add: b_def)
  moreover have "ud_buf u' = b" "ud_len u' = ?n" by (simp_all add: u'_def)
  ultimately have "ud_text u' = take ?n (ud_text u)" by (simp add: ud_text_def [of u'])
  with meta ok' show ?thesis
    using put assms(3-5) memrchr_text [of ?v "opt_frame_delim opts"]
    by (simp add: event_handler_fout_truncate_def wp_rules slice_def Let_def u'_def)
qed

lemma len_text: "ud_ok opts u \<Longrightarrow> length (ud_text u) = ud_len u"
  by (simp add: ud_ok_def ud_text_def)

text \<open>What appending a text does: nothing once truncated; the text is added, with its delimiters
  replaced if asked for; or the buffer is cut back and marked as truncated.\<close>

definition appended :: "options \<Rightarrow> 'w fout_env \<Rightarrow> bool \<Rightarrow> string \<Rightarrow> fout_udata \<Rightarrow> fout_udata \<Rightarrow> bool" where
  "appended opts env strip t u u' \<longleftrightarrow>
     same_meta u u' \<and> ud_ok opts u' \<and>
     (if ud_truncated u then u' = u
      else if ud_truncated u' then
        no_room env (ud_len u + length t + 1) \<and>
        ud_text u' = take (last_end (opt_frame_delim opts) (ud_text u)) (ud_text u)
      else ud_text u' = ud_text u @ (if strip then strip_text opts t else t))"

lemma fout_append_wp:
  assumes "ud_ok opts u" and "\<not> ud_truncated u" and "same_meta u v" and "\<not> ud_truncated v"
    and "length (ud_buf v) = ud_cap v" and "ud_cap v \<le> PHPSPY_FOUT_MAX_BUFFER" and "ud_len v = ud_len u"
    and "ud_buf v = ud_text u @ t @ NUL # post" and "fc_ud c = v"
  shows "wp {} (fout_append opts strip t) (\<lambda>_ c'. only_ud c c' \<and> appended opts env strip t u (fc_ud c')) (\<lambda>_ _. False) c"
proof -
  let ?t = "if strip then strip_text opts t else t"
  define u' where "u' = v\<lparr>ud_buf := ud_text u @ ?t @ NUL # post, ud_len := ud_len u + length t\<rparr>"
  have len: "length (ud_text u) = ud_len u" using assms(1) by (simp add: ud_text_def ud_ok_def)
  have meta: "same_meta u u'" using assms(3) unfolding same_meta_def u'_def by (cases u; cases v) simp
  have "ud_ok opts u'"
    by (rule same_meta_ok [OF meta assms(1)])
      (use assms(5,6,8) len in \<open>auto simp: u'_def nth_append\<close>)
  moreover have "ud_text u' = ud_text u @ ?t" using len by (simp add: u'_def ud_text_def)
  ultimately have "appended opts env strip t u u'"
    using meta assms(2,4) by (simp add: appended_def) (simp add: u'_def)
  moreover have "fst (strip_pass (opt_trace_delim opts) (ud_len u + length t) cur b) =
      ud_text u @ strip_text opts t @ NUL # post"
    if "strip_pass (opt_frame_delim opts) (ud_len u + length t) (ud_len u) (ud_buf v) = (b, cur)" for b cur
    using that strip_passes [of opts "ud_text u" t "NUL # post" b cur] by (simp add: assms(8) len)
  moreover have "slice (ud_buf v) (ud_len u) (length t) \<noteq> None" by (simp add: slice_def assms(8) len)
  moreover have "v\<lparr>ud_len := ud_len u + length t\<rparr> = u'" if "\<not> strip"
    using that assms(8) by (cases v) (simp add: u'_def)
  ultimately show ?thesis
    using assms(7,9)
    by (auto simp: fout_append_def wp_rules Let_def u'_def only_ud_def split: prod.splits option.splits)
qed

text \<open>When the formatted text fits, the buffer holds it after the old text.\<close>

lemma snprintf_at_text:
  assumes "snprintf_at b n k t = Some b'" and "length t < k"
  shows "\<exists>post. b' = take n b @ t @ NUL # post"
  using assms by (auto simp: snprintf_at_fits put_def split: if_splits)

lemma snprintf_wp:
  assumes "ud_ok opts (fc_ud c)"
  shows "wp {} (event_handler_fout_snprintf opts env strip t)
    (\<lambda>_ c'. only_ud c c' \<and> appended opts env strip t (fc_ud c) (fc_ud c')) (\<lambda>_ _. False) c"
proof (cases "ud_truncated (fc_ud c)")
  case True
  with assms show ?thesis by (simp add: event_handler_fout_snprintf_def wp_rules appended_def)
next
  case False
  let ?u = "fc_ud c"
  let ?rem = "ud_cap ?u - ud_len ?u"
  let ?Q = "\<lambda>_ c'. only_ud c c' \<and> appended opts env strip t ?u (fc_ud c')"
  have u: "length (ud_buf ?u) = ud_cap ?u" "ud_len ?u < ud_cap ?u" "ud_cap ?u \<le> PHPSPY_FOUT_MAX_BUFFER"
    using assms by (simp_all add: ud_ok_def)
  have rem: "sz_minus (ud_cap ?u) (ud_len ?u) = ?rem"
    using u by (intro sz_minus_ge) simp_all
  obtain b where b: "snprintf_at (ud_buf ?u) (ud_len ?u) ?rem t = Some b"
    using snprintf_at_Some [of "ud_len ?u" ?rem "ud_buf ?u" t] u by auto
  let ?v = "?u\<lparr>ud_buf := b\<rparr>"
  have v: "same_meta ?u ?v" "length b = ud_cap ?u" "ud_text ?v = ud_text ?u"
    using snprintf_at_take [OF b] snprintf_at_length [OF b] u by (simp_all add: same_meta_def ud_text_def)
  have trunc: "wp {} (event_handler_fout_truncate opts) ?Q (\<lambda>_ _. False) c2"
    if "fc_ud c2 = ?v" "only_ud c c2" "no_room env (ud_len ?u + length t + 1)" for c2
    by (rule wp_mono [OF truncate_wp [OF assms]])
      (use that v u False in \<open>auto simp: appended_def elim: only_ud_trans\<close>)
  have fits: "wp {} (fout_append opts strip t) ?Q (\<lambda>_ _. False) c2"
    if "only_ud c c2" "same_meta ?u (fc_ud c2)" "\<not> ud_truncated (fc_ud c2)" "ud_len (fc_ud c2) = ud_len ?u"
      "length (ud_buf (fc_ud c2)) = ud_cap (fc_ud c2)" "ud_cap (fc_ud c2) \<le> PHPSPY_FOUT_MAX_BUFFER"
      "ud_buf (fc_ud c2) = ud_text ?u @ t @ NUL # post" for c2 post
    by (rule wp_mono [OF fout_append_wp [OF assms False that(2,3,5,6,4,7) refl]])
      (use that(1) in \<open>auto elim: only_ud_trans\<close>)
  have grown: "wp {} (try_c (fout_vsnprintf t) (\<lambda>_. fout_append opts strip t)) ?Q (\<lambda>_ _. False) c2"
    if c2: "only_ud c c2" "fc_ud c2 = ?v\<lparr>ud_buf := resize b n junk, ud_cap := n\<rparr>"
      and n: "ud_len ?u + length t + 1 \<le> n" "ud_cap ?u \<le> n" "n \<le> PHPSPY_FOUT_MAX_BUFFER" for c2 n junk
  proof -
    let ?r = "resize b n junk"
    have r: "length ?r = n" "take (ud_len ?u) ?r = ud_text ?u"
      using n v u by (simp_all add: length_resize resize_take) (simp add: ud_text_def)
    obtain b2 where b2: "snprintf_at ?r (ud_len ?u) (n - ud_len ?u) t = Some b2"
      using snprintf_at_Some [of "ud_len ?u" "n - ud_len ?u" ?r t] r n by auto
    have "length t < n - ud_len ?u" using n(1) by simp
    from snprintf_at_text [OF b2 this] obtain post where post: "b2 = ud_text ?u @ t @ NUL # post"
      using r(2) by auto
    have "wp {} (fout_append opts strip t) ?Q (\<lambda>_ _. False) (fc_ud_update (\<lambda>u. u\<lparr>ud_buf := b2\<rparr>) c2)"
      using c2 n snprintf_at_length [OF b2] r False
      by (intro fits [of _ post]) (simp_all add: post same_meta_def)
    moreover have "sz_minus n (ud_len ?u) = n - ud_len ?u" using n u by (intro sz_minus_ge) simp_all
    ultimately show ?thesis using b2 c2 by (simp add: fout_vsnprintf_def wp_rules Let_def)
  qed
  have big: "wp {} (with_rv (event_handler_fout_realloc env (ud_len ?u + length t + 1)) (\<lambda>r x.
         if x = None then event_handler_fout_truncate opts
         else try_c (fout_vsnprintf t) (\<lambda>_. fout_append opts strip t)))
       ?Q (\<lambda>_ _. False) (fc_ud_update (\<lambda>u. u\<lparr>ud_buf := b\<rparr>) c)"
    unfolding wp_with_rv
    by (rule wp_mono [OF realloc_wp]) (use v u in \<open>auto intro!: trunc grown\<close>)
  have direct: "wp {} (fout_append opts strip t) ?Q (\<lambda>_ _. False) (fc_ud_update (\<lambda>u. u\<lparr>ud_buf := b\<rparr>) c)"
    if "length t < ?rem"
  proof -
    from snprintf_at_text [OF b that] obtain post where "b = ud_text ?u @ t @ NUL # post"
      by (auto simp: ud_text_def)
    then show ?thesis using v u False by (intro fits) simp_all
  qed
  show ?thesis
    using False b rem direct big
    by (auto simp: event_handler_fout_snprintf_def fout_vsnprintf_def wp_rules Let_def vsnprintf_len_def
        no_room_def INT_MAX_def intro: trunc)
qed

subsection \<open>Records\<close>

text \<open>A text that is empty or ends with the frame delimiter.\<close>

definition complete :: "char \<Rightarrow> string \<Rightarrow> bool" where
  "complete d s \<longleftrightarrow> last_end d s = length s"

lemma complete_iff: "complete d s \<longleftrightarrow> s = [] \<or> last s = d"
proof (cases s rule: rev_cases)
  case (snoc ys y)
  show ?thesis
  proof (cases "y = d")
    case True
    then show ?thesis using last_end_append [of d ys "[]"] by (simp add: snoc complete_def last_end_notin)
  next
    case False
    have "last_end d (ys @ [y]) \<le> length ys"
    proof (cases "d \<in> set ys")
      case True
      then obtain as bs where "ys = as @ d # bs" "d \<notin> set bs" using split_list_last by metis
      with False show ?thesis
        using last_end_append [of d as "bs @ [y]"] last_end_notin [of d "bs @ [y]"] by simp
    qed (use False in \<open>simp add: last_end_notin\<close>)
    with False show ?thesis by (simp add: snoc complete_def)
  qed
qed (simp add: complete_def last_end_notin)

lemma complete_take: "complete d (take (last_end d s) s)"
proof (cases "d \<in> set s")
  case True
  then obtain as bs where "s = as @ d # bs" "d \<notin> set bs" using split_list_last by metis
  then show ?thesis using last_end_append [of d as bs] by (simp add: last_end_notin complete_iff)
qed (simp add: last_end_notin complete_iff)

text \<open>Of a record the frame delimiter is gone.\<close>

lemma strip_text_frame_delim:
  assumes "opt_frame_delim opts \<noteq> CHR ''?''"
  shows "opt_frame_delim opts \<notin> set (strip_text opts t)"
proof -
  have "opt_frame_delim opts \<notin> set (drop (last_end (opt_frame_delim opts) t) t)"
    using rfind_from_Some [of 0 "opt_frame_delim opts" t] rfind_from_None [of 0 "opt_frame_delim opts" t]
    by (fastforce simp: last_end_def split: option.splits)
  with assms show ?thesis by (auto simp: strip_text_def Let_def mask_char_def split: if_splits)
qed

lemma strip_text_trace_delim:
  assumes "opt_trace_delim opts \<noteq> CHR ''?''"
    and "opt_trace_delim opts = opt_frame_delim opts \<or> opt_frame_delim opts \<notin> set t"
  shows "opt_trace_delim opts \<notin> set (strip_text opts t)"
  using assms strip_text_frame_delim [of opts t]
  by (cases "opt_trace_delim opts = opt_frame_delim opts")
    (auto simp: strip_text_def Let_def mask_char_def last_end_notin split: if_splits)

definition recorded :: "options \<Rightarrow> 'w fout_env \<Rightarrow> string \<Rightarrow> fout_udata \<Rightarrow> fout_udata \<Rightarrow> bool" where
  "recorded opts env t u u' \<longleftrightarrow>
     same_meta u u' \<and> ud_ok opts u' \<and>
     (if ud_truncated u then u' = u
      else if ud_truncated u' then
        no_room env (ud_len u + length t + 2) \<and>
        complete (opt_frame_delim opts) (ud_text u') \<and> prefix (ud_text u') (ud_text u @ strip_text opts t)
      else ud_text u' = ud_text u @ strip_text opts t @ [opt_frame_delim opts])"

lemma fout_record_wp:
  assumes "ud_ok opts (fc_ud c)"
  shows "wp {} (fout_record opts env (Some t))
    (\<lambda>_ c'. only_ud c c' \<and> recorded opts env t (fc_ud c) (fc_ud c')) (\<lambda>_ _. False) c"
proof -
  have "wp {} (event_handler_fout_snprintf opts env False [opt_frame_delim opts])
      (\<lambda>_ c'. only_ud c c' \<and> recorded opts env t (fc_ud c) (fc_ud c')) (\<lambda>_ _. False) c1"
    if "only_ud c c1" "appended opts env True t (fc_ud c) (fc_ud c1)" for c1
  proof -
    have "ud_ok opts (fc_ud c1)" using that(2) by (simp add: appended_def)
    from snprintf_wp [OF this] show ?thesis
    proof (rule wp_mono)
      fix c2 assume c2: "only_ud c1 c2 \<and> appended opts env False [opt_frame_delim opts] (fc_ud c1) (fc_ud c2)"
      have len: "ud_len (fc_ud c1) = ud_len (fc_ud c) + length t" if "\<not> ud_truncated (fc_ud c)" "\<not> ud_truncated (fc_ud c1)"
        using that len_text [of opts "fc_ud c"] len_text [of opts "fc_ud c1"] assms \<open>appended opts env True t (fc_ud c) (fc_ud c1)\<close>
        by (auto simp: appended_def)
      have "recorded opts env t (fc_ud c) (fc_ud c2)"
        using that(2) c2 len complete_take [of "opt_frame_delim opts"] same_meta_trans [of "fc_ud c" "fc_ud c1" "fc_ud c2"]
        by (cases "ud_truncated (fc_ud c)"; cases "ud_truncated (fc_ud c1)")
          (auto simp: appended_def recorded_def take_is_prefix simp del: take_append split: if_splits
            intro: prefix_order.trans [OF take_is_prefix prefixI] elim: no_room_mono)
      with that(1) c2 show "only_ud c c2 \<and> recorded opts env t (fc_ud c) (fc_ud c2)"
        by (auto elim: only_ud_trans)
    qed
  qed
  then show ?thesis
    unfolding fout_record_def wp_try wp_of_opt
    by (auto intro!: wp_mono [OF snprintf_wp [OF assms]])
qed

end
