(* ===== verification/Fout_Write.thy ===== *)
theory Fout_Write
  imports Fout_Buffer
begin

text \<open>
  What the file output handler writes: whole traces, and traces cut into chunks at record boundaries,
  each with its trace id. The handler keeps its invariant on every event, and so is an
  \<open>event_handler\<close> and, with a reader of the process memory, a \<open>tracer\<close>.
\<close>

subsection \<open>Chunks\<close>

definition same_tail :: "fout_udata \<Rightarrow> fout_udata \<Rightarrow> bool" where
  "same_tail u u' \<longleftrightarrow>
     u' = u\<lparr>ud_trace_id_tail := ud_trace_id_tail u', ud_trace_id_tail_len := ud_trace_id_tail_len u'\<rparr> \<and>
     length (ud_trace_id_tail u') = 64"

definition tail_is :: "options \<Rightarrow> 64 word \<Rightarrow> 64 word \<Rightarrow> fout_udata \<Rightarrow> bool" where
  "tail_is opts tid idx u \<longleftrightarrow> length (ud_trace_id_tail u) = 64 \<and>
     ud_trace_id_tail_len u = length (trace_id_text opts tid idx CHR ''~'') \<and>
     take (ud_trace_id_tail_len u) (ud_trace_id_tail u) = trace_id_text opts tid idx CHR ''~''"

lemma same_tail_trans: "same_tail u v \<Longrightarrow> same_tail v w \<Longrightarrow> same_tail u w"
  unfolding same_tail_def by (cases u; cases v; cases w) simp

lemma same_tail_refl: "length (ud_trace_id_tail u) = 64 \<Longrightarrow> same_tail u u"
  by (simp add: same_tail_def)

lemma same_tail_fields:
  "same_tail u u' \<Longrightarrow> ud_fd u' = ud_fd u \<and> ud_buf u' = ud_buf u \<and> ud_len u' = ud_len u \<and> ud_cap u' = ud_cap u \<and>
    ud_use_mutex u' = ud_use_mutex u \<and> ud_truncated u' = ud_truncated u \<and>
    ud_trunc_marker u' = ud_trunc_marker u \<and> ud_trunc_marker_len u' = ud_trunc_marker_len u"
  unfolding same_tail_def by (cases u; cases u') simp

lemma same_tail_ok: "same_tail u u' \<Longrightarrow> ud_ok opts u \<Longrightarrow> ud_ok opts u'"
  using same_tail_fields [of u u'] by (auto simp: ud_ok_def same_tail_def)

lemma length_trace_id: "length (trace_id_text opts tid idx x) < 64" "3 \<le> length (trace_id_text opts tid idx x)"
proof -
  have "length (dec_nat (unat (w :: 64 word))) \<le> 20" for w
    using unsigned_less [where ?'a = nat, of w] by (intro length_dec_nat) simp_all
  from this [of tid] this [of idx]
  show "length (trace_id_text opts tid idx x) < 64" "3 \<le> length (trace_id_text opts tid idx x)"
    by (simp_all add: trace_id_text_def)
qed

lemma length_trace_id_eq: "length (trace_id_text opts tid idx x) = length (trace_id_text opts tid idx y)"
  by (simp add: trace_id_text_def)

lemma fill_trace_id_wp:
  assumes "length (ud_trace_id_tail (fc_ud c)) = 64"
  shows "wp {} (event_handler_fout_fill_trace_id opts tid idx)
    (\<lambda>_ c'. only_ud c c' \<and> fc_world c' = fc_world c \<and> same_tail (fc_ud c) (fc_ud c') \<and> tail_is opts tid idx (fc_ud c'))
    (\<lambda>_ _. False) c"
  using assms length_trace_id [of opts tid idx "CHR ''~''"]
  by (simp add: event_handler_fout_fill_trace_id_def wp_rules Let_def snprintf_at_fits put_def same_tail_def tail_is_def)

text \<open>A chunk goes out as one write: its body and the trace id with the sentinel.\<close>

lemma write_chunk_wp:
  assumes "tail_is opts tid idx (fc_ud c)"
    and "\<And>r c'. same_tail (fc_ud c) (fc_ud c') \<Longrightarrow> fc_trace_id c' = fc_trace_id c \<Longrightarrow>
      fc_io c' = fc_io c @ [Writev (ud_fd (fc_ud c)) (body @ trace_id_text opts tid idx x)] \<Longrightarrow> P r c'"
  shows "wp {} (event_handler_fout_write_chunk env body x) (\<lambda>_ c'. P 0 c') (\<lambda>r c'. P r c') c"
proof -
  let ?u = "fc_ud c"
  let ?n = "ud_trace_id_tail_len ?u"
  let ?pre = "''# trace_id = '' @ dec_nat (unat tid) @ ''.'' @ dec_nat (unat idx)"
  have u: "length (ud_trace_id_tail ?u) = 64" "?n = length (trace_id_text opts tid idx CHR ''~'')"
    "take ?n (ud_trace_id_tail ?u) = trace_id_text opts tid idx CHR ''~''"
    using assms(1) unfolding tail_is_def by blast+
  have n: "3 \<le> ?n" "?n < 64" using u(2) length_trace_id by simp_all
  define b where "b = take (?n - 3) (ud_trace_id_tail ?u) @ [x] @ drop (?n - 2) (ud_trace_id_tail ?u)"
  have "?n - 3 + 1 = ?n - 2" "?n - 2 \<le> 64" using n by simp_all
  then have put: "put (ud_trace_id_tail ?u) (?n - 3) [x] = Some b"
    using u(1) by (simp add: put_def b_def)
  have "take (?n - 3) (ud_trace_id_tail ?u) = take (?n - 3) (take ?n (ud_trace_id_tail ?u))" by simp
  also have "\<dots> = ?pre" unfolding u(3) unfolding u(2) by (simp add: trace_id_text_def)
  finally have pre: "take (?n - 3) (ud_trace_id_tail ?u) = ?pre" .
  have "take 2 (drop (?n - 2) (ud_trace_id_tail ?u)) = drop (?n - 2) (take ?n (ud_trace_id_tail ?u))"
    using n by (simp add: drop_take)
  also have "\<dots> = [opt_frame_delim opts, opt_trace_delim opts]"
    unfolding u(3) unfolding u(2) by (simp add: trace_id_text_def)
  finally have post: "take 2 (drop (?n - 2) (ud_trace_id_tail ?u)) = [opt_frame_delim opts, opt_trace_delim opts]" .
  have "?n - (?n - 3) = 3" using n by simp
  then have "take ?n b = take (?n - 3) (ud_trace_id_tail ?u) @ [x] @ take 2 (drop (?n - 2) (ud_trace_id_tail ?u))"
    using n u(1) by (simp add: b_def take_Cons')
  then have tail: "take ?n b = trace_id_text opts tid idx x"
    unfolding pre post by (simp add: trace_id_text_def)
  have b: "length b = 64" using n u(1) by (simp add: b_def)
  have "P r c'" if "fc_io c' = fc_io c @ [Writev (ud_fd ?u) (body @ trace_id_text opts tid idx x)]"
      "fc_trace_id c' = fc_trace_id c" "fc_ud c' = ?u\<lparr>ud_trace_id_tail := b\<rparr>" for r c'
    by (rule assms(2)) (simp_all add: that b same_tail_def)
  then show ?thesis
    using n put tail b
    by (auto simp: event_handler_fout_write_chunk_def event_handler_fout_writev_def wp_rules slice_def split: prod.splits)
qed

text \<open>The writes of a sequence of chunks: \<^verbatim>\<open>!\<close> marks the last one if the trace ends with it.\<close>

fun chunk_io :: "options \<Rightarrow> int \<Rightarrow> 64 word \<Rightarrow> 64 word \<Rightarrow> bool \<Rightarrow> string list \<Rightarrow> io list" where
  "chunk_io opts fd tid idx fin [] = []"
| "chunk_io opts fd tid idx fin (body # bodies) =
     Writev fd (body @ trace_id_text opts tid idx (if fin \<and> bodies = [] then CHR ''!'' else CHR ''~''))
     # chunk_io opts fd tid (idx + 1) fin bodies"

lemma chunk_io_marker:
  "chunk_io opts fd tid idx False bodies @
     [Writev fd (m @ trace_id_text opts tid (idx + of_nat (length bodies)) CHR ''!'')] =
   chunk_io opts fd tid idx True (bodies @ [m])"
proof (induction bodies arbitrary: idx)
  case (Cons b bodies)
  from Cons [of "idx + 1"] show ?case by (simp add: add.assoc)
qed simp

text \<open>Each write of a chunk stays within the buffer size.\<close>

definition fits :: "options \<Rightarrow> io list \<Rightarrow> bool" where
  "fits opts ios \<longleftrightarrow> (\<forall>io \<in> set ios. case io of Writev _ s \<Rightarrow> int (length s) \<le> opt_fout_buffer_size opts | _ \<Rightarrow> True)"

lemma slice_split: "i \<le> j \<Longrightarrow> j \<le> k \<Longrightarrow>
    take (j - i) (drop i b) @ take (k - j) (drop j b) = take (k - i) (drop i b)"
  using take_add [of "j - i" "k - j" "drop i b"] by simp

lemma find_chunk_end_le:
  assumes "event_handler_fout_find_chunk_end opts buf start stop k = Some e" and "start \<le> stop"
  shows "e \<le> stop \<and> e - start \<le> k"
  using assms
  by (auto simp: event_handler_fout_find_chunk_end_def dest!: memrchr_ge split: if_splits option.splits)

lemma memrchr_nth:
  assumes "memrchr b start c n = Some i"
  shows "b ! i = c"
proof -
  from assms obtain ys zs where h: "take n (drop start b) = ys @ c # zs" "i = start + length ys"
    unfolding memrchr_def using rfind_from_Some by blast
  have "length (take n (drop start b)) = Suc (length ys + length zs)" by (subst h(1)) simp
  then have "length ys < n" "start + length ys < length b" by auto
  moreover have "take n (drop start b) ! length ys = c" by (subst h(1)) simp
  ultimately show ?thesis using h(2) by simp
qed

lemma last_slice: "start < e \<Longrightarrow> e \<le> length b \<Longrightarrow> last (take (e - start) (drop start b)) = b ! (e - 1)"
  by (simp add: last_conv_nth)

lemma find_chunk_end_complete:
  assumes "event_handler_fout_find_chunk_end opts buf start stop k = Some e" and "start < stop"
    and "stop \<le> length buf" and "complete (opt_frame_delim opts) (take stop buf)"
  shows "complete (opt_frame_delim opts) (take (e - start) (drop start buf))"
proof -
  note e = find_chunk_end_gt [OF assms(1,2)] find_chunk_end_le [OF assms(1)]
  have "buf ! (e - 1) = opt_frame_delim opts"
  proof (cases "e = stop")
    case True
    have "last (take stop buf) = opt_frame_delim opts"
      using assms(2-4) unfolding complete_iff by (cases buf) auto
    with True assms(2,3) show ?thesis using last_slice [of 0 stop buf] by simp
  next
    case False
    with assms(1) show ?thesis
      by (auto simp: event_handler_fout_find_chunk_end_def dest: memrchr_nth split: if_splits option.splits)
  qed
  moreover have "last (take (e - start) (drop start buf)) = buf ! (e - 1)"
    using e assms(2,3) by (intro last_slice) auto
  ultimately show ?thesis by (simp add: complete_iff)
qed

definition chunked ::
  "options \<Rightarrow> 64 word \<Rightarrow> string \<Rightarrow> nat \<Rightarrow> bool \<Rightarrow> nat \<Rightarrow> 64 word \<Rightarrow> 'w fctx \<Rightarrow> nat \<Rightarrow> 64 word \<Rightarrow> 'w fctx \<Rightarrow> bool" where
  "chunked opts tid buf stop tr start idx c start' idx' c' \<longleftrightarrow>
     same_tail (fc_ud c) (fc_ud c') \<and> fc_trace_id c' = fc_trace_id c \<and> start \<le> start' \<and> start' \<le> stop \<and>
     (\<exists>bodies. concat bodies = take (start' - start) (drop start buf) \<and> [] \<notin> set bodies \<and>
        (complete (opt_frame_delim opts) (take stop buf) \<longrightarrow> list_all (complete (opt_frame_delim opts)) bodies) \<and>
        idx' = idx + of_nat (length bodies) \<and>
        fc_io c' = fc_io c @ chunk_io opts (ud_fd (fc_ud c)) tid idx (start' = stop \<and> \<not> tr) bodies \<and>
        fits opts (chunk_io opts (ud_fd (fc_ud c)) tid idx (start' = stop \<and> \<not> tr) bodies))"

lemma chunk_loop_wp:
  assumes "start \<le> stop" and "stop \<le> length buf" and "length (ud_trace_id_tail (fc_ud c)) = 64"
  shows "wp {} (chunk_loop opts env tid buf stop tr start idx r)
    (\<lambda>(start', idx', r') c'. chunked opts tid buf stop tr start idx c start' idx' c') (\<lambda>_ _. False) c"
  using assms
proof (induction "stop - start" arbitrary: start idx r c rule: less_induct)
  case less
  let ?Q = "\<lambda>(start', idx', r') c'. chunked opts tid buf stop tr start idx c start' idx' c'"
  have refl: "chunked opts tid buf stop tr start idx c start idx c'"
    if "same_tail (fc_ud c) (fc_ud c')" "only_ud c c'" for c'
    using that less.prems by (auto simp: chunked_def only_ud_def fits_def intro!: exI [of _ "[]"])
  show ?case
  proof (cases "start < stop")
    case False
    with refl [of c] less.prems(3) show ?thesis
      by (subst chunk_loop.simps) (simp add: wp_rules same_tail_refl)
  next
    case True
    have step: "wp {} (with_rv (event_handler_fout_write_chunk env (take (e - start) (drop start buf))
          (if e = stop \<and> \<not> tr then CHR ''!'' else CHR ''~'')) (\<lambda>r' _.
          chunk_loop opts env tid buf stop tr e (idx + 1) (r OR r'))) ?Q (\<lambda>_ _. False) c1"
      if c1: "only_ud c c1" "same_tail (fc_ud c) (fc_ud c1)" "tail_is opts tid idx (fc_ud c1)"
        and e: "start < e" "e \<le> stop"
          "complete (opt_frame_delim opts) (take stop buf) \<Longrightarrow>
            complete (opt_frame_delim opts) (take (e - start) (drop start buf))"
          "int (e - start + length (trace_id_text opts tid idx CHR ''~'')) \<le> opt_fout_buffer_size opts" for c1 e
    proof -
      let ?body = "take (e - start) (drop start buf)"
      let ?x = "if e = stop \<and> \<not> tr then CHR ''!'' else CHR ''~''"
      let ?w = "Writev (ud_fd (fc_ud c)) (?body @ trace_id_text opts tid idx ?x)"
      have body: "?body \<noteq> []" using e less.prems(2) by simp
      have fit: "int (length (?body @ trace_id_text opts tid idx ?x)) \<le> opt_fout_buffer_size opts"
        using e less.prems(2) length_trace_id_eq [of opts tid idx ?x "CHR ''~''"] by simp
      have "wp {} (chunk_loop opts env tid buf stop tr e (idx + 1) r2) ?Q (\<lambda>_ _. False) c2"
        if c2: "same_tail (fc_ud c1) (fc_ud c2)" "fc_trace_id c2 = fc_trace_id c1" "fc_io c2 = fc_io c1 @ [?w]" for c2 r2
      proof -
        have t2: "same_tail (fc_ud c) (fc_ud c2)" using c1(2) c2(1) by (rule same_tail_trans)
        have "wp {} (chunk_loop opts env tid buf stop tr e (idx + 1) r2)
            (\<lambda>(start', idx', r') c'. chunked opts tid buf stop tr e (idx + 1) c2 start' idx' c') (\<lambda>_ _. False) c2"
          using True e t2 less.prems(2) by (intro less.hyps) (simp_all add: same_tail_def)
        then show ?thesis
        proof (rule wp_mono)
          fix a c3
          assume "(\<lambda>(start', idx', r') c'. chunked opts tid buf stop tr e (idx + 1) c2 start' idx' c') a c3"
          then obtain start' idx' r' where a: "a = (start', idx', r')"
            and ch: "chunked opts tid buf stop tr e (idx + 1) c2 start' idx' c3" by (cases a) auto
          from ch obtain bodies where b: "concat bodies = take (start' - e) (drop e buf)" "[] \<notin> set bodies"
              "complete (opt_frame_delim opts) (take stop buf) \<longrightarrow> list_all (complete (opt_frame_delim opts)) bodies"
              "idx' = idx + 1 + of_nat (length bodies)" "e \<le> start'" "start' \<le> stop"
              "fc_io c3 = fc_io c2 @ chunk_io opts (ud_fd (fc_ud c)) tid (idx + 1) (start' = stop \<and> \<not> tr) bodies"
              "fits opts (chunk_io opts (ud_fd (fc_ud c)) tid (idx + 1) (start' = stop \<and> \<not> tr) bodies)"
            using same_tail_fields [OF t2] unfolding chunked_def by auto
          have last: "bodies = [] \<longleftrightarrow> start' = e"
            using b(1,2,5,6) less.prems(2) by (cases bodies) auto
          then have sent: "(if (start' = stop \<and> \<not> tr) \<and> bodies = [] then CHR ''!'' else CHR ''~'') = ?x"
            using b(5,6) e by auto
          have "chunked opts tid buf stop tr start idx c start' idx' c3"
            unfolding chunked_def
          proof (intro conjI exI [of _ "?body # bodies"])
            show "same_tail (fc_ud c) (fc_ud c3)"
              using t2 ch by (auto simp: chunked_def intro: same_tail_trans)
            show "concat (?body # bodies) = take (start' - start) (drop start buf)"
              using b(1,5) e slice_split [of start e start' buf] by simp
            show "fc_io c3 = fc_io c @ chunk_io opts (ud_fd (fc_ud c)) tid idx (start' = stop \<and> \<not> tr) (?body # bodies)"
              using b(7) c2(3) c1(1) sent by (simp add: only_ud_def)
            show "fits opts (chunk_io opts (ud_fd (fc_ud c)) tid idx (start' = stop \<and> \<not> tr) (?body # bodies))"
              using b(8) fit unfolding fits_def chunk_io.simps sent by simp
            show "fc_trace_id c3 = fc_trace_id c" using ch c2(2) c1(1) by (simp add: chunked_def only_ud_def)
          qed (use b e body in \<open>auto simp: add.assoc\<close>)
          then show "?Q a c3" by (simp add: a)
        qed simp
      qed
      then show ?thesis
        unfolding wp_with_rv using same_tail_fields [OF c1(2)]
        by (intro write_chunk_wp [OF c1(3), where
              P = "\<lambda>r'. wp {} (chunk_loop opts env tid buf stop tr e (idx + 1) (r OR r')) ?Q (\<lambda>_ _. False)"])
          simp_all
    qed
    let ?size = "nat (opt_fout_buffer_size opts)"
    let ?n = "length (trace_id_text opts tid idx CHR ''~'')"
    let ?max = "if ?n < ?size then ?size - ?n else 0"
    have next_chunk: "wp {} (case event_handler_fout_find_chunk_end opts buf start stop ?max of
          None \<Rightarrow> ok (start, idx, r)
        | Some e \<Rightarrow>
            let sentinel = (if e = stop \<and> \<not> tr then CHR ''!'' else CHR ''~'') in
            try_c (of_opt OutOfBounds (slice buf start (e - start))) (\<lambda>body.
            with_rv (event_handler_fout_write_chunk env body sentinel) (\<lambda>r' _.
            chunk_loop opts env tid buf stop tr e (idx + 1) (r OR r')))) ?Q (\<lambda>_ _. False) c1"
      if c1: "only_ud c c1" "same_tail (fc_ud c) (fc_ud c1)" "tail_is opts tid idx (fc_ud c1)" for c1
    proof (cases "event_handler_fout_find_chunk_end opts buf start stop ?max")
      case None
      then show ?thesis using refl [OF c1(2,1)] by (simp add: wp_basic)
    next
      case (Some e)
      note e = find_chunk_end_gt [OF Some True] find_chunk_end_le [OF Some less.prems(1)]
      have "int (e - start + ?n) \<le> opt_fout_buffer_size opts" using e by (auto split: if_splits)
      moreover have "slice buf start (e - start) = Some (take (e - start) (drop start buf))"
        using e less.prems(2) by (simp add: slice_def)
      ultimately show ?thesis
        using Some step [OF c1 e(1)] e(2) find_chunk_end_complete [OF Some True less.prems(2)]
        by (simp add: wp_try wp_of_opt Let_def)
    qed
    have fill: "wp {} (event_handler_fout_fill_trace_id opts tid idx)
        (\<lambda>_ c'. only_ud c c' \<and> same_tail (fc_ud c) (fc_ud c') \<and> tail_is opts tid idx (fc_ud c')) (\<lambda>_ _. False) c"
      by (rule wp_mono [OF fill_trace_id_wp [OF less.prems(3)]]) auto
    show ?thesis
      unfolding chunk_loop.simps [of opts env tid buf stop tr start] if_P [OF True] wp_try
      by (rule wp_mono [OF fill])
        (use next_chunk in \<open>auto simp only: wp_get_ud Let_def tail_is_def\<close>)
  qed
qed

definition trunc_text :: "options \<Rightarrow> string" where
  "trunc_text opts = ''# truncated = 1'' @ [opt_frame_delim opts]"

text \<open>The outcome of a chunked write: the first \<open>n\<close> bytes of the text go out in the chunks \<open>bodies\<close>,
  and when this is not all of it, the truncation record as the last chunk.\<close>

definition wrote_chunks :: "options \<Rightarrow> 'w fctx \<Rightarrow> nat \<Rightarrow> string list \<Rightarrow> 'w fctx \<Rightarrow> bool" where
  "wrote_chunks opts c n bodies c' \<longleftrightarrow>
     (let u = fc_ud c; tr = (ud_truncated u \<or> n < ud_len u); tid = fc_trace_id c in
      n \<le> ud_len u \<and> concat bodies = take n (ud_text u) \<and> [] \<notin> set bodies \<and>
      (complete (opt_frame_delim opts) (ud_text u) \<longrightarrow> list_all (complete (opt_frame_delim opts)) bodies) \<and>
      fc_io c' = fc_io c @ chunk_io opts (ud_fd u) tid 0 True (bodies @ (if tr then [trunc_text opts] else [])) \<and>
      fits opts (chunk_io opts (ud_fd u) tid 0 (\<not> tr) bodies) \<and>
      same_tail (u\<lparr>ud_truncated := tr\<rparr>) (fc_ud c') \<and> fc_trace_id c' = tid + 1)"

lemma write_marker_wp:
  assumes "length (ud_trace_id_tail (fc_ud c)) = 64"
    and "\<And>r c'. same_tail (fc_ud c) (fc_ud c') \<Longrightarrow> fc_trace_id c' = fc_trace_id c \<Longrightarrow>
      fc_io c' = fc_io c @ [Writev (ud_fd (fc_ud c)) (m @ trace_id_text opts tid idx CHR ''!'')] \<Longrightarrow> P c'"
  shows "wp {} (try_c (event_handler_fout_fill_trace_id opts tid idx) (\<lambda>_.
       try_c (of_opt OutOfBounds (Some m)) (\<lambda>marker.
       with_rv (event_handler_fout_write_chunk env marker CHR ''!'') (\<lambda>r' _. ret (r OR r')))))
     (\<lambda>_. P) (\<lambda>_. P) c"
proof -
  have ret: "wp {} (ret k) (\<lambda>_. P) (\<lambda>_. P) c' = P c'" for k c' by (simp add: wp_basic)
  have "wp {} (event_handler_fout_write_chunk env m CHR ''!'') (\<lambda>_. P) (\<lambda>_. P) c1"
    if "only_ud c c1" "same_tail (fc_ud c) (fc_ud c1)" "tail_is opts tid idx (fc_ud c1)" for c1
    by (rule write_chunk_wp [OF that(3), where P = "\<lambda>_. P"], rule assms(2))
      (use that same_tail_fields [OF that(2)] in \<open>auto simp: only_ud_def elim: same_tail_trans\<close>)
  then show ?thesis
    unfolding wp_try wp_with_rv ret by (auto simp: wp_of_opt intro!: wp_mono [OF fill_trace_id_wp [OF assms(1)]])
qed

lemma write_chunked_wp:
  assumes "ud_ok opts (fc_ud c)"
  shows "wp {} (event_handler_fout_write_chunked opts env)
    (\<lambda>_ c'. \<exists>n bodies. wrote_chunks opts c n bodies c') (\<lambda>_ c'. \<exists>n bodies. wrote_chunks opts c n bodies c') c"
proof -
  let ?u = "fc_ud c"
  let ?tid = "fc_trace_id c"
  let ?P = "\<lambda>c'. \<exists>n bodies. wrote_chunks opts c n bodies c'"
  define c1 where "c1 = fc_trace_id_update (\<lambda>t. t + 1) c"
  have u: "ud_len ?u \<le> length (ud_buf ?u)" "length (ud_trace_id_tail (fc_ud c1)) = 64"
    "slice (ud_trunc_marker ?u) 0 (ud_trunc_marker_len ?u) = Some (trunc_text opts)"
    using assms by (simp_all add: ud_ok_def slice_def trunc_text_def c1_def)
  have rest: "wp {} (get_ud (\<lambda>u.
     if \<not> ud_truncated u then ret r
     else
       try_c (event_handler_fout_fill_trace_id opts ?tid idx) (\<lambda>_.
       try_c (of_opt OutOfBounds (slice (ud_trunc_marker u) 0 (ud_trunc_marker_len u))) (\<lambda>marker.
       with_rv (event_handler_fout_write_chunk env marker CHR ''!'') (\<lambda>r' _. ret (r OR r'))))))
     (\<lambda>_. ?P) (\<lambda>_. ?P) (fc_ud_update (\<lambda>u. u\<lparr>ud_truncated := ud_truncated ?u \<or> n < ud_len ?u\<rparr>) c2)"
    if ch: "chunked opts ?tid (ud_buf ?u) (ud_len ?u) (ud_truncated ?u) 0 0 c1 n idx c2" for n idx r c2
  proof -
    define tr where "tr = (ud_truncated ?u \<or> n < ud_len ?u)"
    define c3 where "c3 = fc_ud_update (\<lambda>u. u\<lparr>ud_truncated := tr\<rparr>) c2"
    have n: "n \<le> ud_len ?u" using ch by (simp add: chunked_def)
    then have fin: "(n = ud_len ?u \<and> \<not> ud_truncated ?u) = (\<not> tr)" by (auto simp: tr_def)
    from ch obtain bodies where b: "concat bodies = take n (ud_text ?u)" "[] \<notin> set bodies"
        "complete (opt_frame_delim opts) (ud_text ?u) \<longrightarrow> list_all (complete (opt_frame_delim opts)) bodies"
        "idx = of_nat (length bodies)"
        "fc_io c2 = fc_io c @ chunk_io opts (ud_fd ?u) ?tid 0 (\<not> tr) bodies"
        "fits opts (chunk_io opts (ud_fd ?u) ?tid 0 (\<not> tr) bodies)"
        "same_tail ?u (fc_ud c2)" "fc_trace_id c2 = ?tid + 1"
      unfolding chunked_def fin using n by (auto simp: c1_def ud_text_def)
    have c3: "same_tail (?u\<lparr>ud_truncated := tr\<rparr>) (fc_ud c3)"
      using b(7) unfolding c3_def same_tail_def by (cases ?u; cases "fc_ud c2") simp
    have wrote: "wrote_chunks opts c n bodies c'"
      if "same_tail (?u\<lparr>ud_truncated := tr\<rparr>) (fc_ud c')" "fc_trace_id c' = ?tid + 1"
        "fc_io c' = fc_io c @ chunk_io opts (ud_fd ?u) ?tid 0 True (bodies @ (if tr then [trunc_text opts] else []))" for c'
      using that b n by (simp add: wrote_chunks_def tr_def)
    show ?thesis
    proof (cases tr)
      case False
      have "wrote_chunks opts c n bodies c3" by (rule wrote) (use c3 b False in \<open>auto simp: c3_def\<close>)
      with False show ?thesis
        unfolding wp_get_ud tr_def [symmetric] c3_def [symmetric] by (auto simp: wp_basic c3_def)
    next
      case True
      have "?P c'" if "same_tail (fc_ud c3) (fc_ud c')" "fc_trace_id c' = fc_trace_id c3"
          "fc_io c' = fc_io c3 @ [Writev (ud_fd (fc_ud c3)) (trunc_text opts @ trace_id_text opts ?tid idx CHR ''!'')]" for c'
        using True b same_tail_trans [OF c3 that(1)] that same_tail_fields [OF c3] chunk_io_marker [of opts "ud_fd ?u" ?tid 0 bodies]
        by (intro exI [of _ n] exI [of _ bodies] wrote) (simp_all add: c3_def)
      then show ?thesis
        using True c3 same_tail_fields [OF c3] u(3) same_tail_fields [OF b(7)]
        unfolding wp_get_ud tr_def [symmetric] c3_def [symmetric]
        by (simp add: c3_def [symmetric]) (rule write_marker_wp, simp_all add: same_tail_def c3_def)
    qed
  qed
  have upd: "wp {} (if n < ud_len ?u then upd_ud (\<lambda>u. u\<lparr>ud_truncated := True\<rparr>) else ok ()) Q E c2 =
      Q () (fc_ud_update (\<lambda>u. u\<lparr>ud_truncated := ud_truncated ?u \<or> n < ud_len ?u\<rparr>) c2)"
    if "chunked opts ?tid (ud_buf ?u) (ud_len ?u) (ud_truncated ?u) 0 0 c1 n idx c2" for n idx c2 Q E
  proof -
    have "ud_truncated (fc_ud c2) = ud_truncated ?u"
      using that same_tail_fields [of ?u "fc_ud c2"] by (simp add: chunked_def c1_def)
    then show ?thesis by (cases c2; cases "fc_ud c2") (auto simp: wp_basic wp_upd_ud)
  qed
  show ?thesis
    unfolding event_handler_fout_write_chunked_def wp_get Let_def wp_try
    unfolding wp_basic c1_def [symmetric]
    by (rule wp_mono [OF chunk_loop_wp [OF _ u(1,2)]]) (auto simp: wp_try upd intro!: rest split del: if_split)
qed

text \<open>The outcome of \<^verbatim>\<open>event_handler_fout_write\<close>.\<close>

definition total_len :: "fout_udata \<Rightarrow> nat" where
  "total_len u = ud_len u + 1 + (if ud_truncated u then ud_trunc_marker_len u else 0)"

definition bracket :: "fout_udata \<Rightarrow> io \<Rightarrow> io list" where
  "bracket u a = (if ud_use_mutex u then [a] else [])"

definition wrote_whole :: "options \<Rightarrow> 'w fctx \<Rightarrow> 'w fctx \<Rightarrow> bool" where
  "wrote_whole opts c c' \<longleftrightarrow>
     (let u = fc_ud c in
      fc_ud c' = u \<and> fc_trace_id c' = fc_trace_id c \<and>
      fc_io c' = fc_io c @ [Writev (ud_fd u)
        (ud_text u @ (if ud_truncated u then trunc_text opts else []) @ [opt_trace_delim opts])])"

definition written :: "options \<Rightarrow> 'w fctx \<Rightarrow> 'w fctx \<Rightarrow> bool" where
  "written opts c c' \<longleftrightarrow>
     (\<exists>c1. (if total_len (fc_ud c) \<le> nat (opt_fout_buffer_size opts)
           then wrote_whole opts (fc_io_update (\<lambda>as. as @ bracket (fc_ud c) Lock) c) c1
           else \<exists>n bodies. wrote_chunks opts (fc_io_update (\<lambda>as. as @ bracket (fc_ud c) Lock) c) n bodies c1) \<and>
         fc_ud c' = fc_ud c1 \<and> fc_trace_id c' = fc_trace_id c1 \<and> fc_io c' = fc_io c1 @ bracket (fc_ud c) Unlock)"

lemma write_whole_wp:
  assumes "ud_ok opts (fc_ud c)"
  shows "wp {} (event_handler_fout_write_whole opts env) (\<lambda>_. wrote_whole opts c) (\<lambda>_. wrote_whole opts c) c"
proof -
  have "slice (ud_trunc_marker (fc_ud c)) 0 (ud_trunc_marker_len (fc_ud c)) = Some (trunc_text opts)"
    "slice (ud_buf (fc_ud c)) 0 (ud_len (fc_ud c)) = Some (ud_text (fc_ud c))"
    using assms by (simp_all add: ud_ok_def slice_def trunc_text_def ud_text_def)
  then show ?thesis
    by (simp add: event_handler_fout_write_whole_def event_handler_fout_writev_def wp_rules wrote_whole_def Let_def
        split: prod.splits)
qed

lemma or_4_and_4: "(r OR 4) AND 4 = (4 :: int)"
  by (rule bit_eqI) (auto simp: bit_simps)

lemma or_4_nonzero: "(r OR 4) \<noteq> (0 :: int)"
  using or_4_and_4 [of r] by auto

lemma wrote_chunks_ud:
  assumes "wrote_chunks opts c n bodies c'"
  shows "same_tail ((fc_ud c)\<lparr>ud_truncated := ud_truncated (fc_ud c) \<or> n < ud_len (fc_ud c)\<rparr>) (fc_ud c')"
  using assms by (simp add: wrote_chunks_def Let_def)

lemma write_wp:
  assumes "ud_ok opts (fc_ud c)"
  shows "wp {} (event_handler_fout_write opts env)
    (\<lambda>_ c'. written opts c c' \<and> \<not> ud_truncated (fc_ud c'))
    (\<lambda>r c'. written opts c c' \<and> (ud_truncated (fc_ud c') \<longrightarrow> r AND PHPSPY_ERR_TRUNCATED \<noteq> 0)) c"
proof -
  let ?u = "fc_ud c"
  let ?c0 = "fc_io_update (\<lambda>as. as @ bracket ?u Lock) c"
  let ?whole = "total_len ?u \<le> nat (opt_fout_buffer_size opts)"
  let ?M = "\<lambda>c1. if ?whole then wrote_whole opts ?c0 c1 else \<exists>n bodies. wrote_chunks opts ?c0 n bodies c1"
  have body: "wp {} (if ?whole then event_handler_fout_write_whole opts env else event_handler_fout_write_chunked opts env)
      (\<lambda>_. ?M) (\<lambda>_. ?M) ?c0"
    using write_whole_wp [of opts ?c0 env] write_chunked_wp [of opts ?c0 env] assms by simp
  have out: "written opts c (fc_io_update (\<lambda>as. as @ bracket ?u Unlock) c1)" if "?M c1" for c1
    using that unfolding written_def by (intro exI [of _ c1]) simp
  have br: "wp {} (try_c (if ud_use_mutex ?u then act a else ok ()) k) Q E s =
      wp {} (k ()) Q E (fc_io_update (\<lambda>as. as @ bracket ?u a) s)"
    for a Q E and k :: "unit \<Rightarrow> ('a, unit) ffun" and s
    by (cases s) (simp add: wp_rules bracket_def)
  have fin: "wp {} (get_ud (\<lambda>u. ret (if ud_truncated u then r OR 4 else r)))
      (\<lambda>_ c'. written opts c c' \<and> \<not> ud_truncated (fc_ud c'))
      (\<lambda>r c'. written opts c c' \<and> (ud_truncated (fc_ud c') \<longrightarrow> r AND PHPSPY_ERR_TRUNCATED \<noteq> 0))
      (fc_io_update (\<lambda>as. as @ bracket ?u Unlock) c1)" if "?M c1" for c1 r
    using out [OF that] by (simp add: wp_get_ud wp_basic or_4_and_4 or_4_nonzero)
  show ?thesis
    unfolding event_handler_fout_write_def wp_get_ud Let_def total_len_def [symmetric] br wp_with_rv
    by (rule wp_mono [OF body]; rule fin [unfolded wp_get_ud])
qed

subsection \<open>The handler keeps its invariant\<close>

definition fo_ok :: "options \<Rightarrow> fout_state \<Rightarrow> bool" where
  "fo_ok opts st \<longleftrightarrow> (case fo_udata st of None \<Rightarrow> True | Some u \<Rightarrow> ud_ok opts u)"

definition keeps_ud :: "options \<Rightarrow> ('w, 'a) ffun \<Rightarrow> bool" where
  "keeps_ud opts m \<longleftrightarrow> (\<forall>c. ud_ok opts (fc_ud c) \<longrightarrow>
     wp {} m (\<lambda>_ c'. ud_ok opts (fc_ud c')) (\<lambda>_ c'. ud_ok opts (fc_ud c')) c)"

lemma keeps_ud_basic:
  "keeps_ud opts (ok a)" "keeps_ud opts (rv r)" "keeps_ud opts (sys f)"
  by (simp_all add: keeps_ud_def wp_rules split: prod.splits)

lemma keeps_ud_try: "keeps_ud opts m \<Longrightarrow> (\<And>a. keeps_ud opts (k a)) \<Longrightarrow> keeps_ud opts (try_c m k)"
  unfolding keeps_ud_def wp_try by (blast intro: wp_mono)

lemma keeps_ud_get: "(\<And>u. ud_ok opts u \<Longrightarrow> keeps_ud opts (k u)) \<Longrightarrow> keeps_ud opts (get_ud k)"
  by (simp add: keeps_ud_def wp_get_ud)

lemma keeps_ud_if: "(b \<Longrightarrow> keeps_ud opts m) \<Longrightarrow> (\<not> b \<Longrightarrow> keeps_ud opts m') \<Longrightarrow> keeps_ud opts (if b then m else m')"
  by simp

lemma keeps_ud_record: "keeps_ud opts (fout_record opts env (Some t))"
  unfolding keeps_ud_def by (auto simp: recorded_def intro!: wp_mono [OF fout_record_wp])

lemma written_ok: "written opts c c' \<Longrightarrow> ud_ok opts (fc_ud c) \<Longrightarrow> ud_ok opts (fc_ud c')"
  unfolding written_def
  by (auto simp: wrote_whole_def Let_def split: if_splits dest!: wrote_chunks_ud elim!: same_tail_ok)
    (auto simp: ud_ok_def)

lemma keeps_ud_write: "keeps_ud opts (event_handler_fout_write opts env)"
  unfolding keeps_ud_def by (auto intro!: wp_mono [OF write_wp] elim: written_ok)

lemma keeps_ud_stack_end: "keeps_ud opts (fout_stack_end opts env pid)"
proof -
  have "keeps_ud opts (of_opt OutOfBounds (fmt_s (ud_buf u)))" if "ud_ok opts u" "ud_len u \<noteq> 0" for u
  proof -
    have "NUL \<in> set (ud_buf u)" using that by (metis nth_mem ud_ok_def)
    then show ?thesis by (simp add: fmt_s_def keeps_ud_def wp_rules)
  qed
  then show ?thesis
    unfolding fout_stack_end_def
    by (intro keeps_ud_get keeps_ud_if keeps_ud_basic keeps_ud_try keeps_ud_write) (auto intro!: keeps_ud_record)
qed

lemma keeps_ud_begin:
  "keeps_ud opts (get_ud (\<lambda>u. try_c (of_opt OutOfBounds (put (ud_buf u) 0 [NUL])) (\<lambda>b.
     upd_ud (\<lambda>u. u\<lparr>ud_len := 0, ud_buf := b, ud_truncated := False\<rparr>))))"
  by (auto simp: keeps_ud_def wp_rules put_def ud_ok_def split: option.splits)

lemma keeps_ud_request:
  "request_terminated r \<Longrightarrow> keeps_ud opts (fout_request opts env r)"
  unfolding fout_request_def request_terminated_def fmt_s_def prefixed_def
  by (auto intro!: keeps_ud_try keeps_ud_record)

lemma handler_step_refl [simp]: "handler_step s s"
  by (simp add: handler_step_def)

lemma on_udata_wp:
  assumes "keeps_ud opts m" and "fo_ok opts (event_udata s)"
  shows "wp {} (on_udata m) (\<lambda>_ s'. handler_step s s' \<and> fo_ok opts (event_udata s'))
    (\<lambda>_ s'. handler_step s s' \<and> fo_ok opts (event_udata s')) s"
proof (cases "fo_udata (event_udata s)")
  case None
  with assms(2) show ?thesis by (simp add: on_udata_def wp_def)
next
  case (Some u)
  have "handler_step s (set_ud v (of_fctx c s))" for v c
    by (simp add: handler_step_def set_ud_def of_fctx_def)
  moreover have "fo_ok opts (event_udata (set_ud (Some v) (of_fctx c s)))" if "ud_ok opts v" for v c
    using that by (simp add: fo_ok_def set_ud_def)
  ultimately show ?thesis
    using Some assms(1) [unfolded keeps_ud_def, rule_format, of "to_fctx u s"] assms(2)
    by (auto simp: on_udata_def wp_def fo_ok_def to_fctx_def split: prod.splits result.splits)
qed

lemma fmt_prec_array:
  "length b = PHPSPY_STR_SIZE \<Longrightarrow> n < PHPSPY_STR_SIZE \<Longrightarrow> fmt_prec n b = Some (fmt_prec_s n b)"
  by (simp add: fmt_prec_def)

lemma fout_frame_text_ok: "frame_ok f \<Longrightarrow> \<exists>t. fout_frame_text f = Some t"
  by (simp add: frame_ok_def fout_frame_text_def fmt_prec_array)

lemma fout_handler: "event_handler (event_handler_fout opts env) (fo_ok opts)"
proof
  fix s :: "('a, fout_state) trace_context" and e
  assume I: "fo_ok opts (event_udata s)" and ctx: "ctx_ok s" and e: "e \<noteq> INIT" "e \<noteq> DEINIT"
    and req: "e = REQUEST \<Longrightarrow> request_terminated (ev_request s)"
  note run = on_udata_wp [OF _ I]
  obtain t where "fout_frame_text (ev_frame s) = Some t"
    using ctx fout_frame_text_ok by (auto simp: ctx_ok_def)
  moreover have "fmt_prec (vp_str_len (ev_varpeek s)) (vp_str (ev_varpeek s)) \<noteq> None"
    "fmt_prec (gp_str_len (ev_glopeek s)) (gp_str (ev_glopeek s)) \<noteq> None"
    using ctx by (auto simp: ctx_ok_def fmt_prec_def)
  ultimately show "wp {} (event_handler_fout opts env e) (\<lambda>_ s'. handler_step s s' \<and> fo_ok opts (event_udata s'))
      (\<lambda>_ s'. handler_step s s' \<and> fo_ok opts (event_udata s')) s"
    using e I req
    by (cases e)
      (auto simp: event_handler_fout_def wp_get wp_basic prefixed_def Let_def
        intro!: run keeps_ud_record keeps_ud_begin keeps_ud_request keeps_ud_stack_end)
qed

interpretation fo: event_handler "event_handler_fout opts env" "fo_ok opts"
  for opts and env :: "'w fout_env"
  by (rule fout_handler)

interpretation fot: tracer "copy_proc_mem rd pid" "event_handler_fout opts env" "fo_ok opts"
  for rd :: "'w readv" and pid opts and env :: "'w fout_env"
  by (rule tracer.intro [OF copy_proc_mem_reader fout_handler])

end
