(* ===== verification/Trace_Output.thy ===== *)
theory Trace_Output
  imports Stack_Spec Fout_Write
begin

text \<open>
  The tracer and the file output handler together: from the call stack in the memory of the traced
  process to the bytes that are written. Also the properties of the handler alone.
\<close>

subsection \<open>The handler changes its own data and the world only\<close>

definition quiet_fun :: "('w, 'u, 'a) tfun \<Rightarrow> bool" where
  "quiet_fun m \<longleftrightarrow> (\<forall>s. handler_step s (snd (m s)))"

lemma handler_step_trans: "handler_step a b \<Longrightarrow> handler_step b c \<Longrightarrow> handler_step a c"
  unfolding handler_step_def by (cases a; cases b; cases c) simp

lemma quiet_fun_basic:
  "quiet_fun (ok a)" "quiet_fun (rv r)" "quiet_fun (fault f)" "quiet_fun (of_opt f x)"
  "quiet_fun (on_world g)" "quiet_fun (modify (event_udata_update k))"
  by (auto simp: quiet_fun_def cfun_defs on_world_def handler_step_def split: option.splits prod.splits)

lemma quiet_fun_try: "quiet_fun m \<Longrightarrow> (\<And>a. quiet_fun (k a)) \<Longrightarrow> quiet_fun (try_c m k)"
  unfolding quiet_fun_def try_c_def
  by (auto split: prod.splits result.splits) (metis handler_step_trans snd_conv)+

lemma quiet_fun_get: "(\<And>s. quiet_fun (k s)) \<Longrightarrow> quiet_fun (get_s k)"
  by (simp add: quiet_fun_def get_s_def)

lemma quiet_fun_udata:
  "quiet_fun (on_udata m)" "quiet_fun (run_ud u m')" "quiet_fun (modify (set_ud v))" "quiet_fun (tsys f)" "quiet_fun (fout_act a)"
  by (auto simp: quiet_fun_def on_udata_def run_ud_def set_ud_def of_fctx_def handler_step_def modify_def tsys_def
      on_world_def fout_act_def split: option.splits prod.splits result.splits)

lemmas quiet_fun_rules = quiet_fun_basic quiet_fun_udata quiet_fun_try quiet_fun_get

lemma quiet_fout_open: "quiet_fun (event_handler_fout_open opts env)"
  unfolding event_handler_fout_open_def fout_open_fd_def
  by (auto intro!: quiet_fun_rules)

lemma quiet_fout: "quiet (event_handler_fout opts env)"
proof -
  have "quiet_fun (event_handler_fout opts env e)" for e
    unfolding event_handler_fout_def fout_init_def Let_def
    by (rule quiet_fun_get) (auto intro!: quiet_fun_rules quiet_fout_open split: event_type.splits option.splits)
  then show ?thesis by (simp add: quiet_def quiet_fun_def)
qed

subsection \<open>The text of a frame\<close>

definition c_part :: "string \<Rightarrow> string" where
  "c_part = takeWhile (\<lambda>c. c \<noteq> NUL)"

definition frame_line :: "nat \<Rightarrow> php_frame \<Rightarrow> string" where
  "frame_line d fr =
     dec_nat d @ '' '' @ c_part (class_text fr) @ (if class_text fr \<noteq> [] then ''::'' else []) @ c_part (func_text fr) @
     '' '' @ c_part (file_text fr) @ '':'' @ dec_int (line_of fr)"

text \<open>The records of a list of frames, from depth \<open>d\<close> on.\<close>

fun stack_text :: "options \<Rightarrow> nat \<Rightarrow> php_frame list \<Rightarrow> string" where
  "stack_text opts d [] = []"
| "stack_text opts d (fr # frs) =
     strip_text opts (frame_line d fr) @ [opt_frame_delim opts] @ stack_text opts (Suc d) frs"

lemma fmt_prec_set_str: "fmt_prec (length t) (set_str b t) = Some (c_part t)"
  by (simp add: fmt_prec_def fmt_prec_s_def set_str_def c_part_def)

lemma fout_frame_text_item: "fout_frame_text (fill_item (Frame d fr) f) = Some (frame_line d fr)"
  by (simp add: fout_frame_text_def fmt_prec_set_str frame_line_def dec_int_def)

subsection \<open>Events on a buffer that has room\<close>

text \<open>The handler is set up with descriptor \<open>fd\<close>, holds the text \<open>tx\<close>, and has done the actions \<open>ios\<close>.\<close>

definition holds_text :: "options \<Rightarrow> int \<Rightarrow> bool \<Rightarrow> string \<Rightarrow> io list \<Rightarrow> fout_state \<Rightarrow> bool" where
  "holds_text opts fd mx tx ios st \<longleftrightarrow>
     (\<exists>u. fo_udata st = Some u \<and> ud_ok opts u \<and> \<not> ud_truncated u \<and> ud_text u = tx \<and> ud_fd u = fd \<and>
        ud_use_mutex u = mx) \<and> fo_io st = ios"

lemma record_event:
  assumes "holds_text opts fd mx tx ios (event_udata s)" and "\<not> no_room env (length tx + length t + 2)"
  shows "\<exists>s'. on_udata (fout_record opts env (Some t)) s = (Ok (), s') \<and>
    holds_text opts fd mx (tx @ strip_text opts t @ [opt_frame_delim opts]) ios (event_udata s')"
proof -
  obtain u where u: "fo_udata (event_udata s) = Some u" "ud_ok opts u" "\<not> ud_truncated u" "ud_text u = tx"
      "ud_fd u = fd" "ud_use_mutex u = mx" "fo_io (event_udata s) = ios"
    using assms(1) by (auto simp: holds_text_def)
  have "wp {} (fout_record opts env (Some t)) (\<lambda>_ c'. only_ud (to_fctx u s) c' \<and> recorded opts env t u (fc_ud c'))
      (\<lambda>_ _. False) (to_fctx u s)"
    using fout_record_wp [of opts "to_fctx u s" env t] u(2) by (simp add: to_fctx_def)
  then obtain c' where c': "fout_record opts env (Some t) (to_fctx u s) = (Ok (), c')"
      "only_ud (to_fctx u s) c'" "recorded opts env t u (fc_ud c')"
    by (auto simp: wp_def split: prod.splits result.splits)
  have "\<not> ud_truncated (fc_ud c')" "ud_text (fc_ud c') = tx @ strip_text opts t @ [opt_frame_delim opts]"
    using c'(3) u assms(2) len_text [OF u(2)] by (auto simp: recorded_def split: if_splits)
  then show ?thesis
    using u c' same_meta_fields [of u "fc_ud c'"]
    by (auto simp: on_udata_def holds_text_def set_ud_def of_fctx_def only_ud_def to_fctx_def recorded_def)
qed

lemma begin_event:
  assumes "fo_udata (event_udata s) = Some u" and "ud_ok opts u"
  shows "\<exists>s'. event_handler_fout opts env STACK_BEGIN s = (Ok (), s') \<and>
    holds_text opts (ud_fd u) (ud_use_mutex u) [] (fo_io (event_udata s)) (event_udata s')"
  using assms
  by (auto simp: event_handler_fout_def run_simps on_udata_def get_ud_def upd_ud_def to_fctx_def of_fctx_def set_ud_def
      put_def ud_ok_def holds_text_def ud_text_def split: prod.splits)

lemma frame_event:
  assumes "holds_text opts fd mx tx ios (event_udata s)" and "\<not> no_room env (length tx + length (frame_line d fr) + 2)"
  shows "\<exists>s'. emit_item (event_handler_fout opts env) (Frame d fr) s = (Ok (), s') \<and>
    holds_text opts fd mx (tx @ strip_text opts (frame_line d fr) @ [opt_frame_delim opts]) ios (event_udata s')"
proof -
  have "fo_udata (event_udata s) \<noteq> None" using assms(1) by (auto simp: holds_text_def)
  then show ?thesis
    using record_event [of opts fd mx tx ios "ev_frame_update (fill_item (Frame d fr)) s"] assms
    by (simp add: emit_item_def event_handler_fout_def run_simps fout_frame_text_item del: fill_item.simps)
qed

lemma frames_event:
  assumes "holds_text opts fd mx tx ios (event_udata s)"
    and "\<not> no_room env (length tx + length (stack_text opts d frs) + 1)"
  shows "\<exists>s'. emit_counted (event_handler_fout opts env) d frs s = (Ok (PHPSPY_OK, d + length frs), s') \<and>
    holds_text opts fd mx (tx @ stack_text opts d frs) ios (event_udata s')"
  using assms
proof (induction frs arbitrary: d tx s)
  case Nil
  then show ?case by (simp add: run_simps)
next
  case (Cons fr frs)
  let ?line = "strip_text opts (frame_line d fr) @ [opt_frame_delim opts]"
  have "\<not> no_room env (length tx + length (frame_line d fr) + 2)"
    using Cons.prems(2) no_room_mono by fastforce
  from frame_event [OF Cons.prems(1) this] obtain s1 where
    s1: "emit_item (event_handler_fout opts env) (Frame d fr) s = (Ok (), s1)"
      "holds_text opts fd mx (tx @ ?line) ios (event_udata s1)" by blast
  have "\<not> no_room env (length (tx @ ?line) + length (stack_text opts (Suc d) frs) + 1)"
    using Cons.prems(2) by (simp add: add.assoc)
  from Cons.IH [OF s1(2) this] show ?case using s1(1) by (auto simp: run_simps)
qed

lemma end_event:
  assumes "holds_text opts fd mx tx ios (event_udata s)" and "tx \<noteq> []"
    and "int (length tx + 1) \<le> opt_fout_buffer_size opts"
    and "opt_filter_re opts = None" and "\<not> opt_verbose_fields_ts opts" and "\<not> opt_verbose_fields_pid opts"
    and "\<And>b w. fst (e_writev env fd b w) = int (length b)"
  shows "\<exists>s'. event_handler_fout opts env STACK_END s = (Ok (), s') \<and>
    holds_text opts fd mx tx (ios @ (if mx then [Lock] else []) @ [Writev fd (tx @ [opt_trace_delim opts])] @
      (if mx then [Unlock] else [])) (event_udata s')"
proof -
  obtain u where u: "fo_udata (event_udata s) = Some u" "ud_ok opts u" "\<not> ud_truncated u" "ud_text u = tx"
      "ud_fd u = fd" "ud_use_mutex u = mx" "fo_io (event_udata s) = ios"
    using assms(1) by (auto simp: holds_text_def)
  have len: "ud_len u = length tx" using len_text [OF u(2)] u(4) by simp
  have sl: "slice (ud_buf u) 0 (ud_len u) = Some tx" using u(2,4) by (simp add: slice_def ud_ok_def ud_text_def)
  obtain w where w: "e_writev env fd (tx @ [opt_trace_delim opts]) (world s) = (int (length (tx @ [opt_trace_delim opts])), w)"
    using assms(7) [of "tx @ [opt_trace_delim opts]" "world s"] by (metis prod.collapse)
  have "length tx + 1 \<le> nat (opt_fout_buffer_size opts)" using assms(3) by simp
  with w sl show ?thesis
    using u len assms(2,4-6)
    by (cases mx)
      (auto simp: event_handler_fout_def run_simps on_udata_def fout_stack_end_def fout_skips_def get_ud_def
        event_handler_fout_write_def event_handler_fout_write_whole_def event_handler_fout_writev_def
        to_fctx_def of_fctx_def set_ud_def act_def sys_def Let_def holds_text_def)
qed

text \<open>Options that ask for the stack and nothing else.\<close>

definition plain :: "options \<Rightarrow> bool" where
  "plain opts \<longleftrightarrow> only_frames opts \<and> opt_max_stack_depth_from_root opts < 0 \<and> \<not> opt_capture_req opts \<and>
     \<not> opt_capture_mem opts \<and> opt_glopeek_map opts = [] \<and> opt_filter_re opts = None \<and>
     \<not> opt_verbose_fields_ts opts \<and> \<not> opt_verbose_fields_pid opts"

lemma stack_text_nonempty: "frs \<noteq> [] \<Longrightarrow> stack_text opts d frs \<noteq> []"
  by (cases frs) simp_all

lemma strip_text_id: "opt_frame_delim opts \<notin> set t \<Longrightarrow> opt_trace_delim opts \<notin> set t \<Longrightarrow> strip_text opts t = t"
  by (simp add: strip_text_def last_end_notin mask_id)

subsection \<open>A trace of a process that holds still\<close>

lemma quiet_keeps:
  assumes "quiet h" and "h e s = (r, s')"
  shows "executor_globals_addr s' = executor_globals_addr s" and "ev_frame s' = ev_frame s"
proof -
  have "handler_step s s'" using assms unfolding quiet_def by (metis snd_conv)
  then show "executor_globals_addr s' = executor_globals_addr s" "ev_frame s' = ev_frame s"
    unfolding handler_step_def by (cases s; cases s'; simp)+
qed

lemma emit_counted_keeps:
  assumes "quiet h"
  shows "emit_counted h d frs s = (r, s') \<Longrightarrow>
    executor_globals_addr s' = executor_globals_addr s \<and> (frame_ok (ev_frame s) \<longrightarrow> frame_ok (ev_frame s'))"
proof (induction frs arbitrary: d s)
  case Nil
  then show ?case by (simp add: run_simps)
next
  case (Cons fr frs)
  let ?s = "ev_frame_update (fill_item (Frame d fr)) s"
  obtain r1 s1 where h: "h FRAME ?s = (r1, s1)" by fastforce
  have s1: "executor_globals_addr s1 = executor_globals_addr s" "frame_ok (ev_frame s) \<longrightarrow> frame_ok (ev_frame s1)"
    using quiet_keeps [OF assms h] fill_frame_ok [of "ev_frame s" d fr] by (simp_all del: fill_item.simps)
  have "emit_item h (Frame d fr) s = (r1, s1)" using h by (simp add: emit_item_def run_simps del: fill_item.simps)
  with Cons.prems s1 Cons.IH [of "Suc d" s1] show ?case
    by (cases r1) (auto simp: run_simps try_c_def split: prod.splits result.splits)
qed

lemma do_trace_still:
  assumes "stack_at L m a frs" and "executor_globals_addr s \<noteq> 0"
    and "ptr_at (bytes_at m (executor_globals_addr s) (sizeof_executor_globals L)) (off_current_execute_data L) = a"
    and "frs' = take (leaf_limit (opt_max_stack_depth_from_leaf opts)) frs" and "frs' \<noteq> []"
    and "plain opts" and "frame_ok (ev_frame s)"
    and "fo_udata (event_udata s) = Some u" and "ud_ok opts u"
    and "int (length (stack_text opts 0 frs') + 1) \<le> opt_fout_buffer_size opts"
    and "length (stack_text opts 0 frs') + 1 \<le> PHPSPY_FOUT_MAX_BUFFER"
    and "\<And>k w. fst (e_realloc env k w) \<noteq> None" and "\<And>b w. fst (e_writev env (ud_fd u) b w) = int (length b)"
  shows "\<exists>s'. do_trace opts L (copy_proc_mem (still m) pid) fuel (event_handler_fout opts env) s = (Ok (), s') \<and>
    holds_text opts (ud_fd u) (ud_use_mutex u) (stack_text opts 0 frs') (fo_io (event_udata s) @
      (if ud_use_mutex u then [Lock] else []) @ [Writev (ud_fd u) (stack_text opts 0 frs' @ [opt_trace_delim opts])] @
      (if ud_use_mutex u then [Unlock] else [])) (event_udata s') \<and>
    executor_globals_addr s' = executor_globals_addr s \<and> frame_ok (ev_frame s')"
proof -
  let ?h = "event_handler_fout opts env"
  let ?cp = "copy_proc_mem (still m) pid"
  have eg: "copy_executor_globals L ?cp s = (Ok a, s)"
    using assms(2,3) by (simp add: copy_executor_globals_def run_simps on_world_copy)
  obtain s1 where s1: "?h STACK_BEGIN s = (Ok (), s1)"
      "holds_text opts (ud_fd u) (ud_use_mutex u) [] (fo_io (event_udata s)) (event_udata s1)"
    using begin_event [OF assms(8,9)] by blast
  have fr: "ev_frame s1 = ev_frame s" using quiet_keeps [OF quiet_fout s1(1)] by simp
  then have es: "trace_stack opts L ?cp fuel ?h a s1 = emit_counted ?h 0 frs' s1"
    using assms(1,4,6,7) trace_leaf_still [OF quiet_fout, of opts L m a frs s1 0 pid fuel]
    by (simp add: plain_def trace_stack_def)
  have "\<not> no_room env (length [] + length (stack_text opts 0 frs') + 1)"
    using assms(11,12) by (simp add: no_room_def)
  with es obtain s2 where s2: "trace_stack opts L ?cp fuel ?h a s1 = (Ok (PHPSPY_OK, length frs'), s2)"
      "holds_text opts (ud_fd u) (ud_use_mutex u) (stack_text opts 0 frs') (fo_io (event_udata s)) (event_udata s2)"
    using frames_event [OF s1(2)] by fastforce
  have nf: "opt_filter_re opts = None" "\<not> opt_verbose_fields_ts opts" "\<not> opt_verbose_fields_pid opts"
    using assms(6) by (simp_all add: plain_def)
  obtain s3 where s3: "?h STACK_END s2 = (Ok (), s3)"
      "holds_text opts (ud_fd u) (ud_use_mutex u) (stack_text opts 0 frs') (fo_io (event_udata s) @
        (if ud_use_mutex u then [Lock] else []) @ [Writev (ud_fd u) (stack_text opts 0 frs' @ [opt_trace_delim opts])] @
        (if ud_use_mutex u then [Unlock] else [])) (event_udata s3)"
    using end_event [OF s2(2) stack_text_nonempty [OF assms(5)] assms(10) nf assms(13)] by (elim exE conjE)
  have "do_trace opts L ?cp fuel ?h s = (Ok (), s3)"
    using eg s1(1) s2(1) s3(1) assms(5,6)
    by (simp add: do_trace_def should_stop_trace_def trace_section_def do_trace_end_def plain_def run_simps)
  moreover have "executor_globals_addr s2 = executor_globals_addr s1 \<and> frame_ok (ev_frame s2)"
    using emit_counted_keeps [OF quiet_fout es [symmetric, unfolded s2(1)]] fr assms(7) by simp
  then have "executor_globals_addr s3 = executor_globals_addr s \<and> frame_ok (ev_frame s3)"
    using quiet_keeps [OF quiet_fout s1(1)] quiet_keeps [OF quiet_fout s3(1)] by simp
  ultimately show ?thesis using s3(2) by blast
qed

subsection \<open>A handler set up for the examples\<close>

definition demo_env :: "unit fout_env" where
  "demo_env = \<lparr> e_writev = \<lambda>fd b w. (int (length b), w), e_realloc = \<lambda>n w. (Some (\<lambda>_. NUL), w),
     e_gettimeofday = \<lambda>w. ((0, 0), w), e_gettid = \<lambda>w. (1, w), e_alloc = \<lambda>w. (True, w), e_open = \<lambda>p w. (3, w),
     e_dup = \<lambda>fd w. (4, w), e_regexec = \<lambda>re str. True \<rparr>"

definition demo_udata :: "nat \<Rightarrow> string \<Rightarrow> fout_udata" where
  "demo_udata cap t = \<lparr> ud_fd = 4, ud_buf = t @ replicate (cap - length t) NUL, ud_len = length t, ud_cap = cap,
     ud_use_mutex = False, ud_truncated = False,
     ud_trunc_marker = ''# truncated = 1'' @ [newline] @ replicate 16 NUL, ud_trace_id_tail = replicate 64 NUL,
     ud_trunc_marker_len = 16, ud_trace_id_tail_len = 0 \<rparr>"

definition demo_fout :: "nat \<Rightarrow> string \<Rightarrow> fout_state" where
  "demo_fout cap t = \<lparr> fo_udata = Some (demo_udata cap t), fo_trace_id = 0, fo_shared_fd = -1, fo_io = [] \<rparr>"

lemma demo_udata_ok:
  "length t < cap \<Longrightarrow> cap \<le> PHPSPY_FOUT_MAX_BUFFER \<Longrightarrow> opt_frame_delim opts = newline \<Longrightarrow> ud_ok opts (demo_udata cap t)"
  by (simp add: ud_ok_def demo_udata_def nth_append)

lemma demo_text: "ud_text (demo_udata cap t) = t"
  by (simp add: ud_text_def demo_udata_def)

lemma default_delims: "opt_frame_delim default_options = newline" "opt_trace_delim default_options = newline"
  by (simp_all add: default_options_def)

lemma fresh_udata [simp]: "event_udata (fresh_context u) = u"
  by (simp add: fresh_context_def)

lemma fresh_ctx_ok: "ctx_ok (fresh_context u)"
  by (simp add: ctx_ok_def request_ok_def frame_ok_def fresh_context_def fresh_frame_def tmp_buf_def)

subsection \<open>Properties\<close>

text \<open>C2: The tracer is memory safe with the file output handler. Whatever the memory of the traced
  process holds and however it changes between reads, and whatever the system calls of the handler
  return, a trace without request data never touches memory outside its arrays and never fails an
  assertion, and it leaves the arrays and the handler's buffer well formed.\<close>

theorem do_trace_safe:
  assumes "ctx_ok s" and "fo_ok opts (event_udata s)" and "\<not> opt_capture_req opts"
  shows "case do_trace opts L (copy_proc_mem rd pid) fuel (event_handler_fout opts env) s of
      (Fault f, _) \<Rightarrow> f = OutOfFuel \<or> f = DivByZero
    | (_, s') \<Rightarrow> ctx_ok s' \<and> fo_ok opts (event_udata s')"
proof -
  let ?m = "do_trace opts L (copy_proc_mem rd pid) fuel (event_handler_fout opts env)"
  have inv: "fot.inv opts s" using assms(1,2) unfolding fot.inv_def by simp
  have "wp {OutOfFuel, DivByZero} ?m (\<lambda>_ s'. fot.inv opts s' \<and> True) (\<lambda>_ s'. fot.inv opts s') s"
    using fot.do_trace_keeps [OF assms(3), unfolded fot.keeps_def] inv by blast
  then show ?thesis
    unfolding wp_def fot.inv_def by (cases "?m s"; cases "fst (?m s)") simp_all
qed

theorem do_trace_safe_witness:
  "case do_trace default_options demo_layout (copy_proc_mem (still stack_mem) 1) 0
      (event_handler_fout default_options demo_env) (fresh_context (demo_fout 4096 [])) of
      (Fault f, _) \<Rightarrow> f = OutOfFuel \<or> f = DivByZero
    | (_, s') \<Rightarrow> ctx_ok s' \<and> fo_ok default_options (event_udata s')"
  by (rule do_trace_safe)
    (simp_all add: fresh_ctx_ok fo_ok_def demo_fout_def demo_udata_ok default_delims, simp add: default_options_def)

text \<open>C1: From the stack to the file. On a process that holds still, with options that ask for the stack
  only, a trace writes one line per frame, \<^verbatim>\<open>depth class::function file:line\<close>, innermost first, then the
  trace delimiter, all in one \<^verbatim>\<open>writev\<close> between lock and unlock, when the text fits the buffer size
  and memory and descriptor serve.\<close>

theorem do_trace_writes_stack:
  assumes "stack_at L m a frs" and "executor_globals_addr s \<noteq> 0"
    and "ptr_at (bytes_at m (executor_globals_addr s) (sizeof_executor_globals L)) (off_current_execute_data L) = a"
    and "frs' = take (leaf_limit (opt_max_stack_depth_from_leaf opts)) frs" and "frs' \<noteq> []"
    and "plain opts" and "frame_ok (ev_frame s)"
    and "fo_udata (event_udata s) = Some u" and "ud_ok opts u"
    and "int (length (stack_text opts 0 frs') + 1) \<le> opt_fout_buffer_size opts"
    and "length (stack_text opts 0 frs') + 1 \<le> PHPSPY_FOUT_MAX_BUFFER"
    and "\<And>k w. fst (e_realloc env k w) \<noteq> None" and "\<And>b w. fst (e_writev env (ud_fd u) b w) = int (length b)"
  shows "\<exists>s'. do_trace opts L (copy_proc_mem (still m) pid) fuel (event_handler_fout opts env) s = (Ok (), s') \<and>
    fo_io (event_udata s') = fo_io (event_udata s) @ (if ud_use_mutex u then [Lock] else []) @
      [Writev (ud_fd u) (stack_text opts 0 frs' @ [opt_trace_delim opts])] @ (if ud_use_mutex u then [Unlock] else [])"
proof -
  obtain s' where "do_trace opts L (copy_proc_mem (still m) pid) fuel (event_handler_fout opts env) s = (Ok (), s')"
      "fo_io (event_udata s') = fo_io (event_udata s) @ (if ud_use_mutex u then [Lock] else []) @
        [Writev (ud_fd u) (stack_text opts 0 frs' @ [opt_trace_delim opts])] @ (if ud_use_mutex u then [Unlock] else [])"
    using do_trace_still [OF assms, of pid fuel] by (auto simp: holds_text_def)
  then show ?thesis by blast
qed

lemma demo_stack_text:
  "stack_text default_options 0 stack_frames = ''0 f <internal>:-1'' @ [newline] @ ''1 <main> /a.php:3'' @ [newline]"
  by (simp add: stack_frames_def frame_line_def c_part_def class_text_def func_text_def file_text_def clip_def line_of_def
      strip_text_id default_delims dec_int_def dec_nat.simps digit_simps)

theorem do_trace_writes_stack_witness:
  "\<exists>s'. do_trace default_options demo_layout (copy_proc_mem (still stack_mem) 1) 0
      (event_handler_fout default_options demo_env) (fresh_context (demo_fout 4096 [])) = (Ok (), s') \<and>
    fo_io (event_udata s') =
      [Writev 4 (''0 f <internal>:-1'' @ [newline] @ ''1 <main> /a.php:3'' @ [newline, newline])]"
proof -
  let ?s = "fresh_context (demo_fout 4096 []) :: (unit, fout_state) trace_context"
  have "ptr_at (bytes_at stack_mem 32768 496) 488 = 4096"
    by (simp add: stack_eval del: le_bytes.simps)
  then have ptr: "ptr_at (bytes_at stack_mem (executor_globals_addr ?s) (sizeof_executor_globals demo_layout))
      (off_current_execute_data demo_layout) = 4096"
    by (simp add: fresh_context_def layout_84_x86_64)
  have frs: "stack_frames = take (leaf_limit (opt_max_stack_depth_from_leaf default_options)) stack_frames"
    by (simp add: default_opts leaf_limit_def stack_frames_def)
  have plain: "plain default_options" by (simp add: plain_def default_opts) (simp add: default_options_def)
  have ud: "fo_udata (event_udata ?s) = Some (demo_udata 4096 [])" by (simp add: demo_fout_def)
  have ok: "ud_ok default_options (demo_udata 4096 [])" by (simp add: demo_udata_ok default_delims)
  have "opt_fout_buffer_size default_options = 4096" by (simp add: default_options_def)
  then have fit: "int (length (stack_text default_options 0 stack_frames) + 1) \<le> opt_fout_buffer_size default_options"
    "length (stack_text default_options 0 stack_frames) + 1 \<le> PHPSPY_FOUT_MAX_BUFFER"
    by (simp_all add: demo_stack_text)
  have "executor_globals_addr ?s \<noteq> 0" "stack_frames \<noteq> []" by (simp_all add: fresh_globals stack_frames_def)
  moreover have "fst (e_realloc demo_env k w) \<noteq> None" "fst (e_writev demo_env fd b w) = int (length b)" for k w fd b
    by (simp_all add: demo_env_def)
  ultimately show ?thesis
    using do_trace_writes_stack [OF stack_frames_at _ ptr frs _ plain fresh_frame_ok ud ok fit, of demo_env 1 0]
    by (simp add: demo_stack_text default_delims demo_fout_def) (simp add: demo_udata_def)
qed

end
