(* ===== verification/Event_Callgrind.thy ===== *)
theory Event_Callgrind
  imports Event_Fout "HOL-Library.List_Lexorder" "HOL-Library.Char_ord"
begin

text \<open>
  The callgrind handler, \<^verbatim>\<open>event_callgrind.c\<close>. It keeps, per location, how many samples had it on
  top of the stack (exclusive cost), and per pair of caller and callee how many samples had them
  next to each other (inclusive cost) and how often the pair looked new (call count). The totals
  are printed when the handler is shut down.

  The arrays \<^verbatim>\<open>self\<close>, \<^verbatim>\<open>self_str\<close>, \<^verbatim>\<open>prev\<close> and \<^verbatim>\<open>prev_str\<close> of 128 entries are the lists of the entries in
  use, so \<^verbatim>\<open>self_len\<close> and \<^verbatim>\<open>prev_len\<close> are their lengths; what lies behind is never read. Storing a
  129th entry would be a fault. A location is a \<open>trace_frame\<close> whose depth is not used. The tables are
  those of \<open>Uthash\<close>, keyed by the printed location; a caller remembered by its pointer is remembered
  by its key. Memory allocation succeeds, as the code assumes. What \<^verbatim>\<open>log_error\<close> prints is left out.
\<close>

abbreviation (input) MAX_STACK_DEPTH :: nat where "MAX_STACK_DEPTH \<equiv> 128"

text \<open>A heap pointer that may be dangling.\<close>

datatype 'a heap_ptr = Null | Live 'a | Freed

record callgrind_callee =
  ce_loc :: trace_frame
  ce_inclusive :: "64 word"
  ce_count :: "64 word"

record callgrind_caller =
  ca_loc :: trace_frame
  ca_exclusive :: "64 word"
  ca_callees :: "(string, callgrind_callee) hash"

record callgrind_udata =
  cg_self :: "trace_frame list"
  cg_prev :: "trace_frame list"
  cg_self_str :: "string list"
  cg_prev_str :: "string list"
  cg_fout :: nat
  cg_callers :: "(string, callgrind_caller) hash"

text \<open>The handler's data, and as a ghost what was printed to its stream.\<close>

record callgrind_state =
  cg_udata :: "callgrind_udata heap_ptr"
  cg_text :: string

text \<open>Streams are numbers; \<^verbatim>\<open>fdopen\<close> and \<^verbatim>\<open>fopen\<close> may yield \<^verbatim>\<open>NULL\<close>.\<close>

record 'w callgrind_env =
  c_dup :: "int \<Rightarrow> 'w \<Rightarrow> int \<times> 'w"
  c_fdopen :: "int \<Rightarrow> 'w \<Rightarrow> nat option \<times> 'w"
  c_fopen :: "string \<Rightarrow> 'w \<Rightarrow> nat option \<times> 'w"
  c_close :: "int \<Rightarrow> 'w \<Rightarrow> int \<times> 'w"

subsection \<open>Taking in a stack\<close>

text \<open>\<^verbatim>\<open>%.*s%s%.*s\<close> of class and function.\<close>

definition loc_name :: "trace_frame \<Rightarrow> string option" where
  "loc_name loc =
     Option.bind (fmt_prec (f_class_len loc) (f_class loc)) (\<lambda>cls.
     Option.bind (fmt_prec (f_func_len loc) (f_func loc)) (\<lambda>func.
     Some (cls @ (if f_class_len loc > 0 then ''::'' else []) @ func)))"

text \<open>The string left in \<^verbatim>\<open>str\<close> by \<^verbatim>\<open>snprintf(str, PHPSPY_STR_SIZE, ...)\<close>.\<close>

definition callgrind_sprint_loc :: "trace_frame \<Rightarrow> string option" where
  "callgrind_sprint_loc loc =
     Option.bind (loc_name loc) (\<lambda>name.
     Option.bind (fmt_prec (f_file_len loc) (f_file loc)) (\<lambda>fl.
     Some (take (PHPSPY_STR_SIZE - 1) (name @ '' '' @ fl @ '':'' @ dec_int (f_lineno loc)))))"

text \<open>Writing the next entry of an array of 128.\<close>

definition next_slot :: "'a list \<Rightarrow> 'a \<Rightarrow> 'a list option" where
  "next_slot xs x = (if length xs < MAX_STACK_DEPTH then Some (xs @ [x]) else None)"

definition callgrind_ingest_frame :: "callgrind_udata \<Rightarrow> trace_frame \<Rightarrow> callgrind_udata option" where
  "callgrind_ingest_frame u loc =
     (if length (cg_self u) \<ge> MAX_STACK_DEPTH then Some u
      else
        Option.bind (next_slot (cg_self u) loc) (\<lambda>locs.
        Option.bind (callgrind_sprint_loc loc) (\<lambda>str.
        Option.bind (next_slot (cg_self_str u) str) (\<lambda>strs.
        Some (u\<lparr>cg_self := locs, cg_self_str := strs\<rparr>)))))"

definition fresh_caller :: "trace_frame \<Rightarrow> callgrind_caller" where
  "fresh_caller loc = \<lparr> ca_loc = loc, ca_exclusive = 0, ca_callees = [] \<rparr>"

definition fresh_callee :: "trace_frame \<Rightarrow> callgrind_callee" where
  "fresh_callee loc = \<lparr> ce_loc = loc, ce_inclusive = 0, ce_count = 0 \<rparr>"

text \<open>The frame looks different from the frame in the previous trace.\<close>

definition looks_new :: "string list \<Rightarrow> string list \<Rightarrow> nat \<Rightarrow> bool" where
  "looks_new prev_str self_str i \<longleftrightarrow> length prev_str \<le> i \<or> self_str ! i \<noteq> prev_str ! i"

definition digest_callee ::
  "callgrind_udata \<Rightarrow> nat \<Rightarrow> (string, callgrind_callee) hash \<Rightarrow> (string, callgrind_callee) hash" where
  "digest_callee u i =
     hash_touch (cg_self_str u ! i) (fresh_callee (cg_self u ! i)) (\<lambda>e. e\<lparr>
       ce_inclusive := ce_inclusive e + 1,
       ce_count := ce_count e + (if looks_new (cg_prev_str u) (cg_self_str u) i then 1 else 0)\<rparr>)"

text \<open>The loop of \<^verbatim>\<open>callgrind_digest_stack\<close>; \<open>n\<close> entries are left, \<open>prev_caller\<close> is a key.\<close>

fun digest_loop ::
  "callgrind_udata \<Rightarrow> nat \<Rightarrow> string option \<Rightarrow> (string, callgrind_caller) hash \<Rightarrow> (string, callgrind_caller) hash" where
  "digest_loop u 0 prev_caller callers = callers"
| "digest_loop u (Suc i) prev_caller callers =
     (let key = cg_self_str u ! i;
          callers = hash_touch key (fresh_caller (cg_self u ! i))
            (\<lambda>c. if i = 0 then c\<lparr>ca_exclusive := ca_exclusive c + 1\<rparr> else c) callers;
          callers = (case prev_caller of
             None \<Rightarrow> callers
           | Some p \<Rightarrow> hash_upd p (\<lambda>c. c\<lparr>ca_callees := digest_callee u i (ca_callees c)\<rparr>) callers)
      in digest_loop u i (Some key) callers)"

definition callgrind_digest_stack :: "callgrind_udata \<Rightarrow> callgrind_udata" where
  "callgrind_digest_stack u =
     u\<lparr>cg_callers := digest_loop u (length (cg_self_str u)) None (cg_callers u)\<rparr>"

text \<open>The end of a stack: \<^verbatim>\<open>self\<close> becomes \<^verbatim>\<open>prev\<close>.\<close>

definition callgrind_stack_end :: "callgrind_udata \<Rightarrow> callgrind_udata" where
  "callgrind_stack_end u =
     (let u = callgrind_digest_stack u
      in u\<lparr>cg_prev := cg_self u, cg_prev_str := cg_self_str u, cg_self := [], cg_self_str := []\<rparr>)"

subsection \<open>Printing the totals\<close>

text \<open>\<^verbatim>\<open>HASH_SORT\<close> by \<^verbatim>\<open>strcmp\<close> of the keys: strings are ordered by their bytes.\<close>

definition hash_sort :: "(string, 'v) hash \<Rightarrow> (string, 'v) hash" where
  "hash_sort = sort_key fst"

definition concat_opt :: "string option list \<Rightarrow> string option" where
  "concat_opt xs = map_option concat (those xs)"

definition newline_text :: string where
  "newline_text = [CHR 0x0A]"

definition dump_callee :: "callgrind_caller \<Rightarrow> callgrind_callee \<Rightarrow> string option" where
  "dump_callee caller callee =
     concat_opt
      [Some newline_text,
       prefixed ''cfl='' (fmt_prec (f_file_len (ce_loc callee)) (f_file (ce_loc callee))), Some newline_text,
       prefixed ''cfn='' (loc_name (ce_loc callee)), Some newline_text,
       Some (''calls='' @ dec_int (sint (ce_count callee)) @ '' '' @ dec_int (f_lineno (ce_loc callee)) @ newline_text),
       Some (dec_int (f_lineno (ca_loc caller)) @ '' '' @ dec_int (sint (ce_inclusive callee)) @ newline_text)]"

definition dump_caller :: "callgrind_caller \<Rightarrow> string option" where
  "dump_caller caller =
     concat_opt
      ([Some newline_text,
        prefixed ''fl='' (fmt_prec (f_file_len (ca_loc caller)) (f_file (ca_loc caller))), Some newline_text,
        prefixed ''fn='' (loc_name (ca_loc caller)), Some newline_text,
        Some (dec_int (f_lineno (ca_loc caller)) @ '' '' @ dec_int (sint (ca_exclusive caller)) @ newline_text)] @
       map (\<lambda>(_, callee). dump_callee caller callee) (hash_sort (ca_callees caller)))"

definition callgrind_dump :: "callgrind_udata \<Rightarrow> string option" where
  "callgrind_dump u =
     concat_opt
      ([Some (''# callgrind format'' @ newline_text), Some (''version: 1'' @ newline_text),
        Some (''creator: phpspy'' @ newline_text), Some (''events: Samples'' @ newline_text)] @
       map (\<lambda>(_, caller). dump_caller caller) (hash_sort (cg_callers u)))"

subsection \<open>The handler\<close>

definition callgrind_open :: "options \<Rightarrow> 'w callgrind_env \<Rightarrow> ('w, 'u, nat) tfun" where
  "callgrind_open opts env =
     (if opt_path_output opts = ''-'' then
        try_c (tsys (c_dup env 1)) (\<lambda>tfd.
        try_c (tsys (c_fdopen env tfd)) (\<lambda>fout. case fout of
          Some f \<Rightarrow> ok f
        | None \<Rightarrow> try_c (if tfd \<noteq> -1 then tsys (c_close env tfd) else ok 0) (\<lambda>_. rv 1)))
      else
        try_c (tsys (c_fopen env (opt_path_output opts))) (\<lambda>fout. case fout of
          Some f \<Rightarrow> ok f
        | None \<Rightarrow> rv 1))"

definition set_cg :: "callgrind_udata heap_ptr \<Rightarrow> ('w, callgrind_state, unit) tfun" where
  "set_cg p = modify (event_udata_update (cg_udata_update (\<lambda>_. p)))"

definition event_handler_callgrind :: "options \<Rightarrow> 'w callgrind_env \<Rightarrow> ('w, callgrind_state) handler" where
  "event_handler_callgrind opts env event =
     get_s (\<lambda>s.
     if event = INIT then
       try_c (callgrind_open opts env) (\<lambda>fout.
       set_cg (Live \<lparr> cg_self = [], cg_prev = [], cg_self_str = [], cg_prev_str = [], cg_fout = fout, cg_callers = [] \<rparr>))
     else case cg_udata (event_udata s) of
       Null \<Rightarrow> rv 1
     | Freed \<Rightarrow> fault OutOfBounds
     | Live u \<Rightarrow>
         (case event of
            STACK_BEGIN \<Rightarrow> set_cg (Live (u\<lparr>cg_self := [], cg_self_str := []\<rparr>))
          | FRAME \<Rightarrow> try_c (of_opt OutOfBounds (callgrind_ingest_frame u (ev_frame s))) (\<lambda>u. set_cg (Live u))
          | STACK_END \<Rightarrow> set_cg (Live (callgrind_stack_end u))
          | DEINIT \<Rightarrow>
              try_c (of_opt OutOfBounds (callgrind_dump u)) (\<lambda>text.
              try_c (modify (event_udata_update (cg_text_update (\<lambda>t. t @ text)))) (\<lambda>_.
              set_cg Freed))
          | _ \<Rightarrow> ok ()))"

end
