(* ===== verification/Callgrind_Props.thy ===== *)
theory Callgrind_Props
  imports Trace_Output Event_Callgrind
begin

text \<open>
  The callgrind handler is correct: its invariant, which makes it an event handler the tracer can
  run with; the costs that one stack adds, as sums over the stack; and the tracer and the handler
  together.
\<close>

subsection \<open>The invariant\<close>

definition caller_ok :: "callgrind_caller \<Rightarrow> bool" where
  "caller_ok c \<longleftrightarrow> frame_ok (ca_loc c) \<and> distinct (hash_keys (ca_callees c)) \<and>
     (\<forall>e \<in> snd ` set (ca_callees c). frame_ok (ce_loc e))"

definition callers_ok :: "(string, callgrind_caller) hash \<Rightarrow> bool" where
  "callers_ok cs \<longleftrightarrow> distinct (hash_keys cs) \<and> (\<forall>c \<in> snd ` set cs. caller_ok c)"

definition cg_udata_ok :: "callgrind_udata \<Rightarrow> bool" where
  "cg_udata_ok u \<longleftrightarrow>
     length (cg_self_str u) = length (cg_self u) \<and> length (cg_self u) \<le> MAX_STACK_DEPTH \<and>
     length (cg_prev_str u) = length (cg_prev u) \<and> length (cg_prev u) \<le> MAX_STACK_DEPTH \<and>
     (\<forall>loc \<in> set (cg_self u). frame_ok loc) \<and> callers_ok (cg_callers u)"

definition cg_ok :: "callgrind_state \<Rightarrow> bool" where
  "cg_ok st \<longleftrightarrow> (\<exists>u. cg_udata st = Live u \<and> cg_udata_ok u)"

lemma touch_values:
  "P v0 \<Longrightarrow> (\<And>v. P v \<Longrightarrow> P (f v)) \<Longrightarrow> (\<forall>v \<in> snd ` set m. P v) \<Longrightarrow> (\<forall>v \<in> snd ` set (hash_touch k v0 f m). P v)"
  by (auto simp: hash_touch_def hash_upd_def hash_add_def split: option.splits)

lemma upd_values:
  "(\<And>v. P v \<Longrightarrow> P (f v)) \<Longrightarrow> (\<forall>v \<in> snd ` set m. P v) \<Longrightarrow> (\<forall>v \<in> snd ` set (hash_upd k f m). P v)"
  by (auto simp: hash_upd_def)

lemma digest_callee_ok:
  assumes "frame_ok (cg_self u ! i)" and "caller_ok c"
  shows "caller_ok (c\<lparr>ca_callees := digest_callee u i (ca_callees c)\<rparr>)"
proof -
  have "\<forall>e \<in> snd ` set (digest_callee u i (ca_callees c)). frame_ok (ce_loc e)"
    unfolding digest_callee_def
    using assms by (intro touch_values) (auto simp: fresh_callee_def caller_ok_def)
  moreover have "distinct (hash_keys (digest_callee u i (ca_callees c)))"
    unfolding digest_callee_def using assms by (intro uth.distinct_touch) (simp add: caller_ok_def)
  ultimately show ?thesis using assms by (simp add: caller_ok_def)
qed

lemma digest_loop_ok:
  assumes "\<forall>loc \<in> set (cg_self u). frame_ok loc" and "n \<le> length (cg_self u)" and "callers_ok cs"
  shows "callers_ok (digest_loop u n p cs)"
  using assms(2,3)
proof (induction n arbitrary: p cs)
  case (Suc i)
  let ?f = "\<lambda>c. if i = 0 then c\<lparr>ca_exclusive := ca_exclusive c + 1\<rparr> else c"
  let ?cs = "hash_touch (cg_self_str u ! i) (fresh_caller (cg_self u ! i)) ?f cs"
  have loc: "frame_ok (cg_self u ! i)" using assms(1) Suc.prems(1) by simp
  have "\<forall>c \<in> snd ` set ?cs. caller_ok c"
    using loc Suc.prems(2)
    by (intro touch_values) (auto simp: callers_ok_def caller_ok_def fresh_caller_def hash_keys_def)
  then have cs: "callers_ok ?cs"
    using Suc.prems(2) by (simp add: callers_ok_def uth.distinct_touch)
  have "callers_ok (hash_upd q (\<lambda>c. c\<lparr>ca_callees := digest_callee u i (ca_callees c)\<rparr>) ?cs)" for q
    unfolding callers_ok_def
  proof
    show "distinct (hash_keys (hash_upd q (\<lambda>c. c\<lparr>ca_callees := digest_callee u i (ca_callees c)\<rparr>) ?cs))"
      using cs by (simp add: callers_ok_def uth.keys_upd)
    show "\<forall>c \<in> snd ` set (hash_upd q (\<lambda>c. c\<lparr>ca_callees := digest_callee u i (ca_callees c)\<rparr>) ?cs). caller_ok c"
      using cs digest_callee_ok [OF loc] by (intro upd_values) (auto simp: callers_ok_def)
  qed
  with cs show ?case
    using Suc.prems(1) by (cases p) (simp_all add: Let_def Suc.IH)
qed simp

lemma stack_end_ok: "cg_udata_ok u \<Longrightarrow> cg_udata_ok (callgrind_stack_end u)"
  by (auto simp: cg_udata_ok_def callgrind_stack_end_def callgrind_digest_stack_def Let_def intro!: digest_loop_ok)

lemma loc_name_ok: "frame_ok f \<Longrightarrow> \<exists>t. loc_name f = Some t"
  by (simp add: loc_name_def frame_ok_def fmt_prec_array)

lemma loc_file_ok: "frame_ok f \<Longrightarrow> \<exists>t. fmt_prec (f_file_len f) (f_file f) = Some t"
  by (simp add: frame_ok_def fmt_prec_array)

lemma sprint_loc_ok: "frame_ok f \<Longrightarrow> \<exists>t. callgrind_sprint_loc f = Some t"
  using loc_name_ok [of f] by (auto simp: callgrind_sprint_loc_def frame_ok_def fmt_prec_array)

lemma ingest_ok:
  assumes "cg_udata_ok u" and "frame_ok f"
  shows "\<exists>u'. callgrind_ingest_frame u f = Some u' \<and> cg_udata_ok u'"
proof -
  obtain t where "callgrind_sprint_loc f = Some t" using sprint_loc_ok [OF assms(2)] by blast
  with assms show ?thesis
    by (auto simp: callgrind_ingest_frame_def next_slot_def cg_udata_ok_def)
qed

lemma callgrind_handler: "event_handler (event_handler_callgrind opts env) cg_ok"
proof
  fix s :: "('a, callgrind_state) trace_context" and e
  assume I: "cg_ok (event_udata s)" and ctx: "ctx_ok s" and e: "e \<noteq> INIT" "e \<noteq> DEINIT"
  obtain u where u: "cg_udata (event_udata s) = Live u" "cg_udata_ok u" using I by (auto simp: cg_ok_def)
  obtain u' where "callgrind_ingest_frame u (ev_frame s) = Some u'" "cg_udata_ok u'"
    using ingest_ok [OF u(2)] ctx by (auto simp: ctx_ok_def)
  then show "wp {} (event_handler_callgrind opts env e) (\<lambda>_ s'. handler_step s s' \<and> cg_ok (event_udata s'))
      (\<lambda>_ s'. handler_step s s' \<and> cg_ok (event_udata s')) s"
    using e u I stack_end_ok [OF u(2)]
    by (cases e)
      (auto simp: event_handler_callgrind_def wp_rules set_cg_def handler_step_def cg_ok_def cg_udata_ok_def)
qed

interpretation cg: event_handler "event_handler_callgrind opts env" cg_ok
  for opts and env :: "'w callgrind_env"
  by (rule callgrind_handler)

interpretation cgt: tracer "copy_proc_mem rd pid" "event_handler_callgrind opts env" cg_ok
  for rd :: "'w readv" and pid opts and env :: "'w callgrind_env"
  by (rule tracer.intro [OF copy_proc_mem_reader callgrind_handler])

subsection \<open>Costs\<close>

definition exclusive_cost :: "(string, callgrind_caller) hash \<Rightarrow> string \<Rightarrow> 64 word" where
  "exclusive_cost cs k = (case hash_find k cs of None \<Rightarrow> 0 | Some c \<Rightarrow> ca_exclusive c)"

definition edge_cost :: "(callgrind_callee \<Rightarrow> 64 word) \<Rightarrow> (string, callgrind_caller) hash \<Rightarrow> string \<Rightarrow> string \<Rightarrow> 64 word" where
  "edge_cost g cs p k =
     (case hash_find p cs of
        None \<Rightarrow> 0
      | Some c \<Rightarrow> (case hash_find k (ca_callees c) of None \<Rightarrow> 0 | Some e \<Rightarrow> g e))"

text \<open>A stack is listed from the innermost frame on: the caller of entry \<open>i\<close> is entry \<open>i + 1\<close>. How many
  calls of \<open>k\<close> by \<open>p\<close> it holds, among the entries that satisfy \<open>P\<close>.\<close>

definition calls_where :: "(nat \<Rightarrow> bool) \<Rightarrow> string list \<Rightarrow> string \<Rightarrow> string \<Rightarrow> nat" where
  "calls_where P ks p k =
     length (filter (\<lambda>i. ks ! Suc i = p \<and> ks ! i = k \<and> P i) [0..<length ks - 1])"

definition caller_of :: "string list \<Rightarrow> nat \<Rightarrow> string option \<Rightarrow> nat \<Rightarrow> string option" where
  "caller_of ks n p i = (if Suc i = n then p else Some (ks ! Suc i))"

lemma hash_find_Nil: "hash_find k [] = None"
  by (simp add: hash_find_def)

lemma exclusive_touch:
  "exclusive_cost (hash_touch j (fresh_caller l) (\<lambda>c. if b then c\<lparr>ca_exclusive := ca_exclusive c + 1\<rparr> else c) cs) k =
     exclusive_cost cs k + (if b \<and> j = k then 1 else 0)"
  by (auto simp: exclusive_cost_def uth.find_touch fresh_caller_def split: option.splits)

lemma exclusive_upd: "exclusive_cost (hash_upd q (\<lambda>c. c\<lparr>ca_callees := F (ca_callees c)\<rparr>) cs) k = exclusive_cost cs k"
  by (auto simp: exclusive_cost_def uth.find_upd split: option.splits)

lemma edge_touch:
  "edge_cost g (hash_touch j (fresh_caller l) (\<lambda>c. if b then c\<lparr>ca_exclusive := ca_exclusive c + 1\<rparr> else c) cs) p k =
     edge_cost g cs p k"
  by (auto simp: edge_cost_def uth.find_touch fresh_caller_def hash_find_Nil split: option.splits)

lemma edge_upd:
  assumes "hash_find q cs \<noteq> None" and "g (fresh_callee (cg_self u ! i)) = 0"
    and "\<And>e. g (e\<lparr>ce_inclusive := ce_inclusive e + 1,
      ce_count := ce_count e + (if looks_new (cg_prev_str u) (cg_self_str u) i then 1 else 0)\<rparr>) =
      g e + (if P i then 1 else 0)"
  shows "edge_cost g (hash_upd q (\<lambda>c. c\<lparr>ca_callees := digest_callee u i (ca_callees c)\<rparr>) cs) p k =
    edge_cost g cs p k + (if q = p \<and> cg_self_str u ! i = k \<and> P i then 1 else 0)"
proof -
  let ?G = "\<lambda>e. e\<lparr>ce_inclusive := ce_inclusive e + 1,
      ce_count := ce_count e + (if looks_new (cg_prev_str u) (cg_self_str u) i then 1 else 0)\<rparr>"
  obtain c where "hash_find q cs = Some c" using assms(1) by blast
  then show ?thesis
    using assms(2,3) unfolding edge_cost_def digest_callee_def
    by (cases "hash_find k (ca_callees c)"; cases "p = q"; cases "k = cg_self_str u ! i")
      (auto simp: uth.find_upd uth.find_touch)
qed

lemma find_step:
  "hash_find j (hash_upd q f (hash_touch j v0 g cs)) \<noteq> None"
  "hash_find j (hash_touch j v0 g cs) \<noteq> None"
  "hash_find q cs \<noteq> None \<Longrightarrow> hash_find q (hash_touch j v0 g cs) \<noteq> None"
  by (auto simp: uth.find_upd uth.find_touch)

lemma digest_exclusive:
  "exclusive_cost (digest_loop u n q cs) k =
     exclusive_cost cs k + (if 0 < n \<and> cg_self_str u ! 0 = k then 1 else 0)"
proof (induction n arbitrary: q cs)
  case (Suc i)
  show ?case
    by (cases q) (simp_all add: Let_def Suc.IH exclusive_touch exclusive_upd)
qed simp

lemma caller_of_step:
  "length (filter (\<lambda>j. caller_of ks (Suc i) q j = Some p \<and> Q j) [0..<Suc i]) =
     length (filter (\<lambda>j. caller_of ks i (Some (ks ! i)) j = Some p \<and> Q j) [0..<i]) + (if q = Some p \<and> Q i then 1 else 0)"
proof -
  have "filter (\<lambda>j. caller_of ks (Suc i) q j = Some p \<and> Q j) [0..<i] =
      filter (\<lambda>j. caller_of ks i (Some (ks ! i)) j = Some p \<and> Q j) [0..<i]"
    by (rule filter_cong) (auto simp: caller_of_def)
  then show ?thesis by (simp add: caller_of_def)
qed

text \<open>What the loop adds for a counter \<open>g\<close> that each matching call increments when \<open>P\<close> holds.\<close>

lemma digest_edges:
  assumes g: "\<And>loc. g (fresh_callee loc) = 0"
    and P: "\<And>e i. g (e\<lparr>ce_inclusive := ce_inclusive e + 1,
      ce_count := ce_count e + (if looks_new (cg_prev_str u) (cg_self_str u) i then 1 else 0)\<rparr>) =
      g e + (if P i then 1 else 0)"
  shows "(\<forall>q'. q = Some q' \<longrightarrow> hash_find q' cs \<noteq> None) \<Longrightarrow>
    edge_cost g (digest_loop u n q cs) p k = edge_cost g cs p k +
      of_nat (length (filter (\<lambda>i. caller_of (cg_self_str u) n q i = Some p \<and> cg_self_str u ! i = k \<and> P i) [0..<n]))"
proof (induction n arbitrary: q cs)
  case (Suc i)
  let ?key = "cg_self_str u ! i"
  let ?cs1 = "hash_touch ?key (fresh_caller (cg_self u ! i))
    (\<lambda>c. if i = 0 then c\<lparr>ca_exclusive := ca_exclusive c + 1\<rparr> else c) cs"
  let ?cs2 = "case q of None \<Rightarrow> ?cs1
    | Some q' \<Rightarrow> hash_upd q' (\<lambda>c. c\<lparr>ca_callees := digest_callee u i (ca_callees c)\<rparr>) ?cs1"
  have cost: "edge_cost g ?cs2 p k = edge_cost g cs p k + (if q = Some p \<and> ?key = k \<and> P i then 1 else 0)"
  proof (cases q)
    case None
    then show ?thesis by (simp add: edge_touch)
  next
    case (Some q')
    then have "hash_find q' ?cs1 \<noteq> None" using Suc.prems by (simp add: find_step(3))
    from edge_upd [where P = P and u = u and i = i and g = g, OF this g P] show ?thesis by (simp add: Some edge_touch)
  qed
  have found: "hash_find ?key ?cs2 \<noteq> None"
    by (cases q) (simp_all add: uth.find_upd uth.find_touch)
  have "digest_loop u (Suc i) q cs = digest_loop u i (Some ?key) ?cs2" by (simp add: Let_def)
  moreover have "edge_cost g (digest_loop u i (Some ?key) ?cs2) p k = edge_cost g ?cs2 p k +
      of_nat (length (filter (\<lambda>j. caller_of (cg_self_str u) i (Some ?key) j = Some p \<and> cg_self_str u ! j = k \<and> P j) [0..<i]))"
    using found by (intro Suc.IH) simp
  ultimately show ?case
    unfolding cost caller_of_step by (simp add: add.assoc add.commute)
qed simp

lemma caller_of_None:
  "length (filter (\<lambda>i. caller_of ks (length ks) None i = Some p \<and> ks ! i = k \<and> P i) [0..<length ks]) =
     calls_where P ks p k"
proof (cases ks rule: rev_cases)
  case (snoc ks' x)
  have "filter (\<lambda>i. caller_of ks (length ks) None i = Some p \<and> ks ! i = k \<and> P i) [0..<length ks'] =
      filter (\<lambda>i. ks ! Suc i = p \<and> ks ! i = k \<and> P i) [0..<length ks']"
    using snoc by (intro filter_cong) (auto simp: caller_of_def)
  then show ?thesis using snoc by (simp add: calls_where_def caller_of_def)
qed (simp add: calls_where_def)

lemma digest_inclusive:
  "edge_cost ce_inclusive (cg_callers (callgrind_digest_stack u)) p k =
     edge_cost ce_inclusive (cg_callers u) p k + of_nat (calls_where (\<lambda>_. True) (cg_self_str u) p k)"
  by (simp add: callgrind_digest_stack_def digest_edges [where P = "\<lambda>_. True"] fresh_callee_def caller_of_None [where P = "\<lambda>_. True", simplified])

lemma digest_count:
  "edge_cost ce_count (cg_callers (callgrind_digest_stack u)) p k =
     edge_cost ce_count (cg_callers u) p k +
     of_nat (calls_where (looks_new (cg_prev_str u) (cg_self_str u)) (cg_self_str u) p k)"
  by (simp add: callgrind_digest_stack_def digest_edges [where P = "looks_new (cg_prev_str u) (cg_self_str u)"] fresh_callee_def caller_of_None)

subsection \<open>The tracer and the handler\<close>

text \<open>The key of a frame.\<close>

definition frame_key :: "php_frame \<Rightarrow> string" where
  "frame_key fr =
     take (PHPSPY_STR_SIZE - 1)
      (c_part (class_text fr) @ (if class_text fr \<noteq> [] then ''::'' else []) @ c_part (func_text fr) @
       '' '' @ c_part (file_text fr) @ '':'' @ dec_int (line_of fr))"

lemma sprint_loc_item: "callgrind_sprint_loc (fill_item (Frame d fr) f) = Some (frame_key fr)"
  by (simp add: callgrind_sprint_loc_def loc_name_def fmt_prec_set_str frame_key_def)

lemma quiet_callgrind: "quiet (event_handler_callgrind opts env)"
proof -
  have "quiet_fun (event_handler_callgrind opts env e)" for e
    unfolding event_handler_callgrind_def callgrind_open_def set_cg_def
    by (rule quiet_fun_get)
      (auto intro!: quiet_fun_rules split: event_type.splits option.splits heap_ptr.splits)
  then show ?thesis by (simp add: quiet_def quiet_fun_def)
qed

text \<open>The handler holds the keys \<open>ks\<close> of the stack so far, on top of what \<open>u\<close> has accumulated.\<close>

definition holds_keys :: "callgrind_udata \<Rightarrow> string list \<Rightarrow> callgrind_state \<Rightarrow> bool" where
  "holds_keys u ks st \<longleftrightarrow>
     (\<exists>u'. cg_udata st = Live u' \<and> cg_udata_ok u' \<and> cg_self_str u' = ks \<and>
        cg_prev_str u' = cg_prev_str u \<and> cg_callers u' = cg_callers u)"

lemma cg_frame_event:
  assumes "holds_keys u ks (event_udata s)" and "frame_ok (ev_frame s)"
  shows "\<exists>s'. emit_item (event_handler_callgrind opts env) (Frame d fr) s = (Ok (), s') \<and>
    frame_ok (ev_frame s') \<and> holds_keys u (take MAX_STACK_DEPTH (ks @ [frame_key fr])) (event_udata s')"
proof -
  let ?f = "fill_item (Frame d fr) (ev_frame s)"
  have f: "frame_ok ?f" using assms(2) by (rule fill_frame_ok)
  obtain u1 where u1: "cg_udata (event_udata s) = Live u1" "cg_udata_ok u1" "cg_self_str u1 = ks"
      "cg_prev_str u1 = cg_prev_str u" "cg_callers u1 = cg_callers u"
    using assms(1) by (auto simp: holds_keys_def)
  obtain u2 where u2: "callgrind_ingest_frame u1 ?f = Some u2" "cg_udata_ok u2"
    using ingest_ok [OF u1(2) f] by blast
  have len: "length (cg_self u1) = length ks" "length ks \<le> MAX_STACK_DEPTH"
    using u1(2,3) by (auto simp: cg_udata_ok_def)
  have "cg_self_str u2 = take MAX_STACK_DEPTH (ks @ [frame_key fr])"
    "cg_prev_str u2 = cg_prev_str u" "cg_callers u2 = cg_callers u"
    using u2(1) u1(3-5) len
    by (auto simp: callgrind_ingest_frame_def next_slot_def sprint_loc_item simp del: fill_item.simps split: if_splits)
  with u1(1) u2 f show ?thesis
    by (auto simp: emit_item_def event_handler_callgrind_def run_simps set_cg_def holds_keys_def simp del: fill_item.simps)
qed

lemma cg_frames_event:
  assumes "holds_keys u ks (event_udata s)" and "frame_ok (ev_frame s)" and "length ks \<le> MAX_STACK_DEPTH"
  shows "\<exists>s'. emit_counted (event_handler_callgrind opts env) d frs s = (Ok (PHPSPY_OK, d + length frs), s') \<and>
    holds_keys u (take MAX_STACK_DEPTH (ks @ map frame_key frs)) (event_udata s')"
  using assms
proof (induction frs arbitrary: d ks s)
  case Nil
  then show ?case by (simp add: run_simps)
next
  case (Cons fr frs)
  from cg_frame_event [OF Cons.prems(1,2)] obtain s1 where
    s1: "emit_item (event_handler_callgrind opts env) (Frame d fr) s = (Ok (), s1)" "frame_ok (ev_frame s1)"
      "holds_keys u (take MAX_STACK_DEPTH (ks @ [frame_key fr])) (event_udata s1)" by blast
  have "take MAX_STACK_DEPTH (take MAX_STACK_DEPTH (ks @ [frame_key fr]) @ map frame_key frs) =
      take MAX_STACK_DEPTH (ks @ map frame_key (fr # frs))"
    using Cons.prems(3) by (cases "length ks = MAX_STACK_DEPTH") auto
  with Cons.IH [OF s1(3,2), of "Suc d"] s1(1) show ?case by (auto simp: run_simps)
qed

lemma dump_ok:
  assumes "cg_udata_ok u"
  shows "\<exists>t. callgrind_dump u = Some t"
proof -
  have "None \<notin> set xs \<Longrightarrow> concat_opt xs \<noteq> None" for xs
    by (induction xs) (auto simp: concat_opt_def eq_commute [of None] split: option.splits)
  then have those: "(\<And>x. x \<in> set xs \<Longrightarrow> x \<noteq> None) \<Longrightarrow> concat_opt xs \<noteq> None" for xs
    by blast
  have ce: "dump_callee c e \<noteq> None" if "frame_ok (ce_loc e)" for c e
    unfolding dump_callee_def using loc_name_ok [OF that] loc_file_ok [OF that]
    by (intro those) (auto simp: prefixed_def)
  have ca: "dump_caller c \<noteq> None" if "caller_ok c" for c
    unfolding dump_caller_def using that loc_name_ok [of "ca_loc c"] loc_file_ok [of "ca_loc c"] ce
    by (intro those) (auto simp: caller_ok_def prefixed_def hash_sort_def)
  have "callgrind_dump u \<noteq> None"
    unfolding callgrind_dump_def using assms ca
    by (intro those) (auto simp: cg_udata_ok_def callers_ok_def hash_sort_def)
  then show ?thesis by blast
qed

lemma deinit_ok: "cg_ok (event_udata s) \<Longrightarrow> fst (event_handler_callgrind opts env DEINIT s) = Ok ()"
  using dump_ok by (fastforce simp: cg_ok_def event_handler_callgrind_def run_simps set_cg_def)

text \<open>A sequence of stacks.\<close>

primrec take_stacks :: "callgrind_udata \<Rightarrow> (trace_frame \<times> string) list list \<Rightarrow> callgrind_udata" where
  "take_stacks u [] = u"
| "take_stacks u (st # sts) =
     take_stacks (callgrind_stack_end (u\<lparr>cg_self := map fst st, cg_self_str := map snd st\<rparr>)) sts"

lemma stack_end_costs:
  "exclusive_cost (cg_callers (callgrind_stack_end u)) k =
     exclusive_cost (cg_callers u) k + (if cg_self_str u \<noteq> [] \<and> hd (cg_self_str u) = k then 1 else 0)"
  "edge_cost ce_inclusive (cg_callers (callgrind_stack_end u)) p k =
     edge_cost ce_inclusive (cg_callers u) p k + of_nat (calls_where (\<lambda>_. True) (cg_self_str u) p k)"
  "edge_cost ce_count (cg_callers (callgrind_stack_end u)) p k =
     edge_cost ce_count (cg_callers u) p k +
     of_nat (calls_where (looks_new (cg_prev_str u) (cg_self_str u)) (cg_self_str u) p k)"
  "cg_prev_str (callgrind_stack_end u) = cg_self_str u"
  by (simp_all add: callgrind_stack_end_def Let_def digest_inclusive digest_count)
    (auto simp: callgrind_digest_stack_def digest_exclusive hd_conv_nth)

subsection \<open>A handler set up for the examples\<close>

definition demo_cg_env :: "unit callgrind_env" where
  "demo_cg_env = \<lparr> c_dup = \<lambda>fd w. (4, w), c_fdopen = \<lambda>fd w. (Some 0, w), c_fopen = \<lambda>p w. (Some 0, w),
     c_close = \<lambda>fd w. (0, w) \<rparr>"

definition demo_cg_udata :: "string list \<Rightarrow> string list \<Rightarrow> callgrind_udata" where
  "demo_cg_udata prev_str self_str = \<lparr> cg_self = map (\<lambda>_. fresh_frame) self_str, cg_prev = map (\<lambda>_. fresh_frame) prev_str,
     cg_self_str = self_str, cg_prev_str = prev_str, cg_fout = 0, cg_callers = [] \<rparr>"

definition demo_cg :: callgrind_state where
  "demo_cg = \<lparr> cg_udata = Live (demo_cg_udata [] []), cg_text = [] \<rparr>"

lemma demo_cg_ok: "cg_udata_ok (demo_cg_udata [] [])" "cg_ok demo_cg"
  by (simp_all add: cg_ok_def demo_cg_def cg_udata_ok_def callers_ok_def demo_cg_udata_def hash_keys_def)

subsection \<open>Properties\<close>

text \<open>C17: Costs. Feeding stacks to the handler adds, to the exclusive cost of a location, the number of
  stacks with it on top, and to the inclusive cost of a pair, the number of times the one is called
  by the other in the stacks (modulo \<open>2 ^ 64\<close>, the width of the counters).\<close>

theorem callgrind_costs:
  "exclusive_cost (cg_callers (take_stacks u sts)) k =
     exclusive_cost (cg_callers u) k + of_nat (length (filter (\<lambda>st. st \<noteq> [] \<and> snd (hd st) = k) sts)) \<and>
   edge_cost ce_inclusive (cg_callers (take_stacks u sts)) p k =
     edge_cost ce_inclusive (cg_callers u) p k +
     of_nat (sum_list (map (\<lambda>st. calls_where (\<lambda>_. True) (map snd st) p k) sts))"
proof (induction sts arbitrary: u)
  case (Cons st sts)
  show ?case
    by (cases st) (simp_all add: Cons.IH stack_end_costs)
qed simp

text \<open>C6: From the stack to the profile. On a process that holds still, with options that ask for the
  stack only, one trace adds the costs of its call stack to the profile: of the frames that \<^verbatim>\<open>-n\<close>
  keeps, the innermost 128. The stack becomes the previous one.\<close>

theorem do_trace_profiles_stack:
  assumes "stack_at L m a frs" and "executor_globals_addr s \<noteq> 0"
    and "ptr_at (bytes_at m (executor_globals_addr s) (sizeof_executor_globals L)) (off_current_execute_data L) = a"
    and "ks = map frame_key (take MAX_STACK_DEPTH (take (leaf_limit (opt_max_stack_depth_from_leaf opts)) frs))"
    and "plain opts" and "frame_ok (ev_frame s)" and "cg_udata (event_udata s) = Live u" and "cg_udata_ok u"
    and "ks \<noteq> []"
  shows "\<exists>s' u'. do_trace opts L (copy_proc_mem (still m) pid) fuel (event_handler_callgrind opts env) s = (Ok (), s') \<and>
    cg_udata (event_udata s') = Live u' \<and> cg_udata_ok u' \<and> cg_prev_str u' = ks \<and>
    exclusive_cost (cg_callers u') k = exclusive_cost (cg_callers u) k + (if hd ks = k then 1 else 0) \<and>
    edge_cost ce_inclusive (cg_callers u') p k =
      edge_cost ce_inclusive (cg_callers u) p k + of_nat (calls_where (\<lambda>_. True) ks p k) \<and>
    edge_cost ce_count (cg_callers u') p k =
      edge_cost ce_count (cg_callers u) p k + of_nat (calls_where (looks_new (cg_prev_str u) ks) ks p k)"
proof -
  let ?h = "event_handler_callgrind opts env" and ?cp = "copy_proc_mem (still m) pid"
  let ?frs = "take (leaf_limit (opt_max_stack_depth_from_leaf opts)) frs"
  have eg: "copy_executor_globals L ?cp s = (Ok a, s)"
    using assms(2,3) by (simp add: copy_executor_globals_def run_simps on_world_copy)
  obtain s1 where s1: "?h STACK_BEGIN s = (Ok (), s1)" "holds_keys u [] (event_udata s1)"
    using assms(7,8)
    by (simp add: event_handler_callgrind_def run_simps set_cg_def holds_keys_def cg_udata_ok_def)
  have "ev_frame s1 = ev_frame s"
    using quiet_callgrind [of opts env] s1(1) by (metis quiet_def handler_step_frame snd_conv)
  then have f1: "frame_ok (ev_frame s1)"
    and "trace_stack opts L ?cp fuel ?h a s1 = emit_counted ?h 0 ?frs s1"
    using assms(1,5,6) trace_leaf_still [OF quiet_callgrind, of opts L m a frs s1 0 pid fuel]
    by (simp_all add: plain_def trace_stack_def)
  moreover obtain s2 where "emit_counted ?h 0 ?frs s1 = (Ok (PHPSPY_OK, length ?frs), s2)"
      "holds_keys u ks (event_udata s2)"
    using cg_frames_event [OF s1(2) f1, of opts env 0 ?frs] assms(4) by (auto simp: take_map)
  ultimately have s2: "trace_stack opts L ?cp fuel ?h a s1 = (Ok (PHPSPY_OK, length ?frs), s2)"
      "holds_keys u ks (event_udata s2)" by simp_all
  then obtain u2 where u2: "cg_udata (event_udata s2) = Live u2" "cg_udata_ok u2" "cg_self_str u2 = ks"
      "cg_prev_str u2 = cg_prev_str u" "cg_callers u2 = cg_callers u"
    by (auto simp: holds_keys_def)
  obtain s3 where s3: "?h STACK_END s2 = (Ok (), s3)" "cg_udata (event_udata s3) = Live (callgrind_stack_end u2)"
    using u2(1) by (simp add: event_handler_callgrind_def run_simps set_cg_def)
  have "length ?frs \<noteq> 0" using assms(4,9) by auto
  then have "do_trace opts L ?cp fuel ?h s = (Ok (), s3)"
    using eg s1(1) s2(1) s3(1) assms(5)
    by (simp add: do_trace_def should_stop_trace_def trace_section_def do_trace_end_def plain_def run_simps)
  with s3(2) stack_end_ok [OF u2(2)] show ?thesis
    using assms(9) u2(3-5) by (simp add: stack_end_costs)
qed

lemma demo_keys: "map frame_key stack_frames = [''f <internal>:-1'', ''<main> /a.php:3'']"
  by (simp add: stack_frames_def frame_key_def c_part_def class_text_def func_text_def file_text_def clip_def line_of_def
      dec_int_def dec_nat.simps digit_simps)

theorem do_trace_profiles_stack_witness:
  "\<exists>s' u'. do_trace default_options demo_layout (copy_proc_mem (still stack_mem) 1) 0
      (event_handler_callgrind default_options demo_cg_env) (fresh_context demo_cg) = (Ok (), s') \<and>
    cg_udata (event_udata s') = Live u' \<and> cg_prev_str u' = [''f <internal>:-1'', ''<main> /a.php:3''] \<and>
    exclusive_cost (cg_callers u') ''f <internal>:-1'' = 1 \<and>
    edge_cost ce_inclusive (cg_callers u') ''<main> /a.php:3'' ''f <internal>:-1'' = 1 \<and>
    edge_cost ce_count (cg_callers u') ''<main> /a.php:3'' ''f <internal>:-1'' = 1"
proof -
  let ?s = "fresh_context demo_cg :: (unit, callgrind_state) trace_context"
  let ?ks = "[''f <internal>:-1'', ''<main> /a.php:3'']"
  have "ptr_at (bytes_at stack_mem 32768 496) 488 = 4096"
    by (simp add: stack_eval del: le_bytes.simps)
  then have ptr: "ptr_at (bytes_at stack_mem (executor_globals_addr ?s) (sizeof_executor_globals demo_layout))
      (off_current_execute_data demo_layout) = 4096"
    by (simp add: fresh_context_def layout_84_x86_64)
  have "take MAX_STACK_DEPTH (take (leaf_limit (opt_max_stack_depth_from_leaf default_options)) stack_frames) = stack_frames"
    by (simp add: default_opts leaf_limit_def stack_frames_def)
  then have ks: "?ks = map frame_key (take MAX_STACK_DEPTH
      (take (leaf_limit (opt_max_stack_depth_from_leaf default_options)) stack_frames))"
    by (simp only: demo_keys)
  have plain: "plain default_options" by (simp add: plain_def default_opts) (simp add: default_options_def)
  have ud: "cg_udata (event_udata ?s) = Live (demo_cg_udata [] [])" by (simp add: demo_cg_def)
  have costs: "exclusive_cost [] k = 0" "edge_cost g [] p k = 0" for g p k
    by (simp_all add: exclusive_cost_def edge_cost_def hash_find_Nil)
  have "executor_globals_addr ?s \<noteq> 0" by (simp add: fresh_globals)
  from do_trace_profiles_stack [OF stack_frames_at this ptr ks plain fresh_frame_ok ud demo_cg_ok(1), of 1 0 demo_cg_env
      "''f <internal>:-1''" "''<main> /a.php:3''"]
  show ?thesis
    by (auto simp: demo_cg_udata_def costs calls_where_def looks_new_def)
qed

text \<open>C19: The tracer is memory safe with the callgrind handler, whatever the memory of the traced process
  holds and however it changes, and after it the shutdown event can print the profile.\<close>

theorem do_trace_callgrind_safe:
  assumes "ctx_ok s" and "cg_ok (event_udata s)" and "\<not> opt_capture_req opts"
  shows "case do_trace opts L (copy_proc_mem rd pid) fuel (event_handler_callgrind opts env) s of
      (Fault f, _) \<Rightarrow> f = OutOfFuel \<or> f = DivByZero
    | (_, s') \<Rightarrow> ctx_ok s' \<and> cg_ok (event_udata s') \<and> fst (event_handler_callgrind opts env DEINIT s') = Ok ()"
proof -
  let ?m = "do_trace opts L (copy_proc_mem rd pid) fuel (event_handler_callgrind opts env)"
  have inv: "cgt.inv s" using assms(1,2) unfolding cgt.inv_def by simp
  have "wp {OutOfFuel, DivByZero} ?m (\<lambda>_ s'. cgt.inv s' \<and> True) (\<lambda>_ s'. cgt.inv s') s"
    using cgt.do_trace_keeps [OF assms(3), unfolded cgt.keeps_def] inv by blast
  then show ?thesis
    unfolding wp_def cgt.inv_def by (cases "?m s"; cases "fst (?m s)") (simp_all add: deinit_ok)
qed

theorem do_trace_callgrind_safe_witness:
  "case do_trace default_options demo_layout (copy_proc_mem (still stack_mem) 1) 0
      (event_handler_callgrind default_options demo_cg_env) (fresh_context demo_cg) of
      (Fault f, _) \<Rightarrow> f = OutOfFuel \<or> f = DivByZero
    | (_, s') \<Rightarrow> ctx_ok s' \<and> cg_ok (event_udata s') \<and>
        fst (event_handler_callgrind default_options demo_cg_env DEINIT s') = Ok ()"
  by (rule do_trace_callgrind_safe) (simp_all add: fresh_ctx_ok demo_cg_ok default_options_def)

lemma filter_unique: "i < n \<Longrightarrow> filter (\<lambda>j. j = i) [0..<n] = [i]"
  by (induction n) (auto simp: less_Suc_eq)

lemma distinct_calls:
  assumes "distinct ks" and "Suc i < length ks" and "\<And>j. Suc j < length ks \<Longrightarrow> P j"
  shows "calls_where P ks (ks ! Suc i) (ks ! i) = 1"
proof -
  have "(ks ! Suc j = ks ! Suc i \<and> ks ! j = ks ! i \<and> P j) = (j = i)" if "j < length ks - 1" for j
  proof
    assume "ks ! Suc j = ks ! Suc i \<and> ks ! j = ks ! i \<and> P j"
    then show "j = i" using assms(1,2) that by (simp add: nth_eq_iff_index_eq)
  qed (use assms(2,3) in simp)
  then have "filter (\<lambda>j. ks ! Suc j = ks ! Suc i \<and> ks ! j = ks ! i \<and> P j) [0..<length ks - 1] =
      filter (\<lambda>j. j = i) [0..<length ks - 1]"
    by (intro filter_cong) simp_all
  then show ?thesis using assms(2) by (simp add: calls_where_def filter_unique)
qed

text \<open>C34: The call counts compare stacks at the wrong end. A stack is stored from the innermost frame on,
  and entry \<open>i\<close> is compared with entry \<open>i\<close> of the previous stack. When the innermost function of the
  previous sample has returned and nothing was called since, every call of the remaining stack is
  counted again, while the comment of the handler counts none.\<close>

theorem callgrind_return_counts_calls:
  assumes "cg_prev_str u = x # ks" and "cg_self_str u = ks" and "distinct (x # ks)" and "Suc i < length ks"
  shows "edge_cost ce_count (cg_callers (callgrind_digest_stack u)) (ks ! Suc i) (ks ! i) =
    edge_cost ce_count (cg_callers u) (ks ! Suc i) (ks ! i) + 1"
proof -
  have "looks_new (x # ks) ks j" if "Suc j < length ks" for j
  proof -
    have "ks ! 0 \<in> set ks" using that by (intro nth_mem) linarith
    then show ?thesis
      using assms(3) that by (cases j) (auto simp: looks_new_def nth_eq_iff_index_eq)
  qed
  then show ?thesis
    using distinct_calls [of ks i "looks_new (x # ks) ks"] assms by (simp add: digest_count)
qed

text \<open>The second example of the comment: \<^verbatim>\<open>main a b\<close> after \<^verbatim>\<open>main a b c\<close>.\<close>

theorem callgrind_return_counts_calls_witness:
  "edge_cost ce_count (cg_callers (callgrind_digest_stack (demo_cg_udata [''c'', ''b'', ''a'', ''main''] [''b'', ''a'', ''main''])))
     ''main'' ''a'' = 1"
  using callgrind_return_counts_calls [of "demo_cg_udata [''c'', ''b'', ''a'', ''main''] [''b'', ''a'', ''main'']" "''c''"
      "[''b'', ''a'', ''main'']" 1]
  by (simp add: demo_cg_udata_def edge_cost_def hash_find_Nil)

end
