(* ===== verification/Pgrep.thy ===== *)
theory Pgrep
  imports Options "HOL-Library.Multiset"
begin

text \<open>
  The thread pool of \<^verbatim>\<open>pgrep.c\<close>. The main thread runs \<^verbatim>\<open>pgrep\<close> and puts new process ids into
  \<^verbatim>\<open>avail_pids\<close>; \<open>n\<close> workers take them out and trace them; a signal thread waits for the end. The
  state has the shared variables, the owner of the mutex and a program counter per thread; a step
  relation has one rule per action, so threads interleave between any two accesses.

  A wait on a condition variable releases the mutex and goes on once the mutex is free: it has a
  timeout and may wake up spuriously, so signalling it is not needed for it to continue, and the
  signal and broadcast calls change nothing here. \<^verbatim>\<open>main_pid\<close> is one step that returns at some time
  (its loop is in \<open>Main_Pid\<close>). What \<^verbatim>\<open>pgrep\<close> prints is any finite list of lines. An array access
  outside its bounds sets \<open>pg_crashed\<close>.
\<close>

subsection \<open>State\<close>

datatype tid = Producer | Worker nat | Signaller

text \<open>Where a thread is; the numbers are lines of \<^verbatim>\<open>pgrep.c\<close>. \<open>P_Turn\<close> and \<open>W_Turn\<close> are the loop test of
  \<^verbatim>\<open>wait_for_turn\<close>, \<open>P_Wait\<close> and \<open>W_Wait\<close> its \<^verbatim>\<open>pthread_cond_timedwait\<close>. \<open>P_Read\<close> has the lines not read
  yet and the number found; \<open>P_Scan\<close> also has the pid and index of \<^verbatim>\<open>is_already_attached\<close>.\<close>

datatype prod_pc =
    P_Loop \<comment> \<open>93\<close>
  | P_Lock \<comment> \<open>59\<close>
  | P_Turn \<comment> \<open>60\<close>
  | P_Wait \<comment> \<open>68\<close>
  | P_Popen \<comment> \<open>96\<close>
  | P_Read "string list" nat \<comment> \<open>97\<close>
  | P_Scan int nat "string list" nat \<comment> \<open>138\<close>
  | P_Sleep \<comment> \<open>111\<close>
  | P_Unlock \<comment> \<open>117\<close>
  | P_Join \<comment> \<open>46\<close>
  | P_Exit \<comment> \<open>54\<close>

datatype work_pc =
    W_Loop \<comment> \<open>125\<close>
  | W_Lock \<comment> \<open>59\<close>
  | W_Turn \<comment> \<open>60\<close>
  | W_Wait \<comment> \<open>68\<close>
  | W_Take \<comment> \<open>127\<close>
  | W_Unlock \<comment> \<open>129\<close>
  | W_Trace \<comment> \<open>130\<close>
  | W_Clear \<comment> \<open>131\<close>
  | W_End \<comment> \<open>133\<close>

datatype sig_pc =
    S_Init \<comment> \<open>201\<close>
  | S_Select \<comment> \<open>216\<close>
  | S_Done \<comment> \<open>228\<close>
  | S_Lock \<comment> \<open>229\<close>
  | S_Unlock \<comment> \<open>232\<close>
  | S_End \<comment> \<open>234\<close>

record pgrep_state =
  avail_pids :: "int list"
  avail_pids_count :: nat
  attached_pids :: "int list"
  pg_done :: bool
  pg_pipe :: nat
  pg_mutex :: "tid option"
  pg_prod :: prod_pc
  pg_work :: "work_pc list"
  pg_sig :: sig_pc
  pg_crashed :: bool

definition init_work_threads :: "nat \<Rightarrow> pgrep_state" where
  "init_work_threads n = \<lparr> avail_pids = replicate n 0, avail_pids_count = 0, attached_pids = replicate n 0,
     pg_done = False, pg_pipe = 0, pg_mutex = None, pg_prod = P_Loop, pg_work = replicate n W_Loop,
     pg_sig = S_Init, pg_crashed = False \<rparr>"

text \<open>\<^verbatim>\<open>main_pgrep\<close> up to \<^verbatim>\<open>pgrep_for_pids\<close>: an exit code, or the state and the seconds given to \<^verbatim>\<open>alarm\<close>.\<close>

definition main_pgrep :: "options \<Rightarrow> int + pgrep_state \<times> int option" where
  "main_pgrep opts =
     (if opt_num_workers opts < 1 then Inl 1
      else Inr (init_work_threads (nat (opt_num_workers opts)),
        if opt_time_limit_ms opts > 0 then Some (max 1 (opt_time_limit_ms opts div 1000)) else None))"

definition atoi :: "string \<Rightarrow> int" where
  "atoi s = sint (word_of_int (fst (strtol s)) :: 32 word)"

text \<open>The tests of \<^verbatim>\<open>wait_for_turn\<close>.\<close>

definition is_turn :: "nat \<Rightarrow> bool \<Rightarrow> pgrep_state \<Rightarrow> bool" where
  "is_turn n producer s \<longleftrightarrow>
     (if producer \<and> avail_pids_count s < n then True else avail_pids_count s > 0)"

text \<open>One round of \<^verbatim>\<open>is_already_attached\<close>.\<close>

definition attached_at :: "pgrep_state \<Rightarrow> int \<Rightarrow> nat \<Rightarrow> bool" where
  "attached_at s pid i \<longleftrightarrow>
     attached_pids s ! i = pid \<or> i < avail_pids_count s \<and> avail_pids s ! i = pid"

text \<open>\<^verbatim>\<open>write_done_pipe\<close>: the pipe exists once the signal thread has made it.\<close>

definition write_done_pipe :: "pgrep_state \<Rightarrow> pgrep_state" where
  "write_done_pipe s = (if pg_sig s = S_Init then s else s\<lparr>pg_pipe := pg_pipe s + 1\<rparr>)"

lemma write_done_pipe_simps [simp]:
  "avail_pids (write_done_pipe s) = avail_pids s" "avail_pids_count (write_done_pipe s) = avail_pids_count s"
  "attached_pids (write_done_pipe s) = attached_pids s" "pg_done (write_done_pipe s) = pg_done s"
  "pg_mutex (write_done_pipe s) = pg_mutex s" "pg_prod (write_done_pipe s) = pg_prod s"
  "pg_work (write_done_pipe s) = pg_work s" "pg_sig (write_done_pipe s) = pg_sig s"
  "pg_crashed (write_done_pipe s) = pg_crashed s"
  by (simp_all add: write_done_pipe_def)

abbreviation (input) set_work :: "nat \<Rightarrow> work_pc \<Rightarrow> pgrep_state \<Rightarrow> pgrep_state" where
  "set_work w pc s \<equiv> s\<lparr>pg_work := (pg_work s)[w := pc]\<rparr>"

subsection \<open>Steps\<close>

inductive work_step :: "nat \<Rightarrow> nat \<Rightarrow> pgrep_state \<Rightarrow> pgrep_state \<Rightarrow> bool" for n w where
  w_loop: "pg_work s ! w = W_Loop \<Longrightarrow>
    work_step n w s (set_work w (if pg_done s then W_End else W_Lock) s)"
| w_lock: "pg_work s ! w \<in> {W_Lock, W_Wait} \<Longrightarrow> pg_mutex s = None \<Longrightarrow>
    work_step n w s (set_work w W_Turn (s\<lparr>pg_mutex := Some (Worker w)\<rparr>))"
| w_done: "pg_work s ! w = W_Turn \<Longrightarrow> pg_done s \<Longrightarrow>
    work_step n w s (set_work w W_End (s\<lparr>pg_mutex := None\<rparr>))"
| w_turn: "pg_work s ! w = W_Turn \<Longrightarrow> \<not> pg_done s \<Longrightarrow> is_turn n False s \<Longrightarrow>
    work_step n w s (set_work w W_Take s)"
| w_wait: "pg_work s ! w = W_Turn \<Longrightarrow> \<not> pg_done s \<Longrightarrow> \<not> is_turn n False s \<Longrightarrow>
    work_step n w s (set_work w W_Wait (s\<lparr>pg_mutex := None\<rparr>))"
| w_take: "pg_work s ! w = W_Take \<Longrightarrow>
    work_step n w s (set_work w W_Unlock (s\<lparr>
      pg_crashed := (pg_crashed s \<or> avail_pids_count s = 0),
      avail_pids_count := avail_pids_count s - 1,
      attached_pids := (attached_pids s)[w := avail_pids s ! (avail_pids_count s - 1)]\<rparr>))"
| w_unlock: "pg_work s ! w = W_Unlock \<Longrightarrow>
    work_step n w s (set_work w W_Trace (s\<lparr>pg_mutex := None\<rparr>))"
| w_trace: "pg_work s ! w = W_Trace \<Longrightarrow>
    work_step n w s (set_work w W_Clear s)"
| w_limit: "pg_work s ! w = W_Trace \<Longrightarrow>
    work_step n w s (set_work w W_Clear (write_done_pipe s))"
| w_clear: "pg_work s ! w = W_Clear \<Longrightarrow>
    work_step n w s (set_work w W_Loop (s\<lparr>attached_pids := (attached_pids s)[w := 0]\<rparr>))"

inductive prod_step :: "nat \<Rightarrow> pgrep_state \<Rightarrow> pgrep_state \<Rightarrow> bool" for n where
  p_loop: "pg_prod s = P_Loop \<Longrightarrow> prod_step n s (s\<lparr>pg_prod := if pg_done s then P_Join else P_Lock\<rparr>)"
| p_lock: "pg_prod s \<in> {P_Lock, P_Wait} \<Longrightarrow> pg_mutex s = None \<Longrightarrow>
    prod_step n s (s\<lparr>pg_mutex := Some Producer, pg_prod := P_Turn\<rparr>)"
| p_done: "pg_prod s = P_Turn \<Longrightarrow> pg_done s \<Longrightarrow>
    prod_step n s (s\<lparr>pg_mutex := None, pg_prod := P_Join\<rparr>)"
| p_turn: "pg_prod s = P_Turn \<Longrightarrow> \<not> pg_done s \<Longrightarrow> is_turn n True s \<Longrightarrow>
    prod_step n s (s\<lparr>pg_prod := P_Popen\<rparr>)"
| p_wait: "pg_prod s = P_Turn \<Longrightarrow> \<not> pg_done s \<Longrightarrow> \<not> is_turn n True s \<Longrightarrow>
    prod_step n s (s\<lparr>pg_mutex := None, pg_prod := P_Wait\<rparr>)"
| p_popen: "pg_prod s = P_Popen \<Longrightarrow> prod_step n s (s\<lparr>pg_prod := P_Read lns 0\<rparr>)"
| p_blank: "pg_prod s = P_Read (l # lns) found \<Longrightarrow> avail_pids_count s < n \<Longrightarrow>
    l = [] \<or> hd l = CHR 0x0A \<Longrightarrow> prod_step n s (s\<lparr>pg_prod := P_Read lns found\<rparr>)"
| p_line: "pg_prod s = P_Read (l # lns) found \<Longrightarrow> avail_pids_count s < n \<Longrightarrow>
    \<not> (l = [] \<or> hd l = CHR 0x0A) \<Longrightarrow> prod_step n s (s\<lparr>pg_prod := P_Scan (atoi l) 0 lns found\<rparr>)"
| p_seen: "pg_prod s = P_Scan pid i lns found \<Longrightarrow> i < n \<Longrightarrow> attached_at s pid i \<Longrightarrow>
    prod_step n s (s\<lparr>pg_prod := P_Read lns found\<rparr>)"
| p_next: "pg_prod s = P_Scan pid i lns found \<Longrightarrow> i < n \<Longrightarrow> \<not> attached_at s pid i \<Longrightarrow>
    prod_step n s (s\<lparr>pg_prod := P_Scan pid (Suc i) lns found\<rparr>)"
| p_new: "pg_prod s = P_Scan pid i lns found \<Longrightarrow> \<not> i < n \<Longrightarrow>
    prod_step n s (s\<lparr>pg_prod := P_Read lns (found + 1),
      pg_crashed := (pg_crashed s \<or> \<not> avail_pids_count s < n),
      avail_pids := (avail_pids s)[avail_pids_count s := pid],
      avail_pids_count := avail_pids_count s + 1\<rparr>)"
| p_found: "pg_prod s = P_Read lns found \<Longrightarrow> lns = [] \<or> \<not> avail_pids_count s < n \<Longrightarrow> found > 0 \<Longrightarrow>
    prod_step n s (s\<lparr>pg_prod := P_Unlock\<rparr>)"
| p_none: "pg_prod s = P_Read lns found \<Longrightarrow> lns = [] \<or> \<not> avail_pids_count s < n \<Longrightarrow> found = 0 \<Longrightarrow>
    prod_step n s (s\<lparr>pg_mutex := None, pg_prod := P_Sleep\<rparr>)"
| p_awake: "pg_prod s = P_Sleep \<Longrightarrow> pg_mutex s = None \<Longrightarrow>
    prod_step n s (s\<lparr>pg_mutex := Some Producer, pg_prod := P_Unlock\<rparr>)"
| p_unlock: "pg_prod s = P_Unlock \<Longrightarrow> prod_step n s (s\<lparr>pg_mutex := None, pg_prod := P_Loop\<rparr>)"
| p_join: "pg_prod s = P_Join \<Longrightarrow> (\<forall>pc \<in> set (pg_work s). pc = W_End) \<Longrightarrow> pg_sig s = S_End \<Longrightarrow>
    prod_step n s (s\<lparr>pg_prod := P_Exit, avail_pids := [], attached_pids := []\<rparr>)"

inductive sig_step :: "pgrep_state \<Rightarrow> pgrep_state \<Rightarrow> bool" where
  s_init: "pg_sig s = S_Init \<Longrightarrow> sig_step s (s\<lparr>pg_sig := S_Select\<rparr>)"
| s_select: "pg_sig s = S_Select \<Longrightarrow> pg_pipe s > 0 \<Longrightarrow>
    sig_step s (s\<lparr>pg_pipe := pg_pipe s - 1, pg_sig := S_Done\<rparr>)"
| s_done: "pg_sig s = S_Done \<Longrightarrow> sig_step s (s\<lparr>pg_done := True, pg_sig := S_Lock\<rparr>)"
| s_lock: "pg_sig s = S_Lock \<Longrightarrow> pg_mutex s = None \<Longrightarrow>
    sig_step s (s\<lparr>pg_mutex := Some Signaller, pg_sig := S_Unlock\<rparr>)"
| s_unlock: "pg_sig s = S_Unlock \<Longrightarrow> sig_step s (s\<lparr>pg_mutex := None, pg_sig := S_End\<rparr>)"

text \<open>A step of any thread; and the arrival of a signal, which runs \<^verbatim>\<open>handle_signal\<close>.\<close>

inductive thread_step :: "nat \<Rightarrow> pgrep_state \<Rightarrow> pgrep_state \<Rightarrow> bool" for n where
  step_prod: "prod_step n s s' \<Longrightarrow> thread_step n s s'"
| step_work: "w < n \<Longrightarrow> work_step n w s s' \<Longrightarrow> thread_step n s s'"
| step_sig: "sig_step s s' \<Longrightarrow> thread_step n s s'"

inductive reachable :: "nat \<Rightarrow> pgrep_state \<Rightarrow> bool" for n where
  reach_init: "reachable n (init_work_threads n)"
| reach_step: "reachable n s \<Longrightarrow> thread_step n s s' \<Longrightarrow> reachable n s'"
| reach_signal: "reachable n s \<Longrightarrow> reachable n (write_done_pipe s)"

inductive_cases work_stepE: "work_step n w s s'"
inductive_cases prod_stepE: "prod_step n s s'"
inductive_cases sig_stepE: "sig_step s s'"
inductive_cases thread_stepE: "thread_step n s s'"

subsection \<open>Who holds the mutex\<close>

definition work_crit :: "work_pc \<Rightarrow> bool" where
  "work_crit pc \<longleftrightarrow> pc \<in> {W_Turn, W_Take, W_Unlock}"

fun prod_crit :: "prod_pc \<Rightarrow> bool" where
  "prod_crit P_Turn = True"
| "prod_crit P_Popen = True"
| "prod_crit (P_Read _ _) = True"
| "prod_crit (P_Scan _ _ _ _) = True"
| "prod_crit P_Unlock = True"
| "prod_crit _ = False"

definition lock_inv :: "nat \<Rightarrow> pgrep_state \<Rightarrow> bool" where
  "lock_inv n s \<longleftrightarrow>
     length (pg_work s) = n \<and>
     (\<forall>w < n. work_crit (pg_work s ! w) \<longleftrightarrow> pg_mutex s = Some (Worker w)) \<and>
     (prod_crit (pg_prod s) \<longleftrightarrow> pg_mutex s = Some Producer) \<and>
     (pg_sig s = S_Unlock \<longleftrightarrow> pg_mutex s = Some Signaller) \<and>
     (\<forall>w. pg_mutex s = Some (Worker w) \<longrightarrow> w < n)"

lemma lock_inv_workI:
  assumes "lock_inv n s" and "w < n" and "pg_work s' = (pg_work s)[w := pg_work s' ! w]"
    and "pg_prod s' = pg_prod s" and "pg_sig s' = pg_sig s"
    and "work_crit (pg_work s' ! w) \<longleftrightarrow> pg_mutex s' = Some (Worker w)"
    and "pg_mutex s' = pg_mutex s \<or> {pg_mutex s, pg_mutex s'} \<subseteq> {None, Some (Worker w)}"
  shows "lock_inv n s'"
proof -
  have "work_crit (pg_work s' ! v) \<longleftrightarrow> pg_mutex s' = Some (Worker v)" if "v < n" for v
  proof (cases "v = w")
    case True
    then show ?thesis using assms(6) by simp
  next
    case False
    then have "pg_mutex s = Some (Worker v) \<longleftrightarrow> pg_mutex s' = Some (Worker v)" using assms(7) by auto
    moreover have "pg_work s' ! v = pg_work s ! v" using assms(3) False by (metis nth_list_update_neq)
    ultimately show ?thesis using assms(1) that by (simp add: lock_inv_def)
  qed
  moreover have "pg_mutex s' = Some t \<longleftrightarrow> pg_mutex s = Some t" if "t \<noteq> Worker w" for t
    using assms(7) that by auto
  moreover have "v < n" if "pg_mutex s' = Some (Worker v)" for v
    using assms(1,2,7) that by (auto simp: lock_inv_def)
  moreover have "length (pg_work s') = n" using assms(1,3) by (metis length_list_update lock_inv_def)
  ultimately show ?thesis using assms(1,4,5) by (simp add: lock_inv_def)
qed

lemma lock_inv_work:
  assumes "work_step n w s s'" and "w < n" and "lock_inv n s"
  shows "lock_inv n s'"
proof -
  have "work_crit (pg_work s ! w) \<longleftrightarrow> pg_mutex s = Some (Worker w)" "w < length (pg_work s)"
    using assms(2,3) by (simp_all add: lock_inv_def)
  then show ?thesis
    using assms(1)
    by (auto simp: work_crit_def elim!: work_stepE intro!: lock_inv_workI [OF assms(3,2)] split: if_splits)
qed

lemma lock_inv_prod: "prod_step n s s' \<Longrightarrow> lock_inv n s \<Longrightarrow> lock_inv n s'"
  by (erule prod_stepE) (auto simp: lock_inv_def)

lemma lock_inv_sig: "sig_step s s' \<Longrightarrow> lock_inv n s \<Longrightarrow> lock_inv n s'"
  by (erule sig_stepE) (auto simp: lock_inv_def)

subsection \<open>The queue\<close>

text \<open>All pids in the hands of the pool: queued or attached.\<close>

definition held :: "pgrep_state \<Rightarrow> int multiset" where
  "held s = mset (take (avail_pids_count s) (avail_pids s)) + mset (attached_pids s)"

definition queue_inv :: "nat \<Rightarrow> pgrep_state \<Rightarrow> bool" where
  "queue_inv n s \<longleftrightarrow>
     (pg_prod s \<noteq> P_Exit \<longrightarrow> length (avail_pids s) = n \<and> length (attached_pids s) = n) \<and>
     avail_pids_count s \<le> n \<and> \<not> pg_crashed s \<and>
     (\<forall>w < n. pg_work s ! w = W_Take \<longrightarrow> avail_pids_count s > 0) \<and>
     (\<forall>p. p \<noteq> 0 \<longrightarrow> count (held s) p \<le> 1)"

text \<open>What \<^verbatim>\<open>is_already_attached\<close> has found out so far.\<close>

definition not_before :: "pgrep_state \<Rightarrow> int \<Rightarrow> nat \<Rightarrow> bool" where
  "not_before s pid i \<longleftrightarrow>
     pid \<notin> set (take i (attached_pids s)) \<and> pid \<notin> set (take (min i (avail_pids_count s)) (avail_pids s))"

fun scan_ok :: "nat \<Rightarrow> pgrep_state \<Rightarrow> prod_pc \<Rightarrow> bool" where
  "scan_ok n s (P_Scan pid i lns found) \<longleftrightarrow>
     avail_pids_count s < n \<and> i \<le> n \<and> (pid \<noteq> 0 \<longrightarrow> not_before s pid i)"
| "scan_ok n s _ \<longleftrightarrow> True"

definition end_inv :: "nat \<Rightarrow> pgrep_state \<Rightarrow> bool" where
  "end_inv n s \<longleftrightarrow>
     (pg_prod s = P_Exit \<longrightarrow> (\<forall>w < n. pg_work s ! w = W_End) \<and> pg_sig s = S_End) \<and>
     (pg_done s \<longrightarrow> pg_sig s \<in> {S_Lock, S_Unlock, S_End})"

definition pool_inv :: "nat \<Rightarrow> pgrep_state \<Rightarrow> bool" where
  "pool_inv n s \<longleftrightarrow> lock_inv n s \<and> queue_inv n s \<and> scan_ok n s (pg_prod s) \<and> end_inv n s"

lemma take_last: "0 < c \<Longrightarrow> c \<le> length xs \<Longrightarrow> take c xs = take (c - 1) xs @ [xs ! (c - 1)]"
  by (cases c) (simp_all add: take_Suc_conv_app_nth)

lemma held_take:
  assumes "0 < avail_pids_count s" and "avail_pids_count s \<le> length (avail_pids s)" and "w < length (attached_pids s)"
  shows "held (s\<lparr>avail_pids_count := avail_pids_count s - 1,
      attached_pids := (attached_pids s)[w := avail_pids s ! (avail_pids_count s - 1)]\<rparr>) \<subseteq># held s"
proof -
  let ?x = "avail_pids s ! (avail_pids_count s - 1)"
  have "mset (take (avail_pids_count s) (avail_pids s)) = add_mset ?x (mset (take (avail_pids_count s - 1) (avail_pids s)))"
    by (subst take_last [OF assms(1,2)]) simp
  then show ?thesis
    using assms(3) by (simp add: held_def mset_update)
qed

lemma held_clear:
  assumes "w < length (attached_pids s)" and "p \<noteq> 0"
  shows "count (held (s\<lparr>attached_pids := (attached_pids s)[w := 0]\<rparr>)) p \<le> count (held s) p"
  using assms by (simp add: held_def mset_update)

lemma held_new:
  assumes "avail_pids_count s < length (avail_pids s)"
  shows "held (s\<lparr>avail_pids := (avail_pids s)[avail_pids_count s := pid], avail_pids_count := avail_pids_count s + 1\<rparr>) =
    add_mset pid (held s)"
  using assms by (simp add: held_def take_Suc_conv_app_nth)

lemma held_cong:
  "avail_pids s' = avail_pids s \<Longrightarrow> avail_pids_count s' = avail_pids_count s \<Longrightarrow> attached_pids s' = attached_pids s \<Longrightarrow>
    held s' = held s"
  by (simp add: held_def)

lemma not_before_clear:
  "not_before s pid i \<Longrightarrow> pid \<noteq> 0 \<Longrightarrow> not_before (s\<lparr>attached_pids := (attached_pids s)[w := 0]\<rparr>) pid i"
  using set_update_subset_insert [of "take i (attached_pids s)" w 0]
  by (auto simp: not_before_def take_update_swap)

lemma not_before_step:
  assumes "not_before s pid i" and "i < length (attached_pids s)" and "avail_pids_count s \<le> length (avail_pids s)"
    and "\<not> attached_at s pid i"
  shows "not_before s pid (Suc i)"
  using assms
  by (cases "i < avail_pids_count s")
    (auto simp: not_before_def attached_at_def take_Suc_conv_app_nth min_absorb1 min_absorb2)

lemma not_before_all:
  assumes "not_before s pid i" and "length (attached_pids s) \<le> i" and "avail_pids_count s \<le> i"
  shows "count (held s) pid = 0"
  using assms by (simp add: not_before_def held_def count_eq_zero_iff min_absorb2)

lemma queue_inv_frame:
  assumes "queue_inv n s" and "avail_pids s' = avail_pids s" and "avail_pids_count s' = avail_pids_count s"
    and "attached_pids s' = attached_pids s" and "pg_crashed s' = pg_crashed s"
    and "pg_prod s' \<noteq> P_Exit \<Longrightarrow> pg_prod s \<noteq> P_Exit"
    and "\<And>w. w < n \<Longrightarrow> pg_work s' ! w = W_Take \<Longrightarrow> pg_work s ! w = W_Take \<or> avail_pids_count s > 0"
  shows "queue_inv n s'"
  using assms held_cong [OF assms(2-4)] unfolding queue_inv_def by auto

lemma one_worker:
  assumes "lock_inv n s" and "v < n" and "w < n" and "work_crit (pg_work s ! v)" and "work_crit (pg_work s ! w)"
  shows "v = w"
  using assms unfolding lock_inv_def by (metis option.inject tid.inject)

lemma worker_running: "pool_inv n s \<Longrightarrow> w < n \<Longrightarrow> pg_work s ! w \<noteq> W_End \<Longrightarrow> pg_prod s \<noteq> P_Exit"
  by (auto simp: pool_inv_def end_inv_def)

lemma queue_inv_work:
  assumes "work_step n w s s'" and "w < n" and "pool_inv n s"
  shows "queue_inv n s'"
proof -
  have q: "queue_inv n s" and lk: "lock_inv n s" and w: "w < length (pg_work s)"
    using assms(2,3) by (auto simp: pool_inv_def lock_inv_def)
  note run = worker_running [OF assms(3,2)]
  show ?thesis using assms(1)
  proof cases
    case w_take
    have pos: "0 < avail_pids_count s" using q assms(2) w_take(2) by (simp add: queue_inv_def)
    have len: "length (avail_pids s) = n" "length (attached_pids s) = n" "avail_pids_count s \<le> n"
      using q run w_take(2) by (simp_all add: queue_inv_def)
    let ?s = "s\<lparr>avail_pids_count := avail_pids_count s - 1,
      attached_pids := (attached_pids s)[w := avail_pids s ! (avail_pids_count s - 1)]\<rparr>"
    have "held s' = held ?s" using w_take(1) by (simp add: held_def)
    moreover have "held ?s \<subseteq># held s" using pos len assms(2) by (intro held_take) simp_all
    ultimately have "count (held s') p \<le> count (held s) p" for p by (simp add: subseteq_mset_def)
    moreover have "pg_work s' ! v \<noteq> W_Take" if "v < n" for v
      using one_worker [OF lk that assms(2)] w_take w that
      by (cases "v = w") (auto simp: work_crit_def)
    ultimately show ?thesis
      using q pos len w_take(1) unfolding queue_inv_def by (fastforce intro: le_trans)
  next
    case w_clear
    have "w < length (attached_pids s)" using q run w_clear(2) assms(2) by (simp add: queue_inv_def)
    from held_clear [OF this] have "p \<noteq> 0 \<Longrightarrow> count (held s') p \<le> count (held s) p" for p
      unfolding w_clear(1) held_def by simp
    then show ?thesis
      using q w_clear(1) w unfolding queue_inv_def
      by (auto simp: nth_list_update split: if_splits intro: le_trans)
  next
    case w_turn
    then show ?thesis by (intro queue_inv_frame [OF q]) (auto simp: is_turn_def)
  qed (use w in \<open>auto simp: nth_list_update intro!: queue_inv_frame [OF q] split: if_splits\<close>)
qed

lemma queue_inv_prod:
  assumes "prod_step n s s'" and "pool_inv n s"
  shows "queue_inv n s'"
proof -
  have q: "queue_inv n s" using assms(2) by (simp add: pool_inv_def)
  show ?thesis using assms(1)
  proof cases
    case (p_new pid i lns found)
    have scan: "avail_pids_count s < n" "i = n" "pid \<noteq> 0 \<Longrightarrow> not_before s pid n"
      using assms(2) p_new by (auto simp: pool_inv_def)
    have len: "length (avail_pids s) = n" "length (attached_pids s) = n"
      using q p_new(2) by (simp_all add: queue_inv_def)
    have held: "held s' = add_mset pid (held s)"
      using held_new [of s pid] p_new(1) scan(1) len by (simp add: held_def)
    have "count (held s') p \<le> 1" if "p \<noteq> 0" for p
    proof (cases "p = pid")
      case True
      with that scan(3) have "not_before s pid n" by simp
      from not_before_all [OF this] have "count (held s) pid = 0" using len scan(1) by simp
      then show ?thesis using True held by simp
    qed (use held that q in \<open>auto simp: queue_inv_def\<close>)
    then show ?thesis using q p_new(1) scan(1) len unfolding queue_inv_def by auto
  next
    case p_join
    have "\<forall>w < n. pg_work s ! w = W_End" using p_join assms(2) by (auto simp: pool_inv_def lock_inv_def)
    then show ?thesis using q p_join(1) by (auto simp: queue_inv_def held_def)
  qed (auto intro!: queue_inv_frame [OF q] split: if_splits)
qed

lemma queue_inv_sig: "sig_step s s' \<Longrightarrow> queue_inv n s \<Longrightarrow> queue_inv n s'"
  by (erule sig_stepE) (auto intro: queue_inv_frame)

subsection \<open>Every reachable state is good\<close>

lemma scan_ok_frame:
  assumes "scan_ok n s pc" and "avail_pids s' = avail_pids s" and "avail_pids_count s' = avail_pids_count s"
    and "attached_pids s' = attached_pids s"
  shows "scan_ok n s' pc"
  using assms by (cases pc) (auto simp: not_before_def)

lemma scan_ok_work:
  assumes "work_step n w s s'" and "w < n" and "pool_inv n s"
  shows "scan_ok n s' (pg_prod s')"
proof -
  have sc: "scan_ok n s (pg_prod s)" and lk: "lock_inv n s" using assms(3) by (simp_all add: pool_inv_def)
  show ?thesis using assms(1)
  proof cases
    case w_take
    then have "\<not> prod_crit (pg_prod s)" using lk assms(2) by (auto simp: lock_inv_def work_crit_def)
    then show ?thesis using w_take(1) by (cases "pg_prod s") simp_all
  next
    case w_clear
    then show ?thesis
      using sc not_before_clear [of s _ _ w] by (cases "pg_prod s") (auto simp: not_before_def)
  qed (auto intro: scan_ok_frame [OF sc])
qed

lemma scan_ok_prod:
  assumes "prod_step n s s'" and "pool_inv n s"
  shows "scan_ok n s' (pg_prod s')"
proof -
  have sc: "scan_ok n s (pg_prod s)" and q: "queue_inv n s" using assms(2) by (simp_all add: pool_inv_def)
  show ?thesis using assms(1)
  proof cases
    case (p_next pid i lns found)
    have "length (attached_pids s) = n" "length (avail_pids s) = n" "avail_pids_count s \<le> n"
      using q p_next(2) by (simp_all add: queue_inv_def)
    then have "pid \<noteq> 0 \<longrightarrow> not_before s pid (Suc i)"
      using sc p_next by (auto intro!: not_before_step)
    then show ?thesis using sc p_next by (auto simp: not_before_def)
  qed (auto simp: not_before_def)
qed

lemma scan_ok_sig: "sig_step s s' \<Longrightarrow> scan_ok n s (pg_prod s) \<Longrightarrow> scan_ok n s' (pg_prod s')"
  by (erule sig_stepE) (auto intro: scan_ok_frame)

lemma end_inv_work: "work_step n w s s' \<Longrightarrow> w < n \<Longrightarrow> end_inv n s \<Longrightarrow> end_inv n s'"
  by (erule work_stepE) (auto simp: end_inv_def)

lemma end_inv_prod:
  assumes "prod_step n s s'" and "pool_inv n s"
  shows "end_inv n s'"
proof -
  have "length (pg_work s) = n" "end_inv n s" using assms(2) by (simp_all add: pool_inv_def lock_inv_def)
  with assms(1) show ?thesis by (elim prod_stepE) (auto simp: end_inv_def)
qed

lemma end_inv_sig: "sig_step s s' \<Longrightarrow> end_inv n s \<Longrightarrow> end_inv n s'"
  by (erule sig_stepE) (auto simp: end_inv_def)

lemma pool_inv_step: "thread_step n s s' \<Longrightarrow> pool_inv n s \<Longrightarrow> pool_inv n s'"
  by (erule thread_stepE)
    (auto simp: pool_inv_def intro: lock_inv_work lock_inv_prod lock_inv_sig queue_inv_sig scan_ok_sig end_inv_work end_inv_sig
      queue_inv_work [unfolded pool_inv_def] queue_inv_prod [unfolded pool_inv_def]
      scan_ok_work [unfolded pool_inv_def] scan_ok_prod [unfolded pool_inv_def] end_inv_prod [unfolded pool_inv_def])

lemma pool_inv_init: "pool_inv n (init_work_threads n)"
  by (auto simp: pool_inv_def init_work_threads_def lock_inv_def queue_inv_def end_inv_def held_def work_crit_def
      mset_replicate)

lemma pool_inv_signal: "pool_inv n s \<Longrightarrow> pool_inv n (write_done_pipe s)"
  by (auto simp: pool_inv_def lock_inv_def end_inv_def intro: queue_inv_frame scan_ok_frame)

lemma reachable_inv: "reachable n s \<Longrightarrow> pool_inv n s"
  by (induction rule: reachable.induct) (auto intro: pool_inv_init pool_inv_step pool_inv_signal)

subsection \<open>Shutting down\<close>

text \<open>How many steps a thread can still take once \<^verbatim>\<open>done\<close> is set, without those of a \<^verbatim>\<open>popen\<close> to come.\<close>

primrec work_rank :: "work_pc \<Rightarrow> nat" where
  "work_rank W_Take = 5"
| "work_rank W_Unlock = 4"
| "work_rank W_Trace = 3"
| "work_rank W_Clear = 2"
| "work_rank W_Loop = 1"
| "work_rank W_Lock = 3"
| "work_rank W_Wait = 3"
| "work_rank W_Turn = 2"
| "work_rank W_End = 0"

primrec prod_rank :: "nat \<Rightarrow> prod_pc \<Rightarrow> nat" where
  "prod_rank n P_Popen = 0"
| "prod_rank n (P_Read lns found) = 5 + length lns * (n + 2)"
| "prod_rank n (P_Scan pid i lns found) = 5 + length lns * (n + 2) + (n + 1 - i)"
| "prod_rank n P_Sleep = 4"
| "prod_rank n P_Wait = 4"
| "prod_rank n P_Lock = 4"
| "prod_rank n P_Unlock = 3"
| "prod_rank n P_Turn = 3"
| "prod_rank n P_Loop = 2"
| "prod_rank n P_Join = 1"
| "prod_rank n P_Exit = 0"

primrec sig_rank :: "sig_pc \<Rightarrow> nat" where
  "sig_rank S_Init = 5"
| "sig_rank S_Select = 4"
| "sig_rank S_Done = 3"
| "sig_rank S_Lock = 2"
| "sig_rank S_Unlock = 1"
| "sig_rank S_End = 0"

definition popen_left :: "pgrep_state \<Rightarrow> nat" where
  "popen_left s = (if pg_prod s = P_Popen then 1 else 0)"

definition steps_left :: "nat \<Rightarrow> pgrep_state \<Rightarrow> nat" where
  "steps_left n s = sum_list (map work_rank (pg_work s)) + prod_rank n (pg_prod s) + sig_rank (pg_sig s)"

definition shutdown_order :: "nat \<Rightarrow> (pgrep_state \<times> pgrep_state) set" where
  "shutdown_order n = measures [popen_left, steps_left n]"

lemma sum_rank_update:
  assumes "w < length xs" and "work_rank pc < work_rank (xs ! w)"
  shows "sum_list (map work_rank (xs[w := pc])) < sum_list (map work_rank xs)"
proof -
  have "work_rank (xs ! w) \<le> sum_list (map work_rank xs)"
    using assms(1) by (metis member_le_sum_list nth_mem nth_map length_map le0)
  then show ?thesis using assms by (simp add: map_update sum_list_update)
qed

lemma shutdown_step:
  assumes "thread_step n s s'" and "pg_done s" and "pool_inv n s"
  shows "pg_done s' \<and> (s', s) \<in> shutdown_order n"
  using assms(1)
proof cases
  case step_prod
  have "scan_ok n s (pg_prod s)" using assms(3) by (simp add: pool_inv_def)
  with step_prod assms(2) show ?thesis
    unfolding shutdown_order_def
    by (elim prod_stepE) (auto simp: popen_left_def steps_left_def diff_less_mono2)
next
  case (step_work w)
  have w: "w < length (pg_work s)" using step_work(1) assms(3) by (simp add: pool_inv_def lock_inv_def)
  from step_work(2) assms(2) show ?thesis
    unfolding shutdown_order_def
    by (elim work_stepE) (auto simp: popen_left_def steps_left_def intro!: sum_rank_update [OF w])
next
  case step_sig
  then show ?thesis
    using assms(2) unfolding shutdown_order_def
    by (elim sig_stepE) (auto simp: popen_left_def steps_left_def)
qed

lemma prod_progress: "prod_crit (pg_prod s) \<Longrightarrow> pg_done s \<Longrightarrow> \<exists>s'. prod_step n s s'"
proof (cases "pg_prod s")
  case (P_Read lns found)
  then show ?thesis
    by (cases lns; cases "avail_pids_count s < n"; cases "found = 0") (blast intro: prod_step.intros)+
next
  case (P_Scan pid i lns found)
  then show ?thesis by (cases "i < n"; cases "attached_at s pid i") (blast intro: prod_step.intros)+
qed (auto intro: prod_step.intros)

lemma shutdown_progress:
  assumes "pool_inv n s" and "pg_done s" and "pg_prod s \<noteq> P_Exit"
  shows "\<exists>s'. thread_step n s s'"
proof (cases "pg_mutex s")
  case None
  show ?thesis
  proof (cases "\<exists>w < n. pg_work s ! w \<noteq> W_End")
    case True
    then obtain w where w: "w < n" "pg_work s ! w \<noteq> W_End" by blast
    then have "\<not> work_crit (pg_work s ! w)" using assms(1) None by (auto simp: pool_inv_def lock_inv_def)
    then have "\<exists>s'. work_step n w s s'"
      using w(2) None by (cases "pg_work s ! w") (auto simp: work_crit_def intro: work_step.intros)
    with w(1) show ?thesis by (blast intro: thread_step.intros)
  next
    case False
    show ?thesis
    proof (cases "pg_sig s = S_End")
      case True
      have "\<forall>pc \<in> set (pg_work s). pc = W_End"
        using False assms(1) by (auto simp: pool_inv_def lock_inv_def in_set_conv_nth)
      moreover have "\<not> prod_crit (pg_prod s)" using assms(1) None by (auto simp: pool_inv_def lock_inv_def)
      ultimately have "\<exists>s'. prod_step n s s'"
        using True assms(2,3) None by (cases "pg_prod s") (auto intro: prod_step.intros)
      then show ?thesis by (blast intro: thread_step.intros)
    next
      case False
      then have "pg_sig s = S_Lock"
        using assms(1,2) None by (auto simp: pool_inv_def lock_inv_def end_inv_def)
      then show ?thesis using None by (blast intro: thread_step.intros sig_step.intros)
    qed
  qed
next
  case (Some t)
  show ?thesis
  proof (cases t)
    case Producer
    then have "prod_crit (pg_prod s)" using assms(1) Some by (simp add: pool_inv_def lock_inv_def)
    from prod_progress [OF this assms(2)] show ?thesis by (blast intro: thread_step.intros)
  next
    case (Worker w)
    then have w: "w < n" "work_crit (pg_work s ! w)" using assms(1) Some by (auto simp: pool_inv_def lock_inv_def)
    then have "\<exists>s'. work_step n w s s'"
      using assms(2) by (auto simp: work_crit_def intro: work_step.intros)
    with w(1) show ?thesis by (blast intro: thread_step.intros)
  next
    case Signaller
    then have "pg_sig s = S_Unlock" using assms(1) Some by (simp add: pool_inv_def lock_inv_def)
    then show ?thesis by (blast intro: thread_step.intros sig_step.intros)
  qed
qed

lemma shutdown_run:
  "(thread_step n)\<^sup>*\<^sup>* s t \<Longrightarrow> pool_inv n s \<Longrightarrow> pg_done s \<Longrightarrow> pool_inv n t \<and> pg_done t"
  by (induction rule: rtranclp_induct) (auto dest: pool_inv_step shutdown_step)

lemma distinct_nonzero: "(\<And>p. p \<noteq> 0 \<Longrightarrow> count (mset xs) p \<le> 1) \<Longrightarrow> distinct (filter (\<lambda>p. p \<noteq> (0 :: int)) xs)"
proof (induction xs)
  case (Cons x xs)
  have "x \<noteq> 0 \<Longrightarrow> x \<notin> set xs" using Cons.prems [of x] by (auto simp: count_eq_zero_iff [symmetric])
  moreover have "count (mset xs) p \<le> 1" if "p \<noteq> 0" for p
  proof (rule le_trans [OF _ Cons.prems [OF that]])
    show "count (mset xs) p \<le> count (mset (x # xs)) p" by simp
  qed
  ultimately show ?case using Cons.IH by auto
qed simp

subsection \<open>A run\<close>

text \<open>One worker; \<^verbatim>\<open>pgrep\<close> prints the pid 7, which is queued.\<close>

definition demo_pool :: "int list \<Rightarrow> nat \<Rightarrow> tid option \<Rightarrow> prod_pc \<Rightarrow> pgrep_state" where
  "demo_pool av c mx pr = (init_work_threads 1)\<lparr>avail_pids := av, avail_pids_count := c, pg_mutex := mx, pg_prod := pr\<rparr>"

lemma demo_pid_atoi: "atoi [CHR ''7'', CHR 0x0A] = 7"
  by (simp add: atoi_def strtol_def strto_def c_isspace_def digit_val_def LONG_MIN_def LONG_MAX_def Let_def)

lemma demo_pool_steps:
  "thread_step 1 (demo_pool [0] 0 None P_Loop) (demo_pool [0] 0 None P_Lock)"
  "thread_step 1 (demo_pool [0] 0 None P_Lock) (demo_pool [0] 0 (Some Producer) P_Turn)"
  "thread_step 1 (demo_pool [0] 0 (Some Producer) P_Turn) (demo_pool [0] 0 (Some Producer) P_Popen)"
  "thread_step 1 (demo_pool [0] 0 (Some Producer) P_Popen)
     (demo_pool [0] 0 (Some Producer) (P_Read [[CHR ''7'', CHR 0x0A]] 0))"
  "thread_step 1 (demo_pool [0] 0 (Some Producer) (P_Read [[CHR ''7'', CHR 0x0A]] 0))
     (demo_pool [0] 0 (Some Producer) (P_Scan 7 0 [] 0))"
  "thread_step 1 (demo_pool [0] 0 (Some Producer) (P_Scan 7 0 [] 0)) (demo_pool [0] 0 (Some Producer) (P_Scan 7 1 [] 0))"
  "thread_step 1 (demo_pool [0] 0 (Some Producer) (P_Scan 7 1 [] 0)) (demo_pool [7] 1 (Some Producer) (P_Read [] 1))"
  using step_prod [OF p_loop [of "demo_pool [0] 0 None P_Loop" 1]]
    step_prod [OF p_lock [of "demo_pool [0] 0 None P_Lock" 1]]
    step_prod [OF p_turn [of "demo_pool [0] 0 (Some Producer) P_Turn" 1]]
    step_prod [OF p_popen [of "demo_pool [0] 0 (Some Producer) P_Popen" 1 "[[CHR ''7'', CHR 0x0A]]"]]
    step_prod [OF p_line [of "demo_pool [0] 0 (Some Producer) (P_Read [[CHR ''7'', CHR 0x0A]] 0)" _ _ _ 1]]
    step_prod [OF p_next [of "demo_pool [0] 0 (Some Producer) (P_Scan 7 0 [] 0)" _ _ _ _ 1]]
    step_prod [OF p_new [of "demo_pool [0] 0 (Some Producer) (P_Scan 7 1 [] 0)" _ _ _ _ 1]]
  by (simp_all add: demo_pool_def init_work_threads_def is_turn_def attached_at_def demo_pid_atoi)

lemma demo_pool_reachable: "reachable 1 (demo_pool [7] 1 (Some Producer) (P_Read [] 1))"
proof -
  have "reachable 1 (demo_pool [0] 0 None P_Loop)"
    using reach_init [of 1] by (simp add: demo_pool_def init_work_threads_def)
  note r = reach_step [OF reach_step [OF this demo_pool_steps(1)] demo_pool_steps(2)]
  note r = reach_step [OF reach_step [OF r demo_pool_steps(3)] demo_pool_steps(4)]
  note r = reach_step [OF reach_step [OF r demo_pool_steps(5)] demo_pool_steps(6)]
  show ?thesis by (rule reach_step [OF r demo_pool_steps(7)])
qed

text \<open>A signal ends the pool before it does anything.\<close>

lemma demo_done_reachable: "\<exists>s. reachable 1 s \<and> pg_done s"
proof -
  let ?s = "init_work_threads 1"
  have s0: "pg_sig ?s = S_Init" by (simp add: init_work_threads_def)
  have "reachable 1 (?s\<lparr>pg_sig := S_Select\<rparr>)"
    by (rule reach_step [OF reach_init step_sig [OF s_init [OF s0]]])
  from reach_signal [OF this] have r: "reachable 1 (?s\<lparr>pg_sig := S_Select, pg_pipe := 1\<rparr>)"
    by (simp add: write_done_pipe_def init_work_threads_def)
  have "reachable 1 (?s\<lparr>pg_sig := S_Done, pg_pipe := 0\<rparr>)"
    using reach_step [OF r step_sig [OF s_select]] by (simp add: init_work_threads_def)
  from reach_step [OF this step_sig [OF s_done]] show ?thesis by force
qed

subsection \<open>Properties\<close>

text \<open>C5: No process is traced twice at once. In every reachable state of the pool, however its threads
  interleave, the pids that are queued or attached are all different; the queue never holds more
  than its array, and no index ever leaves it.\<close>

theorem pgrep_exclusive:
  assumes "reachable n s"
  shows "distinct (filter (\<lambda>p. p \<noteq> 0) (take (avail_pids_count s) (avail_pids s) @ attached_pids s)) \<and>
    avail_pids_count s \<le> n \<and> \<not> pg_crashed s"
  using reachable_inv [OF assms] distinct_nonzero [of "take (avail_pids_count s) (avail_pids s) @ attached_pids s"]
  by (simp add: pool_inv_def queue_inv_def held_def)

theorem pgrep_exclusive_witness:
  "distinct (filter (\<lambda>p. p \<noteq> 0) (take 1 [7 :: int] @ [0])) \<and> (1 :: nat) \<le> 1 \<and>
    \<not> pg_crashed (demo_pool [7] 1 (Some Producer) (P_Read [] 1))"
  using pgrep_exclusive [OF demo_pool_reachable] by (simp add: demo_pool_def init_work_threads_def)

text \<open>C7: The pool shuts down. Once \<^verbatim>\<open>done\<close> is set, no interleaving of the threads runs forever, and none
  gets stuck before the end: when no thread can move any more, all of them have been joined and the
  arrays are freed.\<close>

theorem pgrep_shutdown:
  assumes "reachable n s" and "pg_done s"
  shows "(\<nexists>f. f 0 = s \<and> (\<forall>i. thread_step n (f i) (f (Suc i)))) \<and>
    (\<forall>t. (thread_step n)\<^sup>*\<^sup>* s t \<longrightarrow> (\<nexists>u. thread_step n t u) \<longrightarrow>
      pg_prod t = P_Exit \<and> (\<forall>w < n. pg_work t ! w = W_End) \<and> pg_sig t = S_End)"
proof -
  note good = shutdown_run [OF _ reachable_inv [OF assms(1)] assms(2)]
  have "\<nexists>f. f 0 = s \<and> (\<forall>i. thread_step n (f i) (f (Suc i)))"
  proof
    assume "\<exists>f. f 0 = s \<and> (\<forall>i. thread_step n (f i) (f (Suc i)))"
    then obtain f where f: "f 0 = s" "\<And>i. thread_step n (f i) (f (Suc i))" by blast
    have "(thread_step n)\<^sup>*\<^sup>* s (f i)" for i
      by (induction i) (auto simp: f(1) intro: rtranclp.rtrancl_into_rtrancl f(2))
    then have "(f (Suc i), f i) \<in> shutdown_order n" for i
      using shutdown_step [OF f(2)] good by blast
    moreover have "wf (shutdown_order n)" by (simp add: shutdown_order_def)
    ultimately show False using wf_iff_no_infinite_down_chain by blast
  qed
  moreover have "pg_prod t = P_Exit \<and> (\<forall>w < n. pg_work t ! w = W_End) \<and> pg_sig t = S_End"
    if "(thread_step n)\<^sup>*\<^sup>* s t" "\<nexists>u. thread_step n t u" for t
    using good [OF that(1)] that(2) shutdown_progress [of n t] by (auto simp: pool_inv_def end_inv_def)
  ultimately show ?thesis by blast
qed

theorem pgrep_shutdown_witness:
  "\<exists>s. reachable 1 s \<and> pg_done s \<and> \<not> (\<exists>f. f 0 = s \<and> (\<forall>i. thread_step 1 (f i) (f (Suc i))))"
  using demo_done_reachable pgrep_shutdown [of 1] by blast

text \<open>The producer never waits for its turn. The test that should make it wait for room also passes
  when the queue is not empty, so with at least one worker it passes always, and \<^verbatim>\<open>pgrep\<close> is run even
  when the queue is full.\<close>

lemma producer_never_waits:
  assumes "reachable n s" and "0 < n"
  shows "pg_prod s \<noteq> P_Wait"
  using assms(1)
proof (induction rule: reachable.induct)
  case (reach_step s s')
  from reach_step(2,3) assms(2) show ?case
    by (auto simp: is_turn_def elim!: thread_stepE prod_stepE work_stepE sig_stepE split: if_splits)
qed (simp_all add: init_work_threads_def)

end
