(* ===== verification/Addr_Objdump.thy ===== *)
theory Addr_Objdump
  imports Proc_Mem Options
begin

text \<open>
  Finding the addresses of the PHP globals: \<^verbatim>\<open>addr_objdump.c\<close>, and \<^verbatim>\<open>find_addresses\<close> of \<^verbatim>\<open>phpspy.c\<close>. The
  work is done by shell commands; \<^verbatim>\<open>popen\<close> and \<^verbatim>\<open>access\<close> are parameters: \<^verbatim>\<open>popen\<close> fails or yields all
  that the command prints. A local buffer that receives a line is the C string left in it.
\<close>

subsection \<open>Quoting for the shell\<close>

abbreviation (input) quote_char :: char where "quote_char \<equiv> CHR 0x27"

text \<open>What a character of the argument becomes: a quote closes the quoting, is escaped, and opens it again.\<close>

definition escaped :: "char \<Rightarrow> string" where
  "escaped c = (if c = quote_char then [quote_char, CHR 0x5C, quote_char, quote_char] else [c])"

text \<open>The loop of \<^verbatim>\<open>shell_escape\<close>, writing at index \<open>pos\<close> of the buffer; \<open>Rv 1\<close> when the buffer is too small.\<close>

fun escape_loop :: "string \<Rightarrow> string \<Rightarrow> nat \<Rightarrow> (string \<times> nat) result" where
  "escape_loop [] buf pos = Ok (buf, pos)"
| "escape_loop (c # arg) buf pos =
     (if c = quote_char then
        if length buf - pos < 4 then Rv 1
        else (case put buf pos (escaped c) of
          None \<Rightarrow> Fault OutOfBounds
        | Some b \<Rightarrow> escape_loop arg b (pos + 4))
      else
        if length buf - pos < 1 then Rv 1
        else (case put buf pos (escaped c) of
          None \<Rightarrow> Fault OutOfBounds
        | Some b \<Rightarrow> escape_loop arg b (pos + 1)))"

definition shell_escape :: "string \<Rightarrow> string \<Rightarrow> string result" where
  "shell_escape arg buf =
     (if length buf < 1 then Fault AssertFailed
      else case put buf 0 [quote_char] of
        None \<Rightarrow> Fault OutOfBounds
      | Some b \<Rightarrow>
          (case escape_loop arg b 1 of
             Rv r \<Rightarrow> Rv r
           | Fault f \<Rightarrow> Fault f
           | Ok (b, pos) \<Rightarrow>
               if length b - pos < 2 then Rv 1
               else case put b pos [quote_char, NUL] of
                 None \<Rightarrow> Fault OutOfBounds
               | Some b \<Rightarrow> Ok b))"

subsection \<open>Commands\<close>

record 'w addr_env =
  a_popen :: "string \<Rightarrow> 'w \<Rightarrow> string option \<times> 'w"
  a_access :: "string \<Rightarrow> 'w \<Rightarrow> bool \<times> 'w"

record addr_memo =
  php_bin_path :: string
  php_bin_path_root :: string
  php_base_addr :: addr

record 'w addr_ctx =
  ac_memo :: addr_memo
  ac_world :: 'w

type_synonym ('w, 'a) afun = "('w addr_ctx, 'a) cfun"

definition asys :: "('w \<Rightarrow> 'a \<times> 'w) \<Rightarrow> ('w, 'a) afun" where
  "asys f s = (case f (ac_world s) of (a, w') \<Rightarrow> (Ok a, s\<lparr>ac_world := w'\<rparr>))"

text \<open>\<^verbatim>\<open>fgets(buf, n, fp)\<close> on the output of a command; \<open>None\<close> when there is none.\<close>

definition fgets :: "nat \<Rightarrow> string \<Rightarrow> string option" where
  "fgets n out =
     (if out = [] then None
      else let l = takeWhile (\<lambda>c. c \<noteq> CHR 0x0A) out
           in Some (take (n - 1) (if length l < length out then l @ [CHR 0x0A] else l)))"

definition strip_newlines :: "string \<Rightarrow> string" where
  "strip_newlines s = rev (dropWhile (\<lambda>c. c = CHR 0x0A) (rev s))"

definition popen_read_line :: "bool \<Rightarrow> 'w addr_env \<Rightarrow> string \<Rightarrow> ('w, string) afun" where
  "popen_read_line quiet env cmd =
     (if length cmd \<ge> PHPSPY_STR_SIZE then rv PHPSPY_ERR
      else
        let cmd_actual = (if quiet then ''{ '' @ cmd @ ''; } 2>/dev/null'' else cmd) in
        if length cmd_actual \<ge> PHPSPY_STR_SIZE then rv PHPSPY_ERR
        else
          try_c (asys (a_popen env cmd_actual)) (\<lambda>fp. case fp of
            None \<Rightarrow> rv 1
          | Some out \<Rightarrow>
              (case fgets (PHPSPY_STR_SIZE - 1) out of
                 None \<Rightarrow> rv 1
               | Some line \<Rightarrow>
                   let buf = strip_newlines (c_str line 0)
                   in if length buf < 1 then rv 1 else ok buf)))"

text \<open>\<^verbatim>\<open>shell_escape(arg, arg_buf, sizeof(arg_buf), ...)\<close> into an array of 256 bytes.\<close>

definition escape_arg :: "string \<Rightarrow> ('w, string) afun" where
  "escape_arg arg =
     (case shell_escape arg (replicate PHPSPY_STR_SIZE NUL) of
        Ok b \<Rightarrow> ok (c_str b 0)
      | Rv r \<Rightarrow> rv 1
      | Fault f \<Rightarrow> fault f)"

definition bin_path_cmd :: "string \<Rightarrow> pid \<Rightarrow> string" where
  "bin_path_cmd libname pid =
     ''awk -ve=1 -vp='' @ libname @ '' '$0~p{print $NF; e=0; exit} END{exit e}' /proc/'' @ dec_int pid @ ''/maps'' @
     '' || readlink /proc/'' @ dec_int pid @ ''/exe''"

definition start_addr_cmd :: "string \<Rightarrow> pid \<Rightarrow> string" where
  "start_addr_cmd path pid =
     ''awk -vp='' @ path @ '' '$NF==p{if(index($2,\"x\")){print $1;exit}}' /proc/'' @ dec_int pid @ ''/maps''"

definition virt_addr_cmd :: "string \<Rightarrow> string" where
  "virt_addr_cmd path_root =
     ''objdump -p '' @ path_root @
     '' | awk -va=0 '$1==\"LOAD\"{a=$5} $5==\"flags\"{if(index($6,\"x\")){print a;exit}}'' @ [quote_char]"

definition symbol_cmd :: "string \<Rightarrow> string \<Rightarrow> string" where
  "symbol_cmd path_root symbol =
     ''objdump -Tt '' @ path_root @ '' | awk '/ '' @ symbol @ ''$/{print $1; exit}'' @ [quote_char]"

definition root_path :: "pid \<Rightarrow> string \<Rightarrow> string" where
  "root_path pid path = ''/proc/'' @ dec_int pid @ ''/root/'' @ path"

definition get_php_bin_path :: "options \<Rightarrow> bool \<Rightarrow> 'w addr_env \<Rightarrow> pid \<Rightarrow> ('w, unit) afun" where
  "get_php_bin_path opts quiet env pid =
     try_c (escape_arg (opt_libname_awk_patt opts)) (\<lambda>libname.
     with_rv (popen_read_line quiet env (bin_path_cmd libname pid)) (\<lambda>_ v. case v of
       None \<Rightarrow> rv 1
     | Some buf \<Rightarrow>
         let text = root_path pid buf in
         try_c (modify (ac_memo_update (php_bin_path_root_update (\<lambda>_. take (PHPSPY_STR_SIZE - 1) text)))) (\<lambda>_.
         if length text \<ge> PHPSPY_STR_SIZE then rv 1
         else
           try_c (asys (a_access env text)) (\<lambda>exists.
           try_c
             (if \<not> exists then modify (ac_memo_update (php_bin_path_root_update (\<lambda>_. ''/proc/'' @ dec_int pid @ ''/exe'')))
              else ok ()) (\<lambda>_.
           modify (ac_memo_update (php_bin_path_update (\<lambda>_. buf))))))))"

definition hex_addr :: "string \<Rightarrow> addr" where
  "hex_addr buf = word_of_nat (fst (strtoull 16 buf))"

definition get_php_base_addr :: "bool \<Rightarrow> 'w addr_env \<Rightarrow> pid \<Rightarrow> string \<Rightarrow> string \<Rightarrow> ('w, addr) afun" where
  "get_php_base_addr quiet env pid path_root path =
     try_c (escape_arg path) (\<lambda>arg_buf.
     with_rv (popen_read_line quiet env (start_addr_cmd arg_buf pid)) (\<lambda>_ v. case v of
       None \<Rightarrow> rv 1
     | Some buf \<Rightarrow>
         let start_addr = hex_addr buf in
         try_c (escape_arg path_root) (\<lambda>arg_buf.
         with_rv (popen_read_line quiet env (virt_addr_cmd arg_buf)) (\<lambda>_ v. case v of
           None \<Rightarrow> rv 1
         | Some buf \<Rightarrow> ok (start_addr - hex_addr buf)))))"

definition get_symbol_offset :: "bool \<Rightarrow> 'w addr_env \<Rightarrow> string \<Rightarrow> string \<Rightarrow> ('w, addr) afun" where
  "get_symbol_offset quiet env path_root symbol =
     try_c (escape_arg path_root) (\<lambda>arg_buf.
     with_rv (popen_read_line quiet env (symbol_cmd arg_buf symbol)) (\<lambda>_ v. case v of
       None \<Rightarrow> rv 1
     | Some buf \<Rightarrow> ok (hex_addr buf)))"

text \<open>The first two steps are done once and remembered: an empty path or a zero address is not known yet.\<close>

definition get_symbol_addr :: "options \<Rightarrow> bool \<Rightarrow> 'w addr_env \<Rightarrow> pid \<Rightarrow> string \<Rightarrow> ('w, addr) afun" where
  "get_symbol_addr opts quiet env pid symbol =
     get_s (\<lambda>s.
     try_c (if php_bin_path (ac_memo s) = [] then get_php_bin_path opts quiet env pid else ok ()) (\<lambda>_.
     get_s (\<lambda>s.
     try_c
       (if php_base_addr (ac_memo s) = 0 then
          try_c (get_php_base_addr quiet env pid (php_bin_path_root (ac_memo s)) (php_bin_path (ac_memo s))) (\<lambda>a.
          modify (ac_memo_update (php_base_addr_update (\<lambda>_. a))))
        else ok ()) (\<lambda>_.
     get_s (\<lambda>s.
     try_c (get_symbol_offset quiet env (php_bin_path_root (ac_memo s)) symbol) (\<lambda>addr_offset.
     ok (php_base_addr (ac_memo s) + addr_offset)))))))"

subsection \<open>The addresses of a process\<close>

record trace_target =
  tt_executor_globals :: addr
  tt_sapi_globals :: addr
  tt_alloc_globals :: addr
  tt_basic_functions_module :: addr

definition empty_memo :: addr_memo where
  "empty_memo = \<lparr> php_bin_path = [], php_bin_path_root = [], php_base_addr = 0 \<rparr>"

text \<open>\<^verbatim>\<open>find_addresses\<close>, from the all-zero memo and target. During the last lookup \<^verbatim>\<open>opt_quiet\<close> is set.\<close>

definition find_addresses_memo :: "options \<Rightarrow> 'w addr_env \<Rightarrow> pid \<Rightarrow> ('w, trace_target) afun" where
  "find_addresses_memo opts env pid =
     try_c
       (if opt_executor_globals_addr opts \<noteq> 0 then ok (opt_executor_globals_addr opts)
        else get_symbol_addr opts (opt_quiet opts) env pid ''executor_globals'') (\<lambda>eg.
     try_c
       (if opt_sapi_globals_addr opts \<noteq> 0 then ok (opt_sapi_globals_addr opts)
        else if opt_capture_req opts then get_symbol_addr opts (opt_quiet opts) env pid ''sapi_globals''
        else ok 0) (\<lambda>sg.
     try_c
       (if opt_capture_mem opts then get_symbol_addr opts (opt_quiet opts) env pid ''alloc_globals'' else ok 0) (\<lambda>ag.
     with_rv (get_symbol_addr opts True env pid ''basic_functions_module'') (\<lambda>_ v.
     ok \<lparr> tt_executor_globals = eg, tt_sapi_globals = sg, tt_alloc_globals = ag,
       tt_basic_functions_module = (case v of None \<Rightarrow> 0 | Some a \<Rightarrow> a) \<rparr>))))"

definition find_addresses :: "options \<Rightarrow> 'w addr_env \<Rightarrow> pid \<Rightarrow> ('w, trace_target) cfun" where
  "find_addresses opts env pid w =
     (case find_addresses_memo opts env pid \<lparr> ac_memo = empty_memo, ac_world = w \<rparr> of
        (r, s) \<Rightarrow> (r, ac_world s))"

subsection \<open>What the shell reads\<close>

text \<open>
  A word of a shell command (POSIX.1, 2.2 Quoting and 2.3 Token Recognition): outside quotes a
  blank or an operator ends the word and a backslash keeps the next character; inside single
  quotes every character is kept. The result is the word and what follows it; words with
  expansions (\<^verbatim>\<open>$\<close>, backquote, double quotes) are not covered.
\<close>

fun sh_plain :: "string \<Rightarrow> string \<Rightarrow> (string \<times> string) option"
  and sh_quoted :: "string \<Rightarrow> string \<Rightarrow> (string \<times> string) option" where
  "sh_plain word [] = Some (word, [])"
| "sh_plain word (c # cs) =
     (if c = quote_char then sh_quoted word cs
      else if c = CHR 0x5C then (case cs of [] \<Rightarrow> None | d # ds \<Rightarrow> sh_plain (word @ [d]) ds)
      else if c \<in> {CHR '' '', CHR 0x09, CHR 0x0A, CHR ''|'', CHR ''&'', CHR '';'', CHR ''('', CHR '')'', CHR ''<'', CHR ''>''}
        then Some (word, c # cs)
      else if c \<in> {CHR ''$'', CHR 0x60, CHR 0x22} then None
      else sh_plain (word @ [c]) cs)"
| "sh_quoted word [] = None"
| "sh_quoted word (c # cs) = (if c = quote_char then sh_plain word cs else sh_quoted (word @ [c]) cs)"

definition quoted :: "string \<Rightarrow> string" where
  "quoted arg = [quote_char] @ concat (map escaped arg) @ [quote_char]"

lemma sh_quoted_escaped: "sh_quoted word (concat (map escaped arg) @ quote_char # rest) = sh_plain (word @ arg) rest"
  by (induction arg arbitrary: word) (simp_all add: escaped_def)

lemma sh_plain_quoted: "sh_plain [] (quoted arg @ rest) = sh_plain arg rest"
  using sh_quoted_escaped [of "[]"] by (simp add: quoted_def)

lemma length_escaped: "length (escaped c) = (if c = quote_char then 4 else 1)"
  by (simp add: escaped_def)

lemma escape_loop_result:
  "pos \<le> length buf \<Longrightarrow>
   escape_loop arg buf pos =
     (let t = concat (map escaped arg)
      in if length buf < pos + length t then Rv 1
         else Ok (take pos buf @ t @ drop (pos + length t) buf, pos + length t))"
proof (induction arg arbitrary: buf pos)
  case (Cons c arg)
  let ?n = "length (escaped c)"
  show ?case
  proof (cases "length buf - pos < ?n")
    case True
    then show ?thesis using Cons.prems by (auto simp: length_escaped Let_def)
  next
    case False
    let ?b = "take pos buf @ escaped c @ drop (pos + ?n) buf"
    have b: "put buf pos (escaped c) = Some ?b" "pos + ?n \<le> length ?b" "length ?b = length buf"
      using False Cons.prems by (auto simp: put_def)
    have "escape_loop (c # arg) buf pos = escape_loop arg ?b (pos + ?n)"
      using False b(1) by (auto simp: length_escaped)
    also have "\<dots> = (let t = concat (map escaped (c # arg))
      in if length buf < pos + length t then Rv 1
         else Ok (take pos buf @ t @ drop (pos + length t) buf, pos + length t))"
      using Cons.IH [OF b(2)] False Cons.prems b(3) by (simp add: Let_def ac_simps)
    finally show ?thesis .
  qed
qed simp

lemma shell_escape_result:
  assumes "1 \<le> length buf"
  shows "shell_escape arg buf =
    (if length buf < length (quoted arg) + 1 then Rv 1
     else Ok (quoted arg @ NUL # drop (length (quoted arg) + 1) buf))"
proof -
  let ?t = "concat (map escaped arg)"
  have "put buf 0 [quote_char] = Some (quote_char # drop 1 buf)" using assms by (simp add: put_def)
  moreover have "escape_loop arg (quote_char # drop 1 buf) 1 =
      (if length buf < 1 + length ?t then Rv 1
       else Ok (quote_char # ?t @ drop (1 + length ?t) buf, 1 + length ?t))"
    using assms by (subst escape_loop_result) (auto simp: Let_def)
  ultimately show ?thesis
    using assms by (auto simp: shell_escape_def quoted_def put_def)
qed

lemma takeWhile_upto: "x \<notin> set xs \<Longrightarrow> takeWhile (\<lambda>c. c \<noteq> x) (xs @ x # ys) = xs"
  by (induction xs) auto

lemma escape_arg_fits:
  assumes "length (quoted arg) < PHPSPY_STR_SIZE" and "NUL \<notin> set arg"
  shows "escape_arg arg s = (Ok (quoted arg), s)"
proof -
  have "NUL \<notin> set (quoted arg)" using assms(2) by (auto simp: quoted_def escaped_def split: if_splits)
  then have "c_str (quoted arg @ NUL # bs) 0 = quoted arg" for bs
    by (simp add: c_str_def takeWhile_upto)
  then show ?thesis
    using assms(1) by (simp add: escape_arg_def shell_escape_result run_simps)
qed

subsection \<open>Lookup\<close>

text \<open>The command prints one line and changes nothing.\<close>

definition prints :: "'w addr_env \<Rightarrow> string \<Rightarrow> string \<Rightarrow> bool" where
  "prints env cmd line \<longleftrightarrow>
     length cmd < 236 \<and> line \<noteq> [] \<and> length line < 254 \<and> NUL \<notin> set line \<and> CHR 0x0A \<notin> set line \<and>
     (\<forall>w. a_popen env cmd w = (Some (line @ [CHR 0x0A]), w) \<and>
       a_popen env (''{ '' @ cmd @ ''; } 2>/dev/null'') w = (Some (line @ [CHR 0x0A]), w))"

lemma popen_prints:
  assumes "prints env cmd line"
  shows "popen_read_line quiet env cmd s = (Ok line, s)"
proof -
  have "takeWhile (\<lambda>c. c \<noteq> CHR 0x0A) (line @ [CHR 0x0A]) = line"
    using assms by (intro takeWhile_upto) (simp add: prints_def)
  then have "fgets 255 (line @ [CHR 0x0A]) = Some (line @ [CHR 0x0A])"
    using assms by (auto simp: fgets_def prints_def)
  moreover have "c_str (line @ [CHR 0x0A]) 0 = line @ [CHR 0x0A]"
    using assms by (auto simp: c_str_def prints_def takeWhile_eq_all_conv)
  moreover have "strip_newlines (line @ [CHR 0x0A]) = line"
    using assms by (cases line rule: rev_cases) (auto simp: strip_newlines_def prints_def)
  ultimately show ?thesis
    using assms by (cases quiet; cases line) (auto simp: popen_read_line_def prints_def run_simps asys_def Let_def)
qed

text \<open>
  What the system knows of a process: the binary at \<open>path\<close>, mapped at the hexadecimal address \<open>start\<close>,
  linked to \<open>virt\<close>, with the symbols \<open>symtab\<close>.
\<close>

definition php_symbols :: "string list" where
  "php_symbols = [''executor_globals'', ''sapi_globals'', ''alloc_globals'', ''basic_functions_module'']"

definition process_map ::
  "options \<Rightarrow> 'w addr_env \<Rightarrow> pid \<Rightarrow> string \<Rightarrow> string \<Rightarrow> string \<Rightarrow> (string \<Rightarrow> string) \<Rightarrow> bool" where
  "process_map opts env pid path start virt symtab \<longleftrightarrow>
     (\<forall>x \<in> {opt_libname_awk_patt opts, path, root_path pid path}. length (quoted x) < PHPSPY_STR_SIZE \<and> NUL \<notin> set x) \<and>
     prints env (bin_path_cmd (quoted (opt_libname_awk_patt opts)) pid) path \<and>
     (\<forall>w. a_access env (root_path pid path) w = (True, w)) \<and>
     prints env (start_addr_cmd (quoted path) pid) start \<and>
     prints env (virt_addr_cmd (quoted (root_path pid path))) virt \<and>
     (\<forall>x \<in> set php_symbols. prints env (symbol_cmd (quoted (root_path pid path)) x) (symtab x))"

definition memo_ok :: "pid \<Rightarrow> string \<Rightarrow> addr \<Rightarrow> addr_memo \<Rightarrow> bool" where
  "memo_ok pid path base m \<longleftrightarrow>
     (php_bin_path m = [] \<or> php_bin_path m = path \<and> php_bin_path_root m = root_path pid path) \<and>
     (php_base_addr m = 0 \<or> php_base_addr m = base)"

lemma length_quoted: "length x < length (quoted x)"
proof -
  have "length x \<le> length (concat (map escaped x))" by (induction x) (auto simp: length_escaped)
  then show ?thesis by (simp add: quoted_def)
qed

lemma get_symbol_addr_known:
  assumes "process_map opts env pid path start virt symtab" and "x \<in> set php_symbols"
    and "memo_ok pid path (hex_addr start - hex_addr virt) (ac_memo s)"
  shows "\<exists>s'. get_symbol_addr opts quiet env pid x s =
      (Ok (hex_addr start - hex_addr virt + hex_addr (symtab x)), s') \<and>
    ac_world s' = ac_world s \<and> memo_ok pid path (hex_addr start - hex_addr virt) (ac_memo s')"
proof -
  let ?root = "root_path pid path" and ?base = "hex_addr start - hex_addr virt"
  note pm = assms(1) [unfolded process_map_def]
  have path: "path \<noteq> []" using pm by (simp add: prints_def)
  have len: "length ?root < PHPSPY_STR_SIZE"
    using pm length_quoted [of ?root] by simp
  have esc: "escape_arg (opt_libname_awk_patt opts) t = (Ok (quoted (opt_libname_awk_patt opts)), t)"
    "escape_arg path t = (Ok (quoted path), t)" "escape_arg ?root t = (Ok (quoted ?root), t)" for t :: "'a addr_ctx"
    using pm by (simp_all add: escape_arg_fits)
  have bin: "get_php_bin_path opts quiet env pid t =
      (Ok (), t\<lparr>ac_memo := (ac_memo t)\<lparr>php_bin_path := path, php_bin_path_root := ?root\<rparr>\<rparr>)" for t
    using pm len esc popen_prints [of env "bin_path_cmd (quoted (opt_libname_awk_patt opts)) pid" path quiet]
    by (simp add: get_php_bin_path_def run_simps asys_def Let_def)
  have base: "get_php_base_addr quiet env pid ?root path t = (Ok ?base, t)" for t
    using pm esc popen_prints [of env "start_addr_cmd (quoted path) pid" start quiet]
      popen_prints [of env "virt_addr_cmd (quoted ?root)" virt quiet]
    by (simp add: get_php_base_addr_def run_simps Let_def)
  have off: "get_symbol_offset quiet env ?root x t = (Ok (hex_addr (symtab x)), t)" for t
    using pm assms(2) esc popen_prints [of env "symbol_cmd (quoted ?root) x" "symtab x" quiet]
    by (simp add: get_symbol_offset_def run_simps)
  show ?thesis
    using assms(3) path
    by (cases "php_bin_path (ac_memo s) = []"; cases "php_base_addr (ac_memo s) = 0")
      (auto simp: get_symbol_addr_def run_simps bin base off memo_ok_def)
qed

lemma find_addresses_known:
  assumes "process_map opts env pid path start virt symtab"
  shows "find_addresses opts env pid w =
    (let sym = (\<lambda>x. hex_addr start - hex_addr virt + hex_addr (symtab x))
     in (Ok \<lparr> tt_executor_globals =
           (if opt_executor_globals_addr opts \<noteq> 0 then opt_executor_globals_addr opts else sym ''executor_globals''),
         tt_sapi_globals =
           (if opt_sapi_globals_addr opts \<noteq> 0 then opt_sapi_globals_addr opts
            else if opt_capture_req opts then sym ''sapi_globals'' else 0),
         tt_alloc_globals = (if opt_capture_mem opts then sym ''alloc_globals'' else 0),
         tt_basic_functions_module = sym ''basic_functions_module'' \<rparr>, w))"
proof -
  define good where "good s \<longleftrightarrow> memo_ok pid path (hex_addr start - hex_addr virt) (ac_memo s) \<and> ac_world s = w"
    for s :: "'a addr_ctx"
  define sym where "sym x = hex_addr start - hex_addr virt + hex_addr (symtab x)" for x
  have call: "\<exists>s'. get_symbol_addr opts q env pid x s = (Ok (sym x), s') \<and> good s'" if "good s" "x \<in> set php_symbols" for q x s
    using get_symbol_addr_known [OF assms that(2), of s q] that(1) by (auto simp: good_def sym_def)
  let ?s = "\<lparr> ac_memo = empty_memo, ac_world = w \<rparr>"
  have s: "good ?s" by (simp add: good_def memo_ok_def empty_memo_def)
  have names: "''executor_globals'' \<in> set php_symbols" "''sapi_globals'' \<in> set php_symbols"
    "''alloc_globals'' \<in> set php_symbols" "''basic_functions_module'' \<in> set php_symbols"
    by (simp_all add: php_symbols_def)
  let ?m1 = "if opt_executor_globals_addr opts \<noteq> 0 then ok (opt_executor_globals_addr opts)
    else get_symbol_addr opts (opt_quiet opts) env pid ''executor_globals''"
  let ?m2 = "if opt_sapi_globals_addr opts \<noteq> 0 then ok (opt_sapi_globals_addr opts)
    else if opt_capture_req opts then get_symbol_addr opts (opt_quiet opts) env pid ''sapi_globals'' else ok 0"
  let ?m3 = "if opt_capture_mem opts then get_symbol_addr opts (opt_quiet opts) env pid ''alloc_globals'' else ok 0"
  obtain s1 where s1: "?m1 ?s = (Ok (if opt_executor_globals_addr opts \<noteq> 0 then opt_executor_globals_addr opts
      else sym ''executor_globals''), s1)" "good s1"
    using call [OF s names(1)] s by (cases "opt_executor_globals_addr opts = 0") (auto simp: run_simps)
  obtain s2 where s2: "?m2 s1 = (Ok (if opt_sapi_globals_addr opts \<noteq> 0 then opt_sapi_globals_addr opts
      else if opt_capture_req opts then sym ''sapi_globals'' else 0), s2)" "good s2"
    using call [OF s1(2) names(2)] s1(2)
    by (cases "opt_sapi_globals_addr opts = 0"; cases "opt_capture_req opts") (auto simp: run_simps)
  obtain s3 where s3: "?m3 s2 = (Ok (if opt_capture_mem opts then sym ''alloc_globals'' else 0), s3)" "good s3"
    using call [OF s2(2) names(3)] s2(2) by (cases "opt_capture_mem opts") (auto simp: run_simps)
  obtain s4 where s4: "get_symbol_addr opts True env pid ''basic_functions_module'' s3 = (Ok (sym ''basic_functions_module''), s4)"
      "good s4"
    using call [OF s3(2) names(4)] by blast
  show ?thesis
    unfolding find_addresses_def find_addresses_memo_def Let_def sym_def [symmetric]
      try_c_simps(1) [of ?m1, OF s1(1)] try_c_simps(1) [of ?m2, OF s2(1)] try_c_simps(1) [of ?m3, OF s3(1)]
    using s4 by (simp add: run_simps good_def)
qed

subsection \<open>A system for the examples\<close>

text \<open>The program at \<^verbatim>\<open>/p\<close> is mapped at \<^verbatim>\<open>5000\<close> and linked to \<^verbatim>\<open>1000\<close>; every symbol is at \<^verbatim>\<open>20\<close>.\<close>

definition demo_shell :: "string \<Rightarrow> string" where
  "demo_shell cmd =
     (if take 8 cmd = ''awk -ve='' then ''/p'' else if take 8 cmd = ''awk -vp='' then ''5000''
      else if take 10 cmd = ''objdump -p'' then ''1000'' else ''20'')"

definition demo_addr_env :: "unit addr_env" where
  "demo_addr_env = \<lparr>
     a_popen = \<lambda>cmd w. (Some (demo_shell (if take 2 cmd = ''{ '' then drop 2 cmd else cmd) @ [CHR 0x0A]), w),
     a_access = \<lambda>path w. (True, w) \<rparr>"

lemma demo_prints:
  "length cmd < 236 \<Longrightarrow> take 2 cmd \<noteq> ''{ '' \<Longrightarrow> 10 \<le> length cmd \<Longrightarrow> prints demo_addr_env cmd (demo_shell cmd)"
  by (auto simp: prints_def demo_addr_env_def demo_shell_def)

lemma demo_process_map:
  "process_map default_options demo_addr_env 1 ''/p'' ''5000'' ''1000'' (\<lambda>_. ''20'')"
proof -
  have "prints demo_addr_env (bin_path_cmd (quoted (opt_libname_awk_patt default_options)) 1) ''/p''"
    using demo_prints [of "bin_path_cmd (quoted (opt_libname_awk_patt default_options)) 1"]
    by (simp add: demo_shell_def bin_path_cmd_def quoted_def escaped_def default_options_def dec_int_def dec_nat.simps)
  moreover have "prints demo_addr_env (start_addr_cmd (quoted ''/p'') 1) ''5000''"
    using demo_prints [of "start_addr_cmd (quoted ''/p'') 1"]
    by (simp add: demo_shell_def start_addr_cmd_def quoted_def escaped_def dec_int_def dec_nat.simps)
  moreover have "prints demo_addr_env (virt_addr_cmd (quoted (root_path 1 ''/p''))) ''1000''"
    using demo_prints [of "virt_addr_cmd (quoted (root_path 1 ''/p''))"]
    by (simp add: demo_shell_def virt_addr_cmd_def root_path_def quoted_def escaped_def dec_int_def dec_nat.simps)
  moreover have "prints demo_addr_env (symbol_cmd (quoted (root_path 1 ''/p'')) x) ''20''" if "length x < 100" for x
    using that demo_prints [of "symbol_cmd (quoted (root_path 1 ''/p'')) x"]
    by (simp add: demo_shell_def symbol_cmd_def root_path_def quoted_def escaped_def dec_int_def dec_nat.simps)
  moreover have "\<forall>x \<in> set php_symbols. length x < 100" by (simp add: php_symbols_def)
  ultimately show ?thesis
    by (auto simp: process_map_def demo_addr_env_def)
      (simp_all add: root_path_def quoted_def escaped_def default_options_def dec_int_def dec_nat.simps digit_simps)
qed

subsection \<open>Properties\<close>

text \<open>C13: Quoting. \<^verbatim>\<open>shell_escape\<close> never writes outside its buffer; it fails exactly when the quoted argument
  does not fit; and else the shell reads the buffer back as one word that is the argument, whatever
  characters it has, and goes on with what follows.\<close>

theorem shell_escape_roundtrip:
  assumes "1 \<le> length buf" and "NUL \<notin> set arg"
  shows "case shell_escape arg buf of
      Ok b \<Rightarrow> length b = length buf \<and> length (quoted arg) < length buf \<and>
        sh_plain [] (c_str b 0 @ CHR '' '' # rest) = Some (arg, CHR '' '' # rest)
    | Rv r \<Rightarrow> r = 1 \<and> length buf \<le> length (quoted arg)
    | Fault _ \<Rightarrow> False"
proof -
  have "NUL \<notin> set (quoted arg)" using assms(2) by (auto simp: quoted_def escaped_def split: if_splits)
  then have "c_str (quoted arg @ NUL # bs) 0 = quoted arg" for bs
    by (simp add: c_str_def takeWhile_upto)
  then show ?thesis
    using assms(1) sh_plain_quoted [of arg "CHR '' '' # rest"] by (auto simp: shell_escape_result)
qed

theorem shell_escape_roundtrip_witness:
  "shell_escape [CHR ''a'', quote_char, CHR '';''] (replicate 10 NUL) =
     Ok (quoted [CHR ''a'', quote_char, CHR '';''] @ [NUL, NUL]) \<and>
   sh_plain [] (quoted [CHR ''a'', quote_char, CHR '';''] @ '' -x'') = Some ([CHR ''a'', quote_char, CHR '';''], '' -x'')"
proof -
  have "shell_escape [CHR ''a'', quote_char, CHR '';''] (replicate 10 NUL) =
      Ok (quoted [CHR ''a'', quote_char, CHR '';''] @ [NUL, NUL])"
    by (subst shell_escape_result) (simp_all add: quoted_def escaped_def)
  then show ?thesis
    using shell_escape_roundtrip [of "replicate 10 NUL" "[CHR ''a'', quote_char, CHR '';'']" "''-x''"]
    by (simp add: c_str_def quoted_def escaped_def)
qed

text \<open>C18: Addresses. When the commands describe the process, \<^verbatim>\<open>find_addresses\<close> yields for each global the
  address given as an option, or else the address of the symbol in the running process: where the
  executable segment is mapped, minus where it is linked to, plus the symbol's value. What is not
  asked for is 0.\<close>

theorem find_addresses_value:
  assumes "process_map opts env pid path start virt symtab"
  shows "find_addresses opts env pid w =
    (let sym = (\<lambda>x. hex_addr start - hex_addr virt + hex_addr (symtab x))
     in (Ok \<lparr> tt_executor_globals =
           (if opt_executor_globals_addr opts \<noteq> 0 then opt_executor_globals_addr opts else sym ''executor_globals''),
         tt_sapi_globals =
           (if opt_sapi_globals_addr opts \<noteq> 0 then opt_sapi_globals_addr opts
            else if opt_capture_req opts then sym ''sapi_globals'' else 0),
         tt_alloc_globals = (if opt_capture_mem opts then sym ''alloc_globals'' else 0),
         tt_basic_functions_module = sym ''basic_functions_module'' \<rparr>, w))"
  by (rule find_addresses_known [OF assms])

theorem find_addresses_value_witness:
  "find_addresses default_options demo_addr_env 1 () =
    (Ok \<lparr> tt_executor_globals = 0x4020, tt_sapi_globals = 0, tt_alloc_globals = 0, tt_basic_functions_module = 0x4020 \<rparr>, ())"
  using find_addresses_value [OF demo_process_map, of "()"]
  by (simp add: default_options_def hex_addr_def strtoull_def strto_def c_isspace_def digit_val_def hex_prefix_def Let_def)

end
