(* ===== verification/Php_Structs_Aarch64.thy ===== *)
theory Php_Structs_Aarch64
  imports Php_Structs
begin

text \<open>
  The headers \<^verbatim>\<open>structs/aarch64/php_structs_<phpv>.h\<close>, one definition each, their structures in the order
  of the file. A primed name is the structure of that name declared above it. The comment
  \<^verbatim>\<open>/* offset +length */\<close> of a member is its third component.
\<close>

definition php_structs_70_aarch64 :: php_structs where
  "php_structs_70_aarch64 = (let
     zend_array' = Struct_t [
       (''pad0'', Arr U8 8, Some (0, 8)),
       (''flags'', U8, Some (8, 1)),
       (''pad1'', Arr U8 3, Some (9, 3)),
       (''nTableMask'', U32, Some (12, 4)),
       (''arData'', Ptr, Some (16, 8)),
       (''nNumUsed'', U32, Some (24, 4)),
       (''nNumOfElements'', U32, Some (28, 4)),
       (''nTableSize'', U32, Some (32, 4))];
     zend_executor_globals' = Struct_t [
       (''pad0'', Arr U8 304, Some (0, 304)),
       (''symbol_table'', zend_array', Some (304, 36)),
       (''pad1'', Arr U8 140, Some (340, 140)),
       (''current_execute_data'', Ptr, Some (480, 8))];
     zend_value' = Union_t [
       (''lval'', U64, Some (0, 8)),
       (''dval'', U64, Some (0, 8)),
       (''str'', Ptr, Some (0, 8)),
       (''arr'', Ptr, Some (0, 8))];
     zval' = Struct_t [
       (''value'', zend_value', Some (0, 8)),
       (''u1'', Union_t [(''v'', Struct_t [(''type'', U8, Some (8, 1)), (''pad0'', Arr U8 3, Some (9, 3))], None)], None),
       (''u2'', Union_t [(''next'', U32, Some (12, 4))], None)];
     zend_execute_data' = Struct_t [
       (''opline'', Ptr, Some (0, 8)),
       (''pad0'', Arr U8 16, Some (8, 16)),
       (''func'', Ptr, Some (24, 8)),
       (''This'', zval', Some (32, 16)),
       (''pad1'', Arr U8 8, Some (48, 8)),
       (''prev_execute_data'', Ptr, Some (56, 8)),
       (''symbol_table'', Ptr, Some (64, 8))];
     zend_op_array' = Struct_t [
       (''pad0'', Arr U8 72, Some (0, 72)),
       (''last_var'', U32, Some (72, 4)),
       (''pad1'', Arr U8 4, Some (76, 4)),
       (''vars'', Ptr, Some (80, 8)),
       (''pad2'', Arr U8 32, Some (88, 32)),
       (''filename'', Ptr, Some (120, 8)),
       (''line_start'', U32, Some (128, 4))];
     zend_function' = Union_t [
       (''type'', U8, Some (0, 1)),
       (''common'', Struct_t [(''pad0'', Arr U8 8, Some (0, 8)), (''function_name'', Ptr, Some (8, 8)), (''scope'', Ptr, Some (16, 8))], None),
       (''op_array'', zend_op_array', Some (0, 208))];
     zend_class_entry' = Struct_t [
       (''pad0'', Arr U8 8, Some (0, 8)),
       (''name'', Ptr, Some (8, 8))];
     zend_string' = Struct_t [
       (''pad0'', Arr U8 16, Some (0, 16)),
       (''len'', U64, Some (16, 8)),
       (''val'', Arr U8 1, Some (24, 1))];
     zend_op' = Struct_t [
       (''pad0'', Arr U8 24, Some (0, 24)),
       (''lineno'', U32, Some (24, 4))];
     sapi_request_info' = Struct_t [
       (''pad0'', Arr U8 8, Some (0, 8)),
       (''query_string'', Ptr, Some (8, 8)),
       (''cookie_data'', Ptr, Some (16, 8)),
       (''pad1'', Arr U8 8, Some (24, 8)),
       (''path_translated'', Ptr, Some (32, 8)),
       (''request_uri'', Ptr, Some (40, 8))];
     sapi_globals_struct' = Struct_t [
       (''pad0'', Arr U8 8, Some (0, 8)),
       (''request_info'', sapi_request_info', Some (8, 48)),
       (''pad1'', Arr U8 368, Some (56, 368)),
       (''global_request_time'', U64, Some (424, 8))];
     Bucket' = Struct_t [
       (''val'', zval', Some (0, 16)),
       (''h'', U64, Some (16, 8)),
       (''key'', Ptr, Some (24, 8))];
     zend_alloc_globals' = Struct_t [
       (''mm_heap'', Ptr, Some (0, 8))];
     zend_mm_heap' = Struct_t [
       (''pad0'', Arr U8 16, Some (0, 16)),
       (''size'', U64, Some (16, 8)),
       (''peak'', U64, Some (24, 8))];
     zend_object' = Struct_t [
       (''pad0'', Arr U8 16, Some (0, 16)),
       (''ce'', Ptr, Some (16, 8)),
       (''pad1'', Arr U8 16, Some (24, 16)),
       (''properties_table'', Arr zval' 1, Some (40, 16))];
     pdo_bound_param_data' = Struct_t [
       (''parameter'', zval', Some (0, 16)),
       (''pad0'', Arr U8 16, Some (16, 16)),
       (''paramno'', U64, Some (32, 8)),
       (''name'', Ptr, Some (40, 8)),
       (''pad1'', Arr U8 24, Some (48, 24)),
       (''param_type'', U32, Some (72, 4))];
     pdo_stmt_t' = Struct_t [
       (''pad0'', Arr U8 56, Some (0, 56)),
       (''bound_params'', Ptr, Some (56, 8)),
       (''pad1'', Arr U8 264, Some (64, 264)),
       (''std'', zend_object', Some (328, 56))]
   in \<lparr>
     ps_zend_array = zend_array',
     ps_zend_executor_globals = zend_executor_globals',
     ps_zval = zval',
     ps_zend_execute_data = zend_execute_data',
     ps_zend_op_array = zend_op_array',
     ps_zend_function = zend_function',
     ps_zend_class_entry = zend_class_entry',
     ps_zend_string = zend_string',
     ps_zend_op = zend_op',
     ps_sapi_request_info = sapi_request_info',
     ps_sapi_globals_struct = sapi_globals_struct',
     ps_Bucket = Bucket',
     ps_zend_alloc_globals = zend_alloc_globals',
     ps_zend_mm_heap = zend_mm_heap',
     ps_zend_object = zend_object',
     ps_pdo_bound_param_data = pdo_bound_param_data',
     ps_pdo_stmt_t = pdo_stmt_t' \<rparr>)"

definition php_structs_71_aarch64 :: php_structs where
  "php_structs_71_aarch64 = (let
     zend_array' = Struct_t [
       (''pad0'', Arr U8 8, Some (0, 8)),
       (''flags'', U8, Some (8, 1)),
       (''pad1'', Arr U8 3, Some (9, 3)),
       (''nTableMask'', U32, Some (12, 4)),
       (''arData'', Ptr, Some (16, 8)),
       (''nNumUsed'', U32, Some (24, 4)),
       (''nNumOfElements'', U32, Some (28, 4)),
       (''nTableSize'', U32, Some (32, 4))];
     zend_executor_globals' = Struct_t [
       (''pad0'', Arr U8 304, Some (0, 304)),
       (''symbol_table'', zend_array', Some (304, 36)),
       (''pad1'', Arr U8 140, Some (340, 140)),
       (''current_execute_data'', Ptr, Some (480, 8))];
     zend_value' = Union_t [
       (''lval'', U64, Some (0, 8)),
       (''dval'', U64, Some (0, 8)),
       (''str'', Ptr, Some (0, 8)),
       (''arr'', Ptr, Some (0, 8))];
     zval' = Struct_t [
       (''value'', zend_value', Some (0, 8)),
       (''u1'', Union_t [(''v'', Struct_t [(''type'', U8, Some (8, 1)), (''pad0'', Arr U8 3, Some (9, 3))], None)], None),
       (''u2'', Union_t [(''next'', U32, Some (12, 4))], None)];
     zend_execute_data' = Struct_t [
       (''opline'', Ptr, Some (0, 8)),
       (''pad0'', Arr U8 16, Some (8, 16)),
       (''func'', Ptr, Some (24, 8)),
       (''This'', zval', Some (32, 16)),
       (''prev_execute_data'', Ptr, Some (48, 8)),
       (''symbol_table'', Ptr, Some (56, 8))];
     zend_op_array' = Struct_t [
       (''pad0'', Arr U8 72, Some (0, 72)),
       (''last_var'', U32, Some (72, 4)),
       (''pad1'', Arr U8 4, Some (76, 4)),
       (''vars'', Ptr, Some (80, 8)),
       (''pad2'', Arr U8 32, Some (88, 32)),
       (''filename'', Ptr, Some (120, 8)),
       (''line_start'', U32, Some (128, 4))];
     zend_function' = Union_t [
       (''type'', U8, Some (0, 1)),
       (''common'', Struct_t [(''pad0'', Arr U8 8, Some (0, 8)), (''function_name'', Ptr, Some (8, 8)), (''scope'', Ptr, Some (16, 8))], None),
       (''op_array'', zend_op_array', Some (0, 208))];
     zend_class_entry' = Struct_t [
       (''pad0'', Arr U8 8, Some (0, 8)),
       (''name'', Ptr, Some (8, 8))];
     zend_string' = Struct_t [
       (''pad0'', Arr U8 16, Some (0, 16)),
       (''len'', U64, Some (16, 8)),
       (''val'', Arr U8 1, Some (24, 1))];
     zend_op' = Struct_t [
       (''pad0'', Arr U8 24, Some (0, 24)),
       (''lineno'', U32, Some (24, 4))];
     sapi_request_info' = Struct_t [
       (''pad0'', Arr U8 8, Some (0, 8)),
       (''query_string'', Ptr, Some (8, 8)),
       (''cookie_data'', Ptr, Some (16, 8)),
       (''pad1'', Arr U8 8, Some (24, 8)),
       (''path_translated'', Ptr, Some (32, 8)),
       (''request_uri'', Ptr, Some (40, 8))];
     sapi_globals_struct' = Struct_t [
       (''pad0'', Arr U8 8, Some (0, 8)),
       (''request_info'', sapi_request_info', Some (8, 48)),
       (''pad1'', Arr U8 368, Some (56, 368)),
       (''global_request_time'', U64, Some (424, 8))];
     Bucket' = Struct_t [
       (''val'', zval', Some (0, 16)),
       (''h'', U64, Some (16, 8)),
       (''key'', Ptr, Some (24, 8))];
     zend_alloc_globals' = Struct_t [
       (''mm_heap'', Ptr, Some (0, 8))];
     zend_mm_heap' = Struct_t [
       (''pad0'', Arr U8 16, Some (0, 16)),
       (''size'', U64, Some (16, 8)),
       (''peak'', U64, Some (24, 8))];
     zend_object' = Struct_t [
       (''pad0'', Arr U8 16, Some (0, 16)),
       (''ce'', Ptr, Some (16, 8)),
       (''pad1'', Arr U8 16, Some (24, 16)),
       (''properties_table'', Arr zval' 1, Some (40, 16))];
     pdo_bound_param_data' = Struct_t [
       (''parameter'', zval', Some (0, 16)),
       (''pad0'', Arr U8 16, Some (16, 16)),
       (''paramno'', U64, Some (32, 8)),
       (''name'', Ptr, Some (40, 8)),
       (''pad1'', Arr U8 24, Some (48, 24)),
       (''param_type'', U32, Some (72, 4))];
     pdo_stmt_t' = Struct_t [
       (''pad0'', Arr U8 56, Some (0, 56)),
       (''bound_params'', Ptr, Some (56, 8)),
       (''pad1'', Arr U8 264, Some (64, 264)),
       (''std'', zend_object', Some (328, 56))]
   in \<lparr>
     ps_zend_array = zend_array',
     ps_zend_executor_globals = zend_executor_globals',
     ps_zval = zval',
     ps_zend_execute_data = zend_execute_data',
     ps_zend_op_array = zend_op_array',
     ps_zend_function = zend_function',
     ps_zend_class_entry = zend_class_entry',
     ps_zend_string = zend_string',
     ps_zend_op = zend_op',
     ps_sapi_request_info = sapi_request_info',
     ps_sapi_globals_struct = sapi_globals_struct',
     ps_Bucket = Bucket',
     ps_zend_alloc_globals = zend_alloc_globals',
     ps_zend_mm_heap = zend_mm_heap',
     ps_zend_object = zend_object',
     ps_pdo_bound_param_data = pdo_bound_param_data',
     ps_pdo_stmt_t = pdo_stmt_t' \<rparr>)"

definition php_structs_72_aarch64 :: php_structs where
  "php_structs_72_aarch64 = (let
     zend_array' = Struct_t [
       (''pad0'', Arr U8 8, Some (0, 8)),
       (''flags'', U8, Some (8, 1)),
       (''pad1'', Arr U8 3, Some (9, 3)),
       (''nTableMask'', U32, Some (12, 4)),
       (''arData'', Ptr, Some (16, 8)),
       (''nNumUsed'', U32, Some (24, 4)),
       (''nNumOfElements'', U32, Some (28, 4)),
       (''nTableSize'', U32, Some (32, 4))];
     zend_executor_globals' = Struct_t [
       (''pad0'', Arr U8 304, Some (0, 304)),
       (''symbol_table'', zend_array', Some (304, 36)),
       (''pad1'', Arr U8 140, Some (340, 140)),
       (''current_execute_data'', Ptr, Some (480, 8))];
     zend_value' = Union_t [
       (''lval'', U64, Some (0, 8)),
       (''dval'', U64, Some (0, 8)),
       (''str'', Ptr, Some (0, 8)),
       (''arr'', Ptr, Some (0, 8))];
     zval' = Struct_t [
       (''value'', zend_value', Some (0, 8)),
       (''u1'', Union_t [(''v'', Struct_t [(''type'', U8, Some (8, 1)), (''pad0'', Arr U8 3, Some (9, 3))], None)], None),
       (''u2'', Union_t [(''next'', U32, Some (12, 4))], None)];
     zend_execute_data' = Struct_t [
       (''opline'', Ptr, Some (0, 8)),
       (''pad0'', Arr U8 16, Some (8, 16)),
       (''func'', Ptr, Some (24, 8)),
       (''This'', zval', Some (32, 16)),
       (''prev_execute_data'', Ptr, Some (48, 8)),
       (''symbol_table'', Ptr, Some (56, 8))];
     zend_op_array' = Struct_t [
       (''pad0'', Arr U8 72, Some (0, 72)),
       (''last_var'', U32, Some (72, 4)),
       (''pad1'', Arr U8 4, Some (76, 4)),
       (''vars'', Ptr, Some (80, 8)),
       (''pad2'', Arr U8 32, Some (88, 32)),
       (''filename'', Ptr, Some (120, 8)),
       (''line_start'', U32, Some (128, 4))];
     zend_function' = Union_t [
       (''type'', U8, Some (0, 1)),
       (''common'', Struct_t [(''pad0'', Arr U8 8, Some (0, 8)), (''function_name'', Ptr, Some (8, 8)), (''scope'', Ptr, Some (16, 8))], None),
       (''op_array'', zend_op_array', Some (0, 224))];
     zend_class_entry' = Struct_t [
       (''pad0'', Arr U8 8, Some (0, 8)),
       (''name'', Ptr, Some (8, 8))];
     zend_string' = Struct_t [
       (''pad0'', Arr U8 16, Some (0, 16)),
       (''len'', U64, Some (16, 8)),
       (''val'', Arr U8 1, Some (24, 1))];
     zend_op' = Struct_t [
       (''pad0'', Arr U8 24, Some (0, 24)),
       (''lineno'', U32, Some (24, 4))];
     sapi_request_info' = Struct_t [
       (''pad0'', Arr U8 8, Some (0, 8)),
       (''query_string'', Ptr, Some (8, 8)),
       (''cookie_data'', Ptr, Some (16, 8)),
       (''pad1'', Arr U8 8, Some (24, 8)),
       (''path_translated'', Ptr, Some (32, 8)),
       (''request_uri'', Ptr, Some (40, 8))];
     sapi_globals_struct' = Struct_t [
       (''pad0'', Arr U8 8, Some (0, 8)),
       (''request_info'', sapi_request_info', Some (8, 48)),
       (''pad1'', Arr U8 368, Some (56, 368)),
       (''global_request_time'', U64, Some (424, 8))];
     Bucket' = Struct_t [
       (''val'', zval', Some (0, 16)),
       (''h'', U64, Some (16, 8)),
       (''key'', Ptr, Some (24, 8))];
     zend_alloc_globals' = Struct_t [
       (''mm_heap'', Ptr, Some (0, 8))];
     zend_mm_heap' = Struct_t [
       (''pad0'', Arr U8 16, Some (0, 16)),
       (''size'', U64, Some (16, 8)),
       (''peak'', U64, Some (24, 8))];
     zend_object' = Struct_t [
       (''pad0'', Arr U8 16, Some (0, 16)),
       (''ce'', Ptr, Some (16, 8)),
       (''pad1'', Arr U8 16, Some (24, 16)),
       (''properties_table'', Arr zval' 1, Some (40, 16))];
     pdo_bound_param_data' = Struct_t [
       (''parameter'', zval', Some (0, 16)),
       (''pad0'', Arr U8 16, Some (16, 16)),
       (''paramno'', U64, Some (32, 8)),
       (''name'', Ptr, Some (40, 8)),
       (''pad1'', Arr U8 24, Some (48, 24)),
       (''param_type'', U32, Some (72, 4))];
     pdo_stmt_t' = Struct_t [
       (''pad0'', Arr U8 56, Some (0, 56)),
       (''bound_params'', Ptr, Some (56, 8)),
       (''pad1'', Arr U8 264, Some (64, 264)),
       (''std'', zend_object', Some (328, 56))]
   in \<lparr>
     ps_zend_array = zend_array',
     ps_zend_executor_globals = zend_executor_globals',
     ps_zval = zval',
     ps_zend_execute_data = zend_execute_data',
     ps_zend_op_array = zend_op_array',
     ps_zend_function = zend_function',
     ps_zend_class_entry = zend_class_entry',
     ps_zend_string = zend_string',
     ps_zend_op = zend_op',
     ps_sapi_request_info = sapi_request_info',
     ps_sapi_globals_struct = sapi_globals_struct',
     ps_Bucket = Bucket',
     ps_zend_alloc_globals = zend_alloc_globals',
     ps_zend_mm_heap = zend_mm_heap',
     ps_zend_object = zend_object',
     ps_pdo_bound_param_data = pdo_bound_param_data',
     ps_pdo_stmt_t = pdo_stmt_t' \<rparr>)"

definition php_structs_73_aarch64 :: php_structs where
  "php_structs_73_aarch64 = (let
     zend_array' = Struct_t [
       (''pad0'', Arr U8 8, Some (0, 8)),
       (''flags'', U8, Some (8, 1)),
       (''pad1'', Arr U8 3, Some (9, 3)),
       (''nTableMask'', U32, Some (12, 4)),
       (''arData'', Ptr, Some (16, 8)),
       (''nNumUsed'', U32, Some (24, 4)),
       (''nNumOfElements'', U32, Some (28, 4)),
       (''nTableSize'', U32, Some (32, 4))];
     zend_executor_globals' = Struct_t [
       (''pad0'', Arr U8 304, Some (0, 304)),
       (''symbol_table'', zend_array', Some (304, 36)),
       (''pad1'', Arr U8 148, Some (340, 148)),
       (''current_execute_data'', Ptr, Some (488, 8))];
     zend_value' = Union_t [
       (''lval'', U64, Some (0, 8)),
       (''dval'', U64, Some (0, 8)),
       (''str'', Ptr, Some (0, 8)),
       (''arr'', Ptr, Some (0, 8))];
     zval' = Struct_t [
       (''value'', zend_value', Some (0, 8)),
       (''u1'', Union_t [(''v'', Struct_t [(''type'', U8, Some (8, 1)), (''pad0'', Arr U8 3, Some (9, 3))], None)], None),
       (''u2'', Union_t [(''next'', U32, Some (12, 4))], None)];
     zend_execute_data' = Struct_t [
       (''opline'', Ptr, Some (0, 8)),
       (''pad0'', Arr U8 16, Some (8, 16)),
       (''func'', Ptr, Some (24, 8)),
       (''This'', zval', Some (32, 16)),
       (''prev_execute_data'', Ptr, Some (48, 8)),
       (''symbol_table'', Ptr, Some (56, 8))];
     zend_op_array' = Struct_t [
       (''pad0'', Arr U8 52, Some (0, 52)),
       (''last_var'', U32, Some (52, 4)),
       (''pad1'', Arr U8 32, Some (56, 32)),
       (''vars'', Ptr, Some (88, 8)),
       (''pad2'', Arr U8 32, Some (96, 32)),
       (''filename'', Ptr, Some (128, 8)),
       (''line_start'', U32, Some (136, 4))];
     zend_function' = Union_t [
       (''type'', U8, Some (0, 1)),
       (''common'', Struct_t [(''pad0'', Arr U8 8, Some (0, 8)), (''function_name'', Ptr, Some (8, 8)), (''scope'', Ptr, Some (16, 8))], None),
       (''op_array'', zend_op_array', Some (0, 216))];
     zend_class_entry' = Struct_t [
       (''pad0'', Arr U8 8, Some (0, 8)),
       (''name'', Ptr, Some (8, 8))];
     zend_string' = Struct_t [
       (''pad0'', Arr U8 16, Some (0, 16)),
       (''len'', U64, Some (16, 8)),
       (''val'', Arr U8 1, Some (24, 1))];
     zend_op' = Struct_t [
       (''pad0'', Arr U8 24, Some (0, 24)),
       (''lineno'', U32, Some (24, 4))];
     sapi_request_info' = Struct_t [
       (''pad0'', Arr U8 8, Some (0, 8)),
       (''query_string'', Ptr, Some (8, 8)),
       (''cookie_data'', Ptr, Some (16, 8)),
       (''pad1'', Arr U8 8, Some (24, 8)),
       (''path_translated'', Ptr, Some (32, 8)),
       (''request_uri'', Ptr, Some (40, 8))];
     sapi_globals_struct' = Struct_t [
       (''pad0'', Arr U8 8, Some (0, 8)),
       (''request_info'', sapi_request_info', Some (8, 48)),
       (''pad1'', Arr U8 368, Some (56, 368)),
       (''global_request_time'', U64, Some (424, 8))];
     Bucket' = Struct_t [
       (''val'', zval', Some (0, 16)),
       (''h'', U64, Some (16, 8)),
       (''key'', Ptr, Some (24, 8))];
     zend_alloc_globals' = Struct_t [
       (''mm_heap'', Ptr, Some (0, 8))];
     zend_mm_heap' = Struct_t [
       (''pad0'', Arr U8 16, Some (0, 16)),
       (''size'', U64, Some (16, 8)),
       (''peak'', U64, Some (24, 8))];
     zend_object' = Struct_t [
       (''pad0'', Arr U8 16, Some (0, 16)),
       (''ce'', Ptr, Some (16, 8)),
       (''pad1'', Arr U8 16, Some (24, 16)),
       (''properties_table'', Arr zval' 1, Some (40, 16))];
     pdo_bound_param_data' = Struct_t [
       (''parameter'', zval', Some (0, 16)),
       (''pad0'', Arr U8 16, Some (16, 16)),
       (''paramno'', U64, Some (32, 8)),
       (''name'', Ptr, Some (40, 8)),
       (''pad1'', Arr U8 24, Some (48, 24)),
       (''param_type'', U32, Some (72, 4))];
     pdo_stmt_t' = Struct_t [
       (''pad0'', Arr U8 56, Some (0, 56)),
       (''bound_params'', Ptr, Some (56, 8)),
       (''pad1'', Arr U8 264, Some (64, 264)),
       (''std'', zend_object', Some (328, 56))]
   in \<lparr>
     ps_zend_array = zend_array',
     ps_zend_executor_globals = zend_executor_globals',
     ps_zval = zval',
     ps_zend_execute_data = zend_execute_data',
     ps_zend_op_array = zend_op_array',
     ps_zend_function = zend_function',
     ps_zend_class_entry = zend_class_entry',
     ps_zend_string = zend_string',
     ps_zend_op = zend_op',
     ps_sapi_request_info = sapi_request_info',
     ps_sapi_globals_struct = sapi_globals_struct',
     ps_Bucket = Bucket',
     ps_zend_alloc_globals = zend_alloc_globals',
     ps_zend_mm_heap = zend_mm_heap',
     ps_zend_object = zend_object',
     ps_pdo_bound_param_data = pdo_bound_param_data',
     ps_pdo_stmt_t = pdo_stmt_t' \<rparr>)"

definition php_structs_74_aarch64 :: php_structs where
  "php_structs_74_aarch64 = (let
     zend_array' = Struct_t [
       (''pad0'', Arr U8 8, Some (0, 8)),
       (''flags'', U8, Some (8, 1)),
       (''pad1'', Arr U8 3, Some (9, 3)),
       (''nTableMask'', U32, Some (12, 4)),
       (''arData'', Ptr, Some (16, 8)),
       (''nNumUsed'', U32, Some (24, 4)),
       (''nNumOfElements'', U32, Some (28, 4)),
       (''nTableSize'', U32, Some (32, 4))];
     zend_executor_globals' = Struct_t [
       (''pad0'', Arr U8 304, Some (0, 304)),
       (''symbol_table'', zend_array', Some (304, 36)),
       (''pad1'', Arr U8 148, Some (340, 148)),
       (''current_execute_data'', Ptr, Some (488, 8))];
     zend_value' = Union_t [
       (''lval'', U64, Some (0, 8)),
       (''dval'', U64, Some (0, 8)),
       (''str'', Ptr, Some (0, 8)),
       (''arr'', Ptr, Some (0, 8))];
     zval' = Struct_t [
       (''value'', zend_value', Some (0, 8)),
       (''u1'', Union_t [(''v'', Struct_t [(''type'', U8, Some (8, 1)), (''pad0'', Arr U8 3, Some (9, 3))], None)], None),
       (''u2'', Union_t [(''next'', U32, Some (12, 4))], None)];
     zend_execute_data' = Struct_t [
       (''opline'', Ptr, Some (0, 8)),
       (''pad0'', Arr U8 16, Some (8, 16)),
       (''func'', Ptr, Some (24, 8)),
       (''This'', zval', Some (32, 16)),
       (''prev_execute_data'', Ptr, Some (48, 8)),
       (''symbol_table'', Ptr, Some (56, 8))];
     zend_op_array' = Struct_t [
       (''pad0'', Arr U8 52, Some (0, 52)),
       (''last_var'', U32, Some (52, 4)),
       (''pad1'', Arr U8 40, Some (56, 40)),
       (''vars'', Ptr, Some (96, 8)),
       (''pad2'', Arr U8 32, Some (104, 32)),
       (''filename'', Ptr, Some (136, 8)),
       (''line_start'', U32, Some (144, 4))];
     zend_function' = Union_t [
       (''type'', U8, Some (0, 1)),
       (''common'', Struct_t [(''pad0'', Arr U8 8, Some (0, 8)), (''function_name'', Ptr, Some (8, 8)), (''scope'', Ptr, Some (16, 8))], None),
       (''op_array'', zend_op_array', Some (0, 224))];
     zend_class_entry' = Struct_t [
       (''pad0'', Arr U8 8, Some (0, 8)),
       (''name'', Ptr, Some (8, 8))];
     zend_string' = Struct_t [
       (''pad0'', Arr U8 16, Some (0, 16)),
       (''len'', U64, Some (16, 8)),
       (''val'', Arr U8 1, Some (24, 1))];
     zend_op' = Struct_t [
       (''pad0'', Arr U8 24, Some (0, 24)),
       (''lineno'', U32, Some (24, 4))];
     sapi_request_info' = Struct_t [
       (''pad0'', Arr U8 8, Some (0, 8)),
       (''query_string'', Ptr, Some (8, 8)),
       (''cookie_data'', Ptr, Some (16, 8)),
       (''pad1'', Arr U8 8, Some (24, 8)),
       (''path_translated'', Ptr, Some (32, 8)),
       (''request_uri'', Ptr, Some (40, 8))];
     sapi_globals_struct' = Struct_t [
       (''pad0'', Arr U8 8, Some (0, 8)),
       (''request_info'', sapi_request_info', Some (8, 48)),
       (''pad1'', Arr U8 368, Some (56, 368)),
       (''global_request_time'', U64, Some (424, 8))];
     Bucket' = Struct_t [
       (''val'', zval', Some (0, 16)),
       (''h'', U64, Some (16, 8)),
       (''key'', Ptr, Some (24, 8))];
     zend_alloc_globals' = Struct_t [
       (''mm_heap'', Ptr, Some (0, 8))];
     zend_mm_heap' = Struct_t [
       (''pad0'', Arr U8 16, Some (0, 16)),
       (''size'', U64, Some (16, 8)),
       (''peak'', U64, Some (24, 8))];
     zend_object' = Struct_t [
       (''pad0'', Arr U8 16, Some (0, 16)),
       (''ce'', Ptr, Some (16, 8)),
       (''pad1'', Arr U8 16, Some (24, 16)),
       (''properties_table'', Arr zval' 1, Some (40, 16))];
     pdo_bound_param_data' = Struct_t [
       (''parameter'', zval', Some (0, 16)),
       (''pad0'', Arr U8 16, Some (16, 16)),
       (''paramno'', U64, Some (32, 8)),
       (''name'', Ptr, Some (40, 8)),
       (''pad1'', Arr U8 24, Some (48, 24)),
       (''param_type'', U32, Some (72, 4))];
     pdo_stmt_t' = Struct_t [
       (''pad0'', Arr U8 56, Some (0, 56)),
       (''bound_params'', Ptr, Some (56, 8)),
       (''pad1'', Arr U8 264, Some (64, 264)),
       (''std'', zend_object', Some (328, 56))]
   in \<lparr>
     ps_zend_array = zend_array',
     ps_zend_executor_globals = zend_executor_globals',
     ps_zval = zval',
     ps_zend_execute_data = zend_execute_data',
     ps_zend_op_array = zend_op_array',
     ps_zend_function = zend_function',
     ps_zend_class_entry = zend_class_entry',
     ps_zend_string = zend_string',
     ps_zend_op = zend_op',
     ps_sapi_request_info = sapi_request_info',
     ps_sapi_globals_struct = sapi_globals_struct',
     ps_Bucket = Bucket',
     ps_zend_alloc_globals = zend_alloc_globals',
     ps_zend_mm_heap = zend_mm_heap',
     ps_zend_object = zend_object',
     ps_pdo_bound_param_data = pdo_bound_param_data',
     ps_pdo_stmt_t = pdo_stmt_t' \<rparr>)"

definition php_structs_80_aarch64 :: php_structs where
  "php_structs_80_aarch64 = (let
     zend_array' = Struct_t [
       (''pad0'', Arr U8 8, Some (0, 8)),
       (''flags'', U8, Some (8, 1)),
       (''pad1'', Arr U8 3, Some (9, 3)),
       (''nTableMask'', U32, Some (12, 4)),
       (''arData'', Ptr, Some (16, 8)),
       (''nNumUsed'', U32, Some (24, 4)),
       (''nNumOfElements'', U32, Some (28, 4)),
       (''nTableSize'', U32, Some (32, 4))];
     zend_executor_globals' = Struct_t [
       (''pad0'', Arr U8 304, Some (0, 304)),
       (''symbol_table'', zend_array', Some (304, 36)),
       (''pad1'', Arr U8 148, Some (340, 148)),
       (''current_execute_data'', Ptr, Some (488, 8))];
     zend_value' = Union_t [
       (''lval'', U64, Some (0, 8)),
       (''dval'', U64, Some (0, 8)),
       (''str'', Ptr, Some (0, 8)),
       (''arr'', Ptr, Some (0, 8))];
     zval' = Struct_t [
       (''value'', zend_value', Some (0, 8)),
       (''u1'', Union_t [(''v'', Struct_t [(''type'', U8, Some (8, 1)), (''pad0'', Arr U8 3, Some (9, 3))], None)], None),
       (''u2'', Union_t [(''next'', U32, Some (12, 4))], None)];
     zend_execute_data' = Struct_t [
       (''opline'', Ptr, Some (0, 8)),
       (''pad0'', Arr U8 16, Some (8, 16)),
       (''func'', Ptr, Some (24, 8)),
       (''This'', zval', Some (32, 16)),
       (''prev_execute_data'', Ptr, Some (48, 8)),
       (''symbol_table'', Ptr, Some (56, 8))];
     zend_op_array' = Struct_t [
       (''pad0'', Arr U8 60, Some (0, 60)),
       (''last_var'', U32, Some (60, 4)),
       (''pad1'', Arr U8 40, Some (64, 40)),
       (''vars'', Ptr, Some (104, 8)),
       (''pad2'', Arr U8 32, Some (112, 32)),
       (''filename'', Ptr, Some (144, 8)),
       (''line_start'', U32, Some (152, 4))];
     zend_function' = Union_t [
       (''type'', U8, Some (0, 1)),
       (''common'', Struct_t [(''pad0'', Arr U8 8, Some (0, 8)), (''function_name'', Ptr, Some (8, 8)), (''scope'', Ptr, Some (16, 8))], None),
       (''op_array'', zend_op_array', Some (0, 232))];
     zend_class_entry' = Struct_t [
       (''pad0'', Arr U8 8, Some (0, 8)),
       (''name'', Ptr, Some (8, 8))];
     zend_string' = Struct_t [
       (''pad0'', Arr U8 16, Some (0, 16)),
       (''len'', U64, Some (16, 8)),
       (''val'', Arr U8 1, Some (24, 1))];
     zend_op' = Struct_t [
       (''pad0'', Arr U8 24, Some (0, 24)),
       (''lineno'', U32, Some (24, 4))];
     sapi_request_info' = Struct_t [
       (''pad0'', Arr U8 8, Some (0, 8)),
       (''query_string'', Ptr, Some (8, 8)),
       (''cookie_data'', Ptr, Some (16, 8)),
       (''pad1'', Arr U8 8, Some (24, 8)),
       (''path_translated'', Ptr, Some (32, 8)),
       (''request_uri'', Ptr, Some (40, 8))];
     sapi_globals_struct' = Struct_t [
       (''pad0'', Arr U8 8, Some (0, 8)),
       (''request_info'', sapi_request_info', Some (8, 48)),
       (''pad1'', Arr U8 368, Some (56, 368)),
       (''global_request_time'', U64, Some (424, 8))];
     Bucket' = Struct_t [
       (''val'', zval', Some (0, 16)),
       (''h'', U64, Some (16, 8)),
       (''key'', Ptr, Some (24, 8))];
     zend_alloc_globals' = Struct_t [
       (''mm_heap'', Ptr, Some (0, 8))];
     zend_mm_heap' = Struct_t [
       (''pad0'', Arr U8 16, Some (0, 16)),
       (''size'', U64, Some (16, 8)),
       (''peak'', U64, Some (24, 8))];
     zend_object' = Struct_t [
       (''pad0'', Arr U8 16, Some (0, 16)),
       (''ce'', Ptr, Some (16, 8)),
       (''pad1'', Arr U8 16, Some (24, 16)),
       (''properties_table'', Arr zval' 1, Some (40, 16))];
     pdo_bound_param_data' = Struct_t [
       (''parameter'', zval', Some (0, 16)),
       (''pad0'', Arr U8 16, Some (16, 16)),
       (''paramno'', U64, Some (32, 8)),
       (''name'', Ptr, Some (40, 8)),
       (''pad1'', Arr U8 24, Some (48, 24)),
       (''param_type'', U32, Some (72, 4))];
     pdo_stmt_t' = Struct_t [
       (''pad0'', Arr U8 56, Some (0, 56)),
       (''bound_params'', Ptr, Some (56, 8)),
       (''pad1'', Arr U8 264, Some (64, 264)),
       (''std'', zend_object', Some (328, 56))]
   in \<lparr>
     ps_zend_array = zend_array',
     ps_zend_executor_globals = zend_executor_globals',
     ps_zval = zval',
     ps_zend_execute_data = zend_execute_data',
     ps_zend_op_array = zend_op_array',
     ps_zend_function = zend_function',
     ps_zend_class_entry = zend_class_entry',
     ps_zend_string = zend_string',
     ps_zend_op = zend_op',
     ps_sapi_request_info = sapi_request_info',
     ps_sapi_globals_struct = sapi_globals_struct',
     ps_Bucket = Bucket',
     ps_zend_alloc_globals = zend_alloc_globals',
     ps_zend_mm_heap = zend_mm_heap',
     ps_zend_object = zend_object',
     ps_pdo_bound_param_data = pdo_bound_param_data',
     ps_pdo_stmt_t = pdo_stmt_t' \<rparr>)"

definition php_structs_81_aarch64 :: php_structs where
  "php_structs_81_aarch64 = (let
     zend_array' = Struct_t [
       (''pad0'', Arr U8 8, Some (0, 8)),
       (''flags'', U8, Some (8, 1)),
       (''pad1'', Arr U8 3, Some (9, 3)),
       (''nTableMask'', U32, Some (12, 4)),
       (''arData'', Ptr, Some (16, 8)),
       (''nNumUsed'', U32, Some (24, 4)),
       (''nNumOfElements'', U32, Some (28, 4)),
       (''nTableSize'', U32, Some (32, 4))];
     zend_executor_globals' = Struct_t [
       (''pad0'', Arr U8 304, Some (0, 304)),
       (''symbol_table'', zend_array', Some (304, 36)),
       (''pad1'', Arr U8 148, Some (340, 148)),
       (''current_execute_data'', Ptr, Some (488, 8))];
     zend_value' = Union_t [
       (''lval'', U64, Some (0, 8)),
       (''dval'', U64, Some (0, 8)),
       (''str'', Ptr, Some (0, 8)),
       (''arr'', Ptr, Some (0, 8))];
     zval' = Struct_t [
       (''value'', zend_value', Some (0, 8)),
       (''u1'', Union_t [(''v'', Struct_t [(''type'', U8, Some (8, 1)), (''pad0'', Arr U8 3, Some (9, 3))], None)], None),
       (''u2'', Union_t [(''next'', U32, Some (12, 4))], None)];
     zend_execute_data' = Struct_t [
       (''opline'', Ptr, Some (0, 8)),
       (''pad0'', Arr U8 16, Some (8, 16)),
       (''func'', Ptr, Some (24, 8)),
       (''This'', zval', Some (32, 16)),
       (''prev_execute_data'', Ptr, Some (48, 8)),
       (''symbol_table'', Ptr, Some (56, 8))];
     zend_op_array' = Struct_t [
       (''pad0'', Arr U8 60, Some (0, 60)),
       (''last_var'', U32, Some (60, 4)),
       (''pad1'', Arr U8 40, Some (64, 40)),
       (''vars'', Ptr, Some (104, 8)),
       (''pad2'', Arr U8 32, Some (112, 32)),
       (''filename'', Ptr, Some (144, 8)),
       (''line_start'', U32, Some (152, 4))];
     zend_function' = Union_t [
       (''type'', U8, Some (0, 1)),
       (''common'', Struct_t [(''pad0'', Arr U8 8, Some (0, 8)), (''function_name'', Ptr, Some (8, 8)), (''scope'', Ptr, Some (16, 8))], None),
       (''op_array'', zend_op_array', Some (0, 240))];
     zend_class_entry' = Struct_t [
       (''pad0'', Arr U8 8, Some (0, 8)),
       (''name'', Ptr, Some (8, 8))];
     zend_string' = Struct_t [
       (''pad0'', Arr U8 16, Some (0, 16)),
       (''len'', U64, Some (16, 8)),
       (''val'', Arr U8 1, Some (24, 1))];
     zend_op' = Struct_t [
       (''pad0'', Arr U8 24, Some (0, 24)),
       (''lineno'', U32, Some (24, 4))];
     sapi_request_info' = Struct_t [
       (''pad0'', Arr U8 8, Some (0, 8)),
       (''query_string'', Ptr, Some (8, 8)),
       (''cookie_data'', Ptr, Some (16, 8)),
       (''pad1'', Arr U8 8, Some (24, 8)),
       (''path_translated'', Ptr, Some (32, 8)),
       (''request_uri'', Ptr, Some (40, 8))];
     sapi_globals_struct' = Struct_t [
       (''pad0'', Arr U8 8, Some (0, 8)),
       (''request_info'', sapi_request_info', Some (8, 48)),
       (''pad1'', Arr U8 368, Some (56, 368)),
       (''global_request_time'', U64, Some (424, 8))];
     Bucket' = Struct_t [
       (''val'', zval', Some (0, 16)),
       (''h'', U64, Some (16, 8)),
       (''key'', Ptr, Some (24, 8))];
     zend_alloc_globals' = Struct_t [
       (''mm_heap'', Ptr, Some (0, 8))];
     zend_mm_heap' = Struct_t [
       (''pad0'', Arr U8 16, Some (0, 16)),
       (''size'', U64, Some (16, 8)),
       (''peak'', U64, Some (24, 8))];
     zend_object' = Struct_t [
       (''pad0'', Arr U8 16, Some (0, 16)),
       (''ce'', Ptr, Some (16, 8)),
       (''pad1'', Arr U8 16, Some (24, 16)),
       (''properties_table'', Arr zval' 1, Some (40, 16))];
     pdo_bound_param_data' = Struct_t [
       (''parameter'', zval', Some (0, 16)),
       (''pad0'', Arr U8 16, Some (16, 16)),
       (''paramno'', U64, Some (32, 8)),
       (''name'', Ptr, Some (40, 8)),
       (''pad1'', Arr U8 24, Some (48, 24)),
       (''param_type'', U32, Some (72, 4))];
     pdo_stmt_t' = Struct_t [
       (''pad0'', Arr U8 56, Some (0, 56)),
       (''bound_params'', Ptr, Some (56, 8)),
       (''pad1'', Arr U8 248, Some (64, 248)),
       (''std'', zend_object', Some (312, 56))]
   in \<lparr>
     ps_zend_array = zend_array',
     ps_zend_executor_globals = zend_executor_globals',
     ps_zval = zval',
     ps_zend_execute_data = zend_execute_data',
     ps_zend_op_array = zend_op_array',
     ps_zend_function = zend_function',
     ps_zend_class_entry = zend_class_entry',
     ps_zend_string = zend_string',
     ps_zend_op = zend_op',
     ps_sapi_request_info = sapi_request_info',
     ps_sapi_globals_struct = sapi_globals_struct',
     ps_Bucket = Bucket',
     ps_zend_alloc_globals = zend_alloc_globals',
     ps_zend_mm_heap = zend_mm_heap',
     ps_zend_object = zend_object',
     ps_pdo_bound_param_data = pdo_bound_param_data',
     ps_pdo_stmt_t = pdo_stmt_t' \<rparr>)"

definition php_structs_82_aarch64 :: php_structs where
  "php_structs_82_aarch64 = (let
     zend_array' = Struct_t [
       (''pad0'', Arr U8 8, Some (0, 8)),
       (''flags'', U8, Some (8, 1)),
       (''pad1'', Arr U8 3, Some (9, 3)),
       (''nTableMask'', U32, Some (12, 4)),
       (''arData'', Ptr, Some (16, 8)),
       (''nNumUsed'', U32, Some (24, 4)),
       (''nNumOfElements'', U32, Some (28, 4)),
       (''nTableSize'', U32, Some (32, 4))];
     zend_executor_globals' = Struct_t [
       (''pad0'', Arr U8 304, Some (0, 304)),
       (''symbol_table'', zend_array', Some (304, 36)),
       (''pad1'', Arr U8 148, Some (340, 148)),
       (''current_execute_data'', Ptr, Some (488, 8))];
     zend_value' = Union_t [
       (''lval'', U64, Some (0, 8)),
       (''dval'', U64, Some (0, 8)),
       (''str'', Ptr, Some (0, 8)),
       (''arr'', Ptr, Some (0, 8))];
     zval' = Struct_t [
       (''value'', zend_value', Some (0, 8)),
       (''u1'', Union_t [(''v'', Struct_t [(''type'', U8, Some (8, 1)), (''pad0'', Arr U8 3, Some (9, 3))], None)], None),
       (''u2'', Union_t [(''next'', U32, Some (12, 4))], None)];
     zend_execute_data' = Struct_t [
       (''opline'', Ptr, Some (0, 8)),
       (''pad0'', Arr U8 16, Some (8, 16)),
       (''func'', Ptr, Some (24, 8)),
       (''This'', zval', Some (32, 16)),
       (''prev_execute_data'', Ptr, Some (48, 8)),
       (''symbol_table'', Ptr, Some (56, 8))];
     zend_op_array' = Struct_t [
       (''pad0'', Arr U8 76, Some (0, 76)),
       (''last_var'', U32, Some (76, 4)),
       (''pad1'', Arr U8 32, Some (80, 32)),
       (''vars'', Ptr, Some (112, 8)),
       (''pad2'', Arr U8 32, Some (120, 32)),
       (''filename'', Ptr, Some (152, 8)),
       (''line_start'', U32, Some (160, 4))];
     zend_function' = Union_t [
       (''type'', U8, Some (0, 1)),
       (''common'', Struct_t [(''pad0'', Arr U8 8, Some (0, 8)), (''function_name'', Ptr, Some (8, 8)), (''scope'', Ptr, Some (16, 8))], None),
       (''op_array'', zend_op_array', Some (0, 248))];
     zend_class_entry' = Struct_t [
       (''pad0'', Arr U8 8, Some (0, 8)),
       (''name'', Ptr, Some (8, 8))];
     zend_string' = Struct_t [
       (''pad0'', Arr U8 16, Some (0, 16)),
       (''len'', U64, Some (16, 8)),
       (''val'', Arr U8 1, Some (24, 1))];
     zend_op' = Struct_t [
       (''pad0'', Arr U8 24, Some (0, 24)),
       (''lineno'', U32, Some (24, 4))];
     sapi_request_info' = Struct_t [
       (''pad0'', Arr U8 8, Some (0, 8)),
       (''query_string'', Ptr, Some (8, 8)),
       (''cookie_data'', Ptr, Some (16, 8)),
       (''pad1'', Arr U8 8, Some (24, 8)),
       (''path_translated'', Ptr, Some (32, 8)),
       (''request_uri'', Ptr, Some (40, 8))];
     sapi_globals_struct' = Struct_t [
       (''pad0'', Arr U8 8, Some (0, 8)),
       (''request_info'', sapi_request_info', Some (8, 48)),
       (''pad1'', Arr U8 368, Some (56, 368)),
       (''global_request_time'', U64, Some (424, 8))];
     Bucket' = Struct_t [
       (''val'', zval', Some (0, 16)),
       (''h'', U64, Some (16, 8)),
       (''key'', Ptr, Some (24, 8))];
     zend_alloc_globals' = Struct_t [
       (''mm_heap'', Ptr, Some (0, 8))];
     zend_mm_heap' = Struct_t [
       (''pad0'', Arr U8 16, Some (0, 16)),
       (''size'', U64, Some (16, 8)),
       (''peak'', U64, Some (24, 8))];
     zend_object' = Struct_t [
       (''pad0'', Arr U8 16, Some (0, 16)),
       (''ce'', Ptr, Some (16, 8)),
       (''pad1'', Arr U8 16, Some (24, 16)),
       (''properties_table'', Arr zval' 1, Some (40, 16))];
     pdo_bound_param_data' = Struct_t [
       (''parameter'', zval', Some (0, 16)),
       (''pad0'', Arr U8 16, Some (16, 16)),
       (''paramno'', U64, Some (32, 8)),
       (''name'', Ptr, Some (40, 8)),
       (''pad1'', Arr U8 24, Some (48, 24)),
       (''param_type'', U32, Some (72, 4))];
     pdo_stmt_t' = Struct_t [
       (''pad0'', Arr U8 56, Some (0, 56)),
       (''bound_params'', Ptr, Some (56, 8)),
       (''pad1'', Arr U8 248, Some (64, 248)),
       (''std'', zend_object', Some (312, 56))]
   in \<lparr>
     ps_zend_array = zend_array',
     ps_zend_executor_globals = zend_executor_globals',
     ps_zval = zval',
     ps_zend_execute_data = zend_execute_data',
     ps_zend_op_array = zend_op_array',
     ps_zend_function = zend_function',
     ps_zend_class_entry = zend_class_entry',
     ps_zend_string = zend_string',
     ps_zend_op = zend_op',
     ps_sapi_request_info = sapi_request_info',
     ps_sapi_globals_struct = sapi_globals_struct',
     ps_Bucket = Bucket',
     ps_zend_alloc_globals = zend_alloc_globals',
     ps_zend_mm_heap = zend_mm_heap',
     ps_zend_object = zend_object',
     ps_pdo_bound_param_data = pdo_bound_param_data',
     ps_pdo_stmt_t = pdo_stmt_t' \<rparr>)"

definition php_structs_83_aarch64 :: php_structs where
  "php_structs_83_aarch64 = (let
     zend_array' = Struct_t [
       (''pad0'', Arr U8 8, Some (0, 8)),
       (''flags'', U8, Some (8, 1)),
       (''pad1'', Arr U8 3, Some (9, 3)),
       (''nTableMask'', U32, Some (12, 4)),
       (''arData'', Ptr, Some (16, 8)),
       (''nNumUsed'', U32, Some (24, 4)),
       (''nNumOfElements'', U32, Some (28, 4)),
       (''nTableSize'', U32, Some (32, 4))];
     zend_executor_globals' = Struct_t [
       (''pad0'', Arr U8 304, Some (0, 304)),
       (''symbol_table'', zend_array', Some (304, 36)),
       (''pad1'', Arr U8 148, Some (340, 148)),
       (''current_execute_data'', Ptr, Some (488, 8))];
     zend_value' = Union_t [
       (''lval'', U64, Some (0, 8)),
       (''dval'', U64, Some (0, 8)),
       (''str'', Ptr, Some (0, 8)),
       (''arr'', Ptr, Some (0, 8))];
     zval' = Struct_t [
       (''value'', zend_value', Some (0, 8)),
       (''u1'', Union_t [(''v'', Struct_t [(''type'', U8, Some (8, 1)), (''pad0'', Arr U8 3, Some (9, 3))], None)], None),
       (''u2'', Union_t [(''next'', U32, Some (12, 4))], None)];
     zend_execute_data' = Struct_t [
       (''opline'', Ptr, Some (0, 8)),
       (''pad0'', Arr U8 16, Some (8, 16)),
       (''func'', Ptr, Some (24, 8)),
       (''This'', zval', Some (32, 16)),
       (''prev_execute_data'', Ptr, Some (48, 8)),
       (''symbol_table'', Ptr, Some (56, 8))];
     zend_op_array' = Struct_t [
       (''pad0'', Arr U8 72, Some (0, 72)),
       (''last_var'', U32, Some (72, 4)),
       (''pad1'', Arr U8 28, Some (76, 28)),
       (''vars'', Ptr, Some (104, 8)),
       (''pad2'', Arr U8 32, Some (112, 32)),
       (''filename'', Ptr, Some (144, 8)),
       (''line_start'', U32, Some (152, 4))];
     zend_function' = Union_t [
       (''type'', U8, Some (0, 1)),
       (''common'', Struct_t [(''pad0'', Arr U8 8, Some (0, 8)), (''function_name'', Ptr, Some (8, 8)), (''scope'', Ptr, Some (16, 8))], None),
       (''op_array'', zend_op_array', Some (0, 240))];
     zend_class_entry' = Struct_t [
       (''pad0'', Arr U8 8, Some (0, 8)),
       (''name'', Ptr, Some (8, 8))];
     zend_string' = Struct_t [
       (''pad0'', Arr U8 16, Some (0, 16)),
       (''len'', U64, Some (16, 8)),
       (''val'', Arr U8 1, Some (24, 1))];
     zend_op' = Struct_t [
       (''pad0'', Arr U8 24, Some (0, 24)),
       (''lineno'', U32, Some (24, 4))];
     sapi_request_info' = Struct_t [
       (''pad0'', Arr U8 8, Some (0, 8)),
       (''query_string'', Ptr, Some (8, 8)),
       (''cookie_data'', Ptr, Some (16, 8)),
       (''pad1'', Arr U8 8, Some (24, 8)),
       (''path_translated'', Ptr, Some (32, 8)),
       (''request_uri'', Ptr, Some (40, 8))];
     sapi_globals_struct' = Struct_t [
       (''pad0'', Arr U8 8, Some (0, 8)),
       (''request_info'', sapi_request_info', Some (8, 48)),
       (''pad1'', Arr U8 368, Some (56, 368)),
       (''global_request_time'', U64, Some (424, 8))];
     Bucket' = Struct_t [
       (''val'', zval', Some (0, 16)),
       (''h'', U64, Some (16, 8)),
       (''key'', Ptr, Some (24, 8))];
     zend_alloc_globals' = Struct_t [
       (''mm_heap'', Ptr, Some (0, 8))];
     zend_mm_heap' = Struct_t [
       (''pad0'', Arr U8 16, Some (0, 16)),
       (''size'', U64, Some (16, 8)),
       (''peak'', U64, Some (24, 8))];
     zend_object' = Struct_t [
       (''pad0'', Arr U8 16, Some (0, 16)),
       (''ce'', Ptr, Some (16, 8)),
       (''pad1'', Arr U8 16, Some (24, 16)),
       (''properties_table'', Arr zval' 1, Some (40, 16))];
     pdo_bound_param_data' = Struct_t [
       (''parameter'', zval', Some (0, 16)),
       (''pad0'', Arr U8 16, Some (16, 16)),
       (''paramno'', U64, Some (32, 8)),
       (''name'', Ptr, Some (40, 8)),
       (''pad1'', Arr U8 24, Some (48, 24)),
       (''param_type'', U32, Some (72, 4))];
     pdo_stmt_t' = Struct_t [
       (''pad0'', Arr U8 56, Some (0, 56)),
       (''bound_params'', Ptr, Some (56, 8)),
       (''pad1'', Arr U8 248, Some (64, 248)),
       (''std'', zend_object', Some (312, 56))]
   in \<lparr>
     ps_zend_array = zend_array',
     ps_zend_executor_globals = zend_executor_globals',
     ps_zval = zval',
     ps_zend_execute_data = zend_execute_data',
     ps_zend_op_array = zend_op_array',
     ps_zend_function = zend_function',
     ps_zend_class_entry = zend_class_entry',
     ps_zend_string = zend_string',
     ps_zend_op = zend_op',
     ps_sapi_request_info = sapi_request_info',
     ps_sapi_globals_struct = sapi_globals_struct',
     ps_Bucket = Bucket',
     ps_zend_alloc_globals = zend_alloc_globals',
     ps_zend_mm_heap = zend_mm_heap',
     ps_zend_object = zend_object',
     ps_pdo_bound_param_data = pdo_bound_param_data',
     ps_pdo_stmt_t = pdo_stmt_t' \<rparr>)"

definition php_structs_84_aarch64 :: php_structs where
  "php_structs_84_aarch64 = (let
     zend_array' = Struct_t [
       (''pad0'', Arr U8 8, Some (0, 8)),
       (''flags'', U8, Some (8, 1)),
       (''pad1'', Arr U8 3, Some (9, 3)),
       (''nTableMask'', U32, Some (12, 4)),
       (''arData'', Ptr, Some (16, 8)),
       (''nNumUsed'', U32, Some (24, 4)),
       (''nNumOfElements'', U32, Some (28, 4)),
       (''nTableSize'', U32, Some (32, 4))];
     zend_executor_globals' = Struct_t [
       (''pad0'', Arr U8 304, Some (0, 304)),
       (''symbol_table'', zend_array', Some (304, 36)),
       (''pad1'', Arr U8 148, Some (340, 148)),
       (''current_execute_data'', Ptr, Some (488, 8))];
     zend_value' = Union_t [
       (''lval'', U64, Some (0, 8)),
       (''dval'', U64, Some (0, 8)),
       (''str'', Ptr, Some (0, 8)),
       (''arr'', Ptr, Some (0, 8))];
     zval' = Struct_t [
       (''value'', zend_value', Some (0, 8)),
       (''u1'', Union_t [(''v'', Struct_t [(''type'', U8, Some (8, 1)), (''pad0'', Arr U8 3, Some (9, 3))], None)], None),
       (''u2'', Union_t [(''next'', U32, Some (12, 4))], None)];
     zend_execute_data' = Struct_t [
       (''opline'', Ptr, Some (0, 8)),
       (''pad0'', Arr U8 16, Some (8, 16)),
       (''func'', Ptr, Some (24, 8)),
       (''This'', zval', Some (32, 16)),
       (''prev_execute_data'', Ptr, Some (48, 8)),
       (''symbol_table'', Ptr, Some (56, 8))];
     zend_op_array' = Struct_t [
       (''pad0'', Arr U8 92, Some (0, 92)),
       (''last_var'', U32, Some (92, 4)),
       (''pad1'', Arr U8 32, Some (96, 32)),
       (''vars'', Ptr, Some (128, 8)),
       (''pad2'', Arr U8 32, Some (136, 32)),
       (''filename'', Ptr, Some (168, 8)),
       (''line_start'', U32, Some (176, 4))];
     zend_function' = Union_t [
       (''type'', U8, Some (0, 1)),
       (''common'', Struct_t [(''pad0'', Arr U8 8, Some (0, 8)), (''function_name'', Ptr, Some (8, 8)), (''scope'', Ptr, Some (16, 8))], None),
       (''op_array'', zend_op_array', Some (0, 256))];
     zend_class_entry' = Struct_t [
       (''pad0'', Arr U8 8, Some (0, 8)),
       (''name'', Ptr, Some (8, 8))];
     zend_string' = Struct_t [
       (''pad0'', Arr U8 16, Some (0, 16)),
       (''len'', U64, Some (16, 8)),
       (''val'', Arr U8 1, Some (24, 1))];
     zend_op' = Struct_t [
       (''pad0'', Arr U8 24, Some (0, 24)),
       (''lineno'', U32, Some (24, 4))];
     sapi_request_info' = Struct_t [
       (''pad0'', Arr U8 8, Some (0, 8)),
       (''query_string'', Ptr, Some (8, 8)),
       (''cookie_data'', Ptr, Some (16, 8)),
       (''pad1'', Arr U8 8, Some (24, 8)),
       (''path_translated'', Ptr, Some (32, 8)),
       (''request_uri'', Ptr, Some (40, 8))];
     sapi_globals_struct' = Struct_t [
       (''pad0'', Arr U8 8, Some (0, 8)),
       (''request_info'', sapi_request_info', Some (8, 48)),
       (''pad1'', Arr U8 368, Some (56, 368)),
       (''global_request_time'', U64, Some (424, 8))];
     Bucket' = Struct_t [
       (''val'', zval', Some (0, 16)),
       (''h'', U64, Some (16, 8)),
       (''key'', Ptr, Some (24, 8))];
     zend_alloc_globals' = Struct_t [
       (''mm_heap'', Ptr, Some (0, 8))];
     zend_mm_heap' = Struct_t [
       (''pad0'', Arr U8 16, Some (0, 16)),
       (''size'', U64, Some (16, 8)),
       (''peak'', U64, Some (24, 8))];
     zend_object' = Struct_t [
       (''pad0'', Arr U8 16, Some (0, 16)),
       (''ce'', Ptr, Some (16, 8)),
       (''pad1'', Arr U8 16, Some (24, 16)),
       (''properties_table'', Arr zval' 1, Some (40, 16))];
     pdo_bound_param_data' = Struct_t [
       (''parameter'', zval', Some (0, 16)),
       (''pad0'', Arr U8 16, Some (16, 16)),
       (''paramno'', U64, Some (32, 8)),
       (''name'', Ptr, Some (40, 8)),
       (''pad1'', Arr U8 24, Some (48, 24)),
       (''param_type'', U32, Some (72, 4))];
     pdo_stmt_t' = Struct_t [
       (''pad0'', Arr U8 56, Some (0, 56)),
       (''bound_params'', Ptr, Some (56, 8)),
       (''pad1'', Arr U8 248, Some (64, 248)),
       (''std'', zend_object', Some (312, 56))]
   in \<lparr>
     ps_zend_array = zend_array',
     ps_zend_executor_globals = zend_executor_globals',
     ps_zval = zval',
     ps_zend_execute_data = zend_execute_data',
     ps_zend_op_array = zend_op_array',
     ps_zend_function = zend_function',
     ps_zend_class_entry = zend_class_entry',
     ps_zend_string = zend_string',
     ps_zend_op = zend_op',
     ps_sapi_request_info = sapi_request_info',
     ps_sapi_globals_struct = sapi_globals_struct',
     ps_Bucket = Bucket',
     ps_zend_alloc_globals = zend_alloc_globals',
     ps_zend_mm_heap = zend_mm_heap',
     ps_zend_object = zend_object',
     ps_pdo_bound_param_data = pdo_bound_param_data',
     ps_pdo_stmt_t = pdo_stmt_t' \<rparr>)"

definition php_structs_85_aarch64 :: php_structs where
  "php_structs_85_aarch64 = (let
     zend_array' = Struct_t [
       (''pad0'', Arr U8 8, Some (0, 8)),
       (''flags'', U8, Some (8, 1)),
       (''pad1'', Arr U8 3, Some (9, 3)),
       (''nTableMask'', U32, Some (12, 4)),
       (''arData'', Ptr, Some (16, 8)),
       (''nNumUsed'', U32, Some (24, 4)),
       (''nNumOfElements'', U32, Some (28, 4)),
       (''nTableSize'', U32, Some (32, 4))];
     zend_executor_globals' = Struct_t [
       (''pad0'', Arr U8 304, Some (0, 304)),
       (''symbol_table'', zend_array', Some (304, 36)),
       (''pad1'', Arr U8 172, Some (340, 172)),
       (''current_execute_data'', Ptr, Some (512, 8))];
     zend_value' = Union_t [
       (''lval'', U64, Some (0, 8)),
       (''dval'', U64, Some (0, 8)),
       (''str'', Ptr, Some (0, 8)),
       (''arr'', Ptr, Some (0, 8))];
     zval' = Struct_t [
       (''value'', zend_value', Some (0, 8)),
       (''u1'', Union_t [(''v'', Struct_t [(''type'', U8, Some (8, 1)), (''pad0'', Arr U8 3, Some (9, 3))], None)], None),
       (''u2'', Union_t [(''next'', U32, Some (12, 4))], None)];
     zend_execute_data' = Struct_t [
       (''opline'', Ptr, Some (0, 8)),
       (''pad0'', Arr U8 16, Some (8, 16)),
       (''func'', Ptr, Some (24, 8)),
       (''This'', zval', Some (32, 16)),
       (''prev_execute_data'', Ptr, Some (48, 8)),
       (''symbol_table'', Ptr, Some (56, 8))];
     zend_op_array' = Struct_t [
       (''pad0'', Arr U8 92, Some (0, 92)),
       (''last_var'', U32, Some (92, 4)),
       (''pad1'', Arr U8 32, Some (96, 32)),
       (''vars'', Ptr, Some (128, 8)),
       (''pad2'', Arr U8 32, Some (136, 32)),
       (''filename'', Ptr, Some (168, 8)),
       (''line_start'', U32, Some (176, 4))];
     zend_function' = Union_t [
       (''type'', U8, Some (0, 1)),
       (''common'', Struct_t [(''pad0'', Arr U8 8, Some (0, 8)), (''function_name'', Ptr, Some (8, 8)), (''scope'', Ptr, Some (16, 8))], None),
       (''op_array'', zend_op_array', Some (0, 240))];
     zend_class_entry' = Struct_t [
       (''pad0'', Arr U8 8, Some (0, 8)),
       (''name'', Ptr, Some (8, 8))];
     zend_string' = Struct_t [
       (''pad0'', Arr U8 16, Some (0, 16)),
       (''len'', U64, Some (16, 8)),
       (''val'', Arr U8 1, Some (24, 1))];
     zend_op' = Struct_t [
       (''pad0'', Arr U8 24, Some (0, 24)),
       (''lineno'', U32, Some (24, 4))];
     sapi_request_info' = Struct_t [
       (''pad0'', Arr U8 8, Some (0, 8)),
       (''query_string'', Ptr, Some (8, 8)),
       (''cookie_data'', Ptr, Some (16, 8)),
       (''pad1'', Arr U8 8, Some (24, 8)),
       (''path_translated'', Ptr, Some (32, 8)),
       (''request_uri'', Ptr, Some (40, 8))];
     sapi_globals_struct' = Struct_t [
       (''pad0'', Arr U8 8, Some (0, 8)),
       (''request_info'', sapi_request_info', Some (8, 48)),
       (''pad1'', Arr U8 368, Some (56, 368)),
       (''global_request_time'', U64, Some (424, 8))];
     Bucket' = Struct_t [
       (''val'', zval', Some (0, 16)),
       (''h'', U64, Some (16, 8)),
       (''key'', Ptr, Some (24, 8))];
     zend_alloc_globals' = Struct_t [
       (''mm_heap'', Ptr, Some (0, 8))];
     zend_mm_heap' = Struct_t [
       (''pad0'', Arr U8 16, Some (0, 16)),
       (''size'', U64, Some (16, 8)),
       (''peak'', U64, Some (24, 8))];
     zend_object' = Struct_t [
       (''pad0'', Arr U8 16, Some (0, 16)),
       (''ce'', Ptr, Some (16, 8)),
       (''pad1'', Arr U8 16, Some (24, 16)),
       (''properties_table'', Arr zval' 1, Some (40, 16))];
     pdo_bound_param_data' = Struct_t [
       (''parameter'', zval', Some (0, 16)),
       (''pad0'', Arr U8 16, Some (16, 16)),
       (''paramno'', U64, Some (32, 8)),
       (''name'', Ptr, Some (40, 8)),
       (''pad1'', Arr U8 24, Some (48, 24)),
       (''param_type'', U32, Some (72, 4))];
     pdo_stmt_t' = Struct_t [
       (''pad0'', Arr U8 24, Some (0, 24)),
       (''bound_params'', Ptr, Some (24, 8)),
       (''pad1'', Arr U8 128, Some (32, 128)),
       (''std'', zend_object', Some (160, 56))]
   in \<lparr>
     ps_zend_array = zend_array',
     ps_zend_executor_globals = zend_executor_globals',
     ps_zval = zval',
     ps_zend_execute_data = zend_execute_data',
     ps_zend_op_array = zend_op_array',
     ps_zend_function = zend_function',
     ps_zend_class_entry = zend_class_entry',
     ps_zend_string = zend_string',
     ps_zend_op = zend_op',
     ps_sapi_request_info = sapi_request_info',
     ps_sapi_globals_struct = sapi_globals_struct',
     ps_Bucket = Bucket',
     ps_zend_alloc_globals = zend_alloc_globals',
     ps_zend_mm_heap = zend_mm_heap',
     ps_zend_object = zend_object',
     ps_pdo_bound_param_data = pdo_bound_param_data',
     ps_pdo_stmt_t = pdo_stmt_t' \<rparr>)"

definition php_structs_86_aarch64 :: php_structs where
  "php_structs_86_aarch64 = (let
     zend_array' = Struct_t [
       (''pad0'', Arr U8 8, Some (0, 8)),
       (''flags'', U8, Some (8, 1)),
       (''pad1'', Arr U8 3, Some (9, 3)),
       (''nTableMask'', U32, Some (12, 4)),
       (''arData'', Ptr, Some (16, 8)),
       (''nNumUsed'', U32, Some (24, 4)),
       (''nNumOfElements'', U32, Some (28, 4)),
       (''nTableSize'', U32, Some (32, 4))];
     zend_executor_globals' = Struct_t [
       (''pad0'', Arr U8 304, Some (0, 304)),
       (''symbol_table'', zend_array', Some (304, 36)),
       (''pad1'', Arr U8 172, Some (340, 172)),
       (''current_execute_data'', Ptr, Some (512, 8))];
     zend_value' = Union_t [
       (''lval'', U64, Some (0, 8)),
       (''dval'', U64, Some (0, 8)),
       (''str'', Ptr, Some (0, 8)),
       (''arr'', Ptr, Some (0, 8))];
     zval' = Struct_t [
       (''value'', zend_value', Some (0, 8)),
       (''u1'', Union_t [(''v'', Struct_t [(''type'', U8, Some (8, 1)), (''pad0'', Arr U8 3, Some (9, 3))], None)], None),
       (''u2'', Union_t [(''next'', U32, Some (12, 4))], None)];
     zend_execute_data' = Struct_t [
       (''opline'', Ptr, Some (0, 8)),
       (''pad0'', Arr U8 16, Some (8, 16)),
       (''func'', Ptr, Some (24, 8)),
       (''This'', zval', Some (32, 16)),
       (''prev_execute_data'', Ptr, Some (48, 8)),
       (''symbol_table'', Ptr, Some (56, 8))];
     zend_op_array' = Struct_t [
       (''pad0'', Arr U8 92, Some (0, 92)),
       (''last_var'', U32, Some (92, 4)),
       (''pad1'', Arr U8 32, Some (96, 32)),
       (''vars'', Ptr, Some (128, 8)),
       (''pad2'', Arr U8 32, Some (136, 32)),
       (''filename'', Ptr, Some (168, 8)),
       (''line_start'', U32, Some (176, 4))];
     zend_function' = Union_t [
       (''type'', U8, Some (0, 1)),
       (''common'', Struct_t [(''pad0'', Arr U8 8, Some (0, 8)), (''function_name'', Ptr, Some (8, 8)), (''scope'', Ptr, Some (16, 8))], None),
       (''op_array'', zend_op_array', Some (0, 240))];
     zend_class_entry' = Struct_t [
       (''pad0'', Arr U8 8, Some (0, 8)),
       (''name'', Ptr, Some (8, 8))];
     zend_string' = Struct_t [
       (''pad0'', Arr U8 16, Some (0, 16)),
       (''len'', U64, Some (16, 8)),
       (''val'', Arr U8 1, Some (24, 1))];
     zend_op' = Struct_t [
       (''pad0'', Arr U8 24, Some (0, 24)),
       (''lineno'', U32, Some (24, 4))];
     sapi_request_info' = Struct_t [
       (''pad0'', Arr U8 8, Some (0, 8)),
       (''query_string'', Ptr, Some (8, 8)),
       (''cookie_data'', Ptr, Some (16, 8)),
       (''pad1'', Arr U8 8, Some (24, 8)),
       (''path_translated'', Ptr, Some (32, 8)),
       (''request_uri'', Ptr, Some (40, 8))];
     sapi_globals_struct' = Struct_t [
       (''pad0'', Arr U8 8, Some (0, 8)),
       (''request_info'', sapi_request_info', Some (8, 48)),
       (''pad1'', Arr U8 360, Some (56, 360)),
       (''global_request_time'', U64, Some (416, 8))];
     Bucket' = Struct_t [
       (''val'', zval', Some (0, 16)),
       (''h'', U64, Some (16, 8)),
       (''key'', Ptr, Some (24, 8))];
     zend_alloc_globals' = Struct_t [
       (''mm_heap'', Ptr, Some (0, 8))];
     zend_mm_heap' = Struct_t [
       (''pad0'', Arr U8 16, Some (0, 16)),
       (''size'', U64, Some (16, 8)),
       (''peak'', U64, Some (24, 8))];
     zend_object' = Struct_t [
       (''pad0'', Arr U8 16, Some (0, 16)),
       (''ce'', Ptr, Some (16, 8)),
       (''pad1'', Arr U8 16, Some (24, 16)),
       (''properties_table'', Arr zval' 1, Some (40, 16))];
     pdo_bound_param_data' = Struct_t [
       (''parameter'', zval', Some (0, 16)),
       (''pad0'', Arr U8 16, Some (16, 16)),
       (''paramno'', U64, Some (32, 8)),
       (''name'', Ptr, Some (40, 8)),
       (''pad1'', Arr U8 24, Some (48, 24)),
       (''param_type'', U32, Some (72, 4))];
     pdo_stmt_t' = Struct_t [
       (''pad0'', Arr U8 24, Some (0, 24)),
       (''bound_params'', Ptr, Some (24, 8)),
       (''pad1'', Arr U8 128, Some (32, 128)),
       (''std'', zend_object', Some (160, 56))]
   in \<lparr>
     ps_zend_array = zend_array',
     ps_zend_executor_globals = zend_executor_globals',
     ps_zval = zval',
     ps_zend_execute_data = zend_execute_data',
     ps_zend_op_array = zend_op_array',
     ps_zend_function = zend_function',
     ps_zend_class_entry = zend_class_entry',
     ps_zend_string = zend_string',
     ps_zend_op = zend_op',
     ps_sapi_request_info = sapi_request_info',
     ps_sapi_globals_struct = sapi_globals_struct',
     ps_Bucket = Bucket',
     ps_zend_alloc_globals = zend_alloc_globals',
     ps_zend_mm_heap = zend_mm_heap',
     ps_zend_object = zend_object',
     ps_pdo_bound_param_data = pdo_bound_param_data',
     ps_pdo_stmt_t = pdo_stmt_t' \<rparr>)"

lemmas php_structs_aarch64_defs =
  php_structs_70_aarch64_def
  php_structs_71_aarch64_def
  php_structs_72_aarch64_def
  php_structs_73_aarch64_def
  php_structs_74_aarch64_def
  php_structs_80_aarch64_def
  php_structs_81_aarch64_def
  php_structs_82_aarch64_def
  php_structs_83_aarch64_def
  php_structs_84_aarch64_def
  php_structs_85_aarch64_def
  php_structs_86_aarch64_def

text \<open>The version suffixes that \<^verbatim>\<open>main_pid\<close> accepts, with the header each selects.\<close>

definition aarch64_headers :: "(nat \<times> php_structs) list" where
  "aarch64_headers =
     [(70, php_structs_70_aarch64),
      (71, php_structs_71_aarch64),
      (72, php_structs_72_aarch64),
      (73, php_structs_73_aarch64),
      (74, php_structs_74_aarch64),
      (80, php_structs_80_aarch64),
      (81, php_structs_81_aarch64),
      (82, php_structs_82_aarch64),
      (83, php_structs_83_aarch64),
      (84, php_structs_84_aarch64),
      (85, php_structs_85_aarch64),
      (86, php_structs_86_aarch64)]"

lemmas struct_eval_aarch64 = layout_ok_def layout_of_def offs_def step_into_def member_union_def
  phpspy_frame_slot_def header_doc_errors_def all_structs_def Let_def

lemma layout_ok_70_aarch64: "layout_ok (layout_of False 70 php_structs_70_aarch64)"
  by (simp add: struct_eval_aarch64 php_structs_70_aarch64_def)

lemma layout_ok_71_aarch64: "layout_ok (layout_of False 71 php_structs_71_aarch64)"
  by (simp add: struct_eval_aarch64 php_structs_71_aarch64_def)

lemma layout_ok_72_aarch64: "layout_ok (layout_of False 72 php_structs_72_aarch64)"
  by (simp add: struct_eval_aarch64 php_structs_72_aarch64_def)

lemma layout_ok_73_aarch64: "layout_ok (layout_of False 73 php_structs_73_aarch64)"
  by (simp add: struct_eval_aarch64 php_structs_73_aarch64_def)

lemma layout_ok_74_aarch64: "layout_ok (layout_of False 74 php_structs_74_aarch64)"
  by (simp add: struct_eval_aarch64 php_structs_74_aarch64_def)

lemma layout_ok_80_aarch64: "layout_ok (layout_of False 80 php_structs_80_aarch64)"
  by (simp add: struct_eval_aarch64 php_structs_80_aarch64_def)

lemma layout_ok_81_aarch64: "layout_ok (layout_of False 81 php_structs_81_aarch64)"
  by (simp add: struct_eval_aarch64 php_structs_81_aarch64_def)

lemma layout_ok_82_aarch64: "layout_ok (layout_of False 82 php_structs_82_aarch64)"
  by (simp add: struct_eval_aarch64 php_structs_82_aarch64_def)

lemma layout_ok_83_aarch64: "layout_ok (layout_of False 83 php_structs_83_aarch64)"
  by (simp add: struct_eval_aarch64 php_structs_83_aarch64_def)

lemma layout_ok_84_aarch64: "layout_ok (layout_of False 84 php_structs_84_aarch64)"
  by (simp add: struct_eval_aarch64 php_structs_84_aarch64_def)

lemma layout_ok_85_aarch64: "layout_ok (layout_of False 85 php_structs_85_aarch64)"
  by (simp add: struct_eval_aarch64 php_structs_85_aarch64_def)

lemma layout_ok_86_aarch64: "layout_ok (layout_of False 86 php_structs_86_aarch64)"
  by (simp add: struct_eval_aarch64 php_structs_86_aarch64_def)

lemma doc_errors_70_aarch64:
  "header_doc_errors php_structs_70_aarch64 = [(''op_array'', (0, 208), (0, 132))]"
  by (simp add: struct_eval_aarch64 php_structs_70_aarch64_def)

lemma doc_errors_71_aarch64:
  "header_doc_errors php_structs_71_aarch64 = [(''op_array'', (0, 208), (0, 132))]"
  by (simp add: struct_eval_aarch64 php_structs_71_aarch64_def)

lemma doc_errors_72_aarch64:
  "header_doc_errors php_structs_72_aarch64 = [(''op_array'', (0, 224), (0, 132))]"
  by (simp add: struct_eval_aarch64 php_structs_72_aarch64_def)

lemma doc_errors_73_aarch64:
  "header_doc_errors php_structs_73_aarch64 = [(''op_array'', (0, 216), (0, 140))]"
  by (simp add: struct_eval_aarch64 php_structs_73_aarch64_def)

lemma doc_errors_74_aarch64:
  "header_doc_errors php_structs_74_aarch64 = [(''op_array'', (0, 224), (0, 148))]"
  by (simp add: struct_eval_aarch64 php_structs_74_aarch64_def)

lemma doc_errors_80_aarch64:
  "header_doc_errors php_structs_80_aarch64 = [(''op_array'', (0, 232), (0, 156))]"
  by (simp add: struct_eval_aarch64 php_structs_80_aarch64_def)

lemma doc_errors_81_aarch64:
  "header_doc_errors php_structs_81_aarch64 = [(''op_array'', (0, 240), (0, 156))]"
  by (simp add: struct_eval_aarch64 php_structs_81_aarch64_def)

lemma doc_errors_82_aarch64:
  "header_doc_errors php_structs_82_aarch64 = [(''op_array'', (0, 248), (0, 164))]"
  by (simp add: struct_eval_aarch64 php_structs_82_aarch64_def)

lemma doc_errors_83_aarch64:
  "header_doc_errors php_structs_83_aarch64 = [(''op_array'', (0, 240), (0, 156))]"
  by (simp add: struct_eval_aarch64 php_structs_83_aarch64_def)

lemma doc_errors_84_aarch64:
  "header_doc_errors php_structs_84_aarch64 = [(''op_array'', (0, 256), (0, 180))]"
  by (simp add: struct_eval_aarch64 php_structs_84_aarch64_def)

lemma doc_errors_85_aarch64:
  "header_doc_errors php_structs_85_aarch64 = [(''op_array'', (0, 240), (0, 180))]"
  by (simp add: struct_eval_aarch64 php_structs_85_aarch64_def)

lemma doc_errors_86_aarch64:
  "header_doc_errors php_structs_86_aarch64 = [(''op_array'', (0, 240), (0, 180))]"
  by (simp add: struct_eval_aarch64 php_structs_86_aarch64_def)

lemmas layouts_ok_aarch64 =
  layout_ok_70_aarch64
  layout_ok_71_aarch64
  layout_ok_72_aarch64
  layout_ok_73_aarch64
  layout_ok_74_aarch64
  layout_ok_80_aarch64
  layout_ok_81_aarch64
  layout_ok_82_aarch64
  layout_ok_83_aarch64
  layout_ok_84_aarch64
  layout_ok_85_aarch64
  layout_ok_86_aarch64

lemmas headers_doc_errors_aarch64 =
  doc_errors_70_aarch64
  doc_errors_71_aarch64
  doc_errors_72_aarch64
  doc_errors_73_aarch64
  doc_errors_74_aarch64
  doc_errors_80_aarch64
  doc_errors_81_aarch64
  doc_errors_82_aarch64
  doc_errors_83_aarch64
  doc_errors_84_aarch64
  doc_errors_85_aarch64
  doc_errors_86_aarch64

end
