(* ===== verification/Main_Pid.thy ===== *)
theory Main_Pid
  imports Event_Fout Addr_Objdump Php_Structs_X86_64 Php_Structs_Aarch64
begin

text \<open>
  The program around the tracer: \<^verbatim>\<open>main\<close>, \<^verbatim>\<open>main_pid\<close>, \<^verbatim>\<open>main_fork\<close>, \<^verbatim>\<open>get_php_version\<close>, and the clock
  functions of \<^verbatim>\<open>phpspy.c\<close>. The system calls are the record \<open>main_env\<close> of functions on the world.
  The loop of \<^verbatim>\<open>main_pid\<close> may run forever, so it is a partial function: \<open>None\<close> is a run without end.
\<close>

subsection \<open>Time\<close>

record timespec =
  tv_sec :: int
  tv_nsec :: int

definition clock_add :: "timespec \<Rightarrow> timespec \<Rightarrow> timespec" where
  "clock_add a b =
     (let sec = tv_sec a + tv_sec b; nsec = tv_nsec a + tv_nsec b
      in if nsec \<ge> 1000000000 then \<lparr> tv_sec = sec + nsec div 1000000000, tv_nsec = nsec mod 1000000000 \<rparr>
         else \<lparr> tv_sec = sec, tv_nsec = nsec \<rparr>)"

definition clock_diff :: "timespec \<Rightarrow> timespec \<Rightarrow> int" where
  "clock_diff a b =
     (if tv_sec a = tv_sec b then
        if tv_nsec a = tv_nsec b then 0
        else if tv_nsec a > tv_nsec b then 1 else -1
      else if tv_sec a > tv_sec b then 1 else -1)"

text \<open>The nanoseconds of a time, computed in \<^verbatim>\<open>unsigned long\<close> and stored in a \<^verbatim>\<open>long\<close>.\<close>

definition time_ns :: "timespec \<Rightarrow> int" where
  "time_ns t = sint (word_of_int (tv_sec t) * 1000000000 + word_of_int (tv_nsec t) :: 64 word)"

definition calc_sleep_time :: "options \<Rightarrow> timespec \<Rightarrow> timespec \<Rightarrow> timespec" where
  "calc_sleep_time opts end_t start_t =
     (let sleep_ns =
            (if tv_sec end_t = tv_sec start_t then opt_sleep_ns opts - (tv_nsec end_t - tv_nsec start_t)
             else opt_sleep_ns opts - (time_ns end_t - time_ns start_t));
          sleep_ns = (if sleep_ns < 0 then 0 else sleep_ns)
      in if sleep_ns < 1000000000 then \<lparr> tv_sec = 0, tv_nsec = sleep_ns \<rparr>
         else let sec = sleep_ns div 1000000000 in \<lparr> tv_sec = sec, tv_nsec = sleep_ns - sec * 1000000000 \<rparr>)"

subsection \<open>State\<close>

text \<open>
  \<open>m_done\<close> reads the global \<^verbatim>\<open>done\<close>, which another thread may set; \<open>m_others\<close> is how many traces the
  other workers of the pool have counted since the last look.
\<close>

record 'w main_env =
  m_clock :: "'w \<Rightarrow> timespec option \<times> 'w"
  m_attach :: "pid \<Rightarrow> 'w \<Rightarrow> errno option \<times> 'w"
  m_waitpid :: "pid \<Rightarrow> 'w \<Rightarrow> bool \<times> 'w"
  m_detach :: "pid \<Rightarrow> 'w \<Rightarrow> errno option \<times> 'w"
  m_nanosleep :: "timespec \<Rightarrow> 'w \<Rightarrow> unit \<times> 'w"
  m_done :: "'w \<Rightarrow> bool \<times> 'w"
  m_others :: "'w \<Rightarrow> 64 word \<times> 'w"

text \<open>The context of one traced process, with the globals \<^verbatim>\<open>opt_phpv\<close> and \<^verbatim>\<open>trace_count\<close>.\<close>

record ('w, 'u) main_state =
  mp_ctx :: "('w, 'u) trace_context"
  mp_phpv :: string
  mp_trace_count :: "64 word"

type_synonym ('w, 'u, 'a) mfun = "(('w, 'u) main_state, 'a) cfun"

definition on_ctx :: "('w, 'u, 'a) tfun \<Rightarrow> ('w, 'u, 'a) mfun" where
  "on_ctx m s = (case m (mp_ctx s) of (r, c) \<Rightarrow> (r, s\<lparr>mp_ctx := c\<rparr>))"

definition msys :: "('w \<Rightarrow> 'a \<times> 'w) \<Rightarrow> ('w, 'u, 'a) mfun" where
  "msys f = on_ctx (tsys f)"

definition clock_get :: "'w main_env \<Rightarrow> ('w, 'u, timespec) mfun" where
  "clock_get env = try_c (msys (m_clock env)) (\<lambda>t. case t of
     Some ts \<Rightarrow> ok ts
   | None \<Rightarrow> ok \<lparr> tv_sec = 0, tv_nsec = 0 \<rparr>)"

definition ptrace_rv :: "errno \<Rightarrow> int" where
  "ptrace_rv e = PHPSPY_ERR + (if e = ESRCH then PHPSPY_ERR_PID_DEAD else 0)"

definition pause_pid :: "'w main_env \<Rightarrow> pid \<Rightarrow> ('w, 'u, unit) mfun" where
  "pause_pid env pid =
     try_c (msys (m_attach env pid)) (\<lambda>e. case e of
       Some errno \<Rightarrow> rv (ptrace_rv errno)
     | None \<Rightarrow>
         try_c (msys (m_waitpid env pid)) (\<lambda>waited.
         if \<not> waited then rv PHPSPY_ERR else ok ()))"

definition unpause_pid :: "'w main_env \<Rightarrow> pid \<Rightarrow> ('w, 'u, unit) mfun" where
  "unpause_pid env pid =
     try_c (msys (m_detach env pid)) (\<lambda>e. case e of
       Some errno \<Rightarrow> rv (ptrace_rv errno)
     | None \<Rightarrow> ok ())"

subsection \<open>The PHP version\<close>

definition php_versions :: "(string \<times> string \<times> nat) list" where
  "php_versions =
     [(''7.0'', ''70'', 70), (''7.1'', ''71'', 71), (''7.2'', ''72'', 72), (''7.3'', ''73'', 73), (''7.4'', ''74'', 74),
      (''8.0'', ''80'', 80), (''8.1'', ''81'', 81), (''8.2'', ''82'', 82), (''8.3'', ''83'', 83), (''8.4'', ''84'', 84),
      (''8.5'', ''85'', 85), (''8.6'', ''86'', 86)]"

text \<open>\<^verbatim>\<open>do_trace_ptr\<close>: the version whose copy of the tracer is used.\<close>

definition trace_version :: "string \<Rightarrow> nat option" where
  "trace_version phpv = map_of (map snd php_versions) phpv"

text \<open>\<^verbatim>\<open>struct _zend_module_entry\<close>: 88 bytes, then the pointer \<^verbatim>\<open>version\<close>.\<close>

definition module_version_ptr :: "string \<Rightarrow> addr" where
  "module_version_ptr module = ptr_at module 88"

definition version_cmd :: "bool \<Rightarrow> string \<Rightarrow> pid \<Rightarrow> string" where
  "version_cmd quiet libname pid =
     ''{ { echo -n /proc/'' @ dec_int pid @ ''/root/; '' @
     ''  awk -ve=1 -vp='' @ libname @ '' '$0~p{print $NF; e=0; exit} END{exit e}' /proc/'' @ dec_int pid @ ''/maps '' @
     ''  || readlink /proc/'' @ dec_int pid @ ''/exe; } '' @
     ''| { xargs stat --printf=%n 2>/dev/null || echo /proc/'' @ dec_int pid @ ''/exe; } '' @
     ''| xargs strings '' @
     ''| grep -Eo 'X-Powered-By: PHP/[0-9]+'' @ [CHR 0x5C] @ ''.[0-9]+' '' @
     ''| grep -Eo '[0-9]+'' @ [CHR 0x5C] @ ''.[0-9]+'; }'' @ (if quiet then '' 2>/dev/null'' else [])"

text \<open>\<^verbatim>\<open>phpv\<close> after the attempt to read it from the process: \<open>None\<close> when its first byte is still NUL. A
  partial read of the version leaves the bytes it got.\<close>

definition read_module_version :: "'w readv \<Rightarrow> pid \<Rightarrow> addr \<Rightarrow> ('w, string) cfun" where
  "read_module_version rd pid module_addr =
     (if module_addr = 0 then ok []
      else with_rv (copy_proc_mem rd pid module_addr 96) (\<lambda>_ v. case v of
        None \<Rightarrow> ok []
      | Some module \<Rightarrow>
          if module_version_ptr module = 0 then ok []
          else (\<lambda>w. case rd pid (module_version_ptr module) 3 w of
            (Inl _, w') \<Rightarrow> (Ok [], w')
          | (Inr bytes, w') \<Rightarrow> (Ok (take 3 bytes), w'))))"

definition is_version :: "string \<Rightarrow> string \<Rightarrow> bool" where
  "is_version phpv v \<longleftrightarrow> take 3 phpv = v"

definition get_php_version ::
  "options \<Rightarrow> 'w readv \<Rightarrow> 'w addr_env \<Rightarrow> pid \<Rightarrow> addr \<Rightarrow> ('w, string) cfun" where
  "get_php_version opts rd env pid module_addr =
     try_c (read_module_version rd pid module_addr) (\<lambda>phpv.
     try_c
       (if phpv = [] \<or> hd phpv = NUL then
          (case shell_escape (opt_libname_awk_patt opts) (replicate PHPSPY_STR_SIZE NUL) of
             Fault f \<Rightarrow> fault f
           | Rv _ \<Rightarrow> rv PHPSPY_ERR
           | Ok libname \<Rightarrow>
               let cmd = version_cmd (opt_quiet opts) (c_str libname 0) pid in
               if length cmd \<ge> 1024 then rv PHPSPY_ERR
               else (\<lambda>w. case a_popen env cmd w of
                 (None, w') \<Rightarrow> (Rv PHPSPY_ERR, w')
               | (Some out, w') \<Rightarrow> if length out < 3 then (Rv PHPSPY_ERR, w') else (Ok (take 3 out), w')))
        else ok phpv) (\<lambda>phpv.
     case find (\<lambda>(v, _). is_version phpv v) php_versions of
       Some (_, name, _) \<Rightarrow> ok name
     | None \<Rightarrow> rv PHPSPY_ERR))"

subsection \<open>The sampling loop\<close>

definition status_of :: "('w, 'u, unit) mfun \<Rightarrow> ('w, 'u, int) mfun" where
  "status_of m = with_rv m (\<lambda>r _. ok r)"

text \<open>One round of the loop: \<open>True\<close> to go on, \<open>False\<close> to leave it.\<close>

definition main_pid_round ::
  "options \<Rightarrow> bool \<Rightarrow> 'w main_env \<Rightarrow> pid \<Rightarrow> ('w, 'u, unit) tfun \<Rightarrow> timespec option \<Rightarrow> ('w, 'u, bool) mfun" where
  "main_pid_round opts in_pgrep_mode env pid do_trace_ptr stop_time =
     try_c (msys (m_done env)) (\<lambda>is_done.
     if is_done then ok False
     else
       try_c (clock_get env) (\<lambda>start_time.
       try_c (if opt_pause opts then status_of (pause_pid env pid) else ok 0) (\<lambda>r1.
       try_c (status_of (on_ctx do_trace_ptr)) (\<lambda>r2.
       try_c (if opt_pause opts then status_of (unpause_pid env pid) else ok 0) (\<lambda>r3.
       let r = r1 OR r2 OR r3 in
       if r AND PHPSPY_ERR_PID_DEAD \<noteq> 0 then ok False
       else
         try_c
           (if opt_trace_limit opts > 0 \<and> (r = PHPSPY_OK \<or> r = PHPSPY_ERR_TRUNCATED) then
              try_c (if in_pgrep_mode then msys (m_others env) else ok 0) (\<lambda>others.
              try_c (modify (mp_trace_count_update (\<lambda>n. n + 1 + others))) (\<lambda>_.
              get_s (\<lambda>s. ok (unat (mp_trace_count s) \<ge> opt_trace_limit opts))))
            else ok False) (\<lambda>limit.
         if limit then ok False
         else if (case stop_time of None \<Rightarrow> False | Some t \<Rightarrow> clock_diff start_time t \<ge> 1) then ok False
         else
           try_c (clock_get env) (\<lambda>end_time.
           try_c (msys (m_nanosleep env (calc_sleep_time opts end_time start_time))) (\<lambda>_.
           ok True))))))))"

partial_function (option) main_pid_loop ::
  "('s, bool) cfun \<Rightarrow> 's \<Rightarrow> (unit result \<times> 's) option" where
  "main_pid_loop round s =
     (case round s of
        (Ok go_on, s') \<Rightarrow> if go_on then main_pid_loop round s' else Some (Ok (), s')
      | (Rv r, s') \<Rightarrow> Some (Rv r, s')
      | (Fault f, s') \<Rightarrow> Some (Fault f, s'))"

subsection \<open>main_pid\<close>

definition zero_context :: "pid \<Rightarrow> 'u \<Rightarrow> 'w \<Rightarrow> ('w, 'u) trace_context" where
  "zero_context pid u w = \<lparr> tc_pid = pid, executor_globals_addr = 0, sapi_globals_addr = 0, alloc_globals_addr = 0,
     basic_functions_module_addr = 0,
     ev_frame = \<lparr> f_func = tmp_buf, f_func_len = 0, f_class = tmp_buf, f_class_len = 0, f_file = tmp_buf, f_file_len = 0,
       f_lineno = 0, f_depth = 0 \<rparr>,
     ev_request = \<lparr> r_uri = tmp_buf, r_path = tmp_buf, r_qstring = tmp_buf, r_cookie = tmp_buf, r_ts = 0 \<rparr>,
     ev_mem = \<lparr> m_size = 0, m_peak = 0 \<rparr>,
     ev_varpeek = \<lparr> vp_entry = [], vp_var = [], vp_str = tmp_buf, vp_str_len = 0 \<rparr>,
     ev_glopeek = \<lparr> gp_entry = \<lparr> ge_key = [], ge_gloname = [], ge_varname = [] \<rparr>, gp_str = tmp_buf, gp_str_len = 0 \<rparr>,
     event_udata = u, tc_buf = tmp_buf, tc_buf_len = 0, stack_ptrs = [], world = w \<rparr>"

definition set_target :: "trace_target \<Rightarrow> ('w, 'u) trace_context \<Rightarrow> ('w, 'u) trace_context" where
  "set_target t s = s\<lparr>executor_globals_addr := tt_executor_globals t, sapi_globals_addr := tt_sapi_globals t,
     alloc_globals_addr := tt_alloc_globals t, basic_functions_module_addr := tt_basic_functions_module t\<rparr>"

definition stop_time :: "options \<Rightarrow> bool \<Rightarrow> 'w main_env \<Rightarrow> ('w, 'u, timespec option) mfun" where
  "stop_time opts in_pgrep_mode env =
     (if in_pgrep_mode then ok None
      else if opt_time_limit_ms opts > 0 then
        try_c (clock_get env) (\<lambda>now.
        ok (Some (clock_add now \<lparr> tv_sec = opt_time_limit_ms opts div 1000,
          tv_nsec = (opt_time_limit_ms opts mod 1000) * 1000000 \<rparr>)))
      else ok None)"

text \<open>The version given or detected, and the tracer for it.\<close>

definition detect_version :: "options \<Rightarrow> 'w addr_env \<Rightarrow> 'w readv \<Rightarrow> pid \<Rightarrow> addr \<Rightarrow> ('w, 'u, unit) mfun" where
  "detect_version opts aenv rd pid module_addr =
     get_s (\<lambda>s.
     if mp_phpv s = ''auto'' then
       try_c (on_ctx (on_world (get_php_version opts rd aenv pid module_addr))) (\<lambda>v.
       modify (mp_phpv_update (\<lambda>_. v)))
     else ok ())"

definition select_version :: "('w, 'u, nat) mfun" where
  "select_version = get_s (\<lambda>s. case trace_version (mp_phpv s) of None \<Rightarrow> rv PHPSPY_ERR | Some v \<Rightarrow> ok v)"

text \<open>\<^verbatim>\<open>main_pid\<close> up to its loop: the tracer to use and when to stop.\<close>

definition main_pid_setup ::
  "options \<Rightarrow> bool \<Rightarrow> 'w main_env \<Rightarrow> 'w addr_env \<Rightarrow> 'w readv \<Rightarrow> (nat \<Rightarrow> layout) \<Rightarrow> nat \<Rightarrow> ('w, 'u) handler \<Rightarrow> pid \<Rightarrow>
     ('w, 'u, ('w, 'u, unit) tfun \<times> timespec option) mfun" where
  "main_pid_setup opts in_pgrep_mode env aenv rd layouts fuel h pid =
     try_c (on_ctx (on_world (find_addresses opts aenv pid))) (\<lambda>target.
     try_c (modify (mp_ctx_update (set_target target))) (\<lambda>_.
     try_c (on_ctx (h INIT)) (\<lambda>_.
     try_c (detect_version opts aenv rd pid (tt_basic_functions_module target)) (\<lambda>_.
     try_c select_version (\<lambda>v.
     try_c (stop_time opts in_pgrep_mode env) (\<lambda>stop.
     ok (do_trace opts (layouts v) (copy_proc_mem rd pid) fuel h, stop)))))))"

text \<open>After the loop: the value tells whether \<^verbatim>\<open>write_done_pipe\<close> is called.\<close>

definition main_pid_finish :: "options \<Rightarrow> bool \<Rightarrow> 'w main_env \<Rightarrow> ('w, 'u) handler \<Rightarrow> ('w, 'u, bool) mfun" where
  "main_pid_finish opts in_pgrep_mode env h =
     try_c (modify (mp_ctx_update (stack_ptrs_update (\<lambda>_. [])))) (\<lambda>_.
     with_rv (on_ctx (h DEINIT)) (\<lambda>_ _.
     try_c (if in_pgrep_mode then msys (m_others env) else ok 0) (\<lambda>others.
     try_c (modify (mp_trace_count_update (\<lambda>n. n + others))) (\<lambda>_.
     get_s (\<lambda>s.
     ok (in_pgrep_mode \<and> opt_trace_limit opts > 0 \<and> unat (mp_trace_count s) \<ge> opt_trace_limit opts))))))"

definition main_pid ::
  "options \<Rightarrow> bool \<Rightarrow> 'w main_env \<Rightarrow> 'w addr_env \<Rightarrow> 'w readv \<Rightarrow> (nat \<Rightarrow> layout) \<Rightarrow> nat \<Rightarrow> ('w, 'u) handler \<Rightarrow> pid \<Rightarrow>
     string \<Rightarrow> 64 word \<Rightarrow> 'u \<Rightarrow> 'w \<Rightarrow> (bool result \<times> ('w, 'u) main_state) option" where
  "main_pid opts in_pgrep_mode env aenv rd layouts fuel h pid phpv count u w =
     (case main_pid_setup opts in_pgrep_mode env aenv rd layouts fuel h pid
        \<lparr> mp_ctx = zero_context pid u w, mp_phpv = phpv, mp_trace_count = count \<rparr> of
        (Rv r, s) \<Rightarrow> Some (Rv r, s)
      | (Fault f, s) \<Rightarrow> Some (Fault f, s)
      | (Ok (tr, stop), s) \<Rightarrow>
          (case main_pid_loop (main_pid_round opts in_pgrep_mode env pid tr stop) s of
             None \<Rightarrow> None
           | Some (Ok _, s) \<Rightarrow> Some (main_pid_finish opts in_pgrep_mode env h s)
           | Some (Rv r, s) \<Rightarrow> Some (Rv r, s)
           | Some (Fault f, s) \<Rightarrow> Some (Fault f, s)))"

subsection \<open>main_fork and main\<close>

datatype wait_status = WExited int | WSignaled int | WStopped int | WContinued

record 'w fork_env =
  k_fork :: "'w \<Rightarrow> pid \<times> 'w"
  k_waitpid :: "pid \<Rightarrow> 'w \<Rightarrow> wait_status option \<times> 'w"
  k_detach :: "pid \<Rightarrow> 'w \<Rightarrow> unit \<times> 'w"

definition kcall :: "('w \<Rightarrow> 'a \<times> 'w) \<Rightarrow> ('w, 'a) cfun" where
  "kcall f w = (case f w of (a, w') \<Rightarrow> (Ok a, w'))"

text \<open>The parent's side of \<^verbatim>\<open>main_fork\<close>; \<open>spy\<close> is \<^verbatim>\<open>main_pid\<close>, and the value is the exit code of the program.
  A second \<^verbatim>\<open>waitpid\<close> that fails leaves the status of the first one.\<close>

definition main_fork :: "'w fork_env \<Rightarrow> (pid \<Rightarrow> ('w, int) cfun) \<Rightarrow> ('w, int) cfun" where
  "main_fork env spy =
     try_c (kcall (k_fork env)) (\<lambda>fork_pid.
     if fork_pid < 0 then ok 1
     else
       try_c (kcall (k_waitpid env fork_pid)) (\<lambda>status. case status of
         None \<Rightarrow> ok PHPSPY_ERR
       | Some (WExited c) \<Rightarrow> ok (if c \<noteq> 0 then c else 1)
       | Some (WSignaled sg) \<Rightarrow> ok (128 + sg)
       | Some st \<Rightarrow>
           try_c (kcall (k_detach env fork_pid)) (\<lambda>_.
           try_c (spy fork_pid) (\<lambda>r.
           try_c (kcall (k_waitpid env fork_pid)) (\<lambda>status.
           case (case status of None \<Rightarrow> st | Some st' \<Rightarrow> st') of
             WExited c \<Rightarrow> ok c
           | WSignaled sg \<Rightarrow> ok (128 + sg)
           | _ \<Rightarrow> ok r)))))"

text \<open>Where the child's output goes: \<open>None\<close> when it is not redirected, else the path that is opened. The
  format is the user's, as in \<open>event_handler_fout_open\<close>.\<close>

definition redirect_path :: "string \<Rightarrow> pid \<Rightarrow> string option result" where
  "redirect_path opt_path pid =
     (if opt_path = ''-'' then Ok None
      else if strstr_in ''%d'' opt_path then
        (case expand_fmt opt_path [pid] of None \<Rightarrow> Fault OutOfBounds | Some p \<Rightarrow> Ok (Some p))
      else Ok (Some opt_path))"

datatype mode = Mode_top | Mode_pid pid | Mode_pgrep | Mode_fork | Mode_usage

definition main_mode :: "options \<Rightarrow> nat \<Rightarrow> nat \<Rightarrow> mode" where
  "main_mode opts optind argc =
     (if opt_top_mode opts then Mode_top
      else if opt_pid opts \<noteq> -1 then Mode_pid (opt_pid opts)
      else if opt_pgrep_args opts \<noteq> None then Mode_pgrep
      else if optind < argc then Mode_fork
      else Mode_usage)"

end
