(* ===== verification/Main_Props.thy ===== *)
theory Main_Props
  imports Main_Pid Trace_Output
begin

text \<open>
  Properties of the program around the tracer: the clock, the end of the sampling loop, and the
  detection of the PHP version.
\<close>

subsection \<open>Time\<close>




subsection \<open>Running the loop\<close>

lemma msys_run: "msys f s = (case f (world (mp_ctx s)) of (a, w') \<Rightarrow> (Ok a, s\<lparr>mp_ctx := (mp_ctx s)\<lparr>world := w'\<rparr>\<rparr>))"
  by (simp add: msys_def on_ctx_def tsys_def on_world_def split: prod.splits)

lemma clock_get_run: "\<exists>t w'. clock_get env s = (Ok t, s\<lparr>mp_ctx := (mp_ctx s)\<lparr>world := w'\<rparr>\<rparr>)"
proof -
  obtain a w' where "m_clock env (world (mp_ctx s)) = (a, w')" by fastforce
  then have "msys (m_clock env) s = (Ok a, s\<lparr>mp_ctx := (mp_ctx s)\<lparr>world := w'\<rparr>\<rparr>)" by (simp add: msys_run)
  then show ?thesis by (cases a) (auto simp: clock_get_def run_simps)
qed

lemma stop_time_phpv:
  assumes "stop_time opts in_pgrep env s = (Ok t, s')"
  shows "mp_phpv s' = mp_phpv s"
proof -
  obtain now w' where "clock_get env s = (Ok now, s\<lparr>mp_ctx := (mp_ctx s)\<lparr>world := w'\<rparr>\<rparr>)"
    using clock_get_run [of env s] by blast
  with assms show ?thesis
    by (cases in_pgrep; cases "0 < opt_time_limit_ms opts") (auto simp: stop_time_def run_simps)
qed

text \<open>A round whose trace succeeds: it ends the loop exactly when the count has reached the limit.\<close>

lemma round_ok:
  assumes world: "\<And>k c w. P k c \<Longrightarrow> P k (c\<lparr>world := w\<rparr>)"
    and trace: "\<And>k c. P k c \<Longrightarrow> \<exists>c'. tr c = (Ok (), c') \<and> P (Suc k) c'"
    and P: "P k (mp_ctx s)" and opts: "\<not> opt_pause opts" "0 < opt_trace_limit opts"
    and dn: "\<And>w. \<not> fst (m_done env w)"
  shows "\<exists>s'. main_pid_round opts False env pid tr None s =
      (Ok (unat (mp_trace_count s + 1) < opt_trace_limit opts), s') \<and>
    P (Suc k) (mp_ctx s') \<and> mp_trace_count s' = mp_trace_count s + 1"
proof -
  obtain w1 where "m_done env (world (mp_ctx s)) = (False, w1)"
    using dn [of "world (mp_ctx s)"] by (metis prod.collapse)
  then have s1: "msys (m_done env) s = (Ok False, s\<lparr>mp_ctx := (mp_ctx s)\<lparr>world := w1\<rparr>\<rparr>)" (is "_ = (_, ?s1)")
    by (simp add: msys_run)
  obtain t1 w2 where s2: "clock_get env ?s1 = (Ok t1, ?s1\<lparr>mp_ctx := (mp_ctx ?s1)\<lparr>world := w2\<rparr>\<rparr>)" (is "_ = (_, ?s2)")
    using clock_get_run [of env ?s1] by blast
  have "P k (mp_ctx ?s2)" using P world by simp
  then obtain c' where c': "tr (mp_ctx ?s2) = (Ok (), c')" "P (Suc k) c'" using trace by blast
  let ?s3 = "?s2\<lparr>mp_ctx := c'\<rparr>"
  have s3: "status_of (on_ctx tr) ?s2 = (Ok 0, ?s3)"
    using c'(1) by (simp add: status_of_def with_rv_def on_ctx_def run_simps)
  let ?s4 = "mp_trace_count_update (\<lambda>n. n + 1) ?s3"
  obtain t2 w3 where s5: "clock_get env ?s4 = (Ok t2, ?s4\<lparr>mp_ctx := (mp_ctx ?s4)\<lparr>world := w3\<rparr>\<rparr>)" (is "_ = (_, ?s5)")
    using clock_get_run [of env ?s4] by blast
  obtain w4 where "m_nanosleep env (calc_sleep_time opts t2 t1) w3 = ((), w4)" by (metis old.unit.exhaust surj_pair)
  then have s6: "msys (m_nanosleep env (calc_sleep_time opts t2 t1)) ?s5 = (Ok (), ?s5\<lparr>mp_ctx := (mp_ctx ?s5)\<lparr>world := w4\<rparr>\<rparr>)"
      (is "_ = (_, ?s6)")
    by (simp add: msys_run)
  have "main_pid_round opts False env pid tr None s =
      (if unat (mp_trace_count s + 1) < opt_trace_limit opts then (Ok True, ?s6) else (Ok False, ?s4))"
    using opts s1 s2 s3 s5 s6 by (simp add: main_pid_round_def run_simps not_le)
  then show ?thesis using c'(2) world by (auto split: if_splits)
qed

text \<open>The trace limit ends the loop. With \<^verbatim>\<open>-l\<close>, when every trace succeeds from states of some kind and
  leaves such a state, the sampling loop of \<^verbatim>\<open>main_pid\<close> returns, and it does so after exactly as many
  traces as the limit says.\<close>

lemma loop_limit:
  assumes world: "\<And>k c w. P k c \<Longrightarrow> P k (c\<lparr>world := w\<rparr>)"
    and trace: "\<And>k c. P k c \<Longrightarrow> \<exists>c'. tr c = (Ok (), c') \<and> P (Suc k) c'"
    and opts: "\<not> opt_pause opts" "opt_trace_limit opts < 2 ^ 64" and dn: "\<And>w. \<not> fst (m_done env w)"
  shows "P (unat (mp_trace_count s)) (mp_ctx s) \<Longrightarrow> unat (mp_trace_count s) < opt_trace_limit opts \<Longrightarrow>
    \<exists>s'. main_pid_loop (main_pid_round opts False env pid tr None) s = Some (Ok (), s') \<and>
      unat (mp_trace_count s') = opt_trace_limit opts \<and> P (opt_trace_limit opts) (mp_ctx s')"
proof (induction "opt_trace_limit opts - unat (mp_trace_count s)" arbitrary: s rule: less_induct)
  case less
  have lim: "0 < opt_trace_limit opts" using less.prems(2) by simp
  have inc: "unat (mp_trace_count s + 1) = unat (mp_trace_count s) + 1"
    using less.prems(2) opts(2) by (simp add: unat_word_ariths)
  obtain s1 where s1: "main_pid_round opts False env pid tr None s =
      (Ok (unat (mp_trace_count s + 1) < opt_trace_limit opts), s1)" "P (unat (mp_trace_count s) + 1) (mp_ctx s1)"
      "mp_trace_count s1 = mp_trace_count s + 1"
    using round_ok [of P tr "unat (mp_trace_count s)" s opts env pid, OF world trace less.prems(1) opts(1) lim dn] by auto
  show ?case
  proof (cases "unat (mp_trace_count s + 1) < opt_trace_limit opts")
    case True
    then have "\<exists>s'. main_pid_loop (main_pid_round opts False env pid tr None) s1 = Some (Ok (), s') \<and>
        unat (mp_trace_count s') = opt_trace_limit opts \<and> P (opt_trace_limit opts) (mp_ctx s')"
      using s1 inc less.prems(2) by (intro less.hyps) simp_all
    with True s1(1) show ?thesis by (subst main_pid_loop.simps) simp
  next
    case False
    then have eq: "opt_trace_limit opts = unat (mp_trace_count s) + 1" using inc less.prems(2) by simp
    have "unat (mp_trace_count s1) = opt_trace_limit opts" "P (opt_trace_limit opts) (mp_ctx s1)"
      using s1(2,3) inc unfolding eq by simp_all
    with False s1(1) show ?thesis by (subst main_pid_loop.simps) simp
  qed
qed

text \<open>A system for the examples, in which every call succeeds.\<close>

definition demo_main_env :: "unit main_env" where
  "demo_main_env = \<lparr> m_clock = \<lambda>w. (Some \<lparr> tv_sec = 5, tv_nsec = 0 \<rparr>, w), m_attach = \<lambda>pid w. (None, w),
     m_waitpid = \<lambda>pid w. (True, w), m_detach = \<lambda>pid w. (None, w), m_nanosleep = \<lambda>t w. ((), w), m_done = \<lambda>w. (False, w),
     m_others = \<lambda>w. (0, w) \<rparr>"

subsection \<open>Properties\<close>



text \<open>C35: The version is looked up once. After the first process the global \<^verbatim>\<open>opt_phpv\<close> is a version, no longer
  \<^verbatim>\<open>auto\<close>; for every later process of a pool it is kept as it is, whatever PHP that process runs.\<close>

theorem main_pid_version_kept:
  assumes "main_pid_setup opts in_pgrep env aenv rd layouts fuel h pid s = (Ok x, s')"
  shows "mp_phpv s' \<noteq> ''auto'' \<and> trace_version (mp_phpv s') \<noteq> None \<and> (mp_phpv s \<noteq> ''auto'' \<longrightarrow> mp_phpv s' = mp_phpv s)"
proof -
  have ctx: "mp_phpv t' = mp_phpv t" if "on_ctx m t = (Ok a, t')" for m :: "('a, 'b, 'c) tfun" and t a t'
    using that by (auto simp: on_ctx_def split: prod.splits)
  have auto: "trace_version ''auto'' = None" by (simp add: trace_version_def php_versions_def)
  obtain t s1 s2 s3 v s4 stp where s1: "on_ctx (on_world (find_addresses opts aenv pid)) s = (Ok t, s1)"
      and s2: "on_ctx (h INIT) (mp_ctx_update (set_target t) s1) = (Ok (), s2)"
      and s3: "detect_version opts aenv rd pid (tt_basic_functions_module t) s2 = (Ok (), s3)"
      and s4: "select_version s3 = (Ok v, s4)" and s5: "stop_time opts in_pgrep env s4 = (Ok stp, s')"
    using assms unfolding main_pid_setup_def try_c_eq_Ok by (auto simp: run_simps)
  have "mp_phpv s2 = mp_phpv s" using ctx [OF s1] ctx [OF s2] by simp
  moreover have "mp_phpv s2 \<noteq> ''auto'' \<longrightarrow> mp_phpv s3 = mp_phpv s2"
    using s3 by (auto simp: detect_version_def run_simps)
  moreover have "trace_version (mp_phpv s3) \<noteq> None" "s4 = s3"
    using s4 by (auto simp: select_version_def run_simps split: option.splits)
  moreover have "mp_phpv s' = mp_phpv s4" by (rule stop_time_phpv [OF s5])
  ultimately show ?thesis using auto by auto
qed

theorem main_pid_version_kept_witness:
  "\<exists>x s'. main_pid_setup default_options True demo_main_env demo_addr_env (still stack_mem) (\<lambda>v. demo_layout) 0 (\<lambda>_. ok ()) 1
      \<lparr> mp_ctx = zero_context 1 () (), mp_phpv = ''84'', mp_trace_count = 0 \<rparr> = (Ok x, s') \<and> mp_phpv s' = ''84''"
proof -
  let ?s = "\<lparr> mp_ctx = zero_context 1 () (), mp_phpv = ''84'', mp_trace_count = 0 \<rparr>"
  let ?m = "main_pid_setup default_options True demo_main_env demo_addr_env (still stack_mem) (\<lambda>v. demo_layout) 0 (\<lambda>_. ok ()) 1"
  obtain t where t: "find_addresses default_options demo_addr_env 1 () = (Ok t, ())"
    using find_addresses_known [OF demo_process_map, of "()"] by (auto simp: Let_def)
  have "trace_version ''84'' = Some 84" by (simp add: trace_version_def php_versions_def)
  then obtain x s' where "?m ?s = (Ok x, s')"
    using t by (auto simp: main_pid_setup_def detect_version_def select_version_def stop_time_def on_ctx_def on_world_def
        run_simps split: prod.splits)
  with main_pid_version_kept [OF this] show ?thesis by (auto intro!: exI [of _ x] exI [of _ s'])
qed

end
