(* ===== verification/Stackcollapse.thy ===== *)
theory Stackcollapse
  imports C_Library Uthash
begin

text \<open>
  The script \<^verbatim>\<open>stackcollapse-phpspy.pl\<close>, which turns the output of phpspy into the input of a flame graph:
  one line per distinct stack, its functions from the root to the leaf joined by semicolons, and how
  often it was sampled. Traces that phpspy cut into chunks are put together by their trace id.

  The script reads bytes. The two functions of Perl's \<^verbatim>\<open>Encode\<close> module are parameters, with characters as
  code points. Perl's hashes are association lists; the order in which \<^verbatim>\<open>each\<close> visits them is not
  specified, so only what is found under a key matters. Chunk numbers are unbounded.
\<close>

record codec =
  utf8_decode :: "string \<Rightarrow> nat list"
  utf8_encode :: "nat list \<Rightarrow> string"

text \<open>The variables \<^verbatim>\<open>%stacks\<close>, \<^verbatim>\<open>@stack\<close> and \<^verbatim>\<open>%chunks\<close>, from a trace id and a chunk number to frames.\<close>

record collapse_state =
  sc_stacks :: "(string, nat) hash"
  sc_stack :: "string list"
  sc_chunks :: "(string, (string, string list) hash) hash"

definition init_collapse :: collapse_state where
  "init_collapse = \<lparr> sc_stacks = [], sc_stack = [], sc_chunks = [] \<rparr>"

subsection \<open>Perl\<close>

fun perl_join :: "string \<Rightarrow> string list \<Rightarrow> string" where
  "perl_join sep [] = []"
| "perl_join sep [t] = t"
| "perl_join sep (t # u # ts) = t @ sep @ perl_join sep (u # ts)"

text \<open>\<^verbatim>\<open><>\<close> and \<^verbatim>\<open>chomp\<close>: the lines of the input without their newlines.\<close>

function perl_lines :: "string \<Rightarrow> string list" where
  "perl_lines s =
     (if s = [] then []
      else takeWhile (\<lambda>c. c \<noteq> newline) s # perl_lines (drop 1 (dropWhile (\<lambda>c. c \<noteq> newline) s)))"
  by pat_completeness auto

termination
  by (relation "measure length") (auto simp: neq_Nil_conv intro: le_less_trans [OF diff_le_mono [OF length_dropWhile_le]])

declare perl_lines.simps [simp del]

lemma length_dropWhile_less: "t \<noteq> [] \<Longrightarrow> P (hd t) \<Longrightarrow> length (dropWhile P t) < length t"
  by (cases t) (auto simp: le_imp_less_Suc length_dropWhile_le)

lemma split_words_shrinks:
  assumes "dropWhile c_isspace s \<noteq> []"
  shows "length (dropWhile (\<lambda>c. \<not> c_isspace c) (dropWhile c_isspace s)) < length s"
proof -
  have "length (dropWhile (\<lambda>c. \<not> c_isspace c) (dropWhile c_isspace s)) < length (dropWhile c_isspace s)"
    using assms hd_dropWhile [OF assms] by (intro length_dropWhile_less) auto
  then show ?thesis using length_dropWhile_le [of c_isspace s] by simp
qed

text \<open>\<^verbatim>\<open>split ' '\<close>\<close>

function split_words :: "string \<Rightarrow> string list" where
  "split_words s =
     (let t = dropWhile c_isspace s in
      if t = [] then []
      else takeWhile (\<lambda>c. \<not> c_isspace c) t # split_words (dropWhile (\<lambda>c. \<not> c_isspace c) t))"
  by pat_completeness auto

termination
  by (relation "measure length") (use split_words_shrinks in simp_all)

declare split_words.simps [simp del]

definition perl_digit :: "char \<Rightarrow> bool" where
  "perl_digit c \<longleftrightarrow> digit_val 10 c \<noteq> None"

definition perl_num :: "string \<Rightarrow> nat" where
  "perl_num s = fst (scan_digits 10 0 s)"

subsection \<open>The lines\<close>

text \<open>\<^verbatim>\<open>/^(?:#|\d+) \S/\<close>\<close>

definition is_record :: "string \<Rightarrow> bool" where
  "is_record line =
     (line \<noteq> [] \<and> (hd line = CHR ''#'' \<or> perl_digit (hd line)) \<and>
      (case (if hd line = CHR ''#'' then tl line else dropWhile perl_digit line) of
         a # b # _ \<Rightarrow> a = CHR '' '' \<and> \<not> c_isspace b
       | _ \<Rightarrow> False))"

text \<open>\<^verbatim>\<open>m{^# trace_id = (\d+)\.(\d+)(.)}\<close>: the three groups. When nothing follows the second number, it gives its
  last digit to the third group.\<close>

definition trace_id_match :: "string \<Rightarrow> (string \<times> string \<times> char) option" where
  "trace_id_match line =
     (if take 13 line \<noteq> ''# trace_id = '' then None
      else
        let r = drop 13 line; id = takeWhile perl_digit r in
        if id = [] then None
        else case dropWhile perl_digit r of
          [] \<Rightarrow> None
        | c # r \<Rightarrow>
            let k = takeWhile perl_digit r in
            if c \<noteq> CHR ''.'' \<or> k = [] then None
            else case dropWhile perl_digit r of
              m # _ \<Rightarrow> Some (id, k, m)
            | [] \<Rightarrow> if length k < 2 then None else Some (id, butlast k, last k))"

text \<open>Characters that break XML become a question mark.\<close>

definition breaks_xml :: "nat \<Rightarrow> bool" where
  "breaks_xml n \<longleftrightarrow> 0x01 \<le> n \<and> n \<le> 0x08 \<or> 0x0B \<le> n \<and> n \<le> 0x0C \<or> 0x0E \<le> n \<and> n \<le> 0x1F \<or>
     0x7F \<le> n \<and> n \<le> 0x84 \<or> 0x86 \<le> n \<and> n \<le> 0x9F"

definition clean_func :: "codec \<Rightarrow> string \<Rightarrow> string" where
  "clean_func cd func = utf8_encode cd (map (\<lambda>n. if breaks_xml n then 0x3F else n) (utf8_decode cd func))"

text \<open>\<^verbatim>\<open>$stacks{join(';', reverse @frames)} += 1 if @frames\<close>\<close>

definition add_stack :: "string list \<Rightarrow> (string, nat) hash \<Rightarrow> (string, nat) hash" where
  "add_stack frames stacks =
     (if frames = [] then stacks else hash_touch (perl_join '';'' (rev frames)) 0 Suc stacks)"

text \<open>The last chunk of a trace has come: when all chunks before it are there, the frames of the trace.\<close>

definition join_chunks :: "(string, string list) hash \<Rightarrow> nat \<Rightarrow> string list" where
  "join_chunks chunks k =
     (let chunk_keys = sort_key perl_num (hash_keys chunks) in
      if length chunk_keys = k + 1 \<and> perl_num (last chunk_keys) = k
      then concat (map (\<lambda>j. case hash_find j chunks of None \<Rightarrow> [] | Some fs \<Rightarrow> fs) chunk_keys)
      else [])"

definition save_chunk :: "string \<times> string \<times> char \<Rightarrow> collapse_state \<Rightarrow> collapse_state" where
  "save_chunk = (\<lambda>(id, k, m) st.
     let chunks = hash_touch id [] (hash_touch k [] (\<lambda>_. sc_stack st)) (sc_chunks st);
         st = st\<lparr>sc_chunks := chunks, sc_stack := []\<rparr> in
     if m = CHR ''!'' then
       st\<lparr>sc_stacks := add_stack (join_chunks (case hash_find id chunks of None \<Rightarrow> [] | Some cs \<Rightarrow> cs) (perl_num k))
           (sc_stacks st),
         sc_chunks := hash_del id chunks\<rparr>
     else st)"

text \<open>The body of the loop over the lines.\<close>

definition collapse_line :: "codec \<Rightarrow> string \<Rightarrow> collapse_state \<Rightarrow> collapse_state" where
  "collapse_line cd line st =
     (if line = [] then st\<lparr>sc_stacks := add_stack (sc_stack st) (sc_stacks st), sc_stack := []\<rparr>
      else if \<not> is_record line then st
      else case trace_id_match line of
        Some g \<Rightarrow> save_chunk g st
      | None \<Rightarrow>
          let ws = split_words line in
          if ws ! 0 = ''#'' then st
          else st\<lparr>sc_stack := sc_stack st @ [clean_func cd (ws ! 1)]\<rparr>)"

text \<open>The whole script: \<^verbatim>\<open>%stacks\<close> at its end, and the lines that it prints.\<close>

definition collapse :: "codec \<Rightarrow> string \<Rightarrow> (string, nat) hash" where
  "collapse cd input =
     (let st = fold (collapse_line cd) (perl_lines input) init_collapse in add_stack (sc_stack st) (sc_stacks st))"

definition collapse_output :: "(string, nat) hash \<Rightarrow> string list" where
  "collapse_output stacks = map (\<lambda>(k, v). k @ '' '' @ dec_nat v) stacks"

end
