(* ===== verification/Fout_Props.thy ===== *)
theory Fout_Props
  imports Trace_Output
begin

text \<open>The properties of the file output handler on its own.\<close>

subsection \<open>Reading chunks back\<close>

text \<open>What a consumer does with a chunk: the trace delimiter and the last record, the trace id, go.\<close>

definition chunk_body :: "char \<Rightarrow> string \<Rightarrow> string" where
  "chunk_body d s = take (last_end d (butlast (butlast s))) s"

primrec written_text :: "io \<Rightarrow> string" where
  "written_text Lock = []"
| "written_text Unlock = []"
| "written_text (Close fd) = []"
| "written_text (Writev fd s) = s"

lemma last_end_complete_append: "complete d s \<Longrightarrow> d \<notin> set t \<Longrightarrow> last_end d (s @ t) = length s"
  using last_end_append [of d "butlast s" t]
  by (cases s rule: rev_cases) (auto simp: complete_iff last_end_notin)

text \<open>A frame delimiter that cannot be mistaken for a part of the trace id.\<close>

definition separates :: "char \<Rightarrow> bool" where
  "separates d \<longleftrightarrow> d \<notin> set ''# trace_id=.~!'' \<and> \<not> (48 \<le> (of_char d :: nat) \<and> (of_char d :: nat) < 58)"

lemma chunk_body_trace_id:
  assumes "complete d body" and "d = opt_frame_delim opts" and "separates d" and "x \<in> {CHR ''!'', CHR ''~''}"
  shows "chunk_body d (body @ trace_id_text opts tid idx x) = body"
proof -
  let ?id = "''# trace_id = '' @ dec_nat (unat tid) @ ''.'' @ dec_nat (unat idx) @ [x]"
  have "butlast (butlast (body @ trace_id_text opts tid idx x)) = body @ ?id"
    by (simp add: trace_id_text_def butlast_append)
  moreover have "d \<notin> set (dec_nat n)" for n using assms(3) dec_nat_of_char [of d n] by (auto simp: separates_def)
  then have "d \<notin> set ?id" using assms(3,4) by (auto simp: separates_def)
  ultimately show ?thesis
    using last_end_complete_append [OF assms(1)] by (simp add: chunk_body_def)
qed

lemma chunk_bodies:
  "list_all (complete (opt_frame_delim opts)) bodies \<Longrightarrow> separates (opt_frame_delim opts) \<Longrightarrow>
    map (chunk_body (opt_frame_delim opts) \<circ> written_text) (chunk_io opts fd tid idx fin bodies) = bodies"
  by (induction bodies arbitrary: idx) (simp_all add: chunk_body_trace_id)

lemma chunk_run:
  assumes "ud_ok opts (fc_ud c)" and "event_handler_fout_write_chunked opts env c = (r, c')"
  shows "\<exists>n bodies. wrote_chunks opts c n bodies c'"
  using write_chunked_wp [OF assms(1), of env] assms(2) by (cases r) (auto simp: wp_def)

lemma snprintf_run:
  assumes "ud_ok opts (fc_ud c)" and "event_handler_fout_snprintf opts env strip t c = (r, c')"
  shows "r = Ok () \<and> appended opts env strip t (fc_ud c) (fc_ud c')"
  using snprintf_wp [OF assms(1), of env strip t] assms(2) by (cases r) (auto simp: wp_def)

subsection \<open>Setting up\<close>

text \<open>The data that \<^verbatim>\<open>INIT\<close> starts from.\<close>

definition init_udata :: "int \<Rightarrow> nat \<Rightarrow> fout_udata" where
  "init_udata fd n = \<lparr> ud_fd = fd, ud_buf = [], ud_len = 0, ud_cap = n, ud_use_mutex = False,
     ud_truncated = False, ud_trunc_marker = replicate 32 NUL, ud_trace_id_tail = replicate 64 NUL,
     ud_trunc_marker_len = 0, ud_trace_id_tail_len = 0 \<rparr>"

lemma init_udata_fields:
  "ud_fd (init_udata fd n) = fd" "ud_len (init_udata fd n) = 0" "ud_trunc_marker (init_udata fd n) = replicate 32 NUL"
  by (simp_all add: init_udata_def)

lemma fout_init_eq:
  "fout_init opts env =
     try_c (event_handler_fout_open opts env) (\<lambda>fd.
     let cap = nat (opt_fout_buffer_size opts) in
     try_c (run_ud (init_udata fd cap) (event_handler_fout_realloc env cap)) (\<lambda>udata.
     let text = ''# truncated = 1'' @ [opt_frame_delim opts] in
     try_c (of_opt OutOfBounds (snprintf_at (ud_trunc_marker udata) 0 32 text)) (\<lambda>marker.
     modify (set_ud (Some (udata\<lparr>
       ud_use_mutex := (case opt_event_handler_opts opts of None \<Rightarrow> False | Some ho \<Rightarrow> CHR ''m'' \<in> set ho),
       ud_trunc_marker := marker, ud_trunc_marker_len := length text\<rparr>))))))"
  by (simp add: fout_init_def init_udata_def Let_def)

lemma fout_open_result:
  assumes "fo_udata (event_udata s) = None"
  shows "case event_handler_fout_open opts env s of
      (Ok fd, s') \<Rightarrow> 0 \<le> fd \<and> fo_udata (event_udata s') = None
    | (Rv r, s') \<Rightarrow> r = PHPSPY_ERR \<and> fo_udata (event_udata s') = None
    | (Fault f, s') \<Rightarrow> strstr_in ''%d'' (opt_path_output opts) \<and> (\<exists>tid. expand_fmt (opt_path_output opts) [tid] = None)"
  using assms
  by (auto simp: event_handler_fout_open_def fout_open_fd_def fout_act_def tsys_def on_world_def cfun_defs
      split: prod.splits result.splits option.splits if_splits)

lemma fout_init_realloc:
  assumes "1 \<le> n"
  shows "case event_handler_fout_realloc env n (to_fctx (init_udata fd n) t) of
      (Ok _, c) \<Rightarrow> \<exists>junk. n \<le> PHPSPY_FOUT_MAX_BUFFER \<and> fc_ud c = (init_udata fd n)\<lparr>ud_buf := resize [] n junk\<rparr>
    | (Rv r, c) \<Rightarrow> r = PHPSPY_ERR
    | (Fault f, c) \<Rightarrow> False"
  using assms
  by (auto simp: event_handler_fout_realloc_def get_ud_def upd_ud_def sys_def to_fctx_def grow.simps Let_def cfun_defs
      init_udata_def split: prod.splits result.splits option.splits)

lemma init_udata_ok:
  assumes "1 \<le> n" and "n \<le> PHPSPY_FOUT_MAX_BUFFER"
  shows "ud_ok opts ((init_udata fd n)\<lparr>ud_buf := resize [] n junk, ud_use_mutex := mx,
    ud_trunc_marker := ''# truncated = 1'' @ opt_frame_delim opts # replicate 16 NUL,
    ud_trunc_marker_len := length (''# truncated = 1'' @ [opt_frame_delim opts])\<rparr>)"
  using assms by (simp add: ud_ok_def init_udata_def length_resize)

subsection \<open>Properties\<close>

text \<open>C10: A chunked trace is a partition of the buffer. Whatever the writes return, the chunks that go
  out are, in order, a prefix of the text cut at record boundaries; each with its trace id fits the
  buffer size; they are numbered from 0 on under one fresh trace id; the last one, and only this, has
  the sentinel \<^verbatim>\<open>!\<close>; and when the prefix is not all of the text, or the buffer was truncated before, the
  last one is the truncation record. No assertion fails and no array bound is passed.\<close>

theorem fout_chunks_partition:
  assumes "ud_ok opts (fc_ud c)"
  shows "case event_handler_fout_write_chunked opts env c of
      (Fault _, _) \<Rightarrow> False
    | (_, c') \<Rightarrow> \<exists>n bodies. wrote_chunks opts c n bodies c'"
  using write_chunked_wp [OF assms, of env] by (simp add: wp_def split: prod.splits result.splits)

theorem fout_chunks_partition_witness:
  "case event_handler_fout_write_chunked default_options demo_env
      \<lparr> fc_ud = demo_udata 64 (''ab'' @ [newline]), fc_trace_id = 0, fc_io = [], fc_world = () \<rparr> of
      (Fault _, _) \<Rightarrow> False
    | (_, c') \<Rightarrow> \<exists>n bodies. wrote_chunks default_options
        \<lparr> fc_ud = demo_udata 64 (''ab'' @ [newline]), fc_trace_id = 0, fc_io = [], fc_world = () \<rparr> n bodies c'"
  by (rule fout_chunks_partition) (simp add: demo_udata_ok default_delims)

text \<open>Chunks read back. A consumer that drops the trace delimiter and the trace id record of every
  chunk and concatenates the rest gets the text of the trace, when it ends with a whole record, the
  frame delimiter does not occur in trace ids, and the trace was not truncated.\<close>

lemma fout_chunks_roundtrip:
  assumes "ud_ok opts (fc_ud c)" and "complete (opt_frame_delim opts) (ud_text (fc_ud c))"
    and "separates (opt_frame_delim opts)"
    and "event_handler_fout_write_chunked opts env c = (r, c')" and "\<not> ud_truncated (fc_ud c')"
    and "fc_io c = []"
  shows "concat (map (chunk_body (opt_frame_delim opts) \<circ> written_text) (fc_io c')) = ud_text (fc_ud c)"
proof -
  obtain n bodies where w: "wrote_chunks opts c n bodies c'" using chunk_run [OF assms(1,4)] by blast
  let ?u = "fc_ud c"
  have "ud_truncated (fc_ud c') = (ud_truncated ?u \<or> n < ud_len ?u)"
    using same_tail_fields [OF wrote_chunks_ud [OF w]] by simp
  with assms(5) have tr: "\<not> ud_truncated ?u" "\<not> n < ud_len ?u" by simp_all
  have all: "list_all (complete (opt_frame_delim opts)) bodies" "concat bodies = take n (ud_text ?u)"
    "fc_io c' = chunk_io opts (ud_fd ?u) (fc_trace_id c) 0 True bodies"
    using w assms(2,6) tr by (simp_all add: wrote_chunks_def Let_def)
  then show ?thesis using chunk_bodies [OF all(1) assms(3)] tr(2) len_text [OF assms(1)] by simp
qed

text \<open>When a trace fits the buffer size it goes out in one \<^verbatim>\<open>writev\<close>: the text, the truncation record if
  the buffer had been truncated, and the trace delimiter, between lock and unlock when the mutex is on;
  the status tells a truncated trace.\<close>

lemma fout_write_small:
  assumes "ud_ok opts (fc_ud c)" and "total_len (fc_ud c) \<le> nat (opt_fout_buffer_size opts)"
    and "event_handler_fout_write opts env c = (r, c')"
  shows "fc_ud c' = fc_ud c \<and>
    fc_io c' = fc_io c @ bracket (fc_ud c) Lock @
      [Writev (ud_fd (fc_ud c)) (ud_text (fc_ud c) @
        (if ud_truncated (fc_ud c) then trunc_text opts else []) @ [opt_trace_delim opts])] @
      bracket (fc_ud c) Unlock \<and>
    (ud_truncated (fc_ud c) \<longrightarrow> (\<exists>n. r = Rv n \<and> n AND PHPSPY_ERR_TRUNCATED \<noteq> 0))"
proof -
  have w: "written opts c c'" "ud_truncated (fc_ud c') \<longrightarrow> (\<exists>n. r = Rv n \<and> n AND PHPSPY_ERR_TRUNCATED \<noteq> 0)"
    using write_wp [OF assms(1), of env] assms(3) by (cases r; simp add: wp_def)+
  from w(1) assms(2) have "fc_ud c' = fc_ud c"
    "fc_io c' = fc_io c @ bracket (fc_ud c) Lock @
      [Writev (ud_fd (fc_ud c)) (ud_text (fc_ud c) @
        (if ud_truncated (fc_ud c) then trunc_text opts else []) @ [opt_trace_delim opts])] @
      bracket (fc_ud c) Unlock"
    by (auto simp: written_def wrote_whole_def Let_def)
  with w(2) show ?thesis by simp
qed

text \<open>A frame event appends one record, \<^verbatim>\<open>depth class::function file:line\<close> with its delimiters replaced
  and the frame delimiter after it; when there is no room for it in 4 MiB, or no memory, the buffer is
  cut back to its last whole record and marked as truncated, and later events leave it alone.\<close>

lemma fout_frame_record:
  assumes "fo_udata (event_udata s) = Some u" and "ud_ok opts u" and "fout_frame_text (ev_frame s) = Some t"
  shows "\<exists>s' u'. event_handler_fout opts env FRAME s = (Ok (), s') \<and> fo_udata (event_udata s') = Some u' \<and>
    recorded opts env t u u'"
proof -
  have "wp {} (fout_record opts env (Some t)) (\<lambda>_ c'. only_ud (to_fctx u s) c' \<and> recorded opts env t u (fc_ud c'))
      (\<lambda>_ _. False) (to_fctx u s)"
    using fout_record_wp [of opts "to_fctx u s" env t] assms(2) by (simp add: to_fctx_def)
  then obtain c' where "fout_record opts env (Some t) (to_fctx u s) = (Ok (), c')" "recorded opts env t u (fc_ud c')"
    by (auto simp: wp_def split: prod.splits result.splits)
  with assms(1,3) show ?thesis by (simp add: event_handler_fout_def run_simps on_udata_def set_ud_def)
qed

text \<open>C28: What \<^verbatim>\<open>event_handler_fout_snprintf\<close> appends with \<^verbatim>\<open>strip_delim\<close> has the length of the text and
  does not contain the frame delimiter, unless this is the question mark.\<close>

theorem fout_record_one_line:
  assumes "ud_ok opts (fc_ud c)" and "\<not> ud_truncated (fc_ud c)"
    and "event_handler_fout_snprintf opts env True t c = (r, c')" and "\<not> ud_truncated (fc_ud c')"
    and "opt_frame_delim opts \<noteq> CHR ''?''"
  shows "\<exists>t'. ud_text (fc_ud c') = ud_text (fc_ud c) @ t' \<and> length t' = length t \<and> opt_frame_delim opts \<notin> set t'"
  using snprintf_run [OF assms(1,3)] assms(2,4) strip_text_frame_delim [OF assms(5), of t]
  by (auto simp: appended_def)

theorem fout_record_one_line_witness:
  "\<exists>t' c'. event_handler_fout_snprintf default_options demo_env True (''a'' @ [newline] @ ''b'')
      \<lparr> fc_ud = demo_udata 64 [], fc_trace_id = 0, fc_io = [], fc_world = () \<rparr> = (Ok (), c') \<and>
    ud_text (fc_ud c') = t' \<and> length t' = length (''a'' @ [newline] @ ''b'') \<and> newline \<notin> set t'"
proof -
  let ?c = "\<lparr> fc_ud = demo_udata 64 [], fc_trace_id = 0, fc_io = [], fc_world = () \<rparr>"
  obtain r c' where run: "event_handler_fout_snprintf default_options demo_env True (''a'' @ [newline] @ ''b'') ?c = (r, c')"
    by fastforce
  have ok: "ud_ok default_options (fc_ud ?c)" by (simp add: demo_udata_ok default_delims)
  have tr: "\<not> ud_truncated (fc_ud ?c)" by (simp add: demo_udata_def)
  have "\<not> no_room demo_env n" if "n \<le> PHPSPY_FOUT_MAX_BUFFER" for n using that by (simp add: no_room_def demo_env_def)
  then have "\<not> ud_truncated (fc_ud c')"
    using snprintf_run [OF ok run] tr by (auto simp: appended_def demo_udata_def split: if_splits)
  with fout_record_one_line [OF ok tr run] snprintf_run [OF ok run] run
  show ?thesis by (auto simp: default_delims demo_text)
qed

text \<open>C33: The trace delimiter survives in a record when a frame delimiter follows it: the second pass of
  the replacement goes on from where the first one stopped instead of starting over.\<close>

theorem fout_strip_misses_trace_delim:
  assumes "ud_ok opts (fc_ud c)" and "\<not> ud_truncated (fc_ud c)"
    and "event_handler_fout_snprintf opts env True (p @ opt_trace_delim opts # q @ [opt_frame_delim opts]) c = (r, c')"
    and "\<not> ud_truncated (fc_ud c')" and "opt_frame_delim opts \<noteq> opt_trace_delim opts"
  shows "\<exists>t'. ud_text (fc_ud c') = ud_text (fc_ud c) @ t' \<and> opt_trace_delim opts \<in> set t'"
proof -
  let ?t = "p @ opt_trace_delim opts # q @ [opt_frame_delim opts]"
  have "last_end (opt_frame_delim opts) ?t = length ?t"
    using last_end_append [of "opt_frame_delim opts" "p @ opt_trace_delim opts # q" "[]"] by (simp add: last_end_notin)
  then have "strip_text opts ?t = mask_char (opt_frame_delim opts) ?t" by (simp add: strip_text_def)
  then have "opt_trace_delim opts \<in> set (strip_text opts ?t)" using assms(5) by (simp add: mask_char_def)
  then show ?thesis using snprintf_run [OF assms(1,3)] assms(2,4) by (auto simp: appended_def)
qed

theorem fout_strip_misses_trace_delim_witness:
  "\<exists>t' c'. event_handler_fout_snprintf (default_options\<lparr>opt_trace_delim := CHR '';''\<rparr>) demo_env True (''a;b'' @ [newline])
      \<lparr> fc_ud = demo_udata 64 [], fc_trace_id = 0, fc_io = [], fc_world = () \<rparr> = (Ok (), c') \<and>
    ud_text (fc_ud c') = t' \<and> CHR '';'' \<in> set t'"
proof -
  let ?c = "\<lparr> fc_ud = demo_udata 64 [], fc_trace_id = 0, fc_io = [], fc_world = () \<rparr>"
  let ?opts = "default_options\<lparr>opt_trace_delim := CHR '';''\<rparr>"
  obtain r c' where run: "event_handler_fout_snprintf ?opts demo_env True (''a'' @ opt_trace_delim ?opts # ''b'' @
      [opt_frame_delim ?opts]) ?c = (r, c')"
    by fastforce
  have ok: "ud_ok ?opts (fc_ud ?c)" by (simp add: demo_udata_ok default_delims)
  have tr: "\<not> ud_truncated (fc_ud ?c)" by (simp add: demo_udata_def)
  have "\<not> no_room demo_env n" if "n \<le> PHPSPY_FOUT_MAX_BUFFER" for n using that by (simp add: no_room_def demo_env_def)
  then have "\<not> ud_truncated (fc_ud c')"
    using snprintf_run [OF ok run] tr by (auto simp: appended_def demo_udata_def split: if_splits)
  with fout_strip_misses_trace_delim [OF ok tr run] snprintf_run [OF ok run] run
  show ?thesis by (auto simp: default_delims demo_text)
qed



text \<open>C27: \<^verbatim>\<open>INIT\<close> sets the handler up: with a positive buffer size it ends with an empty, well-formed
  buffer and an open descriptor, or with an error and no data. The one fault left is a conversion other
  than a single \<^verbatim>\<open>%d\<close> in the output path, which is the user's.\<close>

theorem fout_init_ok:
  assumes "1 \<le> opt_fout_buffer_size opts" and "fo_udata (event_udata s) = None"
  shows "case event_handler_fout opts env INIT s of
      (Ok _, s') \<Rightarrow> \<exists>u. fo_udata (event_udata s') = Some u \<and> ud_ok opts u \<and> ud_text u = [] \<and> 0 \<le> ud_fd u
    | (Rv r, s') \<Rightarrow> r = PHPSPY_ERR \<and> fo_udata (event_udata s') = None
    | (Fault f, s') \<Rightarrow> strstr_in ''%d'' (opt_path_output opts) \<and> (\<exists>tid. expand_fmt (opt_path_output opts) [tid] = None)"
proof (cases "event_handler_fout_open opts env s")
  case (Pair r s1)
  let ?n = "nat (opt_fout_buffer_size opts)"
  note opened = fout_open_result [OF assms(2), of opts env, unfolded Pair]
  have "replicate 16 NUL = NUL # replicate 15 NUL" by (simp add: eval_nat_numeral)
  then have marker: "snprintf_at (replicate 32 NUL) 0 32 (''# truncated = 1'' @ [opt_frame_delim opts]) =
      Some (''# truncated = 1'' @ opt_frame_delim opts # replicate 16 NUL)"
    by (simp add: snprintf_at_def put_def)
  show ?thesis
  proof (cases r)
    case (Ok fd)
    obtain r' c where run: "event_handler_fout_realloc env ?n (to_fctx (init_udata fd ?n) s1) = (r', c)" by fastforce
    have fd: "0 \<le> fd" "fo_udata (event_udata s1) = None" using opened by (simp_all add: Ok)
    have n: "1 \<le> ?n" using assms(1) by simp
    have "fo_udata (event_udata (of_fctx c s1)) = None" using fd(2) by (simp add: of_fctx_def)
    with fout_init_realloc [OF n, where env = env and fd = fd and t = s1, unfolded run] init_udata_ok [OF n, of opts] fd marker show ?thesis
      by (cases r') (auto simp: event_handler_fout_def fout_init_eq get_s_def Pair Ok run run_ud_def run_simps set_ud_def
          ud_text_def Let_def init_udata_fields)
  qed (use opened in \<open>auto simp: event_handler_fout_def fout_init_eq get_s_def Pair\<close>)
qed

theorem fout_init_ok_witness:
  "case event_handler_fout default_options demo_env INIT
      (fresh_context \<lparr> fo_udata = None, fo_trace_id = 0, fo_shared_fd = -1, fo_io = [] \<rparr>) of
      (Ok _, s') \<Rightarrow> \<exists>u. fo_udata (event_udata s') = Some u \<and> ud_ok default_options u \<and> ud_text u = [] \<and> 0 \<le> ud_fd u
    | (Rv r, s') \<Rightarrow> r = PHPSPY_ERR \<and> fo_udata (event_udata s') = None
    | (Fault f, s') \<Rightarrow> strstr_in ''%d'' (opt_path_output default_options) \<and>
        (\<exists>tid. expand_fmt (opt_path_output default_options) [tid] = None)"
  by (rule fout_init_ok) (simp_all add: default_options_def)

lemma sapi_field_still:
  "sapi_field (copy_proc_mem (still m) pid) opt p upd s =
     (Ok (), ev_request_update (upd (\<lambda>b. if opt \<and> p \<noteq> 0 then bytes_at m p PHPSPY_STR_SIZE
        else CHR ''-'' # NUL # drop 2 b)) s)"
  by (cases "opt \<and> p \<noteq> 0") (auto simp: sapi_field_def on_world_copy run_simps)

text \<open>C32: Request data may be read past its array. The request strings are copied as 256 raw bytes; when the
  URI in the traced process is that long or longer, the array holds no NUL, and the \<^verbatim>\<open>%s\<close> of the output
  handler reads on behind it.\<close>

theorem request_overread:
  assumes "sapi_globals_addr s \<noteq> 0" and "opt_capture_req_uri opts"
    and "p = ptr_at (bytes_at m (sapi_globals_addr s) (sizeof_sapi_globals L)) (off_request_uri L)" and "p \<noteq> 0"
    and "NUL \<notin> set (bytes_at m p PHPSPY_STR_SIZE)" and "fo_udata (event_udata s) = Some u"
  shows "\<exists>s'. trace_request_info opts L (copy_proc_mem (still m) pid) (event_handler_fout opts env) s =
    (Fault OutOfBounds, s')"
  using assms
  by (simp add: trace_request_info_def run_simps on_world_copy sapi_field_still event_handler_fout_def on_udata_def
      fout_request_def fout_record_def prefixed_def fmt_s_def try_c_assoc)

definition long_uri_mem :: "addr \<Rightarrow> char" where
  "long_uri_mem = mem_segs [
     (40960, le_bytes 48 0 @ le_bytes 8 49152 @ le_bytes 392 0),
     (49152, replicate 256 CHR ''a'')]"

theorem request_overread_witness:
  "\<exists>s'. trace_request_info (default_options\<lparr>opt_capture_req_uri := True\<rparr>) demo_layout
      (copy_proc_mem (still long_uri_mem) 1)
      (event_handler_fout (default_options\<lparr>opt_capture_req_uri := True\<rparr>) demo_env)
      ((fresh_context (demo_fout 64 []))\<lparr>sapi_globals_addr := 40960\<rparr>) = (Fault OutOfBounds, s')"
  by (rule request_overread [OF _ _ refl])
    (simp_all add: demo_fout_def long_uri_mem_def layout_84_x86_64 mem_eval ptr_at_def del: le_bytes.simps)

end
