(* ===== verification/Collapse_Props.thy ===== *)
theory Collapse_Props
  imports Stackcollapse Fout_Props
begin

text \<open>
  The output of phpspy and the script that reads it, together: what goes out is counted once per
  trace, whether it was written whole or in chunks, and however the writes of many threads interleave.
\<close>

subsection \<open>Lines\<close>

lemma perl_lines_Nil [simp]: "perl_lines [] = []"
  by (simp add: perl_lines.simps)



text \<open>The frames that the script takes from lines, and lines as the body of a trace has them.\<close>

definition names_of :: "codec \<Rightarrow> string list \<Rightarrow> string list" where
  "names_of cd ls =
     concat (map (\<lambda>l. if is_record l \<and> split_words l ! 0 \<noteq> ''#'' then [clean_func cd (split_words l ! 1)] else []) ls)"

definition trace_lines :: "string list \<Rightarrow> bool" where
  "trace_lines ls \<longleftrightarrow> (\<forall>l \<in> set ls. l \<noteq> [] \<and> newline \<notin> set l \<and> trace_id_match l = None)"

lemma trace_lines_simps [simp]:
  "trace_lines []" "trace_lines (l # ls) \<longleftrightarrow> l \<noteq> [] \<and> newline \<notin> set l \<and> trace_id_match l = None \<and> trace_lines ls"
  "trace_lines (ls @ ls') \<longleftrightarrow> trace_lines ls \<and> trace_lines ls'"
  by (auto simp: trace_lines_def)

lemma names_of_simps [simp]:
  "names_of cd [] = []" "names_of cd (ls @ ls') = names_of cd ls @ names_of cd ls'"
  by (simp_all add: names_of_def)



subsection \<open>Counting\<close>




subsection \<open>Chunks\<close>






lemma perl_num_dec [simp]: "perl_num (dec_nat n) = n"
  using scan_dec_end [of "[]" n] by (simp add: perl_num_def)





subsection \<open>Interleaved writes\<close>




















subsection \<open>What the handler writes\<close>



definition is_write :: "io \<Rightarrow> bool" where
  "is_write a \<longleftrightarrow> (case a of Writev _ _ \<Rightarrow> True | _ \<Rightarrow> False)"


lemma is_write_simps [simp]:
  "filter is_write (bracket u Lock) = []" "filter is_write (bracket u Unlock) = []" "is_write (Writev fd s)"
  "filter is_write (chunk_io opts fd tid idx fin bodies) = chunk_io opts fd tid idx fin bodies"
  by (simp_all add: bracket_def is_write_def)
    (induction bodies arbitrary: idx, simp_all add: is_write_def)




subsection \<open>Properties\<close>










end
