(* ===== verification/Top.thy ===== *)
theory Top
  imports Options C_Double "HOL-Library.Product_Lexorder"
begin

text \<open>
  The \<^verbatim>\<open>--top\<close> mode, \<^verbatim>\<open>top.c\<close>: phpspy runs itself as a child, reads the traces it prints, and counts
  per function. The state has the file's static variables; the 512 bytes of \<^verbatim>\<open>buf\<close> are kept whole.
  \<^verbatim>\<open>func_list\<close> is the list of the keys of its entries, with the size of its allocation; an index
  outside is a fault. What is drawn is the list of the calls of termbox.
\<close>

abbreviation (input) FUNC_SIZE :: nat where "FUNC_SIZE \<equiv> 256"
abbreviation (input) BUF_SIZE :: nat where "BUF_SIZE \<equiv> 512"

record func_entry =
  count_excl :: "64 word"
  count_incl :: "64 word"
  total_count_excl :: "64 word"
  total_count_incl :: "64 word"
  percent_excl :: "nat \<times> int"

record top_state =
  func_map :: "(string, func_entry) hash"
  func_list :: "string list"
  func_list_size :: nat
  top_buf :: string
  top_buf_len :: nat
  total_samp_count :: "64 word"
  samp_count :: "64 word"
  total_err_count :: "64 word"
  is_paused :: bool
  top_done :: bool

definition init_top :: top_state where
  "init_top = \<lparr> func_map = [], func_list = [], func_list_size = 0, top_buf = replicate BUF_SIZE NUL, top_buf_len = 0,
     total_samp_count = 0, samp_count = 0, total_err_count = 0, is_paused = False, top_done = False \<rparr>"

type_synonym 'a topfun = "(top_state, 'a) cfun"

subsection \<open>Starting the child\<close>

definition starts :: "string \<Rightarrow> string \<Rightarrow> bool" where
  "starts pre arg \<longleftrightarrow> take (length pre) arg = pre"

text \<open>The two rewrites of \<^verbatim>\<open>filter_child_args\<close>, in place: the argument ends after its second character.\<close>

definition filter_child_arg :: "string \<Rightarrow> string" where
  "filter_child_arg arg =
     (let arg = (if starts ''-o'' arg \<or> starts ''--output'' arg then take 1 arg @ ''#'' else arg)
      in if starts ''-1'' arg \<or> starts ''--single-line'' arg \<or> starts ''-t'' arg \<or> starts ''--top'' arg
         then take 1 arg @ ''@'' else arg)"

definition filter_child_args :: "string list \<Rightarrow> string list" where
  "filter_child_args argv = map filter_child_arg argv"

text \<open>The command line shown: each argument and a blank, cut at 511 characters.\<close>

definition phpspy_args :: "string list \<Rightarrow> string" where
  "phpspy_args argv = fold (\<lambda>arg text. take (BUF_SIZE - 1) (text @ arg @ '' '')) (tl argv) ''phpspy ''"

subsection \<open>Reading a line\<close>

text \<open>\<^verbatim>\<open>strtoull\<close> on an array without terminator stops inside it.\<close>

definition scan_stops :: "string \<Rightarrow> bool" where
  "scan_stops b =
     (let s1 = dropWhile c_isspace b;
          s2 = (case s1 of c # r \<Rightarrow> if c = CHR ''-'' \<or> c = CHR ''+'' then r else s1 | [] \<Rightarrow> [])
      in dropWhile (\<lambda>c. digit_val 10 c \<noteq> None) s2 \<noteq> [])"

text \<open>The first half of \<^verbatim>\<open>handle_line\<close>: the frame number and the function of the line of length \<open>n\<close> at the
  start of the array, if it is the line of a frame.\<close>

definition parse_line :: "string \<Rightarrow> nat \<Rightarrow> (nat \<times> string) option result" where
  "parse_line b n =
     (if n < 3 then Ok None
      else if b ! 0 = CHR ''#'' then Ok None
      else if \<not> scan_stops b then Fault OutOfBounds
      else
        let (frame_num, rest) = strtoull 10 b; func_pos = length b - length rest in
        if frame_num = 0 \<and> b ! 0 \<noteq> CHR ''0'' then Ok None
        else if hd rest \<noteq> CHR '' '' then Ok None
        else
          let func_len = sz_minus n (func_pos + 1) in
          if func_len < 1 \<or> func_len \<ge> FUNC_SIZE then Ok None
          else Ok (Some (frame_num, take func_len (tl rest))))"

definition fresh_entry :: func_entry where
  "fresh_entry = \<lparr> count_excl = 0, count_incl = 0, total_count_excl = 0, total_count_incl = 0,
     percent_excl = (0, 0) \<rparr>"

text \<open>A new function: its entry in the map, and its pointer in the list, which grows by 1024.\<close>

definition add_func :: "string \<Rightarrow> unit topfun" where
  "add_func key =
     get_s (\<lambda>s.
     let func_list_len = length (func_list s) + 1;
         size = (if func_list_len > func_list_size s then func_list_size s + 1024 else func_list_size s) in
     if \<not> func_list_len - 1 < size then fault OutOfBounds
     else modify (\<lambda>s. s\<lparr>func_map := hash_add key fresh_entry (func_map s), func_list := func_list s @ [key],
       func_list_size := size\<rparr>))"

definition count_frame :: "nat \<Rightarrow> string \<Rightarrow> unit topfun" where
  "count_frame frame_num func =
     get_s (\<lambda>s.
     try_c
       (case hash_find func (func_map s) of
          Some _ \<Rightarrow> ok func
        | None \<Rightarrow>
            let key = take (FUNC_SIZE - 1) (fmt_prec_s (length func) func)
            in try_c (add_func key) (\<lambda>_. ok key)) (\<lambda>key.
     try_c
       (if frame_num = 0 then
          modify (\<lambda>s. s\<lparr>samp_count := samp_count s + 1,
            func_map := hash_upd key (\<lambda>e. e\<lparr>count_excl := count_excl e + 1\<rparr>) (func_map s)\<rparr>)
        else ok ()) (\<lambda>_.
     modify (\<lambda>s. s\<lparr>func_map := hash_upd key (\<lambda>e. e\<lparr>count_incl := count_incl e + 1\<rparr>) (func_map s)\<rparr>))))"

definition handle_line :: "string \<Rightarrow> nat \<Rightarrow> unit topfun" where
  "handle_line line line_len =
     (case parse_line line line_len of
        Fault f \<Rightarrow> fault f
      | Rv r \<Rightarrow> rv r
      | Ok None \<Rightarrow> ok ()
      | Ok (Some (frame_num, func)) \<Rightarrow> count_frame frame_num func)"

subsection \<open>Reading from the child\<close>

datatype read_result = Read_error | Read_bytes string

text \<open>The loop over the complete lines in the buffer: handle the first one and move the rest to the front.\<close>

function line_loop :: "unit topfun" where
  "line_loop s =
     (case memchr (top_buf s) 0 newline (top_buf_len s) of
        None \<Rightarrow> (Ok (), s)
      | Some nl \<Rightarrow>
          (case handle_line (top_buf s) nl s of
             (Ok _, s1) \<Rightarrow>
               (case put (top_buf s) 0 (take (top_buf_len s - (nl + 1)) (drop (nl + 1) (top_buf s))) of
                  None \<Rightarrow> (Fault OutOfBounds, s1)
                | Some b \<Rightarrow> line_loop (s1\<lparr>top_buf := b, top_buf_len := top_buf_len s - (nl + 1)\<rparr>))
           | (Rv r, s1) \<Rightarrow> (Rv r, s1)
           | (Fault f, s1) \<Rightarrow> (Fault f, s1)))"
  by pat_completeness auto

termination
proof (relation "measure top_buf_len")
  fix s :: top_state and nl
  assume "memchr (top_buf s) 0 newline (top_buf_len s) = Some nl"
  then have "nl < top_buf_len s"
    by (auto simp: memchr_def dest!: find_from_Some)
      (metis add_less_cancel_left length_append length_Cons length_take min_less_iff_conj
        less_add_Suc1 less_le_trans min.cobounded1 add_Suc_right)
  then show "(s1\<lparr>top_buf := b, top_buf_len := top_buf_len s - (nl + 1)\<rparr>, s) \<in> measure top_buf_len"
    for s1 :: top_state and b by simp
qed simp

declare line_loop.simps [simp del]

text \<open>\<^verbatim>\<open>read_child_out\<close>; the answer of \<^verbatim>\<open>read\<close> is a function of the number of bytes asked for.\<close>

definition read_child_out :: "(nat \<Rightarrow> read_result) \<Rightarrow> unit topfun" where
  "read_child_out rd =
     get_s (\<lambda>s.
     let full = BUF_SIZE - top_buf_len s < 1;
         buf_len = (if full then 0 else top_buf_len s);
         rem = BUF_SIZE - buf_len in
     try_c (modify (top_buf_len_update (\<lambda>_. buf_len))) (\<lambda>_.
     case rd rem of
       Read_error \<Rightarrow> ok ()
     | Read_bytes bytes \<Rightarrow>
         if bytes = [] then modify (top_done_update (\<lambda>_. True))
         else
           try_c (of_opt OutOfBounds (put (top_buf s) buf_len bytes)) (\<lambda>b.
           try_c (modify (\<lambda>s. s\<lparr>top_buf := b, top_buf_len := buf_len + length bytes\<rparr>)) (\<lambda>_.
           line_loop))))"

text \<open>The loop of \<^verbatim>\<open>read_child_err\<close>: \<open>count\<close> lines so far; \<open>left\<close> is \<^verbatim>\<open>read_rv\<close>. The offset \<^verbatim>\<open>nl - buf\<close> is that
  of the line's end in the whole buffer.\<close>

function err_loop :: "string \<Rightarrow> nat \<Rightarrow> int \<Rightarrow> nat \<Rightarrow> nat" where
  "err_loop b pos left count =
     (if left > 0 then
        case memchr b pos newline (nat left) of
          None \<Rightarrow> count
        | Some nl \<Rightarrow> err_loop b (pos + nl + 1) (left - int nl - 1) (count + 1)
      else count)"
  by pat_completeness auto

termination by (relation "measure (\<lambda>(b, pos, left, count). nat left)") auto

declare err_loop.simps [simp del]

definition read_child_err :: "read_result \<Rightarrow> unit topfun" where
  "read_child_err r =
     (case r of
        Read_error \<Rightarrow> ok ()
      | Read_bytes bytes \<Rightarrow>
          if bytes = [] then modify (top_done_update (\<lambda>_. True))
          else modify (\<lambda>s. s\<lparr>total_err_count := total_err_count s + of_nat (err_loop bytes 0 (int (length bytes)) 0)\<rparr>))"

subsection \<open>Keys and display\<close>

datatype tb_event = Key char | Other_event

definition handle_event :: "tb_event \<Rightarrow> unit topfun" where
  "handle_event event =
     (case event of
        Other_event \<Rightarrow> ok ()
      | Key ch \<Rightarrow>
          if ch = CHR ''q'' then modify (top_done_update (\<lambda>_. True))
          else if ch = CHR ''p'' then modify (is_paused_update (\<lambda>p. \<not> p))
          else ok ())"

text \<open>The order of \<^verbatim>\<open>func_list_compare\<close>, the highest counts first.\<close>

definition entry_rank :: "func_entry \<Rightarrow> int \<times> int \<times> int \<times> int" where
  "entry_rank e = (- uint (count_excl e), - uint (count_incl e), - uint (total_count_excl e), - uint (total_count_incl e))"

definition display_sort :: "top_state \<Rightarrow> string list" where
  "display_sort s = sort_key (\<lambda>k. case hash_find k (func_map s) of None \<Rightarrow> (0, 0, 0, 0) | Some e \<Rightarrow> entry_rank e) (func_list s)"

text \<open>What the program asks of termbox and of the system.\<close>

datatype attr = TB_BOLD | TB_REVERSE

datatype top_op =
    Tb_init | Tb_clear | Tb_printf nat int "attr list" string | Tb_present | Tb_shutdown
  | Close int | Kill pid | Waitpid pid

text \<open>The entry that a pointer of \<^verbatim>\<open>func_list\<close> leads to, and one row.\<close>

definition entry_at :: "(string, func_entry) hash \<Rightarrow> string \<Rightarrow> func_entry" where
  "entry_at m k = (case hash_find k m of None \<Rightarrow> fresh_entry | Some e \<Rightarrow> e)"

definition pad_right :: "nat \<Rightarrow> string \<Rightarrow> string" where
  "pad_right k s = s @ replicate (k - length s) CHR '' ''"

definition show_count :: "64 word \<Rightarrow> string" where
  "show_count c = dec_nat (unat c)"

definition row_text :: "func_entry \<Rightarrow> string \<Rightarrow> string" where
  "row_text e func =
     pad_right 9 (show_count (total_count_incl e)) @ ''  '' @ pad_right 9 (show_count (total_count_excl e)) @ ''  '' @
     pad_right 9 (show_count (count_incl e)) @ ''  '' @ pad_right 9 (show_count (count_excl e)) @ ''  '' @
     pad_right 6 (fmt_fixed 2 (percent_excl e)) @ ''  '' @ func"

fun draw_rows :: "int \<Rightarrow> int \<Rightarrow> (string, func_entry) hash \<Rightarrow> string list \<Rightarrow> top_op list" where
  "draw_rows y h m [] = []"
| "draw_rows y h m (func # fs) =
     (if y < h then Tb_printf 0 y [] (row_text (entry_at m func) func) # draw_rows (y + 1) h m fs else [])"

definition add_totals :: "64 word \<Rightarrow> func_entry \<Rightarrow> func_entry" where
  "add_totals samples e =
     e\<lparr>total_count_excl := total_count_excl e + count_excl e, total_count_incl := total_count_incl e + count_incl e,
       percent_excl := (if samples < 1 then (0, 0)
         else float_div (float_mul (100, 0) (float_of (unat (count_excl e)))) (float_of (unat samples)))\<rparr>"

text \<open>\<^verbatim>\<open>display\<close> on a screen of \<open>w\<close> columns and \<open>h\<close> rows: order the functions, add the counts of the interval to
  the totals, draw, and start a new interval. Functions with equal counts keep their order, which \<^verbatim>\<open>qsort\<close> leaves open.\<close>

definition display :: "int \<Rightarrow> int \<Rightarrow> string \<Rightarrow> top_state \<Rightarrow> top_op list \<times> top_state" where
  "display w h args s =
     (let s = s\<lparr>func_list := display_sort s, func_map := map (\<lambda>(k, e). (k, add_totals (samp_count s) e)) (func_map s)\<rparr>;
          s = s\<lparr>total_samp_count := total_samp_count s + samp_count s\<rparr>;
          ops =
            [Tb_clear,
             Tb_printf 0 0 [TB_BOLD] args,
             Tb_printf 0 1 [] (''samp_count='' @ show_count (total_samp_count s) @ ''  err_count='' @
               show_count (total_err_count s) @ ''  func_count='' @ dec_nat (length (func_list s))),
             Tb_printf 0 3 [TB_BOLD, TB_REVERSE] (pad_right 10 ''tincl'' @ '' '' @ pad_right 10 ''texcl'' @ '' '' @
               pad_right 10 ''incl'' @ '' '' @ pad_right 10 ''excl'' @ '' '' @ pad_right 7 ''excl%'' @ '' ''),
             Tb_printf 52 3 [TB_BOLD, TB_REVERSE] (pad_right (nat \<bar>w - 52\<bar>) ''func'')] @
            draw_rows 4 h (func_map s) (func_list s);
          s = s\<lparr>func_map := map (\<lambda>(k, e). (k, e\<lparr>count_excl := 0, count_incl := 0\<rparr>)) (func_map s), samp_count := 0\<rparr>
      in (ops @ (if is_paused s then [] else [Tb_present]), s))"

end
