(* ===== verification/Top_Props.thy ===== *)
theory Top_Props
  imports Top
begin

text \<open>
  Properties of the \<^verbatim>\<open>--top\<close> mode: how the output of the child is cut into lines does not depend on how the
  pipe cuts it into reads; the counts add up; the errors do not.
\<close>

subsection \<open>A line as text\<close>

text \<open>\<open>parse_line\<close> on the text of the line alone.\<close>

definition parse_text :: "string \<Rightarrow> (nat \<times> string) option" where
  "parse_text l =
     (if length l < 3 \<or> hd l = CHR ''#'' then None
      else case strtoull 10 l of (frame_num, rest) \<Rightarrow>
        if frame_num = 0 \<and> hd l \<noteq> CHR ''0'' then None
        else case rest of
          [] \<Rightarrow> None
        | c # func \<Rightarrow> if c = CHR '' '' \<and> func \<noteq> [] \<and> length func < FUNC_SIZE then Some (frame_num, func) else None)"

definition handle_text :: "string \<Rightarrow> unit topfun" where
  "handle_text l = (case parse_text l of None \<Rightarrow> ok () | Some (frame_num, func) \<Rightarrow> count_frame frame_num func)"

primrec handle_texts :: "string list \<Rightarrow> unit topfun" where
  "handle_texts [] = ok ()"
| "handle_texts (l # ls) = try_c (handle_text l) (\<lambda>_. handle_texts ls)"

text \<open>A line that fits the buffer, and has more than white space unless it is short.\<close>

definition good_line :: "string \<Rightarrow> bool" where
  "good_line l \<longleftrightarrow> newline \<notin> set l \<and> length l < BUF_SIZE \<and> (length l < 3 \<or> (\<exists>c \<in> set l. \<not> c_isspace c))"

lemma newline_props: "digit_val 10 newline = None" "c_isspace newline"
  by (simp_all add: digit_val_def c_isspace_def)

lemma scan_digits_stop:
  "digit_val base c = None \<Longrightarrow>
    scan_digits base acc (xs @ c # ys) = (fst (scan_digits base acc xs), snd (scan_digits base acc xs) @ c # ys)"
  by (induction xs arbitrary: acc) (auto split: option.splits)

lemma strto_line:
  assumes "\<exists>x \<in> set l. \<not> c_isspace x"
  shows "strto 10 (l @ newline # ys) = (case strto 10 l of (neg, v, r) \<Rightarrow> (neg, v, r @ newline # ys))"
proof -
  have "dropWhile c_isspace (l @ newline # ys) = dropWhile c_isspace l @ newline # ys"
    using assms by (auto intro: dropWhile_append1)
  moreover obtain d r where "dropWhile c_isspace l = d # r"
    using assms by (cases "dropWhile c_isspace l") (auto simp: dropWhile_eq_Nil_conv)
  ultimately show ?thesis
    by (simp add: strto_def Let_def scan_digits_stop [OF newline_props(1)] scan_digits_stop [OF newline_props(1), of _ "_ # _", simplified]
        split: prod.splits option.splits)
qed

lemma strtoull_line:
  assumes "\<exists>x \<in> set l. \<not> c_isspace x"
  shows "strtoull 10 (l @ newline # ys) = (fst (strtoull 10 l), snd (strtoull 10 l) @ newline # ys)"
  by (simp add: strtoull_def strto_line [OF assms] split: prod.splits)

lemma scan_stops_line:
  assumes "\<exists>x \<in> set l. \<not> c_isspace x"
  shows "scan_stops (l @ newline # ys)"
proof -
  have "dropWhile c_isspace (l @ newline # ys) = dropWhile c_isspace l @ newline # ys"
    using assms by (auto intro: dropWhile_append1)
  moreover obtain d r where "dropWhile c_isspace l = d # r"
    using assms by (cases "dropWhile c_isspace l") (auto simp: dropWhile_eq_Nil_conv)
  ultimately show ?thesis
    using newline_props(1) by (auto simp: scan_stops_def Let_def dropWhile_eq_Nil_conv)
qed

lemma sz_minus_le:
  assumes "b \<le> a" and "a < 2 ^ 64"
  shows "sz_minus a b = a - b"
proof -
  have "(int a - int b) mod 2 ^ 64 = int a - int b"
    using assms by (intro mod_pos_pos_trivial) simp_all
  then show ?thesis using assms(1) by (simp add: sz_minus_def)
qed

lemma strtoull_rest: "\<exists>p. l = p @ snd (strtoull 10 l)"
proof -
  have scan: "\<exists>p. xs = p @ snd (scan_digits base acc xs)" for base acc xs
  proof (induction xs arbitrary: acc)
    case (Cons x xs)
    then show ?case by (cases "digit_val base x") (auto, metis append_Cons)
  qed simp
  define s1 where "s1 = dropWhile c_isspace l"
  have s1: "\<exists>p. l = p @ s1" unfolding s1_def by (metis takeWhile_dropWhile_id)
  define s2 where "s2 = (case s1 of c # r \<Rightarrow> if c = CHR ''-'' \<or> c = CHR ''+'' then r else s1 | [] \<Rightarrow> [])"
  have "snd (snd (strto 10 l)) = (if snd (scan_digits 10 0 s2) = s2 then l else snd (scan_digits 10 0 s2))"
    unfolding strto_def s1_def [symmetric] s2_def by (cases s1) (auto simp: Let_def split: prod.splits)
  moreover have "\<exists>p. s1 = p @ s2" unfolding s2_def by (cases s1) auto
  ultimately have "\<exists>p. l = p @ snd (snd (strto 10 l))"
    using s1 scan [of s2 10 0] by (metis append.assoc append_Nil)
  then show ?thesis by (cases "strto 10 l") (simp add: strtoull_def)
qed

lemma strtoull_length: "length (snd (strtoull 10 l)) \<le> length l"
  using strtoull_rest [of l] by (metis length_append le_add2)

lemma parse_line_text:
  assumes "good_line l" and "length l < 2 ^ 64"
  shows "parse_line (l @ newline # ys) (length l) = Ok (parse_text l)"
proof (cases "length l < 3")
  case True
  then show ?thesis by (simp add: parse_line_def parse_text_def)
next
  case False
  then have l: "\<exists>x \<in> set l. \<not> c_isspace x" "l \<noteq> []" using assms by (auto simp: good_line_def)
  obtain v r where vr: "strtoull 10 l = (v, r)" by fastforce
  have len: "length r \<le> length l" using strtoull_length [of l] vr by simp
  have hd: "(l @ newline # ys) ! 0 = hd l" using l(2) by (simp add: nth_append hd_conv_nth)
  have "sz_minus (length l) (length l - length r + 1) = length r - 1" if "r \<noteq> []"
    using that len assms(2) by (cases r) (simp_all add: sz_minus_le)
  then show ?thesis
    using False len
    by (cases r) (auto simp: parse_line_def parse_text_def hd vr strtoull_line [OF l(1)] scan_stops_line [OF l(1)] Let_def)
qed

subsection \<open>Counting does not look at the buffer\<close>

definition with_buf :: "string \<Rightarrow> nat \<Rightarrow> top_state \<Rightarrow> top_state" where
  "with_buf b n s = s\<lparr>top_buf := b, top_buf_len := n\<rparr>"

text \<open>The list of functions fits its allocation.\<close>

definition list_ok :: "top_state \<Rightarrow> bool" where
  "list_ok s \<longleftrightarrow> length (func_list s) \<le> func_list_size s"

lemma with_buf_simps [simp]:
  "func_map (with_buf b n s) = func_map s" "func_list (with_buf b n s) = func_list s"
  "func_list_size (with_buf b n s) = func_list_size s" "top_buf (with_buf b n s) = b" "top_buf_len (with_buf b n s) = n"
  "samp_count (with_buf b n s) = samp_count s" "total_samp_count (with_buf b n s) = total_samp_count s"
  "top_done (with_buf b n s) = top_done s"
  "with_buf b n (with_buf b' n' s) = with_buf b n s" "list_ok (with_buf b n s) = list_ok s"
  by (simp_all add: with_buf_def list_ok_def)

lemma with_buf_same: "with_buf (top_buf s) (top_buf_len s) s = s"
  by (simp add: with_buf_def)

lemma add_func_run:
  "list_ok s \<Longrightarrow> add_func key s = (Ok (), s\<lparr>func_map := hash_add key fresh_entry (func_map s),
     func_list := func_list s @ [key],
     func_list_size := (if length (func_list s) + 1 > func_list_size s then func_list_size s + 1024 else func_list_size s)\<rparr>)"
  by (simp add: add_func_def run_simps list_ok_def Let_def)

lemma count_frame_ok:
  assumes "list_ok s"
  shows "\<exists>s'. count_frame k f s = (Ok (), s') \<and> list_ok s' \<and> top_buf s' = top_buf s \<and> top_buf_len s' = top_buf_len s \<and>
    top_done s' = top_done s \<and>
    (\<forall>b n. count_frame k f (with_buf b n s) = (Ok (), with_buf b n s'))"
  using assms
  by (cases "hash_find f (func_map s)"; cases "k = 0")
    (simp_all add: count_frame_def add_func_run run_simps Let_def, auto simp: list_ok_def with_buf_def)

lemma handle_text_ok:
  assumes "list_ok s"
  shows "\<exists>s'. handle_text l s = (Ok (), s') \<and> list_ok s' \<and> top_buf s' = top_buf s \<and> top_buf_len s' = top_buf_len s \<and>
    top_done s' = top_done s \<and>
    (\<forall>b n. handle_text l (with_buf b n s) = (Ok (), with_buf b n s'))"
  using assms count_frame_ok [OF assms]
  by (cases "parse_text l") (auto simp: handle_text_def run_simps)

lemma handle_texts_ok:
  "list_ok s \<Longrightarrow>
    \<exists>s'. handle_texts ls s = (Ok (), s') \<and> list_ok s' \<and> top_buf s' = top_buf s \<and> top_buf_len s' = top_buf_len s \<and>
    top_done s' = top_done s \<and>
    (\<forall>b n. handle_texts ls (with_buf b n s) = (Ok (), with_buf b n s'))"
proof (induction ls arbitrary: s)
  case Nil
  then show ?case by (simp add: run_simps)
next
  case (Cons l ls)
  from handle_text_ok [OF Cons.prems] obtain s1 where
    s1: "handle_text l s = (Ok (), s1)" "list_ok s1" "top_buf s1 = top_buf s" "top_buf_len s1 = top_buf_len s" "top_done s1 = top_done s"
      "\<And>b n. handle_text l (with_buf b n s) = (Ok (), with_buf b n s1)" by blast
  from Cons.IH [OF s1(2)] show ?case using s1 by (auto simp: try_c_simps)
qed

lemma handle_texts_append: "handle_texts (ls @ ls') = try_c (handle_texts ls) (\<lambda>_. handle_texts ls')"
  by (induction ls) (simp_all add: try_c_assoc)

subsection \<open>The lines of the buffer\<close>

definition buf_ok :: "top_state \<Rightarrow> bool" where
  "buf_ok s \<longleftrightarrow> length (top_buf s) = BUF_SIZE \<and> top_buf_len s \<le> BUF_SIZE"

definition held_text :: "top_state \<Rightarrow> string" where
  "held_text s = take (top_buf_len s) (top_buf s)"

lemma find_from_line:
  "c \<notin> set l \<Longrightarrow> find_from i c (take n (l @ c # ys)) = (if length l < n then Some (i + length l) else None)"
proof (induction l arbitrary: i n)
  case Nil
  then show ?case by (cases n) simp_all
next
  case (Cons x l)
  then show ?case by (cases n) (auto simp del: take_append)
qed

lemma memchr_line:
  "newline \<notin> set l \<Longrightarrow> memchr (l @ newline # ys) 0 newline n = (if length l < n then Some (length l) else None)"
  by (simp add: memchr_def find_from_line del: take_append)

lemma length_held: "buf_ok s \<Longrightarrow> length (held_text s) = top_buf_len s"
  by (simp add: held_text_def buf_ok_def)

lemma line_loop_none: "newline \<notin> set (held_text s) \<Longrightarrow> line_loop s = (Ok (), s)"
  by (subst line_loop.simps) (simp add: memchr_def held_text_def find_from_None [THEN iffD2])

lemma line_loop_line:
  assumes "buf_ok s" and "list_ok s" and "held_text s = l @ newline # t" and "good_line l"
  shows "\<exists>s1 b. handle_text l s = (Ok (), s1) \<and> list_ok s1 \<and> buf_ok (with_buf b (length t) s1) \<and>
    held_text (with_buf b (length t) s1) = t \<and> line_loop s = line_loop (with_buf b (length t) s1)"
proof -
  obtain ys where b: "top_buf s = l @ newline # t @ ys"
    using assms(3) append_take_drop_id [of "top_buf_len s" "top_buf s"] by (metis append.assoc append_Cons held_text_def)
  have len: "top_buf_len s = length l + 1 + length t"
    using length_held [OF assms(1)] assms(3) by simp
  obtain s1 where s1: "handle_text l s = (Ok (), s1)" "list_ok s1" "top_buf s1 = top_buf s"
    using handle_text_ok [OF assms(2)] by blast
  have "length l < 512" using assms(4) by (simp add: good_line_def)
  then have "parse_line (top_buf s) (length l) = Ok (parse_text l)"
    unfolding b using assms(4) by (intro parse_line_text) simp_all
  then have line: "handle_line (top_buf s) (length l) s = (Ok (), s1)"
    using s1(1) by (cases "parse_text l") (auto simp: handle_line_def handle_text_def run_simps)
  let ?b = "t @ drop (length t) (top_buf s)"
  have "put (top_buf s) 0 t = Some ?b" using assms(1) b by (simp add: put_def)
  moreover have "memchr (top_buf s) 0 newline (top_buf_len s) = Some (length l)"
    unfolding b using assms(4) len by (simp add: memchr_line good_line_def)
  ultimately have "line_loop s = line_loop (with_buf ?b (length t) s1)"
    using line b len by (subst line_loop.simps) (simp add: with_buf_def)
  moreover have "buf_ok (with_buf ?b (length t) s1)" using assms(1) len by (auto simp: buf_ok_def)
  ultimately show ?thesis using s1 by (intro exI [of _ s1] exI [of _ ?b]) (simp add: held_text_def)
qed

lemma line_loop_lines:
  assumes "\<And>l. l \<in> set ls \<Longrightarrow> good_line l" and "newline \<notin> set q"
  shows "buf_ok s \<Longrightarrow> list_ok s \<Longrightarrow> held_text s = unlines ls @ q \<Longrightarrow>
    \<exists>s1 b. handle_texts ls s = (Ok (), s1) \<and> line_loop s = (Ok (), with_buf b (length q) s1) \<and> list_ok s1 \<and>
      buf_ok (with_buf b (length q) s1) \<and> held_text (with_buf b (length q) s1) = q"
  using assms(1)
proof (induction ls arbitrary: s)
  case Nil
  then have "top_buf_len s = length q" using length_held [of s] by (simp add: unlines_def)
  then have "with_buf (top_buf s) (length q) s = s" using with_buf_same [of s] by simp
  with Nil assms(2) show ?case
    by (intro exI [of _ s] exI [of _ "top_buf s"]) (simp add: line_loop_none run_simps unlines_def)
next
  case (Cons l ls)
  have "held_text s = l @ newline # (unlines ls @ q)" using Cons.prems(3) by (simp add: unlines_def)
  from line_loop_line [OF Cons.prems(1,2) this] Cons.prems(4) obtain s1 b where
    s1: "handle_text l s = (Ok (), s1)" "list_ok s1" "line_loop s = line_loop (with_buf b (length (unlines ls @ q)) s1)"
      "buf_ok (with_buf b (length (unlines ls @ q)) s1)" "held_text (with_buf b (length (unlines ls @ q)) s1) = unlines ls @ q"
    by auto
  let ?s = "with_buf b (length (unlines ls @ q)) s1"
  from Cons.IH [OF s1(4) _ s1(5)] s1(2) Cons.prems(4) obtain s2 b2 where
    s2: "handle_texts ls ?s = (Ok (), s2)" "line_loop ?s = (Ok (), with_buf b2 (length q) s2)" "list_ok s2"
      "buf_ok (with_buf b2 (length q) s2)" "held_text (with_buf b2 (length q) s2) = q"
    by auto
  obtain s3 where s3: "handle_texts ls s1 = (Ok (), s3)" "list_ok s3" "handle_texts ls ?s = (Ok (), with_buf b (length (unlines ls @ q)) s3)"
    using handle_texts_ok [OF s1(2), of ls] by blast
  with s2(1) have "with_buf b2 (length q) s2 = with_buf b2 (length q) s3" by auto
  with s1 s2 s3 show ?case by (intro exI [of _ s3] exI [of _ b2]) simp
qed

subsection \<open>Reads\<close>

lemma put_held:
  assumes "buf_ok s" and "top_buf_len s + length bytes \<le> BUF_SIZE"
  shows "\<exists>b. put (top_buf s) (top_buf_len s) bytes = Some b \<and>
    buf_ok (with_buf b (top_buf_len s + length bytes) s) \<and>
    held_text (with_buf b (top_buf_len s + length bytes) s) = held_text s @ bytes"
  using assms by (cases bytes) (auto simp: put_def buf_ok_def held_text_def min_def)

lemma read_step:
  assumes "buf_ok s" and "list_ok s" and "length (held_text s) < BUF_SIZE"
    and "bytes \<noteq> []" and "length (held_text s) + length bytes \<le> BUF_SIZE"
    and "held_text s @ bytes = unlines ls @ q" and "\<And>l. l \<in> set ls \<Longrightarrow> good_line l" and "newline \<notin> set q"
  shows "\<exists>s1 b. handle_texts ls s = (Ok (), s1) \<and> list_ok s1 \<and>
    read_child_out (\<lambda>_. Read_bytes bytes) s = (Ok (), with_buf b (length q) s1) \<and>
    buf_ok (with_buf b (length q) s1) \<and> held_text (with_buf b (length q) s1) = q \<and> top_done s1 = top_done s"
proof -
  have len: "length (held_text s) = top_buf_len s" using assms(1) by (rule length_held)
  obtain b where b: "put (top_buf s) (top_buf_len s) bytes = Some b"
      "buf_ok (with_buf b (top_buf_len s + length bytes) s)"
      "held_text (with_buf b (top_buf_len s + length bytes) s) = held_text s @ bytes"
    using put_held [OF assms(1), of bytes] assms(5) len by auto
  let ?s = "with_buf b (top_buf_len s + length bytes) s"
  have "read_child_out (\<lambda>_. Read_bytes bytes) s = line_loop ?s"
    using b(1) assms(3,4) len by (simp add: read_child_out_def run_simps Let_def with_buf_def)
  moreover obtain s2 b2 where s2: "handle_texts ls ?s = (Ok (), s2)" "line_loop ?s = (Ok (), with_buf b2 (length q) s2)"
      "buf_ok (with_buf b2 (length q) s2)" "held_text (with_buf b2 (length q) s2) = q"
    using line_loop_lines [where ls = ls and q = q, OF assms(7,8) b(2)] assms(2,6) b(3) by auto
  moreover obtain s1 where s1: "handle_texts ls s = (Ok (), s1)" "list_ok s1" "top_done s1 = top_done s"
      "handle_texts ls ?s = (Ok (), with_buf b (top_buf_len s + length bytes) s1)"
    using handle_texts_ok [OF assms(2), of ls] by blast
  moreover have "with_buf b2 (length q) s2 = with_buf b2 (length q) s1" using s2(1) s1(4) by auto
  ultimately show ?thesis by (intro exI [of _ s1] exI [of _ b2]) simp
qed

text \<open>A pipe that holds \<open>str\<close>; at the \<open>i\<close>-th read \<open>ks ! i\<close> bytes of it are ready. The value is what is left.\<close>

primrec feed :: "nat list \<Rightarrow> string \<Rightarrow> string topfun" where
  "feed [] str = ok str"
| "feed (k # ks) str =
     (if str = [] then ok []
      else get_s (\<lambda>s.
        let rem = BUF_SIZE - (if top_buf_len s < BUF_SIZE then top_buf_len s else 0); n = min (max 1 k) rem in
        try_c (read_child_out (\<lambda>_. Read_bytes (take n str))) (\<lambda>_. feed ks (drop n str))))"

lemma prefix_lines:
  assumes "\<And>l. l \<in> set ls \<Longrightarrow> good_line l"
  shows "x @ y = unlines ls \<Longrightarrow> \<exists>ls1 ls2 q. ls = ls1 @ ls2 \<and> x = unlines ls1 @ q \<and> q @ y = unlines ls2 \<and>
    newline \<notin> set q \<and> length q < BUF_SIZE"
  using assms
proof (induction ls arbitrary: x)
  case Nil
  then show ?case by (simp add: unlines_def)
next
  case (Cons l ls)
  have l: "newline \<notin> set l" "length l < BUF_SIZE" using Cons.prems(2) [of l] by (simp_all add: good_line_def)
  have eq: "x @ y = l @ newline # unlines ls" using Cons.prems(1) by (simp add: unlines_def)
  show ?case
  proof (cases "length x \<le> length l")
    case True
    then have "x = take (length x) l" using eq by (metis append_eq_conv_conj take_append diff_is_0_eq take0 append_Nil2)
    then have "newline \<notin> set x" using l(1) by (metis in_set_takeD)
    with True l(2) Cons.prems(1) show ?thesis
      by (intro exI [of _ "[]"] exI [of _ "l # ls"] exI [of _ x]) (simp add: unlines_def)
  next
    case False
    then obtain x' where x': "x = l @ newline # x'" "x' @ y = unlines ls"
      using eq by (auto simp: append_eq_append_conv2 append_eq_Cons_conv)
    from Cons.IH [OF x'(2)] Cons.prems(2) obtain ls1 ls2 q where
      "ls = ls1 @ ls2" "x' = unlines ls1 @ q" "q @ y = unlines ls2" "newline \<notin> set q" "length q < BUF_SIZE" by auto
    with x'(1) show ?thesis
      by (intro exI [of _ "l # ls1"] exI [of _ ls2] exI [of _ q]) (simp add: unlines_def)
  qed
qed

lemma unlines_empty: "newline \<notin> set (unlines ls) \<Longrightarrow> ls = []"
  by (cases ls) (simp_all add: unlines_def)

lemma feed_lines:
  "buf_ok s \<Longrightarrow> list_ok s \<Longrightarrow> length (held_text s) < BUF_SIZE \<Longrightarrow> held_text s @ str = unlines ls \<Longrightarrow>
    (\<And>l. l \<in> set ls \<Longrightarrow> good_line l) \<Longrightarrow> newline \<notin> set (held_text s) \<Longrightarrow> length str \<le> length ks \<Longrightarrow>
    \<exists>s' s1. feed ks str s = (Ok [], s') \<and> handle_texts ls s = (Ok (), s1) \<and> with_buf [] 0 s' = with_buf [] 0 s1"
proof (induction ks arbitrary: str s ls)
  case Nil
  then have "unlines ls = held_text s" by simp
  with Nil.prems(6) have "ls = []" using unlines_empty [of ls] by simp
  with Nil show ?case by (simp add: run_simps)
next
  case (Cons k ks)
  show ?case
  proof (cases "str = []")
    case True
    then have "unlines ls = held_text s" using Cons.prems(4) by simp
    with Cons.prems(6) have "ls = []" using unlines_empty [of ls] by simp
    with True show ?thesis by (simp add: run_simps)
  next
    case False
    have len: "length (held_text s) = top_buf_len s" using Cons.prems(1) by (rule length_held)
    define n where "n = min (max (Suc 0) k) (BUF_SIZE - top_buf_len s)"
    have n: "0 < n" "top_buf_len s + n \<le> BUF_SIZE" using Cons.prems(3) len by (auto simp: n_def)
    obtain ls1 ls2 q where q: "ls = ls1 @ ls2" "held_text s @ take n str = unlines ls1 @ q" "q @ drop n str = unlines ls2"
        "newline \<notin> set q" "length q < BUF_SIZE"
      using prefix_lines [of ls "held_text s @ take n str" "drop n str"] Cons.prems(4,5) by auto
    have "take n str \<noteq> []" "length (held_text s) + length (take n str) \<le> BUF_SIZE" using False n len by auto
    from read_step [OF Cons.prems(1-3) this q(2) _ q(4)] Cons.prems(5) q(1) obtain s1 b where
      s1: "handle_texts ls1 s = (Ok (), s1)" "list_ok s1"
        "read_child_out (\<lambda>_. Read_bytes (take n str)) s = (Ok (), with_buf b (length q) s1)"
        "buf_ok (with_buf b (length q) s1)" "held_text (with_buf b (length q) s1) = q" by auto
    let ?s = "with_buf b (length q) s1"
    have "length (drop n str) \<le> length ks" using Cons.prems(7) n(1) by simp
    with Cons.IH [OF s1(4)] s1(2,5) q Cons.prems(5) obtain s' s2 where
      s': "feed ks (drop n str) ?s = (Ok [], s')" "handle_texts ls2 ?s = (Ok (), s2)" "with_buf [] 0 s' = with_buf [] 0 s2"
      by fastforce
    obtain s3 where s3: "handle_texts ls2 s1 = (Ok (), s3)" "handle_texts ls2 ?s = (Ok (), with_buf b (length q) s3)"
      using handle_texts_ok [OF s1(2), of ls2] by blast
    have "feed (k # ks) str s = (Ok [], s')"
      using False s1(3) s'(1) Cons.prems(3) len by (simp add: run_simps n_def [symmetric] Let_def)
    moreover have "handle_texts ls s = (Ok (), s3)" using q(1) s1(1) s3(1) by (simp add: handle_texts_append)
    moreover have "with_buf [] 0 s' = with_buf [] 0 s3" using s'(2,3) s3(2) by auto
    ultimately show ?thesis by blast
  qed
qed

subsection \<open>Counts\<close>

definition func_count :: "(func_entry \<Rightarrow> 64 word) \<Rightarrow> top_state \<Rightarrow> string \<Rightarrow> 64 word" where
  "func_count g s f = (case hash_find f (func_map s) of None \<Rightarrow> 0 | Some e \<Rightarrow> g e)"

definition frames_where :: "(nat \<times> string \<Rightarrow> bool) \<Rightarrow> string list \<Rightarrow> nat" where
  "frames_where P ls = length (filter (\<lambda>l. case parse_text l of None \<Rightarrow> False | Some x \<Rightarrow> P x) ls)"

lemma frames_where_Cons:
  "frames_where P (l # ls) = (case parse_text l of None \<Rightarrow> 0 | Some x \<Rightarrow> if P x then 1 else 0) + frames_where P ls"
  by (simp add: frames_where_def split: option.splits)

lemma hash_upd_twice: "hash_upd k g (hash_upd k f m) = hash_upd k (\<lambda>v. g (f v)) m"
  by (auto simp: hash_upd_def)

lemma count_frame_run:
  assumes "list_ok s" and "NUL \<notin> set f" and "length f < FUNC_SIZE" and "count_frame k f s = (Ok (), s')"
  shows "func_map s' = hash_touch f fresh_entry (\<lambda>e. e\<lparr>count_excl := count_excl e + (if k = 0 then 1 else 0),
      count_incl := count_incl e + 1\<rparr>) (func_map s)"
    and "samp_count s' = samp_count s + (if k = 0 then 1 else 0)" and "total_samp_count s' = total_samp_count s"
proof -
  have "fmt_prec_s (length f) f = f" using assms(2) by (auto simp: fmt_prec_s_def takeWhile_eq_all_conv)
  then have key: "take 255 (fmt_prec_s (length f) f) = f" using assms(3) by simp
  let ?G = "\<lambda>e. e\<lparr>count_excl := count_excl e + (if k = 0 then 1 else 0), count_incl := count_incl e + 1\<rparr>"
  have "func_map s' = hash_touch f fresh_entry ?G (func_map s) \<and> samp_count s' = samp_count s + (if k = 0 then 1 else 0) \<and>
    total_samp_count s' = total_samp_count s"
  proof (cases "hash_find f (func_map s)")
    case None
    with assms(1,4) show ?thesis
      by (cases "k = 0") (simp_all add: count_frame_def add_func_run run_simps Let_def key hash_touch_def hash_upd_twice,
        auto simp: hash_upd_twice)
  next
    case (Some e)
    with assms(1,4) show ?thesis
      by (cases "k = 0") (simp_all add: count_frame_def run_simps hash_touch_def hash_upd_twice, auto simp: hash_upd_twice)
  qed
  then show "func_map s' = hash_touch f fresh_entry ?G (func_map s)"
    "samp_count s' = samp_count s + (if k = 0 then 1 else 0)" "total_samp_count s' = total_samp_count s" by blast+
qed

lemma count_frame_counts:
  assumes "list_ok s" and "NUL \<notin> set f" and "length f < FUNC_SIZE" and "count_frame k f s = (Ok (), s')"
  shows "func_count count_excl s' g = func_count count_excl s g + (if k = 0 \<and> g = f then 1 else 0)"
    and "func_count count_incl s' g = func_count count_incl s g + (if g = f then 1 else 0)"
    and "func_count total_count_excl s' g = func_count total_count_excl s g"
    and "func_count total_count_incl s' g = func_count total_count_incl s g"
  by (auto simp: func_count_def count_frame_run(1) [OF assms] uth.find_touch fresh_entry_def split: option.splits)

lemma parse_text_func:
  assumes "parse_text l = Some (k, f)"
  shows "length f < FUNC_SIZE" and "set f \<subseteq> set l"
proof -
  obtain c where "snd (strtoull 10 l) = c # f" "length f < FUNC_SIZE"
    using assms by (auto simp: parse_text_def split: if_splits prod.splits list.splits)
  moreover obtain p where "l = p @ snd (strtoull 10 l)" using strtoull_rest [of l] by blast
  ultimately have "length f < FUNC_SIZE" "l = p @ c # f" by simp_all
  then show "length f < FUNC_SIZE" "set f \<subseteq> set l" by auto
qed

lemma handle_texts_counts:
  "list_ok s \<Longrightarrow> (\<And>l. l \<in> set ls \<Longrightarrow> NUL \<notin> set l) \<Longrightarrow> handle_texts ls s = (Ok (), s') \<Longrightarrow>
    func_count count_excl s' g = func_count count_excl s g + of_nat (frames_where (\<lambda>x. x = (0, g)) ls) \<and>
    func_count count_incl s' g = func_count count_incl s g + of_nat (frames_where (\<lambda>(k, f). f = g) ls) \<and>
    samp_count s' = samp_count s + of_nat (frames_where (\<lambda>(k, f). k = 0) ls) \<and>
    func_count total_count_excl s' g = func_count total_count_excl s g \<and>
    func_count total_count_incl s' g = func_count total_count_incl s g \<and> total_samp_count s' = total_samp_count s"
proof (induction ls arbitrary: s)
  case Nil
  then show ?case by (simp add: run_simps frames_where_def)
next
  case (Cons l ls)
  from handle_text_ok [OF Cons.prems(1)] obtain s1 where s1: "handle_text l s = (Ok (), s1)" "list_ok s1" by blast
  with Cons.prems(3) have rest: "handle_texts ls s1 = (Ok (), s')" by simp
  note ih = Cons.IH [OF s1(2) Cons.prems(2) rest]
  show ?case
  proof (cases "parse_text l")
    case None
    then have "s1 = s" using s1(1) by (simp add: handle_text_def run_simps)
    with None ih show ?thesis by (simp add: frames_where_Cons)
  next
    case (Some x)
    obtain k f where x: "x = (k, f)" by fastforce
    have "NUL \<notin> set f" "length f < FUNC_SIZE"
      using parse_text_func [of l k f] Some x Cons.prems(2) [of l] by auto
    moreover have "count_frame k f s = (Ok (), s1)" using s1(1) Some x by (simp add: handle_text_def)
    ultimately show ?thesis
      using ih count_frame_counts [OF Cons.prems(1), of f k s1] count_frame_run(2,3) [OF Cons.prems(1), of f k s1] Some x
      by (simp add: frames_where_Cons)
  qed
qed

text \<open>Top counts what the child prints. However the pipe cuts the output of the child into reads, when
  its lines fit the buffer every line is counted once: per function, the lines with its name, and
  those of them with frame number 0; and the samples, the lines with frame number 0. No byte is
  stored outside an array.\<close>

lemma feed_counts:
  assumes "\<And>l. l \<in> set ls \<Longrightarrow> good_line l \<and> NUL \<notin> set l" and "buf_ok s" and "list_ok s" and "held_text s = []"
    and "length (unlines ls) \<le> length ks"
  shows "\<exists>s'. feed ks (unlines ls) s = (Ok [], s') \<and>
    func_count count_excl s' f = func_count count_excl s f + of_nat (frames_where (\<lambda>x. x = (0, f)) ls) \<and>
    func_count count_incl s' f = func_count count_incl s f + of_nat (frames_where (\<lambda>(k, g). g = f) ls) \<and>
    samp_count s' = samp_count s + of_nat (frames_where (\<lambda>(k, g). k = 0) ls)"
proof -
  obtain s' s1 where s': "feed ks (unlines ls) s = (Ok [], s')" "handle_texts ls s = (Ok (), s1)"
      "with_buf [] 0 s' = with_buf [] 0 s1"
    using feed_lines [OF assms(2,3), of "unlines ls" ls ks] assms(1,4,5) by auto
  have "func_map s' = func_map s1" "samp_count s' = samp_count s1"
    using arg_cong [OF s'(3), of func_map] arg_cong [OF s'(3), of samp_count] by simp_all
  with s'(1) handle_texts_counts [OF assms(3) _ s'(2)] assms(1) show ?thesis
    by (auto simp: func_count_def)
qed

subsection \<open>Properties\<close>

lemma err_loop_line:
  "0 < n \<Longrightarrow> memchr b pos newline n = Some nl \<Longrightarrow>
    err_loop b pos (int n) count = err_loop b (pos + nl + 1) (int n - int nl - 1) (count + 1)"
  by (subst err_loop.simps) simp

text \<open>C36: Errors are undercounted. After the first line \<^verbatim>\<open>read_child_err\<close> skips as many bytes as lie before the
  end of the line in the whole buffer, so of three lines in one read it counts only two when the
  third is not longer than the first.\<close>

theorem read_child_err_undercounts:
  assumes "newline \<notin> set a" and "newline \<notin> set b" and "newline \<notin> set c" and "length c \<le> length a"
  shows "read_child_err (Read_bytes (unlines [a, b, c])) s =
    (Ok (), s\<lparr>total_err_count := total_err_count s + 2\<rparr>)"
proof -
  let ?t = "a @ newline # b @ newline # c @ [newline]"
  have m1: "memchr ?t 0 newline (length ?t) = Some (length a)"
    using assms(1) by (subst memchr_line) simp_all
  have m2: "memchr ?t (length a + 1) newline (length b + length c + 2) = Some (length a + 1 + length b)"
    using find_from_line [OF assms(2), of "length a + 1" "length b + length c + 2" "c @ [newline]"]
    by (simp add: memchr_def del: take_append)
  have "err_loop ?t 0 (int (length ?t)) 0 = err_loop ?t (length a + 1) (int (length b + length c + 2)) 1"
    using err_loop_line [OF _ m1, of 0] by simp
  also have "\<dots> = err_loop ?t (length a + 1 + (length a + 1 + length b) + 1) (int (length c) - int (length a)) 2"
    using err_loop_line [OF _ m2, of 1] by (simp add: numeral_2_eq_2)
  also have "\<dots> = 2" using assms(4) by (subst err_loop.simps) simp
  finally show ?thesis by (simp add: read_child_err_def unlines_def run_simps)
qed

theorem read_child_err_undercounts_witness:
  "total_err_count (snd (read_child_err (Read_bytes (unlines [''a'', ''b'', ''c''])) init_top)) = 2"
  using read_child_err_undercounts [of "''a''" "''b''" "''c''" init_top] by (simp add: init_top_def)

text \<open>The arguments of the traced command are rewritten too. The arguments meant for phpspy itself are
  replaced by ones that do nothing, but the replacement does not stop at the command: an argument of
  it that begins with \<^verbatim>\<open>-o\<close>, \<^verbatim>\<open>-1\<close> or \<^verbatim>\<open>-t\<close> is replaced as well.\<close>

lemma filter_rewrites_command:
  assumes "starts ''-o'' arg \<or> starts ''-1'' arg \<or> starts ''-t'' arg"
  shows "\<exists>arg'. filter_child_args (opts @ ''--'' # cmd @ [arg]) =
      filter_child_args opts @ ''--'' # filter_child_args cmd @ [arg'] \<and> (arg' = ''-#'' \<or> arg' = ''-@'')"
proof -
  obtain c rest where arg: "arg = CHR ''-'' # c # rest" "c \<in> {CHR ''o'', CHR ''1'', CHR ''t''}"
    using assms by (cases arg; cases "tl arg") (auto simp: starts_def)
  then have "filter_child_arg arg = ''-#'' \<or> filter_child_arg arg = ''-@''"
    by (auto simp: filter_child_arg_def starts_def)
  then show ?thesis by (simp add: filter_child_args_def) (simp add: filter_child_arg_def starts_def)
qed

end
