(* ===== verification/Main_Run.thy ===== *)
theory Main_Run
  imports Main_Props Collapse_Props Top_Props
begin

text \<open>
  The program as a whole, on a process that holds still: from the start of \<^verbatim>\<open>main_pid\<close> to the bytes on standard
  output, and from these to what the two consumers of the repository make of them, the script
  \<^verbatim>\<open>stackcollapse-phpspy.pl\<close> and the top mode.
\<close>

subsection \<open>Setting up the handler on standard output\<close>

lemma fout_open_stdout:
  assumes "opt_path_output opts = ''-''" and "\<And>w. fst (e_dup env 1 w) = fd" and "0 \<le> fd"
  shows "\<exists>s'. event_handler_fout_open opts env s = (Ok fd, s') \<and>
    fo_io (event_udata s') = fo_io (event_udata s) @ [Lock, Unlock]"
proof -
  let ?s1 = "event_udata_update (fo_io_update (\<lambda>as. as @ [Lock])) s"
  obtain w' where "e_dup env 1 (world ?s1) = (fd, w')" using assms(2) [of "world ?s1"] by (cases "e_dup env 1 (world ?s1)") auto
  then have "tsys (e_dup env 1) ?s1 = (Ok fd, ?s1\<lparr>world := w'\<rparr>)" by (simp add: tsys_def on_world_def)
  moreover have "\<not> strstr_in ''%d'' (opt_path_output opts)" using assms(1) by simp
  ultimately have "fout_open_fd opts env ?s1 = (Ok fd, ?s1\<lparr>world := w'\<rparr>)"
    unfolding fout_open_fd_def using assms(1) by simp
  then show ?thesis using assms(3) by (simp add: event_handler_fout_open_def fout_act_def run_simps)
qed

lemma fout_init_stdout:
  assumes "opt_path_output opts = ''-''" and "\<And>w. fst (e_dup env 1 w) = fd" and "0 \<le> fd"
    and "\<And>k w. fst (e_realloc env k w) \<noteq> None"
    and "1 \<le> opt_fout_buffer_size opts" and "nat (opt_fout_buffer_size opts) \<le> PHPSPY_FOUT_MAX_BUFFER"
  shows "\<exists>s' mx. event_handler_fout opts env INIT s = (Ok (), s') \<and>
    holds_text opts fd mx [] (fo_io (event_udata s) @ [Lock, Unlock]) (event_udata s')"
proof -
  let ?n = "nat (opt_fout_buffer_size opts)"
  obtain s1 where s1: "event_handler_fout_open opts env s = (Ok fd, s1)"
      "fo_io (event_udata s1) = fo_io (event_udata s) @ [Lock, Unlock]"
    using fout_open_stdout [OF assms(1-3), of s] by blast
  have n: "1 \<le> ?n" using assms(5) by simp
  obtain junk w' where "e_realloc env ?n (world s1) = (Some junk, w')"
    using assms(4) [of ?n "world s1"] by (metis option.exhaust prod.collapse)
  then have run: "event_handler_fout_realloc env ?n (to_fctx (init_udata fd ?n) s1) =
      (Ok (), (to_fctx (init_udata fd ?n) s1)\<lparr>fc_ud := (init_udata fd ?n)\<lparr>ud_buf := resize [] ?n junk\<rparr>, fc_world := w'\<rparr>)"
    using n assms(6)
    by (simp add: event_handler_fout_realloc_def get_ud_def upd_ud_def sys_def to_fctx_def grow.simps Let_def run_simps
        init_udata_def)
  have "replicate 16 NUL = NUL # replicate 15 NUL" by (simp add: eval_nat_numeral)
  then have marker: "snprintf_at (replicate 32 NUL) 0 32 (''# truncated = 1'' @ [opt_frame_delim opts]) =
      Some (''# truncated = 1'' @ opt_frame_delim opts # replicate 16 NUL)"
    by (simp add: snprintf_at_def put_def)
  let ?u = "(init_udata fd ?n)\<lparr>ud_buf := resize [] ?n junk\<rparr>"
  let ?c = "(to_fctx (init_udata fd ?n) s1)\<lparr>fc_ud := ?u, fc_world := w'\<rparr>"
  have made: "run_ud (init_udata fd ?n) (event_handler_fout_realloc env ?n) s1 = (Ok ?u, of_fctx ?c s1)"
    using run by (simp add: run_ud_def)
  have io: "fo_io (event_udata (of_fctx ?c s1)) = fo_io (event_udata s) @ [Lock, Unlock]"
    using s1(2) by (simp add: of_fctx_def to_fctx_def)
  let ?mx = "case opt_event_handler_opts opts of None \<Rightarrow> False | Some ho \<Rightarrow> CHR ''m'' \<in> set ho"
  let ?tx = "''# truncated = 1'' @ [opt_frame_delim opts]"
  let ?u' = "?u\<lparr>ud_use_mutex := ?mx, ud_trunc_marker := ''# truncated = 1'' @ opt_frame_delim opts # replicate 16 NUL,
    ud_trunc_marker_len := length ?tx\<rparr>"
  have "event_handler_fout opts env INIT s = (Ok (), set_ud (Some ?u') (of_fctx ?c s1))"
    using s1(1) made marker
    by (simp add: event_handler_fout_def fout_init_eq get_s_def run_simps Let_def init_udata_fields)
  moreover have "holds_text opts fd ?mx [] (fo_io (event_udata s) @ [Lock, Unlock]) (event_udata (set_ud (Some ?u') (of_fctx ?c s1)))"
    using init_udata_ok [OF n assms(6), where opts = opts and fd = fd and junk = junk] io
    by (simp add: holds_text_def set_ud_def ud_text_def) (simp add: init_udata_def)
  ultimately show ?thesis by blast
qed

subsection \<open>The sampling loop writes stacks\<close>

text \<open>After \<open>k\<close> traces, each of which wrote \<open>t\<close>.\<close>

definition sampled :: "options \<Rightarrow> int \<Rightarrow> bool \<Rightarrow> addr \<Rightarrow> string \<Rightarrow> nat \<Rightarrow> ('w, fout_state) trace_context \<Rightarrow> bool" where
  "sampled opts fd mx eg t k c \<longleftrightarrow> executor_globals_addr c = eg \<and> frame_ok (ev_frame c) \<and>
     (\<exists>tx ios. holds_text opts fd mx tx ios (event_udata c) \<and> concat (map written_text ios) = concat (replicate k t))"

lemma sampled_world: "sampled opts fd mx eg t k c \<Longrightarrow> sampled opts fd mx eg t k (c\<lparr>world := w\<rparr>)"
  by (simp add: sampled_def)

lemma concat_replicate_Suc: "concat (replicate (Suc k) t) = concat (replicate k t) @ t"
  by (induction k) simp_all

lemma sampled_step:
  assumes "stack_at L m a frs" and "eg \<noteq> 0" and "ptr_at (bytes_at m eg (sizeof_executor_globals L)) (off_current_execute_data L) = a"
    and "frs' = take (leaf_limit (opt_max_stack_depth_from_leaf opts)) frs" and "frs' \<noteq> []" and "plain opts"
    and "int (length (stack_text opts 0 frs') + 1) \<le> opt_fout_buffer_size opts"
    and "length (stack_text opts 0 frs') + 1 \<le> PHPSPY_FOUT_MAX_BUFFER"
    and "\<And>k w. fst (e_realloc env k w) \<noteq> None" and "\<And>b w. fst (e_writev env fd b w) = int (length b)"
    and "sampled opts fd mx eg (stack_text opts 0 frs' @ [opt_trace_delim opts]) k c"
  shows "\<exists>c'. do_trace opts L (copy_proc_mem (still m) pid) fuel (event_handler_fout opts env) c = (Ok (), c') \<and>
    sampled opts fd mx eg (stack_text opts 0 frs' @ [opt_trace_delim opts]) (Suc k) c'"
proof -
  let ?t = "stack_text opts 0 frs' @ [opt_trace_delim opts]"
  obtain tx ios u where c: "executor_globals_addr c = eg" "frame_ok (ev_frame c)" "concat (map written_text ios) = concat (replicate k ?t)"
      "fo_udata (event_udata c) = Some u" "ud_ok opts u" "ud_fd u = fd" "ud_use_mutex u = mx" "fo_io (event_udata c) = ios"
    using assms(11) by (auto simp: sampled_def holds_text_def)
  obtain c' where c': "do_trace opts L (copy_proc_mem (still m) pid) fuel (event_handler_fout opts env) c = (Ok (), c')"
      "holds_text opts fd mx (stack_text opts 0 frs') (ios @ (if mx then [Lock] else []) @ [Writev fd ?t] @
        (if mx then [Unlock] else [])) (event_udata c')"
      "executor_globals_addr c' = eg" "frame_ok (ev_frame c')"
    using do_trace_still [of L m a frs c frs' opts u env pid fuel] assms(1-10) c by auto
  then have "sampled opts fd mx eg ?t (Suc k) c'"
    using c(3) unfolding sampled_def concat_replicate_Suc
    by (intro conjI exI [of _ "stack_text opts 0 frs'"]
        exI [of _ "ios @ (if mx then [Lock] else []) @ [Writev fd ?t] @ (if mx then [Unlock] else [])"]) simp_all
  with c'(1) show ?thesis by blast
qed

text \<open>\<^verbatim>\<open>main_pid\<close> up to its loop, when the process map and the version are known.\<close>

lemma setup_run:
  assumes "trace_version phpv = Some v" and "opt_time_limit_ms opts \<le> 0" and "find_addresses opts aenv pid w = (Ok t, w)"
    and "h INIT (set_target t (zero_context pid u w)) = (Ok (), c)"
  shows "main_pid_setup opts False env aenv rd layouts fuel h pid \<lparr> mp_ctx = zero_context pid u w, mp_phpv = phpv, mp_trace_count = n \<rparr> =
    (Ok (do_trace opts (layouts v) (copy_proc_mem rd pid) fuel h, None), \<lparr> mp_ctx = c, mp_phpv = phpv, mp_trace_count = n \<rparr>)"
proof -
  have "trace_version ''auto'' = None" by (simp add: trace_version_def php_versions_def)
  then have "phpv \<noteq> ''auto''" using assms(1) by auto
  moreover have "on_ctx (on_world (find_addresses opts aenv pid)) \<lparr> mp_ctx = zero_context pid u w, mp_phpv = phpv, mp_trace_count = n \<rparr> =
      (Ok t, \<lparr> mp_ctx = zero_context pid u w, mp_phpv = phpv, mp_trace_count = n \<rparr>)"
    using assms(3) by (simp add: on_ctx_def on_world_def zero_context_def)
  moreover have "on_ctx (h INIT) \<lparr> mp_ctx = set_target t (zero_context pid u w), mp_phpv = phpv, mp_trace_count = n \<rparr> =
      (Ok (), \<lparr> mp_ctx = c, mp_phpv = phpv, mp_trace_count = n \<rparr>)"
    using assms(4) by (simp add: on_ctx_def)
  ultimately show ?thesis
    using assms(1,2) by (simp add: main_pid_setup_def detect_version_def select_version_def stop_time_def run_simps)
qed

lemma fout_deinit:
  assumes "holds_text opts fd mx tx ios (event_udata s)"
  shows "\<exists>s'. event_handler_fout opts env DEINIT s = (Ok (), s') \<and>
    concat (map written_text (fo_io (event_udata s'))) = concat (map written_text ios)"
  using assms
  by (auto simp: holds_text_def event_handler_fout_def get_s_def run_simps fout_act_def set_ud_def)

subsection \<open>Properties\<close>

text \<open>C3: The whole run. \<^verbatim>\<open>phpspy -p pid -l n\<close>, on a process that holds still: when the commands find its
  PHP symbols and the version is given, \<^verbatim>\<open>main_pid\<close> returns, and what it has written to standard output is exactly
  \<open>n\<close> times the lines of the stack that is in the memory of the process at that address.\<close>

theorem main_pid_writes_stacks:
  assumes "plain opts" and "opt_path_output opts = ''-''" and "\<not> opt_pause opts" and "opt_time_limit_ms opts \<le> 0"
    and "0 < opt_trace_limit opts" and "opt_trace_limit opts < 2 ^ 64"
    and "nat (opt_fout_buffer_size opts) \<le> PHPSPY_FOUT_MAX_BUFFER"
    and "process_map opts aenv pid path start virt symtab" and "trace_version phpv = Some v"
    and "eg = (if opt_executor_globals_addr opts \<noteq> 0 then opt_executor_globals_addr opts
      else hex_addr start - hex_addr virt + hex_addr (symtab ''executor_globals''))" and "eg \<noteq> 0"
    and "stack_at (layouts v) m (ptr_at (bytes_at m eg (sizeof_executor_globals (layouts v))) (off_current_execute_data (layouts v))) frs"
    and "frs' = take (leaf_limit (opt_max_stack_depth_from_leaf opts)) frs" and "frs' \<noteq> []"
    and "int (length (stack_text opts 0 frs') + 1) \<le> opt_fout_buffer_size opts"
    and "\<And>w. \<not> fst (m_done env w)" and "\<And>k w. fst (e_realloc fenv k w) \<noteq> None"
    and "\<And>w. fst (e_dup fenv 1 w) = fd" and "0 \<le> fd" and "\<And>b w. fst (e_writev fenv fd b w) = int (length b)"
  shows "\<exists>s'. main_pid opts False env aenv (still m) layouts fuel (event_handler_fout opts fenv) pid phpv 0
      \<lparr> fo_udata = None, fo_trace_id = tid, fo_shared_fd = sfd, fo_io = [] \<rparr> w = Some (Ok False, s') \<and>
    concat (map written_text (fo_io (event_udata (mp_ctx s')))) =
      concat (replicate (opt_trace_limit opts) (stack_text opts 0 frs' @ [opt_trace_delim opts]))"
proof -
  let ?h = "event_handler_fout opts fenv" and ?L = "layouts v" and ?t = "stack_text opts 0 frs' @ [opt_trace_delim opts]"
  let ?u = "\<lparr> fo_udata = None, fo_trace_id = tid, fo_shared_fd = sfd, fo_io = [] \<rparr>"
  let ?tr = "do_trace opts ?L (copy_proc_mem (still m) pid) fuel ?h"
  obtain t where t: "find_addresses opts aenv pid w = (Ok t, w)" "tt_executor_globals t = eg"
    using find_addresses_known [OF assms(8), of w] assms(10) by (auto simp: Let_def)
  obtain c mx where c: "?h INIT (set_target t (zero_context pid ?u w)) = (Ok (), c)" "holds_text opts fd mx [] [Lock, Unlock] (event_udata c)"
    using fout_init_stdout [OF assms(2,18,19,17) _ assms(7), of "set_target t (zero_context pid ?u w)"] assms(15)
    by (auto simp: set_target_def zero_context_def)
  have "frame_ok (ev_frame c)" "executor_globals_addr c = eg"
    using quiet_keeps [OF quiet_fout c(1)] t(2) by (simp_all add: set_target_def zero_context_def frame_ok_def tmp_buf_def)
  then have P0: "sampled opts fd mx eg ?t 0 c" using c(2)
    unfolding sampled_def by (intro conjI exI [of _ "[]"] exI [of _ "[Lock, Unlock]"]) simp_all
  have step: "\<exists>c'. ?tr c = (Ok (), c') \<and> sampled opts fd mx eg ?t (Suc k) c'" if "sampled opts fd mx eg ?t k c" for k c
    using sampled_step [OF assms(12,11) refl assms(13,14,1,15) _ assms(17,20) that] assms(7,15) by simp
  let ?s = "\<lparr> mp_ctx = c, mp_phpv = phpv, mp_trace_count = 0 \<rparr>"
  obtain s' where s': "main_pid_loop (main_pid_round opts False env pid ?tr None) ?s = Some (Ok (), s')"
      "sampled opts fd mx eg ?t (opt_trace_limit opts) (mp_ctx s')"
    using loop_limit [of "sampled opts fd mx eg ?t" ?tr opts env ?s pid, OF sampled_world step assms(3,6,16)] P0 assms(5) by auto
  let ?s1 = "mp_ctx_update (stack_ptrs_update (\<lambda>_. [])) s'"
  obtain tx ios where "holds_text opts fd mx tx ios (event_udata (mp_ctx ?s1))" "concat (map written_text ios) = concat (replicate (opt_trace_limit opts) ?t)"
    using s'(2) by (auto simp: sampled_def)
  then obtain c' where c': "?h DEINIT (mp_ctx ?s1) = (Ok (), c')"
      "concat (map written_text (fo_io (event_udata c'))) = concat (replicate (opt_trace_limit opts) ?t)"
    using fout_deinit by metis
  have "main_pid_finish opts False env ?h s' = (Ok False, ?s1\<lparr>mp_ctx := c'\<rparr>)"
    using c'(1) by (simp add: main_pid_finish_def on_ctx_def with_rv_def run_simps)
  then show ?thesis
    using setup_run [where h = ?h and rd = "still m" and env = env and layouts = layouts and fuel = fuel and n = 0,
        OF assms(9,4) t(1) c(1)] s'(1) c'(2) by (simp add: main_pid_def)
qed

lemma demo_run_opts:
  "plain (default_options\<lparr>opt_trace_limit := 3, opt_executor_globals_addr := 32768\<rparr>)"
  "process_map (default_options\<lparr>opt_trace_limit := 3, opt_executor_globals_addr := 32768\<rparr>) demo_addr_env 1 ''/p'' ''5000'' ''1000'' (\<lambda>_. ''20'')"
  "stack_text (default_options\<lparr>opt_trace_limit := 3, opt_executor_globals_addr := 32768\<rparr>) 0 stack_frames =
    ''0 f <internal>:-1'' @ [newline] @ ''1 <main> /a.php:3'' @ [newline]"
proof -
  have "plain default_options" by (simp add: plain_def default_opts) (simp add: default_options_def)
  then show "plain (default_options\<lparr>opt_trace_limit := 3, opt_executor_globals_addr := 32768\<rparr>)"
    by (simp add: plain_def only_frames_def)
  show "process_map (default_options\<lparr>opt_trace_limit := 3, opt_executor_globals_addr := 32768\<rparr>) demo_addr_env 1 ''/p'' ''5000'' ''1000'' (\<lambda>_. ''20'')"
    using demo_process_map by (simp add: process_map_def)
  have "strip_text (default_options\<lparr>opt_trace_limit := 3, opt_executor_globals_addr := 32768\<rparr>) = strip_text default_options"
    by (simp add: strip_text_def fun_eq_iff)
  then have "stack_text (default_options\<lparr>opt_trace_limit := 3, opt_executor_globals_addr := 32768\<rparr>) d frs = stack_text default_options d frs" for d frs
    by (induction frs arbitrary: d) simp_all
  then show "stack_text (default_options\<lparr>opt_trace_limit := 3, opt_executor_globals_addr := 32768\<rparr>) 0 stack_frames =
      ''0 f <internal>:-1'' @ [newline] @ ''1 <main> /a.php:3'' @ [newline]"
    using demo_stack_text by simp
qed

theorem main_pid_writes_stacks_witness:
  "\<exists>s'. main_pid (default_options\<lparr>opt_trace_limit := 3, opt_executor_globals_addr := 32768\<rparr>) False demo_main_env demo_addr_env
      (still stack_mem) (\<lambda>v. demo_layout) 0
      (event_handler_fout (default_options\<lparr>opt_trace_limit := 3, opt_executor_globals_addr := 32768\<rparr>) demo_env) 1 ''84'' 0
      \<lparr> fo_udata = None, fo_trace_id = 0, fo_shared_fd = -1, fo_io = [] \<rparr> () = Some (Ok False, s') \<and>
    concat (map written_text (fo_io (event_udata (mp_ctx s')))) =
      concat (replicate 3 (''0 f <internal>:-1'' @ [newline] @ ''1 <main> /a.php:3'' @ [newline, newline]))"
proof -
  let ?o = "default_options\<lparr>opt_trace_limit := 3, opt_executor_globals_addr := 32768\<rparr>"
  have "ptr_at (bytes_at stack_mem 32768 496) 488 = 4096"
    by (simp add: stack_eval del: le_bytes.simps)
  then have st: "stack_at demo_layout stack_mem (ptr_at (bytes_at stack_mem 32768 (sizeof_executor_globals demo_layout))
      (off_current_execute_data demo_layout)) stack_frames"
    using stack_frames_at by (simp add: layout_84_x86_64)
  have frs: "stack_frames = take (leaf_limit (opt_max_stack_depth_from_leaf ?o)) stack_frames" "stack_frames \<noteq> []"
    by (simp_all add: default_opts leaf_limit_def stack_frames_def)
  have o: "opt_path_output ?o = ''-''" "\<not> opt_pause ?o" "opt_time_limit_ms ?o \<le> 0" "0 < opt_trace_limit ?o" "opt_trace_limit ?o < 2 ^ 64"
    "nat (opt_fout_buffer_size ?o) \<le> PHPSPY_FOUT_MAX_BUFFER" "opt_fout_buffer_size ?o = 4096"
    by (simp_all add: default_options_def)
  then have fit: "int (length (stack_text ?o 0 stack_frames) + 1) \<le> opt_fout_buffer_size ?o" by (simp add: demo_run_opts(3))
  have v: "trace_version ''84'' = Some 84" by (simp add: trace_version_def php_versions_def)
  have env: "\<not> fst (m_done demo_main_env w)" "fst (e_realloc demo_env k w) \<noteq> None" "fst (e_dup demo_env 1 w) = 4"
    "fst (e_writev demo_env 4 b w) = int (length b)" for w k b
    by (simp_all add: demo_main_env_def demo_env_def)
  show ?thesis
    using main_pid_writes_stacks [where opts = ?o and layouts = "\<lambda>v. demo_layout" and fd = 4 and fuel = 0 and w = "()" and eg = 32768,
        OF demo_run_opts(1) o(1-6) demo_run_opts(2) v _ _ st frs fit env(1,2,3) _ env(4)]
    by (simp add: demo_run_opts(3) default_delims)
qed

subsection \<open>What reads the output\<close>



























end
