(* ===== verification/Main_Top.thy ===== *)
theory Main_Top
  imports Top
begin

text \<open>
  The program of the top mode, \<^verbatim>\<open>main_top\<close>: it starts the child, and then draws, waits for something to read, and reads, until the
  child ends or the user quits. The system is an environment over a world \<open>'w\<close>; descriptors are integers, -1
  before they are set, and a descriptor outside of an \<^verbatim>\<open>fd_set\<close> is a fault.
\<close>

datatype select_result = Sel_ready bool bool bool | Sel_intr | Sel_error

record 'w top_env =
  te_open_tty :: "'w \<Rightarrow> int \<times> 'w"
  te_pipe :: "'w \<Rightarrow> (int \<times> int) option \<times> 'w"
  te_fork :: "'w \<Rightarrow> pid \<times> 'w"
  te_clock :: "'w \<Rightarrow> (int \<times> int) \<times> 'w"
  te_select :: "'w \<Rightarrow> select_result \<times> 'w"
  te_read :: "int \<Rightarrow> nat \<Rightarrow> 'w \<Rightarrow> read_result \<times> 'w"
  te_event :: "'w \<Rightarrow> tb_event \<times> 'w"
  te_size :: "'w \<Rightarrow> int \<times> int"
  te_do :: "top_op \<Rightarrow> 'w \<Rightarrow> 'w"

record 'w top_run =
  tr_world :: 'w
  tr_state :: top_state
  last_display :: "int \<times> int"

type_synonym ('w, 'a) runfun = "('w top_run, 'a) cfun"

definition top_sys :: "('w \<Rightarrow> 'a \<times> 'w) \<Rightarrow> ('w, 'a) runfun" where
  "top_sys f s = (case f (tr_world s) of (a, w) \<Rightarrow> (Ok a, s\<lparr>tr_world := w\<rparr>))"

definition on_top :: "'a topfun \<Rightarrow> ('w, 'a) runfun" where
  "on_top m s = (case m (tr_state s) of (r, t) \<Rightarrow> (r, s\<lparr>tr_state := t\<rparr>))"

definition top_dos :: "'w top_env \<Rightarrow> top_op list \<Rightarrow> ('w, unit) runfun" where
  "top_dos env ops = modify (tr_world_update (fold (te_do env) ops))"

subsection \<open>The child\<close>

text \<open>The parent's side of \<^verbatim>\<open>fork_child\<close>: its result, the process and the two descriptors. They keep their values
  from before, -1, when it fails.\<close>

definition fork_child :: "'w top_env \<Rightarrow> ('w, int \<times> pid \<times> int \<times> int) runfun" where
  "fork_child env =
     try_c (top_sys (te_pipe env)) (\<lambda>pout. case pout of
       None \<Rightarrow> ok (1, -1, -1, -1)
     | Some (out_r, out_w) \<Rightarrow>
         try_c (top_sys (te_pipe env)) (\<lambda>perr. case perr of
           None \<Rightarrow> ok (1, -1, -1, -1)
         | Some (err_r, err_w) \<Rightarrow>
             try_c (top_sys (te_fork env)) (\<lambda>pid.
             if pid < 0 then ok (1, pid, -1, -1)
             else try_c (top_dos env [Close out_w, Close err_w]) (\<lambda>_. ok (0, pid, out_r, err_r)))))"

subsection \<open>The loop\<close>

definition fd_ok :: "int \<Rightarrow> bool" where
  "fd_ok fd \<longleftrightarrow> 0 \<le> fd \<and> fd < 1024"

definition top_display :: "'w top_env \<Rightarrow> string \<Rightarrow> ('w, unit) runfun" where
  "top_display env args =
     get_s (\<lambda>s.
     case te_size env (tr_world s) of (w, h) \<Rightarrow>
     case display w h args (tr_state s) of (ops, t) \<Rightarrow>
       try_c (modify (tr_state_update (\<lambda>_. t))) (\<lambda>_. top_dos env ops))"

definition read_out :: "'w top_env \<Rightarrow> int \<Rightarrow> ('w, unit) runfun" where
  "read_out env fd =
     get_s (\<lambda>s.
     let rem = BUF_SIZE - top_buf_len (tr_state s) in
     try_c (top_sys (te_read env fd (if rem < 1 then BUF_SIZE else rem))) (\<lambda>r. on_top (read_child_out (\<lambda>_. r))))"

definition read_err :: "'w top_env \<Rightarrow> int \<Rightarrow> ('w, unit) runfun" where
  "read_err env fd = try_c (top_sys (te_read env fd BUF_SIZE)) (\<lambda>r. on_top (read_child_err r))"

definition show_due :: "'w top_env \<Rightarrow> string \<Rightarrow> int \<times> int \<Rightarrow> ('w, unit) runfun" where
  "show_due env args ts =
     get_s (\<lambda>s.
     if fst (last_display s) = 0 \<or> fst ts - fst (last_display s) \<ge> 1
     then try_c (top_display env args) (\<lambda>_. modify (last_display_update (\<lambda>_. ts)))
     else ok ())"

definition handle_ready :: "'w top_env \<Rightarrow> int \<Rightarrow> int \<Rightarrow> bool \<Rightarrow> bool \<Rightarrow> bool \<Rightarrow> ('w, unit) runfun" where
  "handle_ready env outfd errfd out err tty =
     try_c (if out then read_out env outfd else ok ()) (\<lambda>_.
     try_c (if err then read_err env errfd else ok ()) (\<lambda>_.
     if tty then try_c (top_sys (te_event env)) (\<lambda>event. on_top (handle_event event)) else ok ()))"

text \<open>One pass of the loop; \<open>False\<close> when it is left by \<^verbatim>\<open>break\<close>.\<close>

definition main_top_round :: "'w top_env \<Rightarrow> string \<Rightarrow> int \<Rightarrow> int \<Rightarrow> int \<Rightarrow> ('w, bool) runfun" where
  "main_top_round env args ttyfd outfd errfd =
     try_c (top_sys (te_clock env)) (\<lambda>ts.
     try_c (show_due env args ts) (\<lambda>_.
     if \<not> (fd_ok ttyfd \<and> fd_ok outfd \<and> fd_ok errfd) then fault OutOfBounds
     else
       try_c (top_sys (te_select env)) (\<lambda>rc. case rc of
         Sel_intr \<Rightarrow>
           try_c (top_sys (te_event env)) (\<lambda>_.
           try_c (modify (last_display_update (\<lambda>(_, nsec). (0, nsec)))) (\<lambda>_. ok True))
       | Sel_error \<Rightarrow> ok False
       | Sel_ready out err tty \<Rightarrow> try_c (handle_ready env outfd errfd out err tty) (\<lambda>_. ok True))))"

partial_function (option) main_top_loop ::
  "('w, bool) runfun \<Rightarrow> 'w top_run \<Rightarrow> (unit result \<times> 'w top_run) option" where
  "main_top_loop round s =
     (if top_done (tr_state s) then Some (Ok (), s)
      else case round s of
        (Ok go_on, s') \<Rightarrow> if go_on then main_top_loop round s' else Some (Ok (), s')
      | (Rv r, s') \<Rightarrow> Some (Rv r, s')
      | (Fault f, s') \<Rightarrow> Some (Fault f, s'))"

subsection \<open>The program\<close>

definition main_top_setup :: "'w top_env \<Rightarrow> ('w, int \<times> pid \<times> int \<times> int) runfun" where
  "main_top_setup env =
     try_c (top_sys (te_open_tty env)) (\<lambda>ttyfd.
     if ttyfd < 0 then rv 1
     else
       try_c (fork_child env) (\<lambda>(rc, pid, outfd, errfd).
       if rc < 0 then rv 1
       else
         try_c (modify (last_display_update (\<lambda>_. (0, 0)))) (\<lambda>_.
         try_c (top_dos env [Tb_init]) (\<lambda>_. ok (ttyfd, pid, outfd, errfd)))))"

definition main_top_finish :: "'w top_env \<Rightarrow> int \<times> pid \<times> int \<times> int \<Rightarrow> ('w, int) runfun" where
  "main_top_finish env = (\<lambda>(ttyfd, pid, outfd, errfd).
     try_c (top_dos env [Tb_shutdown, Close outfd, Close errfd, Close ttyfd, Kill pid, Waitpid pid]) (\<lambda>_. ok 0))"

text \<open>The result is the value returned, also for the early returns.\<close>

definition main_top ::
  "options \<Rightarrow> 'w top_env \<Rightarrow> nat \<Rightarrow> string list \<Rightarrow> 'w top_run \<Rightarrow> (int result \<times> 'w top_run) option" where
  "main_top opts env optind argv s =
     (if opt_pid opts = -1 \<and> opt_pgrep_args opts = None \<and> optind \<ge> length argv then Some (Rv 1, s)
      else
        let argv = filter_child_args argv; args = phpspy_args argv in
        case main_top_setup env s of
          (Rv r, s) \<Rightarrow> Some (Rv r, s)
        | (Fault f, s) \<Rightarrow> Some (Fault f, s)
        | (Ok (ttyfd, pid, outfd, errfd), s) \<Rightarrow>
            (case main_top_loop (main_top_round env args ttyfd outfd errfd) s of
               None \<Rightarrow> None
             | Some (Ok _, s) \<Rightarrow> Some (main_top_finish env (ttyfd, pid, outfd, errfd) s)
             | Some (Rv r, s) \<Rightarrow> Some (Rv r, s)
             | Some (Fault f, s) \<Rightarrow> Some (Fault f, s)))"

end
