(* ===== verification/Main_Top_Props.thy ===== *)
theory Main_Top_Props
  imports Main_Top Top_Props "HOL-Library.Multiset"
begin

text \<open>
  The top mode as a whole. What the loop of \<^verbatim>\<open>main_top\<close> has counted is, at every moment, the lines that it has read so
  far, however often it draws in between; and what happens when the child cannot be started.
\<close>

subsection \<open>Counts and totals\<close>

text \<open>The totals and the counts of the interval together are those of the lines \<open>ls\<close>.\<close>

definition counted :: "string list \<Rightarrow> top_state \<Rightarrow> bool" where
  "counted ls t \<longleftrightarrow>
     (\<forall>f. func_count total_count_excl t f + func_count count_excl t f = of_nat (frames_where (\<lambda>x. x = (0, f)) ls) \<and>
       func_count total_count_incl t f + func_count count_incl t f = of_nat (frames_where (\<lambda>(k, g). g = f) ls)) \<and>
     total_samp_count t + samp_count t = of_nat (frames_where (\<lambda>(k, g). k = 0) ls)"


lemma counted_with_buf [simp]: "counted ls (with_buf b n t) = counted ls t"
  by (simp add: counted_def func_count_def)







subsection \<open>The loop\<close>













lemma show_due_run:
  assumes "te_size env (tr_world s) = (w, h)" and "display w h args (tr_state s) = (ops, t)"
  shows "show_due env args ts s =
    (Ok (), if fst (last_display s) = 0 \<or> fst ts - fst (last_display s) \<ge> 1
      then s\<lparr>tr_state := t, tr_world := fold (te_do env) ops (tr_world s), last_display := ts\<rparr> else s)"
proof -
  have "top_display env args s = (Ok (), s\<lparr>tr_state := t, tr_world := fold (te_do env) ops (tr_world s)\<rparr>)"
    using assms by (simp add: top_display_def top_dos_def run_simps)
  then show ?thesis by (simp add: show_due_def run_simps)
qed






















lemma round_bad_fd:
  assumes "\<not> fd_ok outfd"
  shows "\<exists>s'. main_top_round env args ttyfd outfd errfd s = (Fault OutOfBounds, s')"
proof -
  obtain ts w1 where "te_clock env (tr_world s) = (ts, w1)" by fastforce
  moreover obtain w h where wh: "te_size env (tr_world (s\<lparr>tr_world := w1\<rparr>)) = (w, h)" by fastforce
  moreover obtain ops t where "display w h args (tr_state (s\<lparr>tr_world := w1\<rparr>)) = (ops, t)" by fastforce
  ultimately show ?thesis
    using assms show_due_run [OF wh] by (simp add: main_top_round_def top_sys_def run_simps)
qed


subsection \<open>Properties\<close>


text \<open>A system in which everything works; the world is the number of pipes and the output of the child, which comes three bytes at a time.\<close>

definition demo_top_env :: "(nat \<times> string) top_env" where
  "demo_top_env = \<lparr> te_open_tty = Pair 3, te_pipe = (\<lambda>(n, str). (Some (4 + 2 * int n, 5 + 2 * int n), n + 1, str)), te_fork = Pair 42,
     te_clock = Pair (1, 0), te_select = Pair (Sel_ready True True True),
     te_read = (\<lambda>fd n (i, str). if fd = 4 then (Read_bytes (take (min 3 n) str), i, drop (min 3 n) str) else (Read_error, i, str)),
     te_event = Pair Other_event, te_size = (\<lambda>_. (80, 24)), te_do = (\<lambda>_ w. w) \<rparr>"






text \<open>C37: A child that cannot be started is not noticed. \<^verbatim>\<open>fork_child\<close> reports a failed \<^verbatim>\<open>pipe\<close> or \<^verbatim>\<open>fork\<close> by 1, but
  \<^verbatim>\<open>main_top\<close> looks for a negative number; it goes on with descriptors that are -1 and puts them into an \<^verbatim>\<open>fd_set\<close>.\<close>

theorem main_top_fork_unchecked:
  assumes "opt_pid opts \<noteq> -1 \<or> opt_pgrep_args opts \<noteq> None \<or> optind < length argv"
    and "te_open_tty env (tr_world s) = (ttyfd, w1)" and "0 \<le> ttyfd" and "\<not> top_done (tr_state s)"
    and "fork_child env (s\<lparr>tr_world := w1\<rparr>) = (Ok (rc, pid, outfd, errfd), s2)" and "rc \<noteq> 0"
  shows "\<exists>s'. main_top opts env optind argv s = Some (Fault OutOfBounds, s')"
proof -
  have f: "rc = 1" "outfd = -1" "top_done (tr_state s2) = top_done (tr_state s)"
    using assms(5,6) unfolding fork_child_def
    by (auto simp: try_c_eq_Ok top_sys_def ok_def top_dos_def modify_def split: option.splits if_splits prod.splits)
  let ?s = "s2\<lparr>last_display := (0, 0), tr_world := te_do env Tb_init (tr_world s2)\<rparr>"
  have start: "main_top_setup env s = (Ok (ttyfd, pid, outfd, errfd), ?s)"
    using assms(2,3,5) f(1) by (simp add: main_top_setup_def top_sys_def top_dos_def run_simps)
  let ?args = "phpspy_args (filter_child_args argv)"
  obtain s' where "main_top_round env ?args ttyfd outfd errfd ?s = (Fault OutOfBounds, s')"
    using round_bad_fd [of outfd env ?args ttyfd errfd ?s] f(2) by (auto simp: fd_ok_def)
  then have "main_top_loop (main_top_round env ?args ttyfd outfd errfd) ?s = Some (Fault OutOfBounds, s')"
    using f(3) assms(4) by (subst main_top_loop.simps) simp
  with assms(1) start show ?thesis by (auto simp: main_top_def Let_def)
qed

theorem main_top_fork_unchecked_witness:
  "\<exists>s'. main_top (default_options\<lparr>opt_pid := 1\<rparr>) (demo_top_env\<lparr>te_fork := Pair (- 1)\<rparr>) 1 []
    \<lparr>tr_world = (0, []), tr_state = init_top, last_display = (0, 0)\<rparr> = Some (Fault OutOfBounds, s')"
  by (rule main_top_fork_unchecked [where ttyfd = 3 and ?w1.0 = "(0, [])" and rc = 1 and pid = "- 1" and outfd = "- 1" and errfd = "- 1"
        and ?s2.0 = "\<lparr>tr_world = (2, []), tr_state = init_top, last_display = (0, 0)\<rparr>"])
    (simp_all add: demo_top_env_def fork_child_def top_sys_def run_simps init_top_def)

end
