(* ===== verification/Getopt.thy ===== *)
theory Getopt
  imports Options
begin

text \<open>
  The command line as \<^verbatim>\<open>parse_opts\<close> scans it: its table of long options, its string of short options, and
  \<^verbatim>\<open>getopt_long\<close> of the C library on them, inside the loop of \<^verbatim>\<open>parse_opts\<close>, which stops at the first argument that does not begin
  with a dash. The scan yields the options with their arguments, empty for none, and what \<^verbatim>\<open>argv + optind\<close> is at the end. An
  option that is unknown, ambiguous, or used with a missing or an unwanted argument is \<^verbatim>\<open>'?'\<close>. The environment variable
  \<^verbatim>\<open>POSIXLY_CORRECT\<close> is not set; so an argument that is just a dash is passed over when options follow it.
\<close>

subsection \<open>The tables\<close>

text \<open>Name, whether it has an argument, and the value of a long option.\<close>

definition long_opts :: "(string \<times> bool \<times> opt) list" where
  "long_opts =
    [(''help'', False, Opt CHR ''h''), (''pid'', True, Opt CHR ''p''), (''pgrep'', True, Opt CHR ''P''),
     (''threads'', True, Opt CHR ''T''), (''sleep-ns'', True, Opt CHR ''s''), (''rate-hz'', True, Opt CHR ''H''),
     (''php-version'', True, Opt CHR ''V''), (''limit'', True, Opt CHR ''l''), (''time-limit-ms'', True, Opt CHR ''i''),
     (''max-depth'', True, Opt CHR ''n''), (''max-depth-outer'', True, Opt CHR ''N''), (''request-info'', True, Opt CHR ''r''),
     (''memory-usage'', False, Opt CHR ''m''), (''output'', True, Opt CHR ''o''), (''child-stdout'', True, Opt CHR ''O''),
     (''child-stderr'', True, Opt CHR ''E''), (''addr-executor-globals'', True, ADDR_EXECUTOR_GLOBALS),
     (''addr-sapi-globals'', True, ADDR_SAPI_GLOBALS), (''single-line'', False, Opt CHR ''1''),
     (''buffer-size'', True, Opt CHR ''b''), (''filter'', True, Opt CHR ''f''), (''filter-negate'', True, Opt CHR ''F''),
     (''verbose-fields'', True, Opt CHR ''d''), (''continue-on-error'', False, Opt CHR ''c''), (''quiet'', False, Opt CHR ''q''),
     (''event-handler'', True, EVENT_HANDLER), (''event-handler-opts'', True, EVENT_HANDLER_OPTS),
     (''comment'', True, Opt CHR ''#''), (''nothing'', False, Opt CHR ''@''), (''version'', False, Opt CHR ''v''),
     (''pause-process'', False, Opt CHR ''S''), (''peek-var'', True, Opt CHR ''e''), (''peek-global'', True, Opt CHR ''g''),
     (''peek-pdo'', False, Opt CHR ''D''), (''top'', False, Opt CHR ''t''), (''libname-awk-patt'', True, LIBNAME_AWK_PATT)]"

definition short_opts :: string where
  "short_opts = ''hp:P:T:te:s:H:V:l:i:n:N:r:mo:O:E:1b:f:F:d:cq#:@vSe:g:Dt''"

subsection \<open>The scanner\<close>

text \<open>Whether the short option \<open>c\<close> has an argument; \<open>None\<close> when there is no such option.\<close>

definition short_arg :: "char \<Rightarrow> bool option" where
  "short_arg c =
     (if c = CHR '':'' \<or> c = CHR '';'' then None
      else case dropWhile (\<lambda>d. d \<noteq> c) short_opts of
        [] \<Rightarrow> None
      | _ # r \<Rightarrow> Some (r \<noteq> [] \<and> hd r = CHR '':''))"

abbreviation unknown :: "opt \<times> string" where "unknown \<equiv> (Opt CHR ''?'', [])"

text \<open>The options in one argument, behind its dash; \<open>args\<close> are the arguments that follow.\<close>

fun scan_short :: "string \<Rightarrow> string list \<Rightarrow> (opt \<times> string) list \<times> string list" where
  "scan_short [] args = ([], args)"
| "scan_short (c # cs) args =
     (case short_arg c of
        None \<Rightarrow> (case scan_short cs args of (os, r) \<Rightarrow> (unknown # os, r))
      | Some False \<Rightarrow> (case scan_short cs args of (os, r) \<Rightarrow> ((Opt c, []) # os, r))
      | Some True \<Rightarrow>
          if cs \<noteq> [] then ([(Opt c, cs)], args)
          else (case args of [] \<Rightarrow> ([unknown], []) | x # xs \<Rightarrow> ([(Opt c, x)], xs)))"

text \<open>A long option by its whole name or by a prefix that fits no other.\<close>

definition find_long :: "string \<Rightarrow> (bool \<times> opt) option" where
  "find_long name =
     (case map_of long_opts name of
        Some x \<Rightarrow> Some x
      | None \<Rightarrow>
          (case filter (\<lambda>(n, _). take (length name) n = name) long_opts of
             [(_, x)] \<Rightarrow> Some x
           | _ \<Rightarrow> None))"

definition scan_long :: "string \<Rightarrow> string list \<Rightarrow> (opt \<times> string) \<times> string list" where
  "scan_long body args =
     (let name = takeWhile (\<lambda>c. c \<noteq> CHR ''='') body; rest = dropWhile (\<lambda>c. c \<noteq> CHR ''='') body in
      case find_long name of
        None \<Rightarrow> (unknown, args)
      | Some (False, v) \<Rightarrow> (if rest \<noteq> [] then unknown else (v, []), args)
      | Some (True, v) \<Rightarrow>
          if rest \<noteq> [] then ((v, tl rest), args)
          else (case args of [] \<Rightarrow> (unknown, []) | x # xs \<Rightarrow> ((v, x), xs)))"

lemma scan_short_le: "length (snd (scan_short cs args)) \<le> length args"
  by (induction cs args rule: scan_short.induct) (auto split: option.splits bool.splits list.splits prod.splits)

lemma scan_long_le: "length (snd (scan_long body args)) \<le> length args"
  by (auto simp: scan_long_def Let_def split: option.splits bool.splits list.splits)

lemma scan_long_shorter: "(v, r) = scan_long body args \<Longrightarrow> length r \<le> length args"
  using scan_long_le [of body args] by (metis snd_conv)

lemma scan_short_shorter: "(vs, r) = scan_short cs args \<Longrightarrow> length r \<le> length args"
  using scan_short_le [of cs args] by (metis snd_conv)

lemma dropWhile_shorter: "dropWhile P xs = y # ys \<Longrightarrow> length ys < length xs"
  using length_dropWhile_le [of P xs] by simp

text \<open>The loop of \<^verbatim>\<open>parse_opts\<close>; \<open>skipped\<close> are the dashes that were passed over, with what stood between them and the next option.\<close>

function getopt_scan :: "string list \<Rightarrow> string list \<Rightarrow> (opt \<times> string) list \<times> string list" where
  "getopt_scan skipped args =
     (case args of
        [] \<Rightarrow> ([], [])
      | a # as \<Rightarrow>
          if a = [] \<or> hd a \<noteq> CHR ''-'' then ([], args)
          else if a = ''-'' then
            (let is_opt = (\<lambda>x. take 1 x = ''-'' \<and> x \<noteq> ''-'') in
             case dropWhile (\<lambda>x. \<not> is_opt x) as of
               [] \<Rightarrow> ([], skipped @ args)
             | r # rs \<Rightarrow> getopt_scan (skipped @ a # takeWhile (\<lambda>x. \<not> is_opt x) as) (r # rs))
          else if a = ''--'' then ([], skipped @ as)
          else if take 2 a = ''--'' then
            (case scan_long (drop 2 a) as of (v, r) \<Rightarrow>
             case getopt_scan skipped r of (os, rest) \<Rightarrow> (v # os, rest))
          else
            (case scan_short (tl a) as of (vs, r) \<Rightarrow>
             case getopt_scan skipped r of (os, rest) \<Rightarrow> (vs @ os, rest)))"
  by pat_completeness auto

termination
  by (relation "measure (length \<circ> snd)")
    (auto dest!: dropWhile_shorter scan_long_shorter scan_short_shorter simp: less_Suc_eq_le)

declare getopt_scan.simps [simp del]

text \<open>\<^verbatim>\<open>parse_opts\<close> on the arguments of the program: the options, and what follows them.\<close>

definition parse_args :: "(string \<Rightarrow> bool) \<Rightarrow> string list \<Rightarrow> (options \<times> string list) parsed" where
  "parse_args regcomp argv =
     (case getopt_scan [] argv of (os, rest) \<Rightarrow> then_p (parse_opts regcomp os default_options) (\<lambda>o'. Cont (o', rest)))"

end
