(* ===== verification/Child.thy ===== *)
theory Child
  imports Main_Pid Getopt Top
begin

text \<open>
  The processes that phpspy starts, from \<^verbatim>\<open>fork\<close> to \<^verbatim>\<open>exec\<close>: the traced command of \<^verbatim>\<open>main_fork\<close>, and in the top mode
  the child of \<^verbatim>\<open>fork_child\<close>. The state is the table of open descriptors; an \<^verbatim>\<open>exit\<close> is an early return with its status.
\<close>

datatype open_file = Inherited int | Pipe_read nat | Pipe_write nat | File_out string

type_synonym fds = "int \<rightharpoonup> open_file"

abbreviation (input) STDOUT_FILENO :: int where "STDOUT_FILENO \<equiv> 1"
abbreviation (input) STDERR_FILENO :: int where "STDERR_FILENO \<equiv> 2"

definition close_fd :: "int \<Rightarrow> fds \<Rightarrow> fds" where
  "close_fd fd t = t(fd := None)"

definition dup2 :: "int \<Rightarrow> int \<Rightarrow> fds \<Rightarrow> fds" where
  "dup2 old new t = (case t old of None \<Rightarrow> t | Some f \<Rightarrow> t(new \<mapsto> f))"

text \<open>The program that runs in the child at the end, and with which descriptors: that of \<^verbatim>\<open>execvp\<close> when it succeeds, else none.\<close>

definition exec_child :: "(string list \<Rightarrow> bool) \<Rightarrow> string list \<Rightarrow> (fds, string list) cfun" where
  "exec_child execvp argv = (if execvp argv then ok argv else rv 1)"

subsection \<open>The traced command\<close>

text \<open>\<open>fopen\<close> yields the descriptor of the new file, and \<open>pid\<close> is that of the child.\<close>

definition redirect_child_stdio :: "(string \<Rightarrow> fds \<Rightarrow> int option) \<Rightarrow> pid \<Rightarrow> int \<Rightarrow> string \<Rightarrow> (fds, unit) cfun" where
  "redirect_child_stdio fopen pid proc_fd opt_path =
     (case redirect_path opt_path pid of
        Fault f \<Rightarrow> fault f
      | Rv r \<Rightarrow> rv r
      | Ok None \<Rightarrow> ok ()
      | Ok (Some redir_path) \<Rightarrow>
          get_s (\<lambda>t. case fopen redir_path t of
            None \<Rightarrow> rv 1
          | Some fd \<Rightarrow>
              try_c (modify (\<lambda>t. t(fd \<mapsto> File_out redir_path))) (\<lambda>_.
              try_c (modify (dup2 fd proc_fd)) (\<lambda>_.
              modify (close_fd fd)))))"

definition main_fork_child ::
  "options \<Rightarrow> (string \<Rightarrow> fds \<Rightarrow> int option) \<Rightarrow> (string list \<Rightarrow> bool) \<Rightarrow> pid \<Rightarrow> string list \<Rightarrow> (fds, string list) cfun" where
  "main_fork_child opts fopen execvp pid cmd =
     try_c (redirect_child_stdio fopen pid STDOUT_FILENO (opt_path_child_out opts)) (\<lambda>_.
     try_c (redirect_child_stdio fopen pid STDERR_FILENO (opt_path_child_err opts)) (\<lambda>_.
     exec_child execvp cmd))"

subsection \<open>The child of the top mode\<close>

definition fork_child_child :: "(string list \<Rightarrow> bool) \<Rightarrow> string list \<Rightarrow> int \<times> int \<Rightarrow> int \<times> int \<Rightarrow> (fds, string list) cfun" where
  "fork_child_child execvp argv pout perr =
     try_c (modify (close_fd (fst pout))) (\<lambda>_.
     try_c (modify (dup2 (snd pout) STDOUT_FILENO)) (\<lambda>_.
     try_c (modify (close_fd (snd pout))) (\<lambda>_.
     try_c (modify (close_fd (fst perr))) (\<lambda>_.
     try_c (modify (dup2 (snd perr) STDERR_FILENO)) (\<lambda>_.
     try_c (modify (close_fd (snd perr))) (\<lambda>_.
     exec_child execvp argv))))))"

subsection \<open>Properties\<close>

text \<open>Where a descriptor leads after its redirection.\<close>

definition redirected :: "pid \<Rightarrow> string \<Rightarrow> open_file option \<Rightarrow> open_file option" where
  "redirected pid opt_path before =
     (case redirect_path opt_path pid of Ok (Some path) \<Rightarrow> Some (File_out path) | _ \<Rightarrow> before)"

lemma redirect_run:
  assumes "redirect_path path pid = Ok p" and "\<And>q. p = Some q \<Longrightarrow> \<exists>fd. fopen q t = Some fd \<and> t fd = None" and "t proc_fd \<noteq> None"
  shows "redirect_child_stdio fopen pid proc_fd path t = (Ok (), t(proc_fd := redirected pid path (t proc_fd)))"
proof (cases p)
  case (Some q)
  then obtain fd where fd: "fopen q t = Some fd" "t fd = None" using assms(2) by blast
  then have "fd \<noteq> proc_fd" using assms(3) by auto
  with Some fd assms(1) show ?thesis
    by (auto simp: redirect_child_stdio_def redirected_def run_simps dup2_def close_fd_def)
qed (use assms in \<open>simp add: redirect_child_stdio_def redirected_def run_simps\<close>)

text \<open>C25: The traced command gets the descriptors that the options say. When the files of \<^verbatim>\<open>-O\<close> and \<^verbatim>\<open>-E\<close> can be opened, the child
  of \<^verbatim>\<open>main_fork\<close> runs the command, with these files, or what phpspy itself has, as its standard output and its error
  output, and every other descriptor as it was; or it exits with status 1 if there is no such command. The standard
  descriptors have to be open before.\<close>

theorem main_fork_child_stdio:
  assumes "redirect_path (opt_path_child_out opts) pid = Ok po" and "redirect_path (opt_path_child_err opts) pid = Ok pe"
    and "\<And>p t'. dom t' = dom t \<Longrightarrow> \<exists>fd. fopen p t' = Some fd \<and> t' fd = None" and "t 1 \<noteq> None" and "t 2 \<noteq> None"
  shows "main_fork_child opts fopen execvp pid cmd t = (if execvp cmd then Ok cmd else Rv 1,
    t(1 := redirected pid (opt_path_child_out opts) (t 1), 2 := redirected pid (opt_path_child_err opts) (t 2)))"
proof -
  let ?t1 = "t(1 := redirected pid (opt_path_child_out opts) (t 1))"
  have dom: "dom ?t1 = dom t" using assms(4) by (auto simp: redirected_def split: result.splits option.splits if_splits)
  have "redirect_child_stdio fopen pid 1 (opt_path_child_out opts) t = (Ok (), ?t1)"
    using assms(3) [OF refl] assms(4) by (intro redirect_run [OF assms(1)]) simp_all
  moreover have "redirect_child_stdio fopen pid 2 (opt_path_child_err opts) ?t1 =
      (Ok (), ?t1(2 := redirected pid (opt_path_child_err opts) (?t1 2)))"
    using assms(3) [OF dom] assms(5) by (intro redirect_run [OF assms(2)]) (blast, simp)
  ultimately show ?thesis by (simp add: main_fork_child_def exec_child_def run_simps)
qed

theorem main_fork_child_stdio_witness:
  "main_fork_child (default_options\<lparr>opt_path_child_out := ''out'', opt_path_child_err := ''-''\<rparr>) (\<lambda>_ _. Some 3) (\<lambda>_. True) 42 [''php'']
    [0 \<mapsto> Inherited 0, 1 \<mapsto> Inherited 1, 2 \<mapsto> Inherited 2] =
    (Ok [''php''], [0 \<mapsto> Inherited 0, 1 \<mapsto> File_out ''out'', 2 \<mapsto> Inherited 2])"
proof -
  let ?t = "[0 \<mapsto> Inherited 0, 1 \<mapsto> Inherited 1, 2 \<mapsto> Inherited 2]" 
    and ?o = "default_options\<lparr>opt_path_child_out := ''out'', opt_path_child_err := ''-''\<rparr>"
  have paths: "redirect_path (opt_path_child_out ?o) 42 = Ok (Some ''out'')" "redirect_path (opt_path_child_err ?o) 42 = Ok None"
    by (simp_all add: redirect_path_def)
  have "\<exists>fd. (\<lambda>_ _. Some 3) p t' = Some fd \<and> t' fd = None" if "dom t' = dom ?t" for p and t' :: fds
  proof -
    have "3 \<notin> dom t'" unfolding that by simp
    then show ?thesis by (simp add: domIff)
  qed
  from main_fork_child_stdio [where t = ?t and fopen = "\<lambda>_ _. Some 3" and execvp = "\<lambda>_. True" and cmd = "[''php'']", OF paths this] paths show ?thesis
    by (simp add: redirected_def fun_upd_twist)
qed

text \<open>The child of the top mode is connected to its parent. The command that runs is phpspy with its rewritten
  arguments, its standard output and its error output are the writing ends of the two pipes, and no other end of them is open in it, so
  that the parent sees the end of the output when the child ends.\<close>

lemma fork_child_child_pipes:
  assumes "pout = (a, b)" and "perr = (c, d)" and "distinct [0, 1, 2, a, b, c, d]" and "execvp argv"
    and "t b = Some (Pipe_write m)" and "t d = Some (Pipe_write n)"
  shows "fork_child_child execvp argv pout perr t =
    (Ok argv, t(a := None, b := None, c := None, d := None, 1 \<mapsto> Pipe_write m, 2 \<mapsto> Pipe_write n))"
  using assms by (auto simp: fork_child_child_def exec_child_def run_simps close_fd_def dup2_def)

end
