(* ===== verification/Getopt_Props.thy ===== *)
theory Getopt_Props
  imports Getopt Top
begin

text \<open>
  The scanner of the command line reads back what was meant: its two tables agree, every way to write
  an option is understood, and what the command line of a traced program looks like does not matter.
\<close>

subsection \<open>The two tables agree\<close>

definition table_ok :: "string \<times> bool \<times> opt \<Rightarrow> bool" where
  "table_ok = (\<lambda>(name, has_arg, v). name \<noteq> [] \<and> CHR ''='' \<notin> set name \<and> find_long name = Some (has_arg, v) \<and>
     (case v of Opt c \<Rightarrow> short_arg c = Some has_arg \<and> c \<noteq> CHR ''-'' | _ \<Rightarrow> has_arg))"

lemma tables_agree: "list_all table_ok long_opts"
  by code_simp

subsection \<open>Writing an option\<close>

datatype style = Short | Short_joined | Long | Long_eq

fun render :: "(string \<times> bool \<times> opt) \<times> string \<times> style \<Rightarrow> string list" where
  "render ((name, has_arg, v), arg, Long) = (''--'' @ name) # (if has_arg then [arg] else [])"
| "render ((name, has_arg, v), arg, Long_eq) = [''--'' @ name @ (if has_arg then CHR ''='' # arg else [])]"
| "render ((name, has_arg, v), arg, Short) =
     (case v of Opt c \<Rightarrow> [CHR ''-'', c] # (if has_arg then [arg] else []) | _ \<Rightarrow> [])"
| "render ((name, has_arg, v), arg, Short_joined) = (case v of Opt c \<Rightarrow> [CHR ''-'' # c # arg] | _ \<Rightarrow> [])"

text \<open>An option of the table, an argument only if it takes one, and a style that exists for it.\<close>

definition usable :: "(string \<times> bool \<times> opt) \<times> string \<times> style \<Rightarrow> bool" where
  "usable = (\<lambda>((name, has_arg, v), arg, st). (name, has_arg, v) \<in> set long_opts \<and> (\<not> has_arg \<longrightarrow> arg = []) \<and>
     (st = Short \<longrightarrow> (\<exists>c. v = Opt c)) \<and> (st = Short_joined \<longrightarrow> (\<exists>c. v = Opt c) \<and> arg \<noteq> []))"

definition meant :: "(string \<times> bool \<times> opt) \<times> string \<times> style \<Rightarrow> opt \<times> string" where
  "meant = (\<lambda>((name, has_arg, v), arg, st). (v, arg))"

lemma scan_long_name:
  assumes "table_ok (name, has_arg, v)"
  shows "scan_long name as = (if has_arg then case as of [] \<Rightarrow> (unknown, []) | x # xs \<Rightarrow> ((v, x), xs) else ((v, []), as))"
    and "scan_long (name @ CHR ''='' # arg) as = (if has_arg then (v, arg) else unknown, as)"
proof -
  let ?P = "\<lambda>c. c \<noteq> CHR ''=''"
  have n: "\<And>c. c \<in> set name \<Longrightarrow> ?P c" and find: "find_long name = Some (has_arg, v)"
    using assms unfolding table_ok_def by (blast, simp)
  have all: "takeWhile ?P name = name" "dropWhile ?P name = []"
    unfolding takeWhile_eq_all_conv dropWhile_eq_Nil_conv using n by blast+
  have eq: "takeWhile ?P (name @ CHR ''='' # arg) = name" "dropWhile ?P (name @ CHR ''='' # arg) = CHR ''='' # arg"
    using takeWhile_append2 [of name ?P "CHR ''='' # arg"] dropWhile_append2 [of name ?P "CHR ''='' # arg"] n by simp_all
  show "scan_long name as = (if has_arg then case as of [] \<Rightarrow> (unknown, []) | x # xs \<Rightarrow> ((v, x), xs) else ((v, []), as))"
    by (cases has_arg) (simp_all add: scan_long_def all find del: takeWhile_eq_all_conv)
  show "scan_long (name @ CHR ''='' # arg) as = (if has_arg then (v, arg) else unknown, as)"
    by (cases has_arg) (simp_all add: scan_long_def eq find)
qed

lemma scan_render:
  assumes "usable x"
  shows "getopt_scan sk (render x @ more_args) = (case getopt_scan sk more_args of (os, rest) \<Rightarrow> (meant x # os, rest))"
proof -
  obtain name has_arg v arg st where x: "x = ((name, has_arg, v), arg, st)" by (metis prod.exhaust)
  have t: "table_ok (name, has_arg, v)" using assms tables_agree by (auto simp: x usable_def list_all_iff)
  have name: "name \<noteq> []" using t by (simp add: table_ok_def)
  have short: "short_arg c = Some has_arg" "c \<noteq> CHR ''-''" if "v = Opt c" for c using t that by (auto simp: table_ok_def)
  show ?thesis
  proof (cases st)
    case Long
    with assms name show ?thesis
      by (subst getopt_scan.simps) (auto simp: x usable_def meant_def scan_long_name(1) [OF t] split: prod.splits)
  next
    case Long_eq
    with assms name show ?thesis
      by (subst getopt_scan.simps)
        (auto simp: x usable_def meant_def scan_long_name(1) [OF t] scan_long_name(2) [OF t] split: prod.splits)
  next
    case Short
    with assms short show ?thesis
      by (subst getopt_scan.simps) (auto simp: x usable_def meant_def split: prod.splits)
  next
    case Short_joined
    with assms short show ?thesis
      by (subst getopt_scan.simps) (cases has_arg; auto simp: x usable_def meant_def split: prod.splits)
  qed
qed

lemma scan_end: "getopt_scan [] (''--'' # rest) = ([], rest)"
  "args = [] \<or> hd args = [] \<or> hd (hd args) \<noteq> CHR ''-'' \<Longrightarrow> getopt_scan [] args = ([], args)"
  by (subst getopt_scan.simps, simp) (subst getopt_scan.simps, auto split: list.splits)

lemma scan_renders:
  "list_all usable xs \<Longrightarrow> getopt_scan [] (concat (map render xs) @ more_args) =
    (map meant xs @ fst (getopt_scan [] more_args), snd (getopt_scan [] more_args))"
  by (induction xs) (auto simp: scan_render split: prod.splits)

subsection \<open>Properties\<close>

text \<open>Command lines are read back. Any sequence of options of the table, each written in any of the four ways
  that exist for it, with any arguments, and then a command, with or without \<^verbatim>\<open>--\<close> before it, is scanned
  as exactly these options and this command, whatever the command's own arguments are.\<close>

lemma getopt_roundtrip:
  assumes "list_all usable xs" and "rest = [] \<or> hd rest = [] \<or> hd (hd rest) \<noteq> CHR ''-''"
  shows "getopt_scan [] (concat (map render xs) @ rest) = (map meant xs, rest) \<and>
    getopt_scan [] (concat (map render xs) @ ''--'' # cmd) = (map meant xs, cmd)"
  using scan_renders [OF assms(1)] scan_end(1) scan_end(2) [OF assms(2)] by simp

text \<open>C23: Every command line leads to good options or to an exit: when \<^verbatim>\<open>parse_opts\<close> returns for an argument vector,
  every number is in its range, the two delimiters are a newline, or a tab and a newline, \<^verbatim>\<open>opt_capture_req\<close> is the
  disjunction of its parts, and the peek tables hold distinct keys that fit their buffers.\<close>

theorem parse_args_options_ok:
  assumes "parse_args regcomp argv = Cont (o', rest)"
  shows "options_ok o'"
  using parse_opts_ok [OF default_options_ok, of regcomp "fst (getopt_scan [] argv)"] assms
  by (auto simp: parse_args_def cont_all_def then_p_Cont split: prod.splits)

lemma demo_scan:
  "getopt_scan [] [''-b'', dec_int 100, ''-1r'', ''uq'', ''--'', ''php''] =
    ([(Opt CHR ''b'', dec_int 100), (Opt CHR ''1'', []), (Opt CHR ''r'', ''uq'')], [''php''])"
  by (simp add: getopt_scan.simps short_arg_def short_opts_def)

theorem parse_args_options_ok_witness:
  "options_ok (default_options\<lparr>opt_fout_buffer_size := 100, opt_frame_delim := tab,
      opt_capture_req := True, opt_capture_req_uri := True, opt_capture_req_qstring := True\<rparr>)"
  by (rule parse_args_options_ok
      [of "\<lambda>_. True" "[''-b'', dec_int 100, ''-1r'', ''uq'', ''--'', ''php'']" _ "[''php'']"])
    (simp add: parse_args_def demo_scan demo_parse del: parse_opts.simps)

subsection \<open>The child of the top mode\<close>

text \<open>C38: What the top mode does to \<^verbatim>\<open>--output\<close> when it starts its child. An output file that is an argument of its own
  becomes the argument of \<^verbatim>\<open>-#\<close>, a comment, and the other options are as before. An output file that is
  written in the same argument is cut off, and the option swallows the next argument of the command line instead, a \<^verbatim>\<open>-p\<close> for instance.\<close>

theorem top_output_rewritten:
  "getopt_scan [] (filter_child_args (oname # file # args)) =
     (case getopt_scan [] (filter_child_args args) of (os, rest) \<Rightarrow> ((Opt CHR ''#'', filter_child_arg file) # os, rest))"
  if "oname \<in> {''-o'', ''--output'', ''-o'' @ path, ''--output='' @ path}"
proof -
  have "filter_child_arg oname = ''-#''" using that by (auto simp: filter_child_arg_def starts_def)
  moreover have "short_arg CHR ''#'' = Some True" by code_simp
  ultimately show ?thesis
    by (subst getopt_scan.simps) (auto simp: filter_child_args_def split: prod.splits)
qed

theorem top_output_rewritten_witness:
  "getopt_scan [] (filter_child_args [''--output=/tmp/x'', ''-p'', ''42'']) = ([(Opt CHR ''#'', ''-p'')], [''42''])"
  using top_output_rewritten [of "''--output=/tmp/x''" "''/tmp/x''" "''-p''" "[''42'']"]
  by (simp add: filter_child_args_def filter_child_arg_def starts_def getopt_scan.simps)

end
