(* ===== verification/Usage.thy ===== *)
theory Usage
  imports Getopt_Props Main_Pid
begin

text \<open>
  The help text of phpspy, and the program from the command line to the choice of a mode: \<^verbatim>\<open>usage\<close>, \<^verbatim>\<open>cleanup\<close> and \<^verbatim>\<open>main\<close>.
\<close>

subsection \<open>The help text\<close>

definition usage_lines :: "options \<Rightarrow> string \<Rightarrow> string list" where
  "usage_lines o' rate =
    [''Usage:'',
     ''  phpspy [options] -p <pid>'',
     ''  phpspy [options] -P <pgrep-args>'',
     ''  phpspy [options] [--] <cmd>'',
     '''',
     ''Options:'',
     ''  -h, --help                         Show this help'',
     ''  -p, --pid=<pid>                    Trace PHP process at `pid`'',
     ''  -P, --pgrep=<args>                 Concurrently trace processes that'',
     ''                                       match pgrep `args` (see also `-T`)'',
     ''  -T, --threads=<num>                Set number of threads to use with `-P`'',
     ''                                       (default: '' @ dec_int (opt_num_workers o') @ '')'',
     ''  -s, --sleep-ns=<ns>                Sleep `ns` nanoseconds between traces'',
     ''                                       (see also `-H`) (default: '' @ dec_int (opt_sleep_ns o') @ '')'',
     ''  -H, --rate-hz=<hz>                 Trace `hz` times per second'',
     ''                                       (see also `-s`) (default: '' @ rate @ '')'',
     ''  -V, --php-version=<ver>            Set PHP version'',
     ''                                       (default: '' @ opt_phpv o' @ '';'',
     ''                                       supported: 70 71 72 73 74 80 81 82 83'',
     ''                                       84 85 86)'',
     ''  -l, --limit=<num>                  Limit total number of traces to capture'',
     ''                                       (approximate limit in pgrep mode)'',
     ''                                       (default: '' @ dec_nat (opt_trace_limit o') @ ''; 0=unlimited)'',
     ''  -i, --time-limit-ms=<ms>           Stop tracing after `ms` milliseconds'',
     ''                                       (second granularity in pgrep mode)'',
     ''                                       (default: '' @ dec_int (opt_time_limit_ms o' mod 2 ^ 64) @ ''; 0=unlimited)'',
     ''  -n, --max-depth=<max>              Keep <max> frames from the'',
     ''                                       leaf stack frame'',
     ''                                       (default: '' @ dec_int (opt_max_stack_depth_from_leaf o') @ ''; -1=off)'',
     ''  -N, --max-depth-outer=<max>        Keep <max> frames from the'',
     ''                                       root stack frame'',
     ''                                       (default: '' @ dec_int (opt_max_stack_depth_from_root o') @ ''; -1=off)'',
     ''  -r, --request-info=<opts>          Set request info parts to capture'',
     ''                                       (q=query c=cookie u=uri p=path'',
     ''                                       capital=negation)'',
     ''                                       (default: QCUP; none)'',
     ''  -m, --memory-usage                 Capture peak and current memory usage'',
     ''                                       with each trace (requires target PHP'',
     ''                                       process to have debug symbols)'',
     ''  -o, --output=<path>                Write phpspy output to `path`. If a'',
     ''                                       `%d` is present, replace it with a'',
     ''                                       thread id. Useful in `-P` mode.'',
     ''                                       (default: '' @ opt_path_output o' @ ''; -=stdout)'',
     ''  -O, --child-stdout=<path>          Write child stdout to `path`.'',
     ''                                       Replace `%d` with child pid.'',
     ''                                       (default: '' @ opt_path_child_out o' @ ''; -=stdout)'',
     ''  -E, --child-stderr=<path>          Write child stderr to `path`'',
     ''                                       Replace `%d` with child pid.'',
     ''                                       (default: '' @ opt_path_child_err o' @ ''; -=stderr)'',
     ''      --addr-executor-globals=<hex>  Set address of executor_globals in hex'',
     ''                                       (default: '' @ dec_nat (unat (opt_sapi_globals_addr o')) @ ''; 0=find dynamically)'',
     ''      --addr-sapi-globals=<hex>      Set address of sapi_globals in hex'',
     ''                                       (default: '' @ dec_nat (unat (opt_executor_globals_addr o')) @ ''; 0=find dynamically)'',
     ''  -1, --single-line                  Output in single-line mode'',
     ''  -b, --buffer-size=<size>           Set max bytes per write to `size`.'',
     ''                                       Traces larger than this are split'',
     ''                                       into chunks, each ending with a'',
     ''                                       `# trace_id = <id>.<chunk>` record.'',
     ''                                       In `-P` mode, if writing to stdout,'',
     ''                                       setting this above `PIPE_BUF` (4096)'',
     ''                                       may lead to interleaved writes,'',
     ''                                       unless `--event-handler-opts m` is'',
     ''                                       specified.'',
     ''                                       (default: '' @ dec_int (opt_fout_buffer_size o') @ '')'',
     ''  -f, --filter=<regex>               Filter output by POSIX regex'',
     ''                                       (default: none)'',
     ''  -F, --filter-negate=<regex>        Same as `-f` except negated'',
     ''  -d, --verbose-fields=<opts>        Set verbose output fields'',
     ''                                       (p=pid t=timestamp'',
     ''                                       capital=negation)'',
     ''                                       (default: PT; none)'',
     ''  -c, --continue-on-error            Attempt to continue tracing after'',
     ''                                       encountering an error'',
     ''  -q, --quiet                        Suppress errors and warnings on stderr'',
     ''      --libname-awk-patt=<patt>      Awk pattern to match name of PHP lib'',
     ''                                       (default: '' @ opt_libname_awk_patt o' @ '')'',
     ''  -#, --comment=<any>                Ignored; intended for self-documenting'',
     ''                                       commands'',
     ''  -@, --nothing                      Ignored'',
     ''  -v, --version                      Print phpspy version and exit'',
     '''',
     ''Experimental options:'',
     ''      --event-handler=<handler>      Set event handler (fout, callgrind)'',
     ''                                       (default: fout)'',
     ''      --event-handler-opts=<opts>    Set event handler options'',
     ''                                       (fout: m=use mutex to prevent'',
     ''                                       interlaced writes on stdout in `-P`'',
     ''                                       mode)'',
     ''  -S, --pause-process                Pause process while reading stacktrace'',
     ''                                       (unsafe for production!)'',
     ''  -e, --peek-var=<varspec>           Peek at the contents of the var located'',
     ''                                       at `varspec`, which has the format:'',
     ''                                       <varname>@<path>:<lineno>'',
     ''                                       <varname>@<path>:<start>-<end>'',
     ''                                       e.g., xyz@/path/to.php:10-20'',
     ''  -D, --peek-pdo                     Peek at the SQL and arguments of PDO'',
     ''                                       queries. Emits varpeek events.'',
     ''  -g, --peek-global=<glospec>        Peek at the contents of a global var'',
     ''                                       located at `glospec`, which has'',
     ''                                       the format: <global>.<key>'',
     ''                                       where <global> is one of:'',
     ''                                       post|get|cookie|server|files|globals'',
     ''                                       e.g., server.REQUEST_TIME'',
     ''  -t, --top                          Show dynamic top-like output'']"

text \<open>\<^verbatim>\<open>usage\<close>: what it prints and the status with which it exits.\<close>

definition usage :: "options \<Rightarrow> bool \<Rightarrow> int \<Rightarrow> (string \<times> int) result" where
  "usage o' to_stderr exit_code =
     (if opt_quiet o' \<and> to_stderr then Ok ([], exit_code)
      else
        let sleep_ns = opt_sleep_ns o' mod 2 ^ 64 in
        if sleep_ns = 0 then Fault DivByZero
        else Ok (unlines (usage_lines o' (dec_int (1000000000 div sleep_ns))), exit_code))"

subsection \<open>The program\<close>

definition cleanup :: "options \<Rightarrow> options" where
  "cleanup o' =
     o'\<lparr>opt_varpeek_map := hash_clear (map (\<lambda>(k, vars). (k, fold removeAll vars vars)) (opt_varpeek_map o')),
       opt_glopeek_map := fold removeAll (opt_glopeek_map o') (opt_glopeek_map o')\<rparr>"

text \<open>\<^verbatim>\<open>main\<close> on the arguments after the program's name; \<open>run\<close> is the mode with its options and, for a command, its arguments.
  The value is the exit status.\<close>

definition main_program :: "(string \<Rightarrow> bool) \<Rightarrow> (options \<Rightarrow> mode \<Rightarrow> string list \<Rightarrow> int) \<Rightarrow> string list \<Rightarrow> int parsed" where
  "main_program regcomp run argv =
     then_p (parse_args regcomp argv) (\<lambda>(o', rest).
       case main_mode o' (length argv - length rest) (length argv) of
         Mode_usage \<Rightarrow> Exit 1
       | m \<Rightarrow> Exit (run o' m rest))"

subsection \<open>Properties\<close>

lemma cleanup_empty: "opt_varpeek_map (cleanup o') = []" "opt_glopeek_map (cleanup o') = []"
proof -
  have "fold removeAll ks xs = filter (\<lambda>x. x \<notin> set ks) xs" for ks xs :: "glopeek_entry list"
    by (induction ks arbitrary: xs) (auto simp: removeAll_filter_not_eq intro: filter_cong)
  then show "opt_varpeek_map (cleanup o') = []" "opt_glopeek_map (cleanup o') = []"
    by (simp_all add: cleanup_def hash_clear_empty filter_empty_conv)
qed

lemma usage_fault:
  "usage o' to_stderr c = Fault f \<longleftrightarrow> f = DivByZero \<and> opt_sleep_ns o' mod 2 ^ 64 = 0 \<and> \<not> (opt_quiet o' \<and> to_stderr)"
  by (auto simp: usage_def Let_def)

text \<open>C39: The help can crash. A rate of more than 1000000000 Hz is accepted and makes the interval between two
  traces 0, and \<^verbatim>\<open>usage\<close>, which prints the rate again, divides by it.\<close>

theorem usage_rate_crash:
  assumes "1000000000 < n" and "n \<le> LONG_MAX"
  shows "\<exists>o'. parse_args regcomp [''--rate-hz='' @ dec_int n] = Cont (o', []) \<and> usage o' False 0 = Fault DivByZero"
proof -
  let ?x = "((''rate-hz'', True, Opt CHR ''H''), dec_int n, Long_eq)"
  have "list_all usable [?x]" by (simp add: usable_def long_opts_def)
  from scan_renders [OF this, of "[]"] have "getopt_scan [] [''--rate-hz='' @ dec_int n] = ([(Opt CHR ''H'', dec_int n)], [])"
    by (simp add: meant_def scan_end(2))
  moreover have "strtol_with_min_or_exit (dec_int n) 1 = Cont n"
    using strtol_with_min_dec [of n 1] assms by (simp add: LONG_MIN_def)
  moreover have "1000000000 div n = 0" using assms(1) by simp
  ultimately show ?thesis
    by (simp add: parse_args_def opt_case_def usage_fault)
qed

theorem usage_rate_crash_witness:
  "\<exists>o'. parse_args (\<lambda>_. True) [''--rate-hz='' @ dec_int 2000000000] = Cont (o', []) \<and> usage o' False 0 = Fault DivByZero"
  using usage_rate_crash [of 2000000000 "\<lambda>_. True"] by (simp add: LONG_MAX_def)

text \<open>C14: A command line runs its command. For any options of the table, written in any way, that parse and ask for no
  other mode, followed by a command, \<^verbatim>\<open>main\<close> traces exactly this command with all its arguments, whether or not they look
  like options of phpspy, and exits with the status of that run.\<close>

theorem main_runs_command:
  assumes "list_all usable xs" and "parse_opts regcomp (map meant xs) default_options = Cont o'"
    and "\<not> opt_top_mode o'" and "opt_pid o' = -1" and "opt_pgrep_args o' = None"
    and "cmd \<noteq> []" and "cmd ! 0 = [] \<or> hd (cmd ! 0) \<noteq> CHR ''-''"
  shows "main_program regcomp run (concat (map render xs) @ cmd) = Exit (run o' Mode_fork cmd) \<and>
    main_program regcomp run (concat (map render xs) @ ''--'' # cmd) = Exit (run o' Mode_fork cmd)"
proof -
  have "cmd = [] \<or> hd cmd = [] \<or> hd (hd cmd) \<noteq> CHR ''-''" using assms(6,7) by (simp add: hd_conv_nth)
  from getopt_roundtrip [OF assms(1) this, of cmd] show ?thesis
    using assms(2-6) by (simp add: main_program_def parse_args_def main_mode_def)
qed

theorem main_runs_command_witness:
  "\<forall>run. main_program (\<lambda>_. True) run [''-1'', ''php'', ''-r'', ''x''] =
    Exit (run (default_options\<lparr>opt_frame_delim := tab\<rparr>) Mode_fork [''php'', ''-r'', ''x''])"
proof
  fix run
  let ?xs = "[((''single-line'', False, Opt CHR ''1''), [], Short)]"
  let ?o = "default_options\<lparr>opt_frame_delim := tab\<rparr>"
  have x: "list_all usable ?xs" by (simp add: usable_def long_opts_def)
  have p: "parse_opts (\<lambda>_. True) (map meant ?xs) default_options = Cont ?o"
    by (simp add: meant_def opt_case_def) (simp add: default_options_def)
  have "\<not> opt_top_mode ?o" "opt_pid ?o = -1" "opt_pgrep_args ?o = None" by (simp_all add: default_options_def)
  from main_runs_command [OF x p this, of "[''php'', ''-r'', ''x'']" run]
  show "main_program (\<lambda>_. True) run [''-1'', ''php'', ''-r'', ''x''] = Exit (run ?o Mode_fork [''php'', ''-r'', ''x''])"
    by simp
qed

end
