(* ===== verification/Spec2Isabelle.thy ===== *)
theory Spec2Isabelle
  imports Callgrind_Props Pgrep Main_Run Main_Top_Props Child Usage
begin

text \<open>
  \<^bold>\<open>phpspy, a sampling profiler for PHP.\<close> phpspy reads the memory of a running PHP process from the
  outside, follows the interpreter's linked list of call frames, and prints the call stack, many times
  a second. This library models its C sources under \<^verbatim>\<open>src/\<close> and proves what they promise.

  \<^bold>\<open>The parts and how they interact.\<close> \<^verbatim>\<open>main\<close> (\<^verbatim>\<open>phpspy.c\<close>) parses the options and chooses a mode: trace one
  process (\<^verbatim>\<open>main_pid\<close>), start a command and trace it (\<^verbatim>\<open>main_fork\<close>), trace whatever \<^verbatim>\<open>pgrep\<close> finds with a
  pool of threads (\<^verbatim>\<open>main_pgrep\<close>), or show a live table from a phpspy that runs as a child (\<^verbatim>\<open>main_top\<close>).
  \<^verbatim>\<open>main_pid\<close> finds the addresses of PHP's globals with shell commands (\<^verbatim>\<open>addr_objdump.c\<close>), detects the PHP
  version, and loops: pause, \<^verbatim>\<open>do_trace\<close>, go on, sleep. \<^verbatim>\<open>do_trace\<close> (\<^verbatim>\<open>phpspy_trace.c\<close>, compiled once per PHP
  version by \<^verbatim>\<open>phpspy_trace_tpl.c\<close> over \<^verbatim>\<open>structs/\<close>) copies structures with \<^verbatim>\<open>copy_proc_mem\<close> and passes each
  frame, and the request, memory, variable and global values asked for, to an event handler:
  \<^verbatim>\<open>event_fout.c\<close> writes text, \<^verbatim>\<open>event_callgrind.c\<close> sums costs. The text is read by the parent of the top mode, or by
  \<^verbatim>\<open>stackcollapse-phpspy.pl\<close>, which counts equal stacks for a flame graph.

  \<^bold>\<open>Theories and sources.\<close>
  \<^item> \<open>Prelude\<close>, \<open>C_Library\<close>, \<open>C_Double\<close>: the result type of the C functions (\<open>Ok\<close>, \<open>Rv\<close> for an early return of a
    code, \<open>Fault\<close> for an access out of bounds), the state monad \<open>cfun\<close> with \<open>try_c\<close> for the macro \<^verbatim>\<open>try\<close> and
    \<open>with_rv\<close> for calls whose code is kept, a weakest-precondition calculus; byte arrays, C strings, the
    \<^verbatim>\<open>strto*\<close> family, \<^verbatim>\<open>snprintf\<close>; the arithmetic of doubles and floats and how \<^verbatim>\<open>%f\<close> prints them.
  \<^item> \<open>Uthash\<close>: the contract of the vendored hash tables, as association lists in order of insertion (locale
    \<open>hash_table\<close>, interpretation \<open>uth\<close>).
  \<^item> \<open>Php_Structs\<close>, \<open>Php_Structs_X86_64\<close>, \<open>Php_Structs_Aarch64\<close>: the 24 packed struct headers as values, with
    their \<^verbatim>\<open>sizeof\<close> and \<^verbatim>\<open>offsetof\<close> computed.
  \<^item> \<open>Proc_Mem\<close>: \<^verbatim>\<open>copy_proc_mem\<close> over a \<^verbatim>\<open>process_vm_readv\<close> that is a parameter (locale \<open>mem_reader\<close>).
  \<^item> \<open>Zend_Print\<close>, \<open>Zend_Value\<close>, \<open>Zend_Props\<close>: the functions \<^verbatim>\<open>sprint_z*\<close> and \<^verbatim>\<open>copy_zarray_bucket\<close> of
    \<^verbatim>\<open>phpspy_trace.c\<close>; PHP values as a datatype and when remote memory represents one (locale
    \<open>value_printer\<close>).
  \<^item> \<open>Options\<close>, \<open>Getopt\<close>, \<open>Getopt_Props\<close>: \<^verbatim>\<open>parse_opts\<close>, \<^verbatim>\<open>strtol_with_min_or_exit\<close>, \<^verbatim>\<open>varpeek_add\<close>, \<^verbatim>\<open>glopeek_add\<close>; the
    option tables and the scan of the command line by \<^verbatim>\<open>getopt_long\<close>.
  \<^item> \<open>Trace\<close>, \<open>Stack_Spec\<close>: \<^verbatim>\<open>do_trace\<close> and all it calls, for any handler (locales \<open>event_handler\<close> and
    \<open>tracer\<close>); the call stack in remote memory as a list of frames, and that the tracer emits it.
  \<^item> \<open>Event_Fout\<close>, \<open>Fout_Buffer\<close>, \<open>Fout_Write\<close>, \<open>Trace_Output\<close>, \<open>Fout_Props\<close>: \<^verbatim>\<open>event_fout.c\<close>; its buffer, what
    it writes, tracer and handler together (interpretations \<open>fo\<close> and \<open>fot\<close>), its properties.
  \<^item> \<open>Event_Callgrind\<close>, \<open>Callgrind_Props\<close>: \<^verbatim>\<open>event_callgrind.c\<close>; its costs, tracer and handler together
    (interpretations \<open>cg\<close> and \<open>cgt\<close>).
  \<^item> \<open>Addr_Objdump\<close>: \<^verbatim>\<open>addr_objdump.c\<close> and \<^verbatim>\<open>find_addresses\<close>.
  \<^item> \<open>Main_Pid\<close>, \<open>Main_Props\<close>: \<^verbatim>\<open>main_pid\<close>, the parent's side of \<^verbatim>\<open>main_fork\<close>, \<^verbatim>\<open>get_php_version\<close>, pausing and the clock.
  \<^item> \<open>Child\<close>: the processes started by \<^verbatim>\<open>main_fork\<close> and \<^verbatim>\<open>fork_child\<close> up to \<^verbatim>\<open>execvp\<close>, on a table of descriptors.
  \<^item> \<open>Usage\<close>: \<^verbatim>\<open>usage\<close>, \<^verbatim>\<open>cleanup\<close>, and \<^verbatim>\<open>main\<close> from the command line to the mode.
  \<^item> \<open>Pgrep\<close>: \<^verbatim>\<open>pgrep.c\<close>, as a step relation per thread over the shared variables.
  \<^item> \<open>Top\<close>, \<open>Top_Props\<close>, \<open>Main_Top\<close>, \<open>Main_Top_Props\<close>: \<^verbatim>\<open>top.c\<close>, from the bytes of the child to the rows drawn, and the
    loop of \<^verbatim>\<open>main_top\<close> around it.
  \<^item> \<open>Stackcollapse\<close>, \<open>Collapse_Props\<close>: \<^verbatim>\<open>stackcollapse-phpspy.pl\<close>, and the handler's chunks read by it.
  \<^item> \<open>Main_Run\<close>: a whole run of \<^verbatim>\<open>main_pid\<close> with the file output handler, and its output read by the script and by the top mode.

  \<^bold>\<open>State and operations.\<close> Every C function is one definition of its name. A struct is a record with a
  short prefix per field (\<open>ud_len\<close> for \<^verbatim>\<open>udata->len\<close>); the option variables are the record \<open>options\<close>; the static
  variables of a file are a record of state. System calls and libraries that are not in the repository
  are functions in a record over an abstract world (\<open>fout_env\<close>, \<open>callgrind_env\<close>, \<open>addr_env\<close>, \<open>main_env\<close>,
  \<open>fork_env\<close>, \<open>top_env\<close>), so they may answer anything, differently at every call; what a handler writes is also kept in a
  ghost log. Error codes are kept as the code has them, with their bits.

  \<^bold>\<open>What is shown.\<close> \<^emph>\<open>Tracing\<close>: for memory that holds a call stack, one \<^verbatim>\<open>do_trace\<close> writes exactly its text, or
  adds exactly its costs, and a run of \<^verbatim>\<open>main_pid\<close> with a trace limit returns with exactly that many stacks written;
  whatever the process memory answers, no access leaves a local
  buffer or array. What remains possible on hostile memory is a recursion without end over nested or chained PHP
  data, and a division by zero. Depth limits from the leaf and from the root keep the frames they name. \<^emph>\<open>Values\<close>: variables are printed as their PHP value,
  and lookup in a PHP hash table finds the bucket. \<^emph>\<open>Output\<close>: records are lines; a trace larger than the
  buffer is cut at records into chunks that a reader can join again, and the script does so and counts every stack
  once however the writes of several processes are interleaved; the buffer grows to a bound and the
  growth ends. \<^emph>\<open>Options\<close>: the two option tables agree, every way to write an option is understood, a command is passed on
  with its own arguments, and whatever the command line, the options that result satisfy what the other
  parts rely on. \<^emph>\<open>Children\<close>: they run the command with the descriptors that were asked for. \<^emph>\<open>Pool\<close>: no process is attached twice in any interleaving, and after \<^verbatim>\<open>done\<close> every
  interleaving ends. \<^emph>\<open>Addresses\<close>: the shell reads an escaped argument back, and the address found is the
  run-time address of the symbol. \<^emph>\<open>Time\<close>: the clock arithmetic is exact, and the loop stops at its trace limit.
  \<^emph>\<open>Top\<close>: the loop ends with its child, each line of output is counted once however the pipe cuts it and however often the
  screen is drawn, and the rows are in order. \<^emph>\<open>Layouts\<close>: all 24 headers suit the
  tracer, and their comments are exact up to one each. Some theorems show a fault of the code: the
  reading behind a long request string, the delimiter that is not stripped, the call counts after a return, the
  version kept for a second process, the error lines not counted, an option loop that does not end, a failed start of the child that goes unnoticed, an option that
  swallows its neighbour in the top mode, a division by zero in the help.

  \<^bold>\<open>Bounds and fuel.\<close> The walk over the frames stops after \<^verbatim>\<open>PHPSPY_MAX_STACK_WALK\<close> of them, which is its termination
  measure. Printing nested PHP arrays and following a collision chain have no bound in the code, and the
  memory may be cyclic: these two take fuel, and running out is the fault \<open>OutOfFuel\<close>. The theorems on results
  say how much is enough (the depth of the value, the length of the chain); the safety theorems hold for
  every fuel. The sampling loop and the loop of the top mode are partial functions into \<open>option\<close>, and that they return
  is a theorem: with a trace limit, and when the output of the child ends and waiting does. Sizes and addresses are 64-bit words where the code can wrap, lengths of arrays are natural numbers, and
  counters of samples are 64-bit or C integers as declared. The sum of the two depth options in
  \<^verbatim>\<open>trace_stack\<close> is an unbounded integer. In C it can exceed an \<^verbatim>\<open>int\<close> only if one of them is far beyond
  \<^verbatim>\<open>PHPSPY_MAX_STACK_WALK\<close>, and then every frame is kept, as with the wrapped sum.

  \<^bold>\<open>Not modelled.\<close> Messages on stderr and the version text, which only print; the regular expression engine and Perl's \<^verbatim>\<open>Encode\<close>
  module, which are parameters; a failing \<^verbatim>\<open>calloc\<close> in the callgrind handler, which the code does not check; the
  release of memory other than the tables of the options; signal masks of the pool; what termbox makes of the calls it gets; the
  build with PHP's own headers (\<^verbatim>\<open>USE_ZEND\<close>), which are not in the repository; the vendored headers beyond their
  contract; \<^verbatim>\<open>flamegraph.pl\<close>, the scripts that generate the struct headers, the build files and the tests, which are
  not part of the running program.
\<close>


text \<open>The offset and length comments of the struct headers are exact, with one exception per
  header: the length given for \<^verbatim>\<open>op_array\<close> is that of the Zend structure, while the declared
  one stops at the last member that phpspy uses.\<close>

lemma struct_comments:
  "map (header_doc_errors \<circ> snd) x86_64_headers =
     map (\<lambda>(d, c). [(''op_array'', (0, d), (0, c))])
       [(208, 132), (208, 132), (224, 132), (216, 140), (224, 148), (232, 156), (240, 156),
        (248, 164), (240, 156), (240, 180), (240, 180), (240, 180)] \<and>
   map (header_doc_errors \<circ> snd) aarch64_headers =
     map (\<lambda>(d, c). [(''op_array'', (0, d), (0, c))])
       [(208, 132), (208, 132), (224, 132), (216, 140), (224, 148), (232, 156), (240, 156),
        (248, 164), (240, 156), (256, 180), (240, 180), (240, 180)]"
  by (simp add: x86_64_headers_def aarch64_headers_def headers_doc_errors_x86_64
      headers_doc_errors_aarch64)

end
